(* ===== verification/Prelude.thy ===== *)
theory Prelude
  imports Main "HOL-Library.Word" "HOL-Library.Multiset"
begin

text \<open>
  Shared vocabulary of the development: the machine integers of the Go code, Go errors,
  the three ways a Go call can end, goroutines that fill one slot each of a pre-allocated
  slice, and the list lemmas the components share.
\<close>

section \<open>Machine integers, time, errors\<close>

type_synonym u64 = "64 word"
type_synonym i64 = "64 word"
type_synonym i32 = "32 word"
type_synonym i16 = "16 word"
type_synonym byte = "8 word"

text \<open>An instant is its distance in nanoseconds from the Unix epoch; a duration is in
  nanoseconds too. Go's zero value of \<open>time.Time\<close> is 1 January of the year 1.\<close>

type_synonym time = int
type_synonym duration = int

abbreviation second :: duration where
  "second \<equiv> 1000000000"

definition zero_time :: time where
  "zero_time = - 62135596800 * 1000000000"

text \<open>Go errors: the sentinel \<open>database.ErrNotFound\<close>, an error made from a message, and
  an error wrapped with \<open>%w\<close>. \<open>is_not_found\<close> is \<open>errors.Is(err, ErrNotFound)\<close>.\<close>

datatype goerror = ErrNotFound | ErrMsg string | ErrWrap string goerror

primrec is_not_found :: "goerror \<Rightarrow> bool" where
  "is_not_found ErrNotFound = True"
| "is_not_found (ErrMsg m) = False"
| "is_not_found (ErrWrap m e) = is_not_found e"

text \<open>How a call ends: it returns, it panics (nil dereference, out-of-range slice), or it
  stops the process (\<open>zerolog\<close>'s \<open>Fatal\<close> calls \<open>os.Exit(1)\<close>).\<close>

datatype 'a outcome = Done 'a | Panic string | Exit int

primrec bind_outcome :: "'a outcome \<Rightarrow> ('a \<Rightarrow> 'b outcome) \<Rightarrow> 'b outcome" where
  "bind_outcome (Done x) f = f x"
| "bind_outcome (Panic m) f = Panic m"
| "bind_outcome (Exit c) f = Exit c"

primrec returns :: "'a outcome \<Rightarrow> bool" where
  "returns (Done x) = True"
| "returns (Panic m) = False"
| "returns (Exit c) = False"

primrec bind_result :: "'e + 'a \<Rightarrow> ('a \<Rightarrow> 'e + 'b) \<Rightarrow> 'e + 'b" where
  "bind_result (Inl e) f = Inl e"
| "bind_result (Inr x) f = f x"

lemma bind_outcome_Done_iff [simp]:
  "bind_outcome r f = Done y \<longleftrightarrow> (\<exists>x. r = Done x \<and> f x = Done y)"
  by (cases r) auto

lemma bind_result_Inr_iff [simp]:
  "bind_result r f = Inr y \<longleftrightarrow> (\<exists>x. r = Inr x \<and> f x = Inr y)"
  by (cases r) auto

lemma bind_result_Inl_iff:
  "bind_result r f = Inl e \<longleftrightarrow> r = Inl e \<or> (\<exists>x. r = Inr x \<and> f x = Inl e)"
  by (cases r) auto

text \<open>Evaluating a list of calls in order, stopping at the first that does not return.\<close>

fun mapM_outcome :: "('a \<Rightarrow> 'b outcome) \<Rightarrow> 'a list \<Rightarrow> 'b list outcome" where
  "mapM_outcome f [] = Done []"
| "mapM_outcome f (x # xs) =
     bind_outcome (f x) (\<lambda>y. bind_outcome (mapM_outcome f xs) (\<lambda>ys. Done (y # ys)))"

fun mapM_result :: "('a \<Rightarrow> 'e + 'b) \<Rightarrow> 'a list \<Rightarrow> 'e + 'b list" where
  "mapM_result f [] = Inr []"
| "mapM_result f (x # xs) =
     bind_result (f x) (\<lambda>y. bind_result (mapM_result f xs) (\<lambda>ys. Inr (y # ys)))"

fun foldM_outcome :: "('a \<Rightarrow> 's \<Rightarrow> 's outcome) \<Rightarrow> 'a list \<Rightarrow> 's \<Rightarrow> 's outcome" where
  "foldM_outcome f [] s = Done s"
| "foldM_outcome f (x # xs) s = bind_outcome (f x s) (foldM_outcome f xs)"

lemma mapM_outcome_Done_iff:
  "mapM_outcome f xs = Done ys \<longleftrightarrow> list_all2 (\<lambda>x y. f x = Done y) xs ys"
  by (induction xs arbitrary: ys) (auto simp: list_all2_Cons1)

lemma mapM_result_Inr_iff:
  "mapM_result f xs = Inr ys \<longleftrightarrow> list_all2 (\<lambda>x y. f x = Inr y) xs ys"
  by (induction xs arbitrary: ys) (auto simp: list_all2_Cons1)

lemma mapM_result_total:
  assumes "\<And>x. x \<in> set xs \<Longrightarrow> f x = Inr (g x)"
  shows "mapM_result f xs = Inr (map g xs)"
  using assms by (induction xs) auto

lemma mapM_outcome_total:
  assumes "\<And>x. x \<in> set xs \<Longrightarrow> f x = Done (g x)"
  shows "mapM_outcome f xs = Done (map g xs)"
  using assms by (induction xs) auto

section \<open>Goroutines that fill slots\<close>

text \<open>
  The code fans out one goroutine per index; each writes only its own slot of a slice made
  before the fan-out, and the caller waits for all of them. A schedule is the order in which
  the writes land. \<open>fill_slots\<close> performs the writes in that order.
\<close>

definition fill_slots :: "nat list \<Rightarrow> (nat \<Rightarrow> 'a) \<Rightarrow> 'a list \<Rightarrow> 'a list" where
  "fill_slots sched f init = fold (\<lambda>i xs. xs[i := f i]) sched init"

definition schedule :: "nat list \<Rightarrow> nat \<Rightarrow> bool" where
  "schedule sched n \<longleftrightarrow> mset sched = mset [0..<n]"

lemma schedule_set: "schedule sched n \<Longrightarrow> set sched = {0..<n}"
  unfolding schedule_def by (metis atLeastLessThan_upt mset_eq_setD)

lemma schedule_upt [simp]: "schedule [0..<n] n"
  by (simp add: schedule_def)

lemma length_fill_slots [simp]: "length (fill_slots sched f xs) = length xs"
proof (induction sched arbitrary: xs)
  case (Cons i js)
  then show ?case by (simp add: fill_slots_def)
qed (simp add: fill_slots_def)

lemma nth_fill_slots:
  "j < length xs \<Longrightarrow> fill_slots sched f xs ! j = (if j \<in> set sched then f j else xs ! j)"
proof (induction sched arbitrary: xs)
  case Nil
  then show ?case by (simp add: fill_slots_def)
next
  case (Cons i js)
  have "fill_slots (i # js) f xs = fill_slots js f (xs[i := f i])"
    by (simp add: fill_slots_def)
  with Cons show ?case by (auto simp: nth_list_update)
qed

lemma fill_slots_schedule:
  assumes "schedule sched n" and "length init = n"
  shows "fill_slots sched f init = map f [0..<n]"
  using assms schedule_set[OF assms(1)]
  by (intro nth_equalityI) (simp_all add: nth_fill_slots)

text \<open>The same fan-out when a goroutine may panic, which takes the process down with it.\<close>

definition run_slots ::
  "nat list \<Rightarrow> (nat \<Rightarrow> 'a outcome) \<Rightarrow> 'a list \<Rightarrow> 'a list outcome" where
  "run_slots sched f init =
     bind_outcome (mapM_outcome f sched)
       (\<lambda>vs. Done (fold (\<lambda>(i, v) xs. xs[i := v]) (zip sched vs) init))"

lemma fold_zip_fill_slots:
  "fold (\<lambda>(i, v) xs. xs[i := v]) (zip sched (map g sched)) init = fill_slots sched g init"
  by (induction sched arbitrary: init) (simp_all add: fill_slots_def)

lemma run_slots_Done:
  assumes "schedule sched n" and "length init = n" and "\<And>i. i < n \<Longrightarrow> f i = Done (g i)"
  shows "run_slots sched f init = Done (map g [0..<n])"
proof -
  have "mapM_outcome f sched = Done (map g sched)"
    using assms(3) schedule_set [OF assms(1)] by (intro mapM_outcome_total) auto
  then show ?thesis
    using assms(1,2) by (simp add: run_slots_def fold_zip_fill_slots fill_slots_schedule)
qed

lemma mapM_outcome_not_Done:
  "x \<in> set xs \<Longrightarrow> \<not> returns (f x) \<Longrightarrow> \<not> returns (mapM_outcome f xs)"
proof (induction xs)
  case (Cons y ys)
  then show ?case by (cases "f y"; cases "mapM_outcome f ys") auto
qed simp

lemma run_slots_not_Done:
  assumes "schedule sched n" and "i < n" and "\<not> returns (f i)"
  shows "\<not> returns (run_slots sched f init)"
proof -
  have "i \<in> set sched" using schedule_set [OF assms(1)] assms(2) by simp
  then have "\<not> returns (mapM_outcome f sched)" using assms(3) by (rule mapM_outcome_not_Done)
  then show ?thesis by (cases "mapM_outcome f sched") (simp_all add: run_slots_def)
qed

section \<open>Unsigned arithmetic\<close>

lemma unat_u64_less: "unat (x :: u64) < 18446744073709551616"
  using unsigned_less [of x] by simp

lemma unat_plus_1:
  assumes "x < (y :: u64)"
  shows "unat (x + 1) = unat x + 1"
proof -
  have "unat x + 1 < 18446744073709551616"
    using assms unat_u64_less [of y] unfolding word_less_nat_alt by linarith
  then show ?thesis by (simp add: unat_word_ariths)
qed

lemma unat_uminus:
  assumes "x \<noteq> (0 :: u64)"
  shows "unat (- x) = 2 ^ 64 - unat x"
proof -
  have le: "unat x \<le> 2 ^ 64" using unat_u64_less [of x] by simp
  have "(of_nat (2 ^ 64 - unat x) :: u64) = of_nat (2 ^ 64) - of_nat (unat x)"
    using le by (rule of_nat_diff)
  also have "(of_nat (2 ^ 64) :: u64) = 0" by simp
  finally have eq: "- x = of_nat (2 ^ 64 - unat x)" by simp
  have "0 < unat x" using assms by (simp add: unat_gt_0)
  then have "2 ^ 64 - unat x < 2 ^ 64" by simp
  then show ?thesis by (simp add: eq unat_of_nat take_bit_nat_eq_self)
qed

lemma unat_plus:
  assumes "unat x + unat (y :: u64) < 2 ^ 64"
  shows "unat (x + y) = unat x + unat y"
  using assms by (simp add: unat_word_ariths)

lemma sint_small_i32:
  assumes "unat (x :: i32) < 2147483648"
  shows "sint x = int (unat x)"
proof -
  have "int (unat x) < 2147483648" using assms by linarith
  then have hi: "uint x < 2 ^ 31" by simp
  have lo: "- (2 ^ 31) \<le> uint x" by (rule order_trans [OF _ uint_ge_0]) simp
  have "sint x = signed_take_bit 31 (uint x)" by (simp add: sint_uint)
  also have "\<dots> = uint x" using lo hi by (rule signed_take_bit_int_eq_self)
  finally show ?thesis by simp
qed

section \<open>Lists\<close>

lemma take_Suc_eq_append: "n < length xs \<Longrightarrow> take (Suc n) xs = take n xs @ [xs ! n]"
  by (simp add: take_Suc_conv_app_nth)

lemma filter_key_sorted_suffix:
  fixes key :: "'a \<Rightarrow> 'k::linorder"
  assumes "sorted_wrt (\<lambda>x y. key y < key x) (xs @ y # ys)"
  shows "filter (\<lambda>x. key x < key y) (xs @ y # ys) = ys"
    and "filter (\<lambda>x. key y < key x) (xs @ y # ys) = xs"
proof -
  from assms have xs: "\<forall>x\<in>set xs. key y < key x" and ys: "\<forall>x\<in>set ys. key x < key y"
    by (auto simp: sorted_wrt_append)
  have "filter (\<lambda>x. key x < key y) xs = []"
    using xs by (auto simp: filter_empty_conv)
  moreover have "filter (\<lambda>x. key x < key y) ys = ys"
    using ys by (simp add: filter_id_conv)
  ultimately show "filter (\<lambda>x. key x < key y) (xs @ y # ys) = ys" by simp
  have "filter (\<lambda>x. key y < key x) xs = xs"
    using xs by (simp add: filter_id_conv)
  moreover have "filter (\<lambda>x. key y < key x) ys = []"
    using ys by (auto simp: filter_empty_conv)
  ultimately show "filter (\<lambda>x. key y < key x) (xs @ y # ys) = xs" by simp
qed

lemma map_add_le_insert: "k \<notin> dom m \<Longrightarrow> m \<subseteq>\<^sub>m m(k \<mapsto> v)"
  by (auto simp: map_le_def)

section \<open>Order-insensitive iteration\<close>

text \<open>Go iterates over a map in an unspecified order. A map whose keys are iterated is kept
  as a list without repetitions, and the iteration order is a parameter \<open>it\<close> of the
  operations that iterate: any rearrangement.\<close>

definition iteration :: "('a list \<Rightarrow> 'a list) \<Rightarrow> bool" where
  "iteration it \<longleftrightarrow> (\<forall>xs. mset (it xs) = mset xs)"

lemma iteration_id [simp]: "iteration id" "iteration rev"
  by (simp_all add: iteration_def)

lemma iteration_set: "iteration it \<Longrightarrow> set (it xs) = set xs"
  by (metis iteration_def mset_eq_setD)

lemma iteration_length: "iteration it \<Longrightarrow> length (it xs) = length xs"
  by (metis iteration_def mset_eq_length)

lemma iteration_distinct: "iteration it \<Longrightarrow> distinct (it xs) = distinct xs"
  by (metis iteration_def mset_eq_imp_distinct_iff)

definition set_insert :: "'a \<Rightarrow> 'a list \<Rightarrow> 'a list" where
  "set_insert x xs = (if x \<in> set xs then xs else xs @ [x])"

lemma set_set_insert [simp]: "set (set_insert x xs) = insert x (set xs)"
  by (auto simp: set_insert_def)

lemma distinct_set_insert [simp]: "distinct (set_insert x xs) = distinct xs"
  by (auto simp: set_insert_def)

lemma set_fold_set_insert [simp]: "set (fold set_insert ys xs) = set xs \<union> set ys"
  by (induction ys arbitrary: xs) auto

lemma distinct_fold_set_insert [simp]: "distinct (fold set_insert ys xs) = distinct xs"
  by (induction ys arbitrary: xs) auto

section \<open>Operations on a part of a state\<close>

definition on_part :: "('w \<Rightarrow> 'd) \<Rightarrow> ('d \<Rightarrow> 'w \<Rightarrow> 'w) \<Rightarrow> ('d \<Rightarrow> 'r \<times> 'd) \<Rightarrow> 'w \<Rightarrow> 'r \<times> 'w" where
  "on_part part put f w = (let (r, d) = f (part w) in (r, put d w))"

lemma on_part_eq: "on_part part put f w = (r, w') \<longleftrightarrow> (\<exists>d. f (part w) = (r, d) \<and> w' = put d w)"
  by (auto simp: on_part_def split: prod.splits)

end
