(* ===== verification/Go_Strings.thy ===== *)
theory Go_Strings
  imports Prelude
begin

text \<open>
  What the code uses of Go's \<open>strconv\<close>, \<open>strings\<close> and \<open>unicode/utf8\<close>. A Go string is a
  sequence of bytes, here a \<open>char list\<close> (a HOL \<open>char\<close> is one byte). Parsers return
  \<open>Inl\<close> on every input the Go function rejects.
\<close>

section \<open>Decimal numbers\<close>

named_theorems char_class \<open>what the tests of single characters mean\<close>

definition char_code :: "char \<Rightarrow> nat" where
  "char_code c = of_char c"

definition is_digit :: "char \<Rightarrow> bool" where
  "is_digit c \<longleftrightarrow> 48 \<le> char_code c \<and> char_code c \<le> 57"

declare char_code_def [char_class] is_digit_def [char_class]

definition digit_char :: "nat \<Rightarrow> char" where
  "digit_char d = char_of (48 + d)"

fun show_nat :: "nat \<Rightarrow> string" where
  "show_nat n = (if n < 10 then [digit_char n] else show_nat (n div 10) @ [digit_char (n mod 10)])"

declare show_nat.simps [simp del]

definition digits_value :: "string \<Rightarrow> nat" where
  "digits_value s = foldl (\<lambda>n c. 10 * n + (char_code c - 48)) 0 s"

text \<open>\<open>strconv.ParseUint(s, 10, 64)\<close>, \<open>strconv.FormatUint(n, 10)\<close>.\<close>

definition ParseUint :: "string \<Rightarrow> goerror + u64" where
  "ParseUint s =
     (if s = [] \<or> \<not> list_all is_digit s then Inl (ErrMsg ''invalid syntax'')
      else if digits_value s < 2 ^ 64 then Inr (of_nat (digits_value s))
      else Inl (ErrMsg ''value out of range''))"

definition FormatUint :: "u64 \<Rightarrow> string" where
  "FormatUint w = show_nat (unat w)"

text \<open>\<open>strconv.ParseInt(s, 10, 64)\<close>: an optional sign, then digits; the value must fit a
  signed 64-bit integer. \<open>strconv.Atoi\<close> is the same function on a 64-bit platform.\<close>

definition parse_sign :: "string \<Rightarrow> bool \<times> string" where
  "parse_sign s =
     (case s of
        [] \<Rightarrow> (False, [])
      | c # cs \<Rightarrow> if c = CHR ''+'' then (False, cs)
                  else if c = CHR ''-'' then (True, cs)
                  else (False, s))"

definition ParseInt :: "string \<Rightarrow> goerror + i64" where
  "ParseInt s =
     (let (neg, ds) = parse_sign s in
      if s = [] then Inl (ErrMsg ''invalid syntax'')
      else bind_result (ParseUint ds) (\<lambda>un.
        if \<not> neg \<and> 2 ^ 63 \<le> unat un then Inl (ErrMsg ''value out of range'')
        else if neg \<and> 2 ^ 63 < unat un then Inl (ErrMsg ''value out of range'')
        else Inr (if neg then - un else un)))"

definition Atoi :: "string \<Rightarrow> goerror + i64" where
  "Atoi = ParseInt"

definition FormatInt :: "i64 \<Rightarrow> string" where
  "FormatInt w = (if sint w < 0 then ''-'' @ show_nat (nat (- sint w)) else show_nat (nat (sint w)))"

definition FormatBool :: "bool \<Rightarrow> string" where
  "FormatBool b = (if b then ''true'' else ''false'')"

lemma char_code_digit_char: "d < 10 \<Longrightarrow> char_code (digit_char d) = 48 + d"
  by (simp add: char_code_def digit_char_def)

lemma digits_value_snoc: "digits_value (s @ [c]) = 10 * digits_value s + (char_code c - 48)"
  by (simp add: digits_value_def)

lemma digits_value_show_nat [simp]: "digits_value (show_nat n) = n"
proof (induction n rule: show_nat.induct)
  case (1 n)
  show ?case
  proof (cases "n < 10")
    case True
    then show ?thesis
      by (simp add: show_nat.simps [of n] digits_value_def char_code_digit_char)
  next
    case False
    then show ?thesis
      using 1 by (simp add: show_nat.simps [of n] digits_value_snoc char_code_digit_char)
  qed
qed

lemma is_digit_digit_char: "d < 10 \<Longrightarrow> is_digit (digit_char d)"
  by (simp add: is_digit_def char_code_digit_char)

lemma show_nat_digits [simp]: "list_all is_digit (show_nat n)"
proof (induction n rule: show_nat.induct)
  case (1 n)
  then show ?case
    by (cases "n < 10") (simp_all add: show_nat.simps [of n] is_digit_digit_char)
qed

lemma show_nat_nonempty [simp]: "show_nat n \<noteq> []"
  by (simp add: show_nat.simps [of n])

lemma ParseUint_FormatUint [simp]: "ParseUint (FormatUint w) = Inr w"
  using unsigned_less [of w] by (simp add: ParseUint_def FormatUint_def)

lemma hd_show_nat: "is_digit (hd (show_nat n))"
  using show_nat_digits [of n] by (cases "show_nat n") auto

lemma digit_not_sign: "is_digit c \<Longrightarrow> c \<noteq> CHR ''+'' \<and> c \<noteq> CHR ''-''"
  by (auto simp: char_class)

lemma parse_sign_digits: "s \<noteq> [] \<Longrightarrow> list_all is_digit s \<Longrightarrow> parse_sign s = (False, s)"
  by (cases s) (auto simp: parse_sign_def dest: digit_not_sign)

text \<open>Values that print without a change: a parsed decimal whose canonical form it is.\<close>

lemma ParseInt_FormatInt [simp]: "ParseInt (FormatInt w) = Inr w"
proof (cases "sint w < 0")
  case True
  let ?n = "nat (- sint w)"
  have lo: "- (2 ^ 63) \<le> sint w" using sint_greater_eq [of w] by simp
  then have "?n \<le> 2 ^ 63" by simp
  then have n64: "?n < 2 ^ 64" by simp
  have un: "unat (of_nat ?n :: u64) = ?n"
    using n64 by (simp add: unat_of_nat take_bit_nat_eq_self)
  have "- (of_nat ?n :: u64) = w"
  proof -
    have "(of_nat ?n :: u64) = of_int (- sint w)" using True by simp
    then show ?thesis by simp
  qed
  with True n64 un \<open>?n \<le> 2 ^ 63\<close> show ?thesis
    by (simp add: ParseInt_def FormatInt_def parse_sign_def ParseUint_def)
next
  case False
  let ?n = "nat (sint w)"
  have "sint w < 2 ^ 63" using sint_less [of w] by simp
  then have n63: "?n < 2 ^ 63" using False by simp
  then have n64: "?n < 2 ^ 64" by simp
  have un: "unat (of_nat ?n :: u64) = ?n"
    using n64 by (simp add: unat_of_nat take_bit_nat_eq_self)
  have "(of_nat ?n :: u64) = w"
    using False by simp
  with False n63 n64 un show ?thesis
    by (simp add: ParseInt_def FormatInt_def parse_sign_digits ParseUint_def)
qed

lemma ParseInt_Inr_iff:
  "FormatInt i = s \<Longrightarrow> ParseInt s = Inr i"
  by auto

section \<open>Substrings\<close>

text \<open>\<open>strings.Split(s, sep)\<close> for a one-byte separator: always at least one part.\<close>

fun split_on :: "char \<Rightarrow> string \<Rightarrow> string list" where
  "split_on sep [] = [[]]"
| "split_on sep (c # cs) =
     (if c = sep then [] # split_on sep cs
      else (case split_on sep cs of [] \<Rightarrow> [[c]] | p # ps \<Rightarrow> (c # p) # ps))"

lemma split_on_nonempty: "split_on sep s \<noteq> []"
  by (cases s) (auto split: list.splits)

lemma split_on_no_sep: "sep \<notin> set s \<Longrightarrow> split_on sep s = [s]"
  by (induction s) auto

lemma split_on_append: "sep \<notin> set a \<Longrightarrow> split_on sep (a @ sep # b) = a # split_on sep b"
  by (induction a) auto

fun join :: "string \<Rightarrow> string list \<Rightarrow> string" where
  "join sep [] = []"
| "join sep [s] = s"
| "join sep (s # t # ts) = s @ sep @ join sep (t # ts)"

definition has_prefix :: "string \<Rightarrow> string \<Rightarrow> bool" where
  "has_prefix s p \<longleftrightarrow> take (length p) s = p"

definition has_suffix :: "string \<Rightarrow> string \<Rightarrow> bool" where
  "has_suffix s p \<longleftrightarrow> has_prefix (rev s) (rev p)"

definition trim_suffix :: "string \<Rightarrow> string \<Rightarrow> string" where
  "trim_suffix s p = (if has_suffix s p then take (length s - length p) s else s)"

text \<open>\<open>strings.Trim(s, cutset)\<close> for a cutset of one byte, and \<open>strings.TrimSpace\<close> on
  ASCII white space.\<close>

definition trim_char :: "char \<Rightarrow> string \<Rightarrow> string" where
  "trim_char c s = rev (dropWhile (\<lambda>x. x = c) (rev (dropWhile (\<lambda>x. x = c) s)))"

definition is_space :: "char \<Rightarrow> bool" where
  "is_space c \<longleftrightarrow> char_code c \<in> {9, 10, 11, 12, 13, 32}"

declare is_space_def [char_class]

definition trim_space :: "string \<Rightarrow> string" where
  "trim_space s = rev (dropWhile is_space (rev (dropWhile is_space s)))"

lemma has_prefix_append [simp]: "has_prefix (p @ s) p"
  by (simp add: has_prefix_def)

lemma has_prefixE: "has_prefix s p \<Longrightarrow> \<exists>r. s = p @ r"
  unfolding has_prefix_def by (metis append_take_drop_id)

end
