(* ===== verification/Address_Db.thy ===== *)
theory Address_Db
  imports Go_Strings
begin

text \<open>
  The two address tables, \<open>gno_addresses\<close> and \<open>gno_validators\<close>, and the statements the
  indexer runs on them (\<open>pkgs/database/timescaledb/queries_indexer.go\<close>, \<open>insert.go\<close>). A row
  is an address, its identity column and its chain; the schema declares the identity as the
  primary key and (address, chain_name) as unique. A statement can fail for reasons outside
  the program (a lost connection, a timeout): the state holds the fate of the coming
  statements, \<open>True\<close> for one that fails.
\<close>

record address_row =
  ar_address :: string
  ar_id :: i32
  ar_chain :: string

record address_db =
  adb_addresses :: "address_row list"
  adb_validators :: "address_row list"
  adb_next :: "bool \<Rightarrow> nat"
  adb_faults :: "bool list"

definition db_table :: "bool \<Rightarrow> address_db \<Rightarrow> address_row list" where
  "db_table validators db = (if validators then adb_validators db else adb_addresses db)"

definition set_table :: "bool \<Rightarrow> address_row list \<Rightarrow> address_db \<Rightarrow> address_db" where
  "set_table validators rows db =
     (if validators then db\<lparr>adb_validators := rows\<rparr> else db\<lparr>adb_addresses := rows\<rparr>)"

definition next_fault :: "address_db \<Rightarrow> bool \<times> address_db" where
  "next_fault db =
     (case adb_faults db of [] \<Rightarrow> (False, db) | f # fs \<Rightarrow> (f, db\<lparr>adb_faults := fs\<rparr>))"

text \<open>\<open>addressesMap[address] = id\<close> for each row of the result, in order.\<close>

definition rows_to_map :: "address_row list \<Rightarrow> (string \<rightharpoonup> i32)" where
  "rows_to_map rows = fold (\<lambda>r m. m(ar_address r \<mapsto> ar_id r)) rows Map.empty"

definition FindExistingAccounts ::
  "string list \<Rightarrow> string \<Rightarrow> bool \<Rightarrow> address_db \<Rightarrow> (goerror + (string \<rightharpoonup> i32)) \<times> address_db" where
  "FindExistingAccounts addresses chainName searchValidators db =
     (let (failed, db') = next_fault db in
      if failed then (Inl (ErrMsg ''query failed''), db')
      else (Inr (rows_to_map (filter (\<lambda>r. ar_chain r = chainName \<and> ar_address r \<in> set addresses)
                               (db_table searchValidators db'))), db'))"

text \<open>The map of all rows above an index, and the highest identity seen.\<close>

definition GetAllAddresses ::
  "string \<Rightarrow> bool \<Rightarrow> i32 option \<Rightarrow> address_db
   \<Rightarrow> (goerror + (string \<rightharpoonup> i32) \<times> i32) \<times> address_db" where
  "GetAllAddresses chainName searchValidators highestIndex db =
     (let maxIndex = (case highestIndex of None \<Rightarrow> 0 | Some h \<Rightarrow> h);
          (failed, db') = next_fault db in
      if failed then (Inl (ErrMsg ''query failed''), db')
      else
        (let rows = filter (\<lambda>r. ar_chain r = chainName \<and> sint maxIndex < sint (ar_id r))
                      (db_table searchValidators db') in
         (Inr (rows_to_map rows,
               fold (\<lambda>r m. if sint m < sint (ar_id r) then ar_id r else m) rows maxIndex), db')))"

text \<open>\<open>COPY table (address, chain_name)\<close>: all rows or none. A row takes the next value of the
  identity sequence; an exhausted sequence or a row that repeats an (address, chain_name)
  already there, or given twice, aborts the statement. A sequence is not rolled back.\<close>

definition max_identity :: nat where
  "max_identity = 2147483647"

fun copy_addresses ::
  "string list \<Rightarrow> string \<Rightarrow> address_row list \<Rightarrow> nat \<Rightarrow> address_row list option \<times> nat" where
  "copy_addresses [] chainName rows n = (Some rows, n)"
| "copy_addresses (a # as) chainName rows n =
     (if max_identity < n then (None, n)
      else if \<exists>r\<in>set rows. ar_address r = a \<and> ar_chain r = chainName then (None, Suc n)
      else copy_addresses as chainName
             (rows @ [\<lparr>ar_address = a, ar_id = of_nat n, ar_chain = chainName\<rparr>]) (Suc n))"

definition InsertAddresses ::
  "string list \<Rightarrow> string \<Rightarrow> bool \<Rightarrow> address_db \<Rightarrow> goerror option \<times> address_db" where
  "InsertAddresses addresses chainName insertValidators db =
     (let (failed, db') = next_fault db in
      if failed then (Some (ErrMsg ''copy failed''), db')
      else
        (case copy_addresses addresses chainName (db_table insertValidators db')
                (adb_next db' insertValidators) of
           (None, n) \<Rightarrow>
             (Some (ErrMsg ''copy aborted''), db'\<lparr>adb_next := (adb_next db')(insertValidators := n)\<rparr>)
         | (Some rows, n) \<Rightarrow>
             (None, (set_table insertValidators rows db')
                      \<lparr>adb_next := (adb_next db')(insertValidators := n)\<rparr>)))"

section \<open>The invariant of a table\<close>

text \<open>The identities recorded for a chain.\<close>

definition db_ids :: "address_db \<Rightarrow> string \<Rightarrow> bool \<Rightarrow> (string \<rightharpoonup> i32)" where
  "db_ids db chainName validators =
     map_of (map (\<lambda>r. (ar_address r, ar_id r))
       (filter (\<lambda>r. ar_chain r = chainName) (db_table validators db)))"

text \<open>Identities lie between 1 and the next sequence value, no two rows share one, and no two
  rows share an address and a chain.\<close>

definition rows_inv :: "address_row list \<Rightarrow> nat \<Rightarrow> bool" where
  "rows_inv rows n \<longleftrightarrow>
     0 < n \<and> n \<le> Suc max_identity
     \<and> (\<forall>r\<in>set rows. 0 < unat (ar_id r) \<and> unat (ar_id r) < n)
     \<and> distinct (map ar_id rows)
     \<and> distinct (map (\<lambda>r. (ar_address r, ar_chain r)) rows)"

definition db_inv :: "address_db \<Rightarrow> bool" where
  "db_inv db \<longleftrightarrow> (\<forall>v. rows_inv (db_table v db) (adb_next db v))"

lemma db_table_set_table [simp]:
  "db_table v (set_table w rows db) = (if v = w then rows else db_table v db)"
  by (auto simp: db_table_def set_table_def)

lemma db_table_update [simp]:
  "db_table v (db\<lparr>adb_next := n\<rparr>) = db_table v db" "db_table v (db\<lparr>adb_faults := f\<rparr>) = db_table v db"
  by (simp_all add: db_table_def)

lemma adb_next_set_table [simp]: "adb_next (set_table w rows db) = adb_next db"
  by (simp add: set_table_def)

lemma adb_faults_set_table [simp]: "adb_faults (set_table w rows db) = adb_faults db"
  by (simp add: set_table_def)

lemma next_fault_table:
  "next_fault db = (f, db') \<Longrightarrow> db_table v db' = db_table v db \<and> adb_next db' = adb_next db"
  by (auto simp: next_fault_def split: list.splits)

lemma rows_inv_snoc:
  assumes "rows_inv rows n" and "n \<le> max_identity"
    and "\<forall>r\<in>set rows. \<not> (ar_address r = a \<and> ar_chain r = c)"
  shows "rows_inv (rows @ [\<lparr>ar_address = a, ar_id = of_nat n, ar_chain = c\<rparr>]) (Suc n)"
proof -
  have "n < 2 ^ 32" using assms(2) by (simp add: max_identity_def)
  then have n: "unat (of_nat n :: i32) = n" by (simp add: unat_of_nat take_bit_nat_eq_self)
  then have "of_nat n \<notin> ar_id ` set rows"
    using assms(1) by (force simp: rows_inv_def)
  moreover have "(a, c) \<notin> (\<lambda>r. (ar_address r, ar_chain r)) ` set rows"
    using assms(3) by auto
  ultimately show ?thesis
    using assms(1,2) n by (auto simp: rows_inv_def less_Suc_eq)
qed

lemma copy_addresses_next:
  "copy_addresses as c rows n = (res, n') \<Longrightarrow> n \<le> Suc max_identity \<Longrightarrow> n \<le> n' \<and> n' \<le> Suc max_identity"
proof (induction as c rows n arbitrary: res n' rule: copy_addresses.induct)
  case (2 a as c rows n)
  then show ?case by (fastforce split: if_splits)
qed simp

lemma copy_addresses_inv:
  "copy_addresses as c rows n = (Some rows', n') \<Longrightarrow> rows_inv rows n
   \<Longrightarrow> rows_inv rows' n'
     \<and> (\<exists>new. rows' = rows @ new \<and> map ar_address new = as \<and> (\<forall>r\<in>set new. ar_chain r = c))"
proof (induction as c rows n arbitrary: rows' n' rule: copy_addresses.induct)
  case (2 a as c rows n)
  let ?r = "\<lparr>ar_address = a, ar_id = of_nat n, ar_chain = c\<rparr>"
  from 2(2) have room: "\<not> max_identity < n" and fresh: "\<not> (\<exists>r\<in>set rows. ar_address r = a \<and> ar_chain r = c)"
    and rec: "copy_addresses as c (rows @ [?r]) (Suc n) = (Some rows', n')"
    by (auto split: if_splits)
  have "rows_inv (rows @ [?r]) (Suc n)"
    using rows_inv_snoc [OF 2(3), of a c] room fresh by auto
  from 2(1) [OF room fresh rec this] obtain new where
    "rows_inv rows' n'" "rows' = (rows @ [?r]) @ new" "map ar_address new = as"
    "\<forall>r\<in>set new. ar_chain r = c" by blast
  then show ?case by (intro conjI exI [of _ "?r # new"]) auto
qed auto

lemma copy_addresses_ok:
  "distinct as \<Longrightarrow> n + length as \<le> Suc max_identity
   \<Longrightarrow> \<forall>r\<in>set rows. \<not> (ar_address r \<in> set as \<and> ar_chain r = c)
   \<Longrightarrow> \<exists>rows'. copy_addresses as c rows n = (Some rows', n + length as)"
proof (induction as arbitrary: rows n)
  case (Cons a as)
  then have "\<not> max_identity < n" by simp
  moreover have "\<not> (\<exists>r\<in>set rows. ar_address r = a \<and> ar_chain r = c)" using Cons.prems(3) by auto
  moreover have "\<exists>rows'. copy_addresses as c
      (rows @ [\<lparr>ar_address = a, ar_id = of_nat n, ar_chain = c\<rparr>]) (Suc n) = (Some rows', Suc n + length as)"
    using Cons.prems by (intro Cons.IH) auto
  ultimately show ?case by auto
qed simp

lemma rows_inv_mono: "rows_inv rows n \<Longrightarrow> n \<le> n' \<Longrightarrow> n' \<le> Suc max_identity \<Longrightarrow> rows_inv rows n'"
  by (fastforce simp: rows_inv_def)

end
