(* ===== verification/Address_Cache.thy ===== *)
theory Address_Cache
  imports Address_Db
begin

text \<open>
  The address cache (\<open>indexer/address_cache/address.go\<close>): an in-memory map from addresses to
  the integer identities of the database, which the data processor fills before it builds
  rows. The operations take the two statements they run as arguments, as the code takes its
  \<open>DatabaseForAddresses\<close>; the locale \<open>account_store\<close> states what these statements promise, and
  its interpretation at the end discharges that for the tables of \<open>Address_Db\<close>.
\<close>

type_synonym 'db find_op =
  "string list \<Rightarrow> string \<Rightarrow> bool \<Rightarrow> 'db \<Rightarrow> (goerror + (string \<rightharpoonup> i32)) \<times> 'db"
type_synonym 'db insert_op =
  "string list \<Rightarrow> string \<Rightarrow> bool \<Rightarrow> 'db \<Rightarrow> goerror option \<times> 'db"
type_synonym 'db load_op =
  "string \<Rightarrow> bool \<Rightarrow> i32 option \<Rightarrow> 'db \<Rightarrow> (goerror + (string \<rightharpoonup> i32) \<times> i32) \<times> 'db"

record AddressCache =
  ac_address :: "string \<rightharpoonup> i32"
  ac_highestIndex :: i32

definition loadAddresses ::
  "'db load_op \<Rightarrow> string \<Rightarrow> bool \<Rightarrow> 'db \<Rightarrow> (goerror + (string \<rightharpoonup> i32) \<times> i32) \<times> 'db" where
  "loadAddresses load chainName loadVal db = load chainName loadVal None db"

definition NewAddressCache ::
  "'db load_op \<Rightarrow> string \<Rightarrow> bool \<Rightarrow> 'db \<Rightarrow> (AddressCache \<times> 'db) outcome" where
  "NewAddressCache load chainName loadVal db =
     (case loadAddresses load chainName loadVal db of
        (Inl e, db') \<Rightarrow> Exit 1
      | (Inr (addresses, maxIndex), db') \<Rightarrow>
          Done (\<lparr>ac_address = addresses, ac_highestIndex = maxIndex\<rparr>, db'))"

definition addAddresses :: "(string \<rightharpoonup> i32) \<Rightarrow> AddressCache \<Rightarrow> AddressCache" where
  "addAddresses newAddresses a = a\<lparr>ac_address := ac_address a ++ newAddresses\<rparr>"

definition findUncached :: "AddressCache \<Rightarrow> string list \<Rightarrow> string list" where
  "findUncached a addresses = filter (\<lambda>addr. ac_address a addr = None) addresses"

definition GetAddress :: "AddressCache \<Rightarrow> string \<Rightarrow> i32" where
  "GetAddress a address = (case ac_address a address of None \<Rightarrow> 0 | Some i \<Rightarrow> i)"

definition syncExistingFromDB ::
  "'db find_op \<Rightarrow> string list \<Rightarrow> string \<Rightarrow> bool \<Rightarrow> AddressCache \<times> 'db
   \<Rightarrow> string list \<times> AddressCache \<times> 'db" where
  "syncExistingFromDB lookup addresses chainName insertValidators s =
     (let (a, db) = s in
      case lookup addresses chainName insertValidators db of
        (Inl e, db') \<Rightarrow> ([], a, db')
      | (Inr existing, db') \<Rightarrow>
          (let a' = addAddresses existing a in (findUncached a' addresses, a', db')))"

primrec insertOneByOne ::
  "'db insert_op \<Rightarrow> string list \<Rightarrow> string \<Rightarrow> bool \<Rightarrow> 'db \<Rightarrow> 'db" where
  "insertOneByOne ins [] chainName insertValidators db = db"
| "insertOneByOne ins (addr # addrs) chainName insertValidators db =
     insertOneByOne ins addrs chainName insertValidators
       (snd (ins [addr] chainName insertValidators db))"

text \<open>One round per index of \<open>range retryAttempts\<close>; the index and the bound are \<open>uint8\<close>.\<close>

primrec insert_attempts ::
  "'db insert_op \<Rightarrow> string list \<Rightarrow> string \<Rightarrow> bool \<Rightarrow> byte \<Rightarrow> bool option \<Rightarrow> byte list \<Rightarrow> 'db \<Rightarrow> 'db" where
  "insert_attempts ins addresses chainName insertValidators retryAttempts oneByOne [] db = db"
| "insert_attempts ins addresses chainName insertValidators retryAttempts oneByOne (i # rest) db =
     (case ins addresses chainName insertValidators db of
        (None, db') \<Rightarrow> db'
      | (Some e, db') \<Rightarrow>
          insert_attempts ins addresses chainName insertValidators retryAttempts oneByOne rest
            (if oneByOne = Some True \<and> i = retryAttempts - 1
             then insertOneByOne ins addresses chainName insertValidators db' else db'))"

definition insertWithRetry ::
  "'db insert_op \<Rightarrow> string list \<Rightarrow> string \<Rightarrow> bool \<Rightarrow> byte \<Rightarrow> bool option \<Rightarrow> 'db \<Rightarrow> 'db" where
  "insertWithRetry ins addresses chainName insertValidators retryAttempts oneByOne db =
     (if addresses = [] then db
      else insert_attempts ins addresses chainName insertValidators retryAttempts oneByOne
             (map of_nat [0..<unat retryAttempts]) db)"

definition fetchAndCacheInserted ::
  "'db find_op \<Rightarrow> string list \<Rightarrow> string \<Rightarrow> bool \<Rightarrow> AddressCache \<times> 'db \<Rightarrow> AddressCache \<times> 'db" where
  "fetchAndCacheInserted lookup addresses chainName insertValidators s =
     (let (a, db) = s in
      if addresses = [] then (a, db)
      else (case lookup addresses chainName insertValidators db of
              (Inl e, db') \<Rightarrow> (a, db')
            | (Inr newAddrMap, db') \<Rightarrow> (addAddresses newAddrMap a, db')))"

definition AddressSolver ::
  "'db find_op \<Rightarrow> 'db insert_op \<Rightarrow> string list \<Rightarrow> string \<Rightarrow> bool \<Rightarrow> byte \<Rightarrow> bool option
   \<Rightarrow> AddressCache \<times> 'db \<Rightarrow> AddressCache \<times> 'db" where
  "AddressSolver lookup ins address chainName insertValidators retryAttempts oneByOne s =
     (let newAddresses = findUncached (fst s) address in
      if newAddresses = [] then s
      else
        (let (addressToAdd, a, db) = syncExistingFromDB lookup newAddresses chainName insertValidators s;
             db' = insertWithRetry ins addressToAdd chainName insertValidators retryAttempts oneByOne db
         in fetchAndCacheInserted lookup addressToAdd chainName insertValidators (a, db')))"

section \<open>What the cache relies on\<close>

text \<open>\<open>ids\<close> is the abstract content of the store: the identity of each address of a chain.
  \<open>ready n db\<close> says that the coming statements succeed and that \<open>n\<close> more identities are free.\<close>

locale account_store =
  fixes lookup :: "'db find_op"
    and ins :: "'db insert_op"
    and load :: "'db load_op"
    and ids :: "'db \<Rightarrow> string \<Rightarrow> bool \<Rightarrow> (string \<rightharpoonup> i32)"
    and good :: "'db \<Rightarrow> bool"
    and ready :: "nat \<Rightarrow> 'db \<Rightarrow> bool"
  assumes find_state: "lookup as c v db = (r, db') \<Longrightarrow> good db \<Longrightarrow> good db' \<and> ids db' = ids db"
    and find_ok: "lookup as c v db = (Inr m, db') \<Longrightarrow> good db \<Longrightarrow> m = ids db c v |` set as"
    and find_ready: "good db \<Longrightarrow> ready n db \<Longrightarrow> \<exists>m db'. lookup as c v db = (Inr m, db') \<and> ready n db'"
    and ins_state: "ins as c v db = (err, db') \<Longrightarrow> good db \<Longrightarrow> good db' \<and> ids db c' v' \<subseteq>\<^sub>m ids db' c' v'"
    and ins_ok: "ins as c v db = (None, db') \<Longrightarrow> good db
      \<Longrightarrow> dom (ids db' c v) = dom (ids db c v) \<union> set as"
    and ins_fail: "ins as c v db = (Some e, db') \<Longrightarrow> good db \<Longrightarrow> ids db' = ids db"
    and ins_ready: "good db \<Longrightarrow> ready (n + length as) db \<Longrightarrow> distinct as
      \<Longrightarrow> set as \<inter> dom (ids db c v) = {} \<Longrightarrow> \<exists>db'. ins as c v db = (None, db') \<and> ready n db'"
    and ready_mono: "ready n db \<Longrightarrow> k \<le> n \<Longrightarrow> ready k db"
    and load_state: "load c v h db = (res, db') \<Longrightarrow> good db \<Longrightarrow> good db' \<and> ids db' = ids db"
    and load_ok: "load c v None db = (Inr (m, hi), db') \<Longrightarrow> good db \<Longrightarrow> m = ids db c v"
    and ids_pos: "good db \<Longrightarrow> ids db c v a = Some i \<Longrightarrow> i \<noteq> 0"
    and ids_inj: "good db \<Longrightarrow> ids db c v a = Some i \<Longrightarrow> ids db c v b = Some i \<Longrightarrow> a = b"
begin

text \<open>The cache never disagrees with the store.\<close>

definition consistent :: "string \<Rightarrow> bool \<Rightarrow> AddressCache \<times> 'db \<Rightarrow> bool" where
  "consistent c v s \<longleftrightarrow> good (snd s) \<and> ac_address (fst s) \<subseteq>\<^sub>m ids (snd s) c v"

lemma addAddresses_le:
  "ac_address a \<subseteq>\<^sub>m m \<Longrightarrow> n \<subseteq>\<^sub>m m \<Longrightarrow> ac_address (addAddresses n a) \<subseteq>\<^sub>m m"
  by (simp add: addAddresses_def map_add_le_mapI)

lemma restrict_le: "m |` A \<subseteq>\<^sub>m m"
  by (auto simp: map_le_def restrict_map_def dom_def split: if_splits)

lemma new_cache_consistent:
  "NewAddressCache load c v db = Done s \<Longrightarrow> good db \<Longrightarrow> consistent c v s"
proof -
  assume new: "NewAddressCache load c v db = Done s" and g: "good db"
  then obtain m h db' where l: "load c v None db = (Inr (m, h), db')"
      and s: "s = (\<lparr>ac_address = m, ac_highestIndex = h\<rparr>, db')"
    by (auto simp: NewAddressCache_def loadAddresses_def split: prod.splits sum.splits)
  from load_ok [OF l g] load_state [OF l g] s show ?thesis by (simp add: consistent_def)
qed

lemma insertOneByOne_state:
  "good db \<Longrightarrow> good (insertOneByOne ins as c v db)
    \<and> ids db c' v' \<subseteq>\<^sub>m ids (insertOneByOne ins as c v db) c' v'"
proof (induction as arbitrary: db)
  case (Cons a as)
  obtain r db' where e: "ins [a] c v db = (r, db')" by force
  from ins_state [OF e Cons.prems] Cons.IH [of db'] show ?case
    by (auto simp: e intro: map_le_trans)
qed simp

lemma insert_attempts_state:
  "good db \<Longrightarrow> good (insert_attempts ins as c v n o1 is db)
    \<and> ids db c' v' \<subseteq>\<^sub>m ids (insert_attempts ins as c v n o1 is db) c' v'"
proof (induction "is" arbitrary: db)
  case (Cons i rest)
  obtain r db' where e: "ins as c v db = (r, db')" by force
  note st = ins_state [OF e Cons.prems, of c' v']
  show ?case
  proof (cases r)
    case (Some x)
    have "good (insertOneByOne ins as c v db') \<and> ids db' c' v' \<subseteq>\<^sub>m ids (insertOneByOne ins as c v db') c' v'"
      using insertOneByOne_state st by blast
    with Cons.IH [of "insertOneByOne ins as c v db'"] Cons.IH [of db'] st show ?thesis
      by (auto simp: e Some intro: map_le_trans)
  qed (use st in \<open>simp add: e\<close>)
qed simp

lemma insertWithRetry_state:
  "good db \<Longrightarrow> good (insertWithRetry ins as c v n o1 db)
    \<and> ids db c' v' \<subseteq>\<^sub>m ids (insertWithRetry ins as c v n o1 db) c' v'"
  using insert_attempts_state by (simp add: insertWithRetry_def)

lemma sync_consistent:
  assumes "syncExistingFromDB lookup as c v s = (rest, s')" and "consistent c v s"
  shows "consistent c v s' \<and> ids (snd s') = ids (snd s)"
proof -
  obtain a db where s: "s = (a, db)" by (cases s)
  obtain r db' where f: "lookup as c v db = (r, db')" by force
  have i: "good db" and le: "ac_address a \<subseteq>\<^sub>m ids db c v" using assms(2) by (simp_all add: s consistent_def)
  have st: "good db'" "ids db' = ids db" using find_state [OF f i] by simp_all
  show ?thesis
  proof (cases r)
    case (Inl e)
    with assms f s st i le show ?thesis by (auto simp: syncExistingFromDB_def consistent_def)
  next
    case (Inr m)
    have "m = ids db c v |` set as" using find_ok f Inr i by blast
    with assms(1) f s st i le Inr show ?thesis
      by (auto simp: syncExistingFromDB_def consistent_def Let_def addAddresses_le restrict_le)
  qed
qed

lemma fetch_consistent:
  assumes "consistent c v s"
  shows "consistent c v (fetchAndCacheInserted lookup as c v s)
    \<and> ids (snd (fetchAndCacheInserted lookup as c v s)) = ids (snd s)"
proof -
  obtain a db where s: "s = (a, db)" by (cases s)
  obtain r db' where f: "lookup as c v db = (r, db')" by force
  have i: "good db" and le: "ac_address a \<subseteq>\<^sub>m ids db c v" using assms by (simp_all add: s consistent_def)
  have st: "good db'" "ids db' = ids db" using find_state [OF f i] by simp_all
  show ?thesis
  proof (cases r)
    case (Inl e)
    with f s st i le show ?thesis by (simp add: fetchAndCacheInserted_def consistent_def)
  next
    case (Inr m)
    have "m = ids db c v |` set as" using find_ok f Inr i by blast
    with f s st i le Inr show ?thesis
      by (simp add: fetchAndCacheInserted_def consistent_def addAddresses_le restrict_le)
  qed
qed

text \<open>Whatever fails on the way, a solve keeps the cache consistent and the store growing.\<close>

lemma solver_consistent:
  assumes "consistent c v s"
  shows "consistent c v (AddressSolver lookup ins as c v n o1 s)
    \<and> ids (snd s) c' v' \<subseteq>\<^sub>m ids (snd (AddressSolver lookup ins as c v n o1 s)) c' v'"
proof (cases "findUncached (fst s) as = []")
  case True
  with assms show ?thesis by (simp add: AddressSolver_def)
next
  case False
  obtain rest a db where sync: "syncExistingFromDB lookup (findUncached (fst s) as) c v s = (rest, a, db)"
    by (metis prod_cases3)
  define db' where "db' = insertWithRetry ins rest c v n o1 db"
  have c1: "consistent c v (a, db)" "ids db = ids (snd s)"
    using sync_consistent [OF sync assms] by simp_all
  have grow: "good db'" "ids db c'' v'' \<subseteq>\<^sub>m ids db' c'' v''" for c'' v''
    using insertWithRetry_state c1(1) by (simp_all add: db'_def consistent_def)
  have "consistent c v (a, db')"
    using c1(1) grow(1) grow(2) [of c v] by (auto simp: consistent_def intro: map_le_trans)
  from fetch_consistent [OF this] False sync c1 grow(2) [of c' v'] show ?thesis
    by (simp add: AddressSolver_def db'_def)
qed

text \<open>With a store that answers, every address asked for ends up in the cache.\<close>

lemma sync_first:
  assumes "good db" and "ready n db"
  obtains a1 todo db1 where
    "syncExistingFromDB lookup new c v (a, db) = (todo, a1, db1)"
    and "todo = findUncached a1 new" and "ac_address a1 = ac_address a ++ (ids db c v |` set new)"
    and "good db1" and "ids db1 = ids db" and "ready n db1"
proof -
  obtain m db1 where f: "lookup new c v db = (Inr m, db1)" and "ready n db1"
    using find_ready [OF assms] by blast
  moreover have "m = ids db c v |` set new" using find_ok [OF f assms(1)] .
  moreover have "good db1" "ids db1 = ids db" using find_state [OF f assms(1)] by simp_all
  ultimately show ?thesis
    using that [of "findUncached (addAddresses m a) new" "addAddresses m a" db1]
    by (simp add: syncExistingFromDB_def addAddresses_def Let_def)
qed

lemma insert_and_fetch:
  assumes "good db" and "ready (length todo) db" and "distinct todo"
    and "set todo \<inter> dom (ids db c v) = {}" and "0 < n"
  shows "set todo \<subseteq> dom (ac_address (fst (fetchAndCacheInserted lookup todo c v (a, insertWithRetry ins todo c v n o1 db))))"
proof (cases "todo = []")
  case False
  from ins_ready [of db 0 todo c v] assms(1-4) obtain db2
    where ins2: "ins todo c v db = (None, db2)" and r2: "ready 0 db2" by auto
  have "good db2" using ins_state [OF ins2 assms(1)] by simp
  then obtain m db3 where f: "lookup todo c v db2 = (Inr m, db3)" using find_ready [OF _ r2] by blast
  have "dom m = set todo" using find_ok [OF f \<open>good db2\<close>] ins_ok [OF ins2 assms(1)] by auto
  moreover have "insertWithRetry ins todo c v n o1 db = db2"
    using False assms(5) ins2
    by (cases "unat n") (simp_all add: insertWithRetry_def unat_eq_0 upt_conv_Cons del: upt_Suc)
  ultimately show ?thesis using False f by (auto simp: fetchAndCacheInserted_def addAddresses_def)
qed simp

lemma fetch_keeps: "dom (ac_address a) \<subseteq> dom (ac_address (fst (fetchAndCacheInserted lookup todo c v (a, db))))"
  by (auto simp: fetchAndCacheInserted_def addAddresses_def split: sum.splits prod.splits)

lemma solver_complete:
  assumes cons: "consistent c v s" and rdy: "ready (length as) (snd s)"
    and dist: "distinct as" and retry: "0 < n"
  shows "set as \<subseteq> dom (ac_address (fst (AddressSolver lookup ins as c v n o1 s)))"
proof (cases "findUncached (fst s) as = []")
  case True
  then show ?thesis by (auto simp: AddressSolver_def findUncached_def filter_empty_conv)
next
  case False
  let ?new = "findUncached (fst s) as"
  obtain a db where s: "s = (a, db)" by (cases s)
  have "good db" "ready (length as) db" using cons rdy by (simp_all add: s consistent_def)
  then obtain a1 todo db1 where sync: "syncExistingFromDB lookup ?new c v (a, db) = (todo, a1, db1)"
    and todo: "todo = findUncached a1 ?new" and a1: "ac_address a1 = ac_address a ++ (ids db c v |` set ?new)"
    and db1: "good db1" "ids db1 = ids db" "ready (length as) db1"
    by (rule sync_first)
  have "set as - set todo \<subseteq> dom (ac_address a1)"
    by (auto simp: todo findUncached_def a1 s map_add_None)
  moreover have "set todo \<inter> dom (ids db1 c v) = {}"
    by (auto simp: todo findUncached_def a1 db1(2) map_add_None restrict_map_def)
  moreover have "distinct todo" "length todo \<le> length as" using dist by (simp_all add: todo findUncached_def)
  moreover from this have "ready (length todo) db1" using db1(3) ready_mono by blast
  moreover have "fst (AddressSolver lookup ins as c v n o1 s) =
      fst (fetchAndCacheInserted lookup todo c v (a1, insertWithRetry ins todo c v n o1 db1))"
    using False sync by (simp add: AddressSolver_def s)
  ultimately show ?thesis
    using insert_and_fetch [OF db1(1), of todo c v n a1 o1] fetch_keeps [of a1 todo c v "insertWithRetry ins todo c v n o1 db1"] retry
    by (simp only:) blast
qed

lemma cached_id:
  assumes "consistent c v s" and "a \<in> dom (ac_address (fst s))"
  shows "ids (snd s) c v a = Some (GetAddress (fst s) a)" and "GetAddress (fst s) a \<noteq> 0"
proof -
  from assms(2) obtain i where i: "ac_address (fst s) a = Some i" by auto
  then show "ids (snd s) c v a = Some (GetAddress (fst s) a)"
    using assms(1) by (metis (no_types, lifting) GetAddress_def consistent_def domI map_le_def option.simps(5))
  then show "GetAddress (fst s) a \<noteq> 0"
    using assms(1) ids_pos by (metis consistent_def)
qed

lemma solved_ids:
  assumes "consistent c v s" and "ready (length as) (snd s)" and "distinct as" and "0 < n"
    and "s' = AddressSolver lookup ins as c v n o1 s" and "x \<in> set as" and "y \<in> set as"
  shows "GetAddress (fst s') x \<noteq> 0"
    and "GetAddress (fst s') x = GetAddress (fst s') y \<longleftrightarrow> x = y"
proof -
  have c': "consistent c v s'" using solver_consistent [OF assms(1)] assms(5) by simp
  have d: "x \<in> dom (ac_address (fst s'))" "y \<in> dom (ac_address (fst s'))"
    using solver_complete [OF assms(1-4)] assms(5-7) by auto
  show "GetAddress (fst s') x \<noteq> 0" using cached_id [OF c' d(1)] by simp
  show "GetAddress (fst s') x = GetAddress (fst s') y \<longleftrightarrow> x = y"
    using cached_id [OF c' d(1)] cached_id [OF c' d(2)] ids_inj c'
    by (metis consistent_def)
qed

end

section \<open>The tables provide it\<close>

text \<open>No statement fails and the identity sequence has room.\<close>

definition db_ready :: "nat \<Rightarrow> address_db \<Rightarrow> bool" where
  "db_ready n db \<longleftrightarrow> adb_faults db = [] \<and> (\<forall>v. adb_next db v + n \<le> Suc max_identity)"

lemma rows_to_map_map_of:
  "distinct (map ar_address rows)
   \<Longrightarrow> rows_to_map rows = map_of (map (\<lambda>r. (ar_address r, ar_id r)) rows)"
proof -
  have "fold (\<lambda>r m. m(ar_address r \<mapsto> ar_id r)) rows m
      = m ++ map_of (map (\<lambda>r. (ar_address r, ar_id r)) rows)"
    if "distinct (map ar_address rows)" for m
    using that
  proof (induction rows arbitrary: m)
    case (Cons r rows)
    have "map_of (map (\<lambda>r. (ar_address r, ar_id r)) rows) (ar_address r) = None"
      using Cons.prems by (auto simp: map_of_eq_None_iff image_iff)
    then have "m(ar_address r \<mapsto> ar_id r) ++ map_of (map (\<lambda>r. (ar_address r, ar_id r)) rows)
        = m ++ map_of (map (\<lambda>r. (ar_address r, ar_id r)) (r # rows))"
      by (auto simp: map_add_def fun_eq_iff split: option.splits)
    moreover have "distinct (map ar_address rows)" using Cons.prems by simp
    ultimately show ?case using Cons.IH by (simp only: fold_simps)
  qed simp
  then show "distinct (map ar_address rows) \<Longrightarrow> ?thesis"
    by (simp add: rows_to_map_def)
qed

lemma chain_rows_distinct:
  "rows_inv rows n \<Longrightarrow> distinct (map ar_address (filter (\<lambda>r. ar_chain r = c) rows))"
proof -
  assume "rows_inv rows n"
  then have "distinct (map (\<lambda>r. (ar_address r, ar_chain r)) rows)" by (simp add: rows_inv_def)
  then show ?thesis by (induction rows) (auto simp: image_iff)
qed

lemma map_of_filter_key:
  "map_of (map (\<lambda>r. (k r, f r)) (filter (\<lambda>r. P r \<and> k r \<in> A) rows))
   = map_of (map (\<lambda>r. (k r, f r)) (filter P rows)) |` A"
  by (induction rows) (auto simp: fun_eq_iff restrict_map_def)

lemma db_ids_table: "db_table v db = db_table v db' \<Longrightarrow> db_ids db c v = db_ids db' c v"
  by (simp add: db_ids_def)

lemma FindExistingAccounts_state:
  "FindExistingAccounts as c v db = (r, db') \<Longrightarrow> (\<forall>w. db_table w db' = db_table w db) \<and> adb_next db' = adb_next db"
  by (auto simp: FindExistingAccounts_def next_fault_def split: list.splits if_splits)

lemma GetAllAddresses_state:
  "GetAllAddresses c v h db = (r, db') \<Longrightarrow> (\<forall>w. db_table w db' = db_table w db) \<and> adb_next db' = adb_next db"
  by (auto simp: GetAllAddresses_def next_fault_def Let_def split: list.splits if_splits)

lemma db_ids_cong: "\<forall>w. db_table w db' = db_table w db \<Longrightarrow> db_ids db' = db_ids db"
  by (intro ext) (simp add: db_ids_def)

lemma db_inv_cong: "(\<forall>w. db_table w db' = db_table w db) \<and> adb_next db' = adb_next db \<Longrightarrow> db_inv db' = db_inv db"
  by (simp add: db_inv_def)

lemma InsertAddresses_cases:
  assumes "InsertAddresses as c v db = (r, db')" and "db_inv db"
  obtains (fail) e where "r = Some e" "\<forall>w. db_table w db' = db_table w db" "db_inv db'"
  | (ok) new where "r = None" "db_table v db' = db_table v db @ new" "map ar_address new = as"
      "\<forall>x\<in>set new. ar_chain x = c" "\<forall>w. w \<noteq> v \<longrightarrow> db_table w db' = db_table w db" "db_inv db'"
proof -
  obtain f db1 where nf: "next_fault db = (f, db1)" by force
  note t = next_fault_table [OF nf]
  have inv1: "rows_inv (db_table w db1) (adb_next db1 w)" for w
    using assms(2) t by (simp add: db_inv_def)
  obtain res n where cp: "copy_addresses as c (db_table v db1) (adb_next db1 v) = (res, n)" by force
  have n: "adb_next db1 v \<le> n" "n \<le> Suc max_identity"
    using copy_addresses_next [OF cp] inv1 [of v] by (simp_all add: rows_inv_def)
  show ?thesis
  proof (cases "f \<or> res = None")
    case True
    then have "\<exists>e. r = Some e" "\<forall>w. db_table w db' = db_table w db1"
        "adb_next db' = adb_next db1 \<or> adb_next db' = (adb_next db1)(v := n)"
      using assms(1) by (auto simp: InsertAddresses_def nf cp split: if_splits)
    moreover have "db_table w db1 = db_table w db" for w
      using nf by (auto simp: next_fault_def split: list.splits)
    ultimately show ?thesis
      using fail inv1 rows_inv_mono n by (fastforce simp: db_inv_def)
  next
    case False
    then obtain rows where rows: "res = Some rows" "\<not> f" by auto
    have db': "r = None" "\<forall>w. db_table w db' = (if w = v then rows else db_table w db1)"
        "adb_next db' = (adb_next db1)(v := n)"
      using assms(1) rows by (auto simp: InsertAddresses_def nf cp)
    obtain new where new: "rows_inv rows n" "rows = db_table v db1 @ new" "map ar_address new = as"
        "\<forall>x\<in>set new. ar_chain x = c"
      using copy_addresses_inv [OF cp [unfolded rows(1)] inv1] by blast
    have same: "db_table w db1 = db_table w db" for w
      using nf by (auto simp: next_fault_def split: list.splits)
    have "db_inv db'" using db' new(1) inv1 by (simp add: db_inv_def)
    then show ?thesis using ok db' new same by simp
  qed
qed

lemma db_ids_append:
  "db_table v db' = db_table v db @ new \<Longrightarrow> db_ids db c v \<subseteq>\<^sub>m db_ids db' c v"
  by (simp add: db_ids_def map_le_map_add)

lemma dom_db_ids:
  "dom (db_ids db c v) = {ar_address r |r. r \<in> set (db_table v db) \<and> ar_chain r = c}"
  by (auto simp: db_ids_def dom_map_of_conv_image_fst image_iff)

lemma FindExistingAccounts_ok:
  assumes "FindExistingAccounts as c v db = (Inr m, db')" and "db_inv db"
  shows "m = db_ids db c v |` set as"
proof -
  obtain f db1 where nf: "next_fault db = (f, db1)" by force
  have t: "db_table v db1 = db_table v db" using next_fault_table [OF nf] by simp
  let ?rows = "filter (\<lambda>r. ar_chain r = c \<and> ar_address r \<in> set as) (db_table v db)"
  have "distinct (map ar_address (filter (\<lambda>r. ar_chain r = c) (db_table v db)))"
    using chain_rows_distinct assms(2) unfolding db_inv_def by blast
  then have "distinct (map ar_address (filter (\<lambda>r. ar_address r \<in> set as)
      (filter (\<lambda>r. ar_chain r = c) (db_table v db))))"
    by (rule distinct_map_filter)
  then have "distinct (map ar_address ?rows)" by (simp add: conj_commute)
  then have "rows_to_map ?rows = db_ids db c v |` set as"
    by (simp add: rows_to_map_map_of map_of_filter_key db_ids_def)
  then show ?thesis
    using assms(1) by (auto simp: FindExistingAccounts_def nf t split: if_splits)
qed

lemma GetAllAddresses_ok:
  assumes "GetAllAddresses c v None db = (Inr (m, h), db')" and "db_inv db"
  shows "m = db_ids db c v"
proof -
  obtain f db1 where nf: "next_fault db = (f, db1)" by force
  have t: "db_table v db1 = db_table v db" using next_fault_table [OF nf] by simp
  have pos: "0 < sint (ar_id r)" if "r \<in> set (db_table v db)" for r
  proof -
    have "rows_inv (db_table v db) (adb_next db v)" using assms(2) by (simp add: db_inv_def)
    then have "0 < unat (ar_id r)" "unat (ar_id r) < 2147483648"
      using that by (auto simp: rows_inv_def max_identity_def)
    then show ?thesis by (simp only: sint_small_i32 of_nat_0_less_iff)
  qed
  have rows: "filter (\<lambda>r. ar_chain r = c \<and> 0 < sint (ar_id r)) (db_table v db)
      = filter (\<lambda>r. ar_chain r = c) (db_table v db)"
    using pos by (intro filter_cong) auto
  have "distinct (map ar_address (filter (\<lambda>r. ar_chain r = c) (db_table v db)))"
    using chain_rows_distinct assms(2) unfolding db_inv_def by blast
  then have "rows_to_map (filter (\<lambda>r. ar_chain r = c) (db_table v db)) = db_ids db c v"
    by (simp add: rows_to_map_map_of db_ids_def)
  then show ?thesis
    using assms(1) rows by (auto simp: GetAllAddresses_def nf t Let_def split: if_splits)
qed

lemma InsertAddresses_ready:
  assumes "db_inv db" and rdy: "db_ready (n + length as) db" and dist: "distinct as"
    and fresh: "set as \<inter> dom (db_ids db c v) = {}"
  shows "\<exists>db'. InsertAddresses as c v db = (None, db') \<and> db_ready n db'"
proof -
  have nf: "next_fault db = (False, db)" using rdy by (simp add: next_fault_def db_ready_def)
  have room: "adb_next db v + length as \<le> Suc max_identity"
    using rdy unfolding db_ready_def by (metis add.commute add_leD1 add.assoc add.left_commute)
  have "\<forall>r\<in>set (db_table v db). \<not> (ar_address r \<in> set as \<and> ar_chain r = c)"
    using fresh by (auto simp: dom_db_ids)
  from copy_addresses_ok [OF dist room this] obtain rows where
    "copy_addresses as c (db_table v db) (adb_next db v) = (Some rows, adb_next db v + length as)" by blast
  moreover have "adb_next db v + length as + n \<le> Suc max_identity"
      "adb_next db (\<not> v) + n \<le> Suc max_identity"
    using rdy unfolding db_ready_def by (metis add.commute add.assoc, metis add.commute add.assoc add_leD1)
  ultimately show ?thesis
    using rdy by (cases v) (auto simp: InsertAddresses_def nf db_ready_def add_ac all_bool_eq)
qed

lemma db_ids_pos: "db_inv db \<Longrightarrow> db_ids db c v a = Some i \<Longrightarrow> i \<noteq> 0"
proof -
  assume i: "db_inv db" and "db_ids db c v a = Some i"
  then obtain r where "r \<in> set (db_table v db)" "ar_id r = i"
    by (auto simp: db_ids_def dest!: map_of_SomeD)
  then show "i \<noteq> 0" using i by (force simp: db_inv_def rows_inv_def)
qed

lemma db_ids_inj:
  "db_inv db \<Longrightarrow> db_ids db c v a = Some i \<Longrightarrow> db_ids db c v b = Some i \<Longrightarrow> a = b"
proof -
  assume i: "db_inv db" and "db_ids db c v a = Some i" "db_ids db c v b = Some i"
  then obtain r s where "r \<in> set (db_table v db)" "ar_id r = i" "ar_address r = a"
      "s \<in> set (db_table v db)" "ar_id s = i" "ar_address s = b"
    by (auto simp: db_ids_def dest!: map_of_SomeD)
  moreover have "inj_on ar_id (set (db_table v db))"
    using i by (simp add: db_inv_def rows_inv_def distinct_map)
  ultimately show "a = b" by (metis inj_onD)
qed

text \<open>A store that is a part of a larger state keeps the laws there.\<close>

locale account_part = account_store lookup ins load ids good ready
  for lookup :: "'db find_op" and ins :: "'db insert_op" and load :: "'db load_op" and ids good ready +
  fixes part :: "'w \<Rightarrow> 'db" and put :: "'db \<Rightarrow> 'w \<Rightarrow> 'w"
  assumes part_put: "part (put db w) = db"

sublocale account_part \<subseteq> whole: account_store
  "\<lambda>as c v. on_part part put (lookup as c v)" "\<lambda>as c v. on_part part put (ins as c v)"
  "\<lambda>c v h. on_part part put (load c v h)" "\<lambda>w. ids (part w)" "\<lambda>w. good (part w)" "\<lambda>n w. ready n (part w)"
proof (unfold_locales, goal_cases)
  case (3 w n as c v)
  then show ?case using find_ready [OF 3, of as c v] by (auto simp: on_part_eq part_put)
next
  case (5 as c v w w')
  then obtain d where "ins as c v (part w) = (None, d)" "w' = put d w" by (auto simp: on_part_eq)
  with ins_ok [OF this(1) 5(2)] show ?case by (simp add: part_put)
next
  case (7 w n as c v)
  then show ?case using ins_ready [OF 7] by (auto simp: on_part_eq part_put)
next
  case (8 n w k)
  then show ?case by (rule ready_mono)
qed (auto simp: on_part_eq part_put dest: find_state find_ok ins_state ins_ok ins_fail load_state load_ok
       ids_pos intro: ids_inj)

text \<open>The laws, statement by statement.\<close>

lemma FindExistingAccounts_keeps:
  "FindExistingAccounts as c v db = (r, db') \<Longrightarrow> db_inv db \<Longrightarrow> db_inv db' \<and> db_ids db' = db_ids db"
  using db_ids_cong db_inv_cong by (blast dest: FindExistingAccounts_state)

lemma FindExistingAccounts_ready:
  "db_inv db \<Longrightarrow> db_ready n db \<Longrightarrow> \<exists>m db'. FindExistingAccounts as c v db = (Inr m, db') \<and> db_ready n db'"
  by (auto simp: FindExistingAccounts_def next_fault_def db_ready_def)

lemma InsertAddresses_grows:
  assumes "InsertAddresses as c v db = (err, db')" and "db_inv db"
  shows "db_inv db' \<and> db_ids db c' v' \<subseteq>\<^sub>m db_ids db' c' v'"
  using assms
proof (cases rule: InsertAddresses_cases)
  case (ok new)
  have "db_table v' db' = db_table v' db @ (if v' = v then new else [])" using ok by auto
  from db_ids_append [OF this] ok(6) show ?thesis by blast
next
  case fail
  then show ?thesis using db_ids_cong [of db' db] by simp
qed

lemma InsertAddresses_dom:
  assumes "InsertAddresses as c v db = (None, db')" and "db_inv db"
  shows "dom (db_ids db' c v) = dom (db_ids db c v) \<union> set as"
  using assms
proof (cases rule: InsertAddresses_cases)
  case (ok new)
  have "set as = ar_address ` set new" using ok(3) by (metis list.set_map)
  moreover have "{ar_address r |r. r \<in> set new \<and> ar_chain r = c} = ar_address ` set new"
    using ok(4) by blast
  ultimately show ?thesis by (auto simp: dom_db_ids ok(2))
qed simp

lemma InsertAddresses_failed:
  assumes "InsertAddresses as c v db = (Some e, db')" and "db_inv db"
  shows "db_ids db' = db_ids db"
  using assms by (cases rule: InsertAddresses_cases) (simp_all add: db_ids_cong)

lemma GetAllAddresses_keeps:
  "GetAllAddresses c v h db = (res, db') \<Longrightarrow> db_inv db \<Longrightarrow> db_inv db' \<and> db_ids db' = db_ids db"
  using db_ids_cong db_inv_cong by (blast dest: GetAllAddresses_state)

lemma db_ready_mono: "db_ready n db \<Longrightarrow> k \<le> n \<Longrightarrow> db_ready k db"
  unfolding db_ready_def by (meson add_left_mono le_trans)

interpretation accounts: account_store FindExistingAccounts InsertAddresses GetAllAddresses
  db_ids db_inv db_ready
  by unfold_locales
     (fact FindExistingAccounts_keeps FindExistingAccounts_ok FindExistingAccounts_ready InsertAddresses_grows
        InsertAddresses_dom InsertAddresses_failed InsertAddresses_ready db_ready_mono GetAllAddresses_keeps
        GetAllAddresses_ok db_ids_pos db_ids_inj)+

section \<open>Properties\<close>


text \<open>C6: when the statements succeed and the identity sequence has room, a solve of distinct
  addresses with at least one attempt resolves all of them: each gets a non-zero identity,
  the one the table records, and different addresses get different identities.\<close>
theorem AddressSolver_resolves:
  assumes "db_inv db" and "ac_address a \<subseteq>\<^sub>m db_ids db c v"
    and "db_ready (length as) db" and "distinct as" and "0 < n"
    and "AddressSolver FindExistingAccounts InsertAddresses as c v n o1 (a, db) = (a', db')"
  shows "(\<forall>x\<in>set as. GetAddress a' x \<noteq> 0 \<and> db_ids db' c v x = Some (GetAddress a' x))
    \<and> inj_on (GetAddress a') (set as)"
proof -
  have c: "accounts.consistent c v (a, db)" using assms(1,2) by (simp add: accounts.consistent_def)
  note s = accounts.solved_ids [OF c _ assms(4,5), of "(a', db')" o1]
  have c': "accounts.consistent c v (a', db')"
    using accounts.solver_consistent [OF c, of as n o1] assms(6) by simp
  have "set as \<subseteq> dom (ac_address a')"
    using accounts.solver_complete [OF c _ assms(4,5), of o1] assms(3,6) by simp
  then have "db_ids db' c v x = Some (GetAddress a' x)" if "x \<in> set as" for x
    using accounts.cached_id(1) [OF c', of x] that by auto
  then show ?thesis using s assms(3,6) by (simp add: inj_on_def)
qed

text \<open>A table with one address, and a coming failure of the second statement.\<close>

definition sample_db :: "bool list \<Rightarrow> address_db" where
  "sample_db faults =
     \<lparr>adb_addresses = [\<lparr>ar_address = ''g1a'', ar_id = 1, ar_chain = ''c''\<rparr>], adb_validators = [],
      adb_next = (\<lambda>v. if v then 1 else 2), adb_faults = faults\<rparr>"

lemma sample_db_inv: "db_inv (sample_db faults)"
  by (simp add: db_inv_def rows_inv_def db_table_def sample_db_def max_identity_def)

lemma sample_db_ready: "db_ready (Suc (Suc 0)) (sample_db [])"
  by (simp add: db_ready_def sample_db_def max_identity_def)


lemma AddressSolver_resolves_witness:
  "\<exists>a' db'. AddressSolver FindExistingAccounts InsertAddresses [''g1a'', ''g1b''] ''c'' False 3 None
      (\<lparr>ac_address = Map.empty, ac_highestIndex = 0\<rparr>, sample_db []) = (a', db')
    \<and> GetAddress a' ''g1b'' \<noteq> 0 \<and> GetAddress a' ''g1a'' \<noteq> GetAddress a' ''g1b''"
proof -
  obtain a' db' where e: "AddressSolver FindExistingAccounts InsertAddresses [''g1a'', ''g1b''] ''c'' False 3 None
      (\<lparr>ac_address = Map.empty, ac_highestIndex = 0\<rparr>, sample_db []) = (a', db')" by force
  show ?thesis
    using AddressSolver_resolves [OF sample_db_inv _ _ _ _ e] sample_db_ready e by simp
qed

end
