(* ===== verification/Db_Init.thy ===== *)
theory Db_Init
  imports Go_Strings
begin

text \<open>
  Database set-up (\<open>indexer/db_init\<close>): table metadata read from struct tags, the SQL generated
  from it, the TimescaleDB version gate, and the set-up statements. A Go struct type, as
  reflection sees it, is the list of its fields with their tags. The pool's \<open>Exec\<close> is an
  argument: it takes a statement and the state of the database.
\<close>

section \<open>Struct tags and table metadata\<close>

record struct_field =
  sf_Name :: string
  sf_Exported :: bool
  sf_Tag :: "(string \<times> string) list"

text \<open>\<open>Tag.Get\<close>: the value of a tag, the empty string when it is absent.\<close>

definition tag_get :: "struct_field \<Rightarrow> string \<Rightarrow> string" where
  "tag_get f k = (case map_of (sf_Tag f) k of None \<Rightarrow> [] | Some v \<Rightarrow> v)"

record ColumnInfo =
  ci_Name :: string
  ci_DBType :: string
  ci_Nullable :: "bool option"
  ci_Primary :: "bool option"
  ci_Unique :: "bool option"
  ci_Default :: "string option"

record TableInfo =
  ti_TableName :: string
  ti_Columns :: "ColumnInfo list"

record HypertableParams =
  hp_ChunkInterval :: string
  hp_PartitionColumn :: string
  hp_OrderBy :: string
  hp_SegmentBy :: "string list"

record SpecialType =
  sp_TypeName :: string
  sp_Columns :: "ColumnInfo list"

text \<open>The loop over the fields: a field with no \<open>db\<close> tag panics, one with no \<open>dbtype\<close> tag is
  an error. The columns already read are the accumulator.\<close>

fun table_columns :: "struct_field list \<Rightarrow> ColumnInfo list \<Rightarrow> (goerror + ColumnInfo list) outcome" where
  "table_columns [] cols = Done (Inr cols)"
| "table_columns (field # rest) cols =
     (if \<not> sf_Exported field then table_columns rest cols
      else
        (let dbTag = tag_get field ''db''; dbType = tag_get field ''dbtype'' in
         if dbTag = [] \<or> dbTag = ''-'' then Panic ''the db tag is not set''
         else if dbType = [] then Done (Inl (ErrMsg ''missing dbtype tag''))
         else table_columns rest
                (cols @ [\<lparr>ci_Name = dbTag, ci_DBType = dbType,
                          ci_Nullable = Some (tag_get field ''nullable'' \<noteq> ''false''),
                          ci_Primary = Some (tag_get field ''primary'' = ''true''),
                          ci_Unique = Some (tag_get field ''unique'' = ''true''),
                          ci_Default = None\<rparr>])))"

definition GetTableInfo :: "struct_field list \<Rightarrow> string \<Rightarrow> (goerror + TableInfo) outcome" where
  "GetTableInfo structType tableName =
     bind_outcome (table_columns structType []) (\<lambda>res.
       Done (bind_result res (\<lambda>cols. Inr \<lparr>ti_TableName = tableName, ti_Columns = cols\<rparr>)))"

fun special_columns :: "struct_field list \<Rightarrow> ColumnInfo list \<Rightarrow> goerror + ColumnInfo list" where
  "special_columns [] cols = Inr cols"
| "special_columns (field # rest) cols =
     (if \<not> sf_Exported field then special_columns rest cols
      else
        (let dbTag = tag_get field ''db''; dbType = tag_get field ''dbtype'' in
         if dbTag = [] \<or> dbTag = ''-'' then Inl (ErrMsg ''the db tag is not set'')
         else if dbType = [] then Inl (ErrMsg ''missing dbtype tag'')
         else special_columns rest
                (cols @ [\<lparr>ci_Name = dbTag, ci_DBType = dbType, ci_Nullable = None,
                          ci_Primary = None, ci_Unique = None, ci_Default = None\<rparr>])))"

definition GetSpecialTypeInfo :: "struct_field list \<Rightarrow> string \<Rightarrow> goerror + SpecialType" where
  "GetSpecialTypeInfo structType typeName =
     bind_result (special_columns structType [])
       (\<lambda>cols. Inr \<lparr>sp_TypeName = typeName, sp_Columns = cols\<rparr>)"

section \<open>Generated SQL\<close>

definition nl :: string where
  "nl = [CHR 0x0A]"

definition column_sep :: string where
  "column_sep = '','' @ nl @ ''    ''"

definition null_clause :: "ColumnInfo \<Rightarrow> string" where
  "null_clause col =
     (case ci_Nullable col of None \<Rightarrow> [] | Some b \<Rightarrow> if b then '' NULL'' else '' NOT NULL'')"

definition default_clause :: "ColumnInfo \<Rightarrow> string" where
  "default_clause col = (case ci_Default col of None \<Rightarrow> [] | Some d \<Rightarrow> '' DEFAULT '' @ d)"

definition primary_keys :: "ColumnInfo list \<Rightarrow> string list" where
  "primary_keys cols = map ci_Name (filter (\<lambda>c. ci_Primary c = Some True) cols)"

definition unique_keys :: "ColumnInfo list \<Rightarrow> string list" where
  "unique_keys cols = map ci_Name (filter (\<lambda>c. ci_Unique c = Some True) cols)"

definition key_clauses :: "ColumnInfo list \<Rightarrow> string" where
  "key_clauses cols =
     (if primary_keys cols \<noteq> [] then column_sep @ ''PRIMARY KEY ('' @ join '', '' (primary_keys cols) @ '')''
      else []) @
     (if unique_keys cols \<noteq> [] then column_sep @ ''UNIQUE ('' @ join '', '' (unique_keys cols) @ '')''
      else [])"

definition GenerateCreateTableSQL :: "TableInfo \<Rightarrow> string" where
  "GenerateCreateTableSQL info =
     ''CREATE TABLE IF NOT EXISTS '' @ ti_TableName info @ '' ('' @ nl @ ''    ''
     @ join column_sep
         (map (\<lambda>col. ci_Name col @ '' '' @ ci_DBType col @ null_clause col @ default_clause col)
            (ti_Columns info))
     @ key_clauses (ti_Columns info) @ nl @ '');''"

definition quoted :: "string \<Rightarrow> string" where
  "quoted s = [CHR 0x27] @ s @ [CHR 0x27]"

definition GenerateCreateHypertableSQL :: "TableInfo \<Rightarrow> HypertableParams \<Rightarrow> string" where
  "GenerateCreateHypertableSQL info params =
     ''CREATE TABLE IF NOT EXISTS '' @ ti_TableName info @ '' ('' @ nl @ ''    ''
     @ join column_sep
         (map (\<lambda>col. ci_Name col @ '' '' @ ci_DBType col @ null_clause col) (ti_Columns info))
     @ key_clauses (ti_Columns info)
     @ nl @ '') WITH ('' @ nl @ ''    tsdb.hypertable''
     @ column_sep @ ''tsdb.partition_column='' @ quoted (hp_PartitionColumn params)
     @ column_sep @ ''tsdb.chunk_interval='' @ quoted (hp_ChunkInterval params)
     @ column_sep @ ''tsdb.orderby='' @ quoted (hp_OrderBy params)
     @ column_sep @ ''tsdb.segmentby='' @ quoted (join '', '' (hp_SegmentBy params))
     @ nl @ '');''"

definition GenerateSpecialTypeSQL :: "SpecialType \<Rightarrow> string" where
  "GenerateSpecialTypeSQL sp =
     ''CREATE TYPE '' @ sp_TypeName sp @ '' AS ('' @ nl @ ''    ''
     @ join column_sep (map (\<lambda>col. ci_Name col @ '' '' @ ci_DBType col) (sp_Columns sp))
     @ nl @ '');''"

section \<open>The version gate\<close>

record TimescaleDBVersion =
  tv_Major :: int
  tv_Minor :: int
  tv_Patch :: int

definition IsModernVersion :: "TimescaleDBVersion \<Rightarrow> bool" where
  "IsModernVersion v =
     (if tv_Major v > 2 then True
      else if tv_Major v = 2 then
        (if tv_Minor v > 19 then True
         else if tv_Minor v = 19 \<and> tv_Patch v \<ge> 3 then True
         else False)
      else False)"

text \<open>Versions are ordered by their parts, the first part first; the gate is an interval of this order.\<close>

instantiation TimescaleDBVersion_ext :: (linorder) linorder
begin

definition less_eq_version: "v \<le> w \<longleftrightarrow> tv_Major v < tv_Major w \<or> tv_Major v = tv_Major w
  \<and> (tv_Minor v < tv_Minor w \<or> tv_Minor v = tv_Minor w
     \<and> (tv_Patch v < tv_Patch w \<or> tv_Patch v = tv_Patch w
        \<and> TimescaleDBVersion.more v \<le> TimescaleDBVersion.more w))"

definition less_version: "v < (w :: 'a TimescaleDBVersion_ext) \<longleftrightarrow> v \<le> w \<and> \<not> w \<le> v"

instance
  by intro_classes (auto simp: less_version less_eq_version intro: TimescaleDBVersion.equality)

end

lemma IsModernVersion_iff: "IsModernVersion v \<longleftrightarrow> \<lparr>tv_Major = 2, tv_Minor = 19, tv_Patch = 3\<rparr> \<le> v"
  by (cases v) (auto simp: IsModernVersion_def less_eq_version)

lemma IsModernVersion_mono: "v \<le> w \<Longrightarrow> IsModernVersion v \<Longrightarrow> IsModernVersion w"
  unfolding IsModernVersion_iff by (rule order_trans)

text \<open>The version string comes from the server; \<open>answer\<close> is the result of the query.\<close>

definition GetTimescaleDBVersion :: "goerror + string \<Rightarrow> goerror + TimescaleDBVersion" where
  "GetTimescaleDBVersion answer =
     (case answer of
        Inl e \<Rightarrow> Inl (ErrWrap ''failed to get TimescaleDB version'' e)
      | Inr versionStr \<Rightarrow>
          (let parts = split_on CHR ''.'' versionStr in
           if length parts < 2 then Inl (ErrMsg ''invalid version format'')
           else (case Atoi (parts ! 0) of
                   Inl e \<Rightarrow> Inl (ErrMsg ''invalid major version'')
                 | Inr major \<Rightarrow>
                     (case Atoi (parts ! 1) of
                        Inl e \<Rightarrow> Inl (ErrMsg ''invalid minor version'')
                      | Inr minor \<Rightarrow>
                          Inr \<lparr>tv_Major = sint major, tv_Minor = sint minor,
                               tv_Patch =
                                 (if 3 \<le> length parts
                                  then (case Atoi (parts ! 2) of Inl e \<Rightarrow> 0 | Inr patch \<Rightarrow> sint patch)
                                  else 0)\<rparr>))))"

section \<open>The initializer\<close>

type_synonym 's exec = "string \<Rightarrow> 's \<Rightarrow> goerror option \<times> 's"

definition exec_wrapped :: "'s exec \<Rightarrow> string \<Rightarrow> string \<Rightarrow> 's \<Rightarrow> goerror option \<times> 's" where
  "exec_wrapped ex msg sql s =
     (let (err, s') = ex sql s in (map_option (ErrWrap msg) err, s'))"

definition CreateTableFromStruct ::
  "'s exec \<Rightarrow> struct_field list \<Rightarrow> string \<Rightarrow> 's \<Rightarrow> (goerror option \<times> 's) outcome" where
  "CreateTableFromStruct ex structType tableName s =
     bind_outcome (GetTableInfo structType tableName) (\<lambda>res.
       Done (case res of
               Inl e \<Rightarrow> (Some (ErrWrap ''failed to get table info'' e), s)
             | Inr info \<Rightarrow>
                 exec_wrapped ex (''failed to create table '' @ tableName) (GenerateCreateTableSQL info) s))"

definition CreateSpecialTypeFromStruct ::
  "'s exec \<Rightarrow> struct_field list \<Rightarrow> string \<Rightarrow> 's \<Rightarrow> goerror option \<times> 's" where
  "CreateSpecialTypeFromStruct ex structType typeName s =
     (case GetSpecialTypeInfo structType typeName of
        Inl e \<Rightarrow> (Some (ErrWrap ''failed to get special type info'' e), s)
      | Inr sp \<Rightarrow>
          exec_wrapped ex (''failed to create special type '' @ typeName) (GenerateSpecialTypeSQL sp) s)"

definition createHypertableModern ::
  "'s exec \<Rightarrow> TableInfo \<Rightarrow> HypertableParams \<Rightarrow> 's \<Rightarrow> goerror option \<times> 's" where
  "createHypertableModern ex info params s =
     exec_wrapped ex (''failed to create hypertable '' @ ti_TableName info @ '' using modern syntax'')
       (GenerateCreateHypertableSQL info params) s"

text \<open>A version that cannot be read, or one below 2.19.3, ends the process.\<close>

definition CreateHypertableFromStruct ::
  "'s exec \<Rightarrow> goerror + string \<Rightarrow> struct_field list \<Rightarrow> string \<Rightarrow> HypertableParams \<Rightarrow> 's
   \<Rightarrow> (goerror option \<times> 's) outcome" where
  "CreateHypertableFromStruct ex version structType tableName params s =
     bind_outcome (GetTableInfo structType tableName) (\<lambda>res.
       case res of
         Inl e \<Rightarrow> Done (Some (ErrWrap ''failed to get table info'' e), s)
       | Inr info \<Rightarrow>
           (case GetTimescaleDBVersion version of
              Inl e \<Rightarrow> Exit 1
            | Inr v \<Rightarrow>
                if IsModernVersion v then Done (createHypertableModern ex info params s)
                else Exit 1))"

definition createHypertableLegacy ::
  "'s exec \<Rightarrow> TableInfo \<Rightarrow> string \<Rightarrow> string \<Rightarrow> 's \<Rightarrow> goerror option \<times> 's" where
  "createHypertableLegacy ex info partitionColumn chunkInterval s =
     (case exec_wrapped ex (''failed to create table '' @ ti_TableName info) (GenerateCreateTableSQL info) s of
        (Some e, s') \<Rightarrow> (Some e, s')
      | (None, s') \<Rightarrow>
          exec_wrapped ex (''failed to convert table '' @ ti_TableName info @ '' to hypertable'')
            (''SELECT create_hypertable('' @ quoted (ti_TableName info) @ '', '' @ quoted partitionColumn
             @ '', chunk_time_interval => INTERVAL '' @ quoted chunkInterval @ '')'') s')"

primrec add_enum_values :: "'s exec \<Rightarrow> string list \<Rightarrow> 's \<Rightarrow> goerror option \<times> 's" where
  "add_enum_values ex [] s = (None, s)"
| "add_enum_values ex (v # vs) s =
     (case exec_wrapped ex (''failed to add value '' @ v @ '' to type enum chain_name'')
             (''ALTER TYPE chain_name ADD VALUE '' @ quoted v) s of
        (Some e, s') \<Rightarrow> (Some e, s')
      | (None, s') \<Rightarrow> add_enum_values ex vs s')"

definition CreateChainTypeEnum :: "'s exec \<Rightarrow> string list \<Rightarrow> 's \<Rightarrow> goerror option \<times> 's" where
  "CreateChainTypeEnum ex enumValues s =
     (case exec_wrapped ex ''failed to create type enum chain_name''
             (''CREATE TYPE chain_name AS ENUM ()'' @ nl) s of
        (Some e, s') \<Rightarrow> (Some e, s')
      | (None, s') \<Rightarrow> add_enum_values ex enumValues s')"

text \<open>\<open>strings.Contains\<close>, and the message of an error.\<close>

fun contains :: "string \<Rightarrow> string \<Rightarrow> bool" where
  "contains [] sub = (sub = [])"
| "contains (c # cs) sub = (take (length sub) (c # cs) = sub \<or> contains cs sub)"

primrec error_text :: "goerror \<Rightarrow> string" where
  "error_text ErrNotFound = ''not found''"
| "error_text (ErrMsg m) = m"
| "error_text (ErrWrap m e) = m @ '': '' @ error_text e"

text \<open>The password is what the terminal returns.\<close>

definition CreateUser ::
  "'s exec \<Rightarrow> goerror + string \<Rightarrow> string \<Rightarrow> 's \<Rightarrow> goerror option \<times> 's" where
  "CreateUser ex password userName s =
     (case password of
        Inl e \<Rightarrow> (Some (ErrWrap ''failed to read password'' e), s)
      | Inr pw \<Rightarrow>
          (case ex (''CREATE USER '' @ userName @ '' WITH PASSWORD '' @ quoted pw) s of
             (None, s') \<Rightarrow> (None, s')
           | (Some e, s') \<Rightarrow>
               if contains (error_text e) ''already exists'' then (None, s')
               else (Some (ErrWrap (''failed to create user '' @ userName) e), s')))"

definition grant_sql :: "string \<Rightarrow> string \<Rightarrow> string list \<Rightarrow> string option" where
  "grant_sql userName privilege tableNames =
     (if privilege = ''reader''
      then Some (concat (map (\<lambda>t. ''GRANT SELECT ON TABLE '' @ t @ '' TO '' @ userName @ '';'' @ nl) tableNames))
      else if privilege = ''writer''
      then Some (concat (map (\<lambda>t. ''GRANT SELECT, INSERT, UPDATE ON TABLE '' @ t @ '' TO '' @ userName @ '';'' @ nl) tableNames))
      else if privilege = ''keymgr''
      then Some (''GRANT SELECT, INSERT, UPDATE ON TABLE api_keys TO '' @ userName @ '';'' @ nl)
      else None)"

definition AppointPrivileges ::
  "'s exec \<Rightarrow> string \<Rightarrow> string \<Rightarrow> string list \<Rightarrow> 's \<Rightarrow> goerror option \<times> 's" where
  "AppointPrivileges ex userName privilege tableNames s =
     (case grant_sql userName privilege tableNames of
        None \<Rightarrow> (Some (ErrMsg (''invalid privilege: '' @ privilege)), s)
      | Some sql \<Rightarrow> exec_wrapped ex (''failed to appoint privileges to user '' @ userName) sql s)"

section \<open>Continuous aggregates\<close>

record LateralJoinDef =
  lj_Kind :: string
  lj_Expression :: string
  lj_Alias :: string
  lj_Columns :: "string list"

record ContinuousAggregate =
  ca_TableName :: string
  ca_FromTable :: string
  ca_TableColumns :: "string list"
  ca_TableFunctions :: "string list"
  ca_GroupBy :: "string list"
  ca_Lateral :: "(string \<times> LateralJoinDef list) option"

definition select_parts :: "string list \<Rightarrow> string list \<Rightarrow> string list" where
  "select_parts cols fns =
     map (\<lambda>i. let fn = (if i < length fns then fns ! i else []) in
              if fn = [] \<or> fn = ''noop'' then cols ! i else fn @ '' AS '' @ cols ! i)
       [0..<length cols]"

text \<open>\<open>colOrdinals\<close>: a column name's position, counted from 1; the last one wins.\<close>

definition col_ordinals :: "string list \<Rightarrow> (string \<rightharpoonup> nat)" where
  "col_ordinals cols = fold (\<lambda>i m. m(cols ! i \<mapsto> i + 1)) [0..<length cols] Map.empty"

definition group_ordinals :: "string list \<Rightarrow> string list \<Rightarrow> string list" where
  "group_ordinals cols groupBy =
     concat (map (\<lambda>gb. if gb = [] then []
                       else (case col_ordinals cols gb of None \<Rightarrow> [] | Some ord \<Rightarrow> [show_nat ord]))
               groupBy)"

definition lateral_part :: "LateralJoinDef \<Rightarrow> string" where
  "lateral_part j =
     lj_Kind j @ '' '' @ lj_Expression j @ '' AS '' @ lj_Alias j @ ''('' @ join '', '' (lj_Columns j) @ '')''"

definition GenerateContinuousAggregateSQL :: "ContinuousAggregate \<Rightarrow> string" where
  "GenerateContinuousAggregateSQL agg =
     (let selectParts = select_parts (ca_TableColumns agg) (ca_TableFunctions agg);
          gbOrdinals = group_ordinals (ca_TableColumns agg) (ca_GroupBy agg);
          fromClause = (case ca_Lateral agg of
                          None \<Rightarrow> ca_FromTable agg
                        | Some (alias, js) \<Rightarrow> ca_FromTable agg @ '' '' @ alias);
          lateralParts = (case ca_Lateral agg of None \<Rightarrow> [] | Some (alias, js) \<Rightarrow> map lateral_part js) in
      ''CREATE MATERIALIZED VIEW '' @ ca_TableName agg @ nl
      @ ''WITH (timescaledb.continuous) AS'' @ nl
      @ ''SELECT'' @ nl @ ''    '' @ join column_sep selectParts @ nl
      @ ''FROM '' @ fromClause @ nl
      @ concat (map (\<lambda>lp. lp @ nl) lateralParts)
      @ (if gbOrdinals \<noteq> [] then ''GROUP BY '' @ join '', '' gbOrdinals @ nl else [])
      @ '';'')"

definition CreateContinuousAggregate :: "'s exec \<Rightarrow> ContinuousAggregate \<Rightarrow> 's \<Rightarrow> goerror option \<times> 's" where
  "CreateContinuousAggregate ex agg s = ex (GenerateContinuousAggregateSQL agg) s"

definition tab :: string where
  "tab = [CHR 0x09]"

definition AlterContinuousAggregateColumnstore ::
  "'s exec \<Rightarrow> string \<Rightarrow> string list \<Rightarrow> 's \<Rightarrow> goerror option \<times> 's" where
  "AlterContinuousAggregateColumnstore ex viewName segmentByCols s =
     ex (''ALTER MATERIALIZED VIEW '' @ viewName @ '' SET ('' @ nl
         @ tab @ ''timescaledb.enable_columnstore = TRUE,'' @ nl
         @ tab @ ''timescaledb.segmentby = '' @ quoted (join '', '' segmentByCols) @ '','' @ nl
         @ tab @ ''timescaledb.orderby = '' @ quoted ''time_bucket DESC'' @ nl @ '')'') s"

definition AddColumnstoreInterval :: "'s exec \<Rightarrow> string \<Rightarrow> string \<Rightarrow> 's \<Rightarrow> goerror option \<times> 's" where
  "AddColumnstoreInterval ex viewName chunkInterval s =
     ex (''CALL add_columnstore_policy('' @ quoted viewName @ '', INTERVAL '' @ quoted chunkInterval @ '')'') s"

definition RefreshContinuousAggregate :: "'s exec \<Rightarrow> string \<Rightarrow> 's \<Rightarrow> goerror option \<times> 's" where
  "RefreshContinuousAggregate ex viewName s =
     ex (''CALL refresh_continuous_aggregate('' @ quoted viewName @ '', NULL, NOW())'') s"

definition AddContinuousAggregatePolicy ::
  "'s exec \<Rightarrow> string \<Rightarrow> string \<Rightarrow> string \<Rightarrow> string \<Rightarrow> 's \<Rightarrow> goerror option \<times> 's" where
  "AddContinuousAggregatePolicy ex viewName startOffset endOffset scheduleInterval s =
     (let startExpr = (if startOffset = [] then ''NULL'' else ''INTERVAL '' @ quoted startOffset) in
      ex (''SELECT add_continuous_aggregate_policy('' @ quoted viewName @ '','' @ nl
          @ tab @ ''start_offset => '' @ startExpr @ '','' @ nl
          @ tab @ ''end_offset   => INTERVAL '' @ quoted endOffset @ '','' @ nl
          @ tab @ ''schedule_interval => INTERVAL '' @ quoted scheduleInterval @ nl @ '')'') s)"

definition EnableRealTimeAggregation :: "'s exec \<Rightarrow> string \<Rightarrow> 's \<Rightarrow> goerror option \<times> 's" where
  "EnableRealTimeAggregation ex viewName s =
     ex (''ALTER MATERIALIZED VIEW '' @ viewName @ '' SET (timescaledb.materialized_only = FALSE)'') s"

text \<open>The older three-step conversion: every statement is run, errors are only logged.\<close>

definition ConvertToHypertables :: "'s exec \<Rightarrow> string list \<Rightarrow> 's \<Rightarrow> 's" where
  "ConvertToHypertables ex tableNames s =
     fold (\<lambda>t s. snd (ex (''SELECT create_hypertable('' @ quoted t @ '', '' @ quoted ''timestamp''
            @ '', chunk_time_interval => INTERVAL '' @ quoted ''1 weeks'' @ '')'') s)) tableNames s"

text \<open>The second step; the tables come in the order in which the map is visited.\<close>

definition AlterCompressionSegments :: "'s exec \<Rightarrow> (string \<times> string list) list \<Rightarrow> 's \<Rightarrow> 's" where
  "AlterCompressionSegments ex tables s =
     fold (\<lambda>(tableName, columns) s. snd (ex (nl @ tab @ tab @ tab @ ''ALTER TABLE '' @ tableName @ '' SET ('' @ nl
            @ tab @ tab @ tab @ tab @ ''timescaledb.enable_columnstore,'' @ nl
            @ tab @ tab @ tab @ tab @ ''timescaledb.segmentby = '' @ join '', '' columns @ '','' @ nl
            @ tab @ tab @ tab @ tab @ ''timescaledb.orderby = '' @ quoted ''timestamp DESC'' @ nl
            @ tab @ tab @ tab @ '');'' @ nl @ tab @ tab @ tab) s)) tables s"

definition AddColumnstorePolicy :: "'s exec \<Rightarrow> string list \<Rightarrow> 's \<Rightarrow> 's" where
  "AddColumnstorePolicy ex tableNames s =
     fold (\<lambda>t s. snd (ex (nl @ tab @ tab @ tab @ ''CALL add_columnstore_policy('' @ quoted t
            @ '', INTERVAL '' @ quoted ''1 week'' @ '');'' @ nl @ tab @ tab @ tab) s)) tableNames s"

section \<open>What the metadata and the SQL say\<close>

text \<open>The column a well tagged exported field stands for.\<close>

definition tagged :: "struct_field \<Rightarrow> bool" where
  "tagged f \<longleftrightarrow> tag_get f ''db'' \<noteq> [] \<and> tag_get f ''db'' \<noteq> ''-'' \<and> tag_get f ''dbtype'' \<noteq> []"

definition field_column :: "struct_field \<Rightarrow> ColumnInfo" where
  "field_column f =
     \<lparr>ci_Name = tag_get f ''db'', ci_DBType = tag_get f ''dbtype'',
      ci_Nullable = Some (tag_get f ''nullable'' \<noteq> ''false''),
      ci_Primary = Some (tag_get f ''primary'' = ''true''),
      ci_Unique = Some (tag_get f ''unique'' = ''true''), ci_Default = None\<rparr>"

lemma table_columns_append:
  "table_columns fs cols = Done (Inr cols') \<longleftrightarrow>
     (\<forall>f\<in>set fs. sf_Exported f \<longrightarrow> tagged f) \<and> cols' = cols @ map field_column (filter sf_Exported fs)"
  by (induction fs cols rule: table_columns.induct)
     (auto simp: tagged_def field_column_def Let_def)

lemma GetTableInfo_Inr_iff:
  "GetTableInfo fs name = Done (Inr info) \<longleftrightarrow>
     (\<forall>f\<in>set fs. sf_Exported f \<longrightarrow> tagged f)
     \<and> info = \<lparr>ti_TableName = name, ti_Columns = map field_column (filter sf_Exported fs)\<rparr>"
proof -
  have "GetTableInfo fs name = Done (Inr info) \<longleftrightarrow>
      (\<exists>cols. table_columns fs [] = Done (Inr cols) \<and> info = \<lparr>ti_TableName = name, ti_Columns = cols\<rparr>)"
    by (auto simp: GetTableInfo_def)
  then show ?thesis by (auto simp: table_columns_append)
qed

lemma FormatInt_nat: "n < 2 ^ 63 \<Longrightarrow> Atoi (show_nat n) = Inr (of_nat n)"
proof -
  assume n: "n < 2 ^ 63"
  have s: "sint (of_nat n :: i64) = int n"
    using n by (simp add: sint_uint unat_of_nat signed_take_bit_int_eq_self take_bit_nat_eq_self uint_nat)
  have "FormatInt (of_nat n) = show_nat n" by (simp add: FormatInt_def s)
  then show ?thesis by (metis Atoi_def ParseInt_FormatInt)
qed

lemma dot_not_in_show_nat: "CHR ''.'' \<notin> set (show_nat n)"
  using show_nat_digits [of n] by (auto simp: list_all_iff char_class)

lemma split_dotted:
  "split_on CHR ''.'' (show_nat a @ ''.'' @ show_nat b @ ''.'' @ show_nat c)
   = [show_nat a, show_nat b, show_nat c]"
  using dot_not_in_show_nat by (simp add: split_on_append split_on_no_sep)

lemma sint_of_nat: "n < 2 ^ 63 \<Longrightarrow> sint (of_nat n :: i64) = int n"
  by (simp add: sint_uint unat_of_nat signed_take_bit_int_eq_self take_bit_nat_eq_self uint_nat)

section \<open>Properties\<close>

text \<open>Set-up of a hypertable on a server that reports version a.b.c sends exactly the
  generated statement when a.b.c is at least 2.19.3 in the order of versions (major first, then
  minor, then patch), and otherwise ends the process without sending anything.\<close>
theorem hypertable_version_gate:
  assumes "a < 2 ^ 63" and "b < 2 ^ 63" and "c < 2 ^ 63"
    and "GetTableInfo st name = Done (Inr info)"
  shows "CreateHypertableFromStruct ex (Inr (show_nat a @ ''.'' @ show_nat b @ ''.'' @ show_nat c)) st name params s
    = (if 2 < a \<or> (a = 2 \<and> (19 < b \<or> (b = 19 \<and> 3 \<le> c)))
       then Done (exec_wrapped ex (''failed to create hypertable '' @ name @ '' using modern syntax'')
              (GenerateCreateHypertableSQL info params) s)
       else Exit 1)"
proof -
  have name: "ti_TableName info = name" using assms(4) by (simp add: GetTableInfo_Inr_iff)
  have "GetTimescaleDBVersion (Inr (show_nat a @ ''.'' @ show_nat b @ ''.'' @ show_nat c))
      = Inr \<lparr>tv_Major = int a, tv_Minor = int b, tv_Patch = int c\<rparr>"
    using assms(1-3) unfolding GetTimescaleDBVersion_def sum.case split_dotted Let_def
    by (simp add: FormatInt_nat sint_of_nat)
  then show ?thesis
    using assms(4) name
    by (auto simp: CreateHypertableFromStruct_def IsModernVersion_def createHypertableModern_def)
qed

lemma hypertable_version_gate_witness:
  "GetTableInfo [\<lparr>sf_Name = ''A'', sf_Exported = True, sf_Tag = [(''db'', ''a''), (''dbtype'', ''TEXT'')]\<rparr>] ''t''
     = Done (Inr \<lparr>ti_TableName = ''t'', ti_Columns = [\<lparr>ci_Name = ''a'', ci_DBType = ''TEXT'',
         ci_Nullable = Some True, ci_Primary = Some False, ci_Unique = Some False, ci_Default = None\<rparr>]\<rparr>)
   \<and> CreateHypertableFromStruct (\<lambda>sql s. (None, s @ [sql])) (Inr (show_nat 2 @ ''.'' @ show_nat 19 @ ''.'' @ show_nat 2))
       [\<lparr>sf_Name = ''A'', sf_Exported = True, sf_Tag = [(''db'', ''a''), (''dbtype'', ''TEXT'')]\<rparr>] ''t''
       \<lparr>hp_ChunkInterval = ''1 week'', hp_PartitionColumn = ''a'', hp_OrderBy = ''a'', hp_SegmentBy = []\<rparr> []
     = Exit 1"
proof -
  let ?st = "[\<lparr>sf_Name = ''A'', sf_Exported = True, sf_Tag = [(''db'', ''a''), (''dbtype'', ''TEXT'')]\<rparr>]"
  have i: "GetTableInfo ?st ''t''
     = Done (Inr \<lparr>ti_TableName = ''t'', ti_Columns = [\<lparr>ci_Name = ''a'', ci_DBType = ''TEXT'',
         ci_Nullable = Some True, ci_Primary = Some False, ci_Unique = Some False, ci_Default = None\<rparr>]\<rparr>)"
    by (simp add: GetTableInfo_def tag_get_def)
  have "(2::nat) < 2 ^ 63" "(19::nat) < 2 ^ 63" by simp_all
  from hypertable_version_gate [OF this this(1) i] show ?thesis using i by simp
qed

end
