(* ===== verification/Schema.thy ===== *)
theory Schema
  imports Db_Init
begin

text \<open>
  The rows of the database (\<open>pkgs/schema\<close>: \<open>types.go\<close>, \<open>hypertables.go\<close>, \<open>table.go\<close>,
  \<open>copyrow.go\<close>). Each Go struct is a record with the same fields, and a table definition that
  holds its table name and its tagged fields, as reflection reads them. A slice field that the
  program can leave nil is an option; the other slices are always made.
\<close>

definition fld :: "string \<Rightarrow> (string \<times> string) list \<Rightarrow> struct_field" where
  "fld name tags = \<lparr>sf_Name = name, sf_Exported = True, sf_Tag = tags\<rparr>"

record table_def =
  td_Name :: string
  td_Fields :: "struct_field list"

definition TableColumns :: "table_def \<Rightarrow> string list" where
  "TableColumns t = map (\<lambda>f. tag_get f ''db'') (td_Fields t)"

section \<open>Composite types and rows\<close>

record Amount =
  am_Amount :: int
  am_Denom :: string

definition special_Amount :: table_def where
  "special_Amount =
     \<lparr>td_Name = ''amount'', td_Fields =
       [fld ''Amount'' [(''db'', ''amount''), (''dbtype'', ''NUMERIC'')],
        fld ''Denom'' [(''db'', ''denom''), (''dbtype'', ''TEXT'')]]\<rparr>"

record Attribute =
  atr_Key :: string
  atr_Value :: string

definition special_Attribute :: table_def where
  "special_Attribute =
     \<lparr>td_Name = ''attribute'', td_Fields =
       [fld ''Key'' [(''db'', ''key''), (''dbtype'', ''TEXT'')],
        fld ''Value'' [(''db'', ''value''), (''dbtype'', ''TEXT'')]]\<rparr>"

record Event =
  evt_AtType :: string
  evt_Type :: string
  evt_Attributes :: "Attribute list"
  evt_PkgPath :: string

definition special_Event :: table_def where
  "special_Event =
     \<lparr>td_Name = ''event'', td_Fields =
       [fld ''AtType'' [(''db'', ''at_type''), (''dbtype'', ''TEXT'')],
        fld ''Type'' [(''db'', ''type''), (''dbtype'', ''TEXT'')],
        fld ''Attributes'' [(''db'', ''attributes''), (''dbtype'', ''attribute[]'')],
        fld ''PkgPath'' [(''db'', ''pkg_path''), (''dbtype'', ''TEXT'')]]\<rparr>"

record TxHashId =
  thi_TxId :: i64
  thi_TxHash :: "byte list"
  thi_Timestamp :: time
  thi_ChainName :: string

definition table_TxHashId :: table_def where
  "table_TxHashId =
     \<lparr>td_Name = ''tx_hash_id'', td_Fields =
       [fld ''TxId'' [(''db'', ''tx_id''), (''dbtype'', ''bigint generated always as identity''),
          (''nullable'', ''false''), (''primary'', ''true'')],
        fld ''TxHash'' [(''db'', ''tx_hash''), (''dbtype'', ''bytea''), (''nullable'', ''false''),
          (''primary'', ''false''), (''unique'', ''true'')],
        fld ''Timestamp'' [(''db'', ''timestamp''), (''dbtype'', ''timestamptz''), (''nullable'',
          ''false''), (''primary'', ''true''), (''unique'', ''true'')],
        fld ''ChainName'' [(''db'', ''chain_name''), (''dbtype'', ''chain_name''), (''nullable'',
          ''false''), (''primary'', ''false''), (''unique'', ''true'')]]\<rparr>"

record Blocks =
  bl_Hash :: "byte list option"
  bl_Height :: u64
  bl_Timestamp :: time
  bl_ChainID :: string
  bl_ChainName :: string

definition table_Blocks :: table_def where
  "table_Blocks =
     \<lparr>td_Name = ''blocks'', td_Fields =
       [fld ''Hash'' [(''db'', ''hash''), (''dbtype'', ''bytea''), (''nullable'', ''false''),
          (''primary'', ''false'')],
        fld ''Height'' [(''db'', ''height''), (''dbtype'', ''bigint''), (''nullable'', ''false''),
          (''primary'', ''true'')],
        fld ''Timestamp'' [(''db'', ''timestamp''), (''dbtype'', ''timestamptz''), (''nullable'',
          ''false''), (''primary'', ''true'')],
        fld ''ChainID'' [(''db'', ''chain_id''), (''dbtype'', ''TEXT''), (''nullable'', ''false''),
          (''primary'', ''false'')],
        fld ''ChainName'' [(''db'', ''chain_name''), (''dbtype'', ''chain_name''), (''nullable'',
          ''false''), (''primary'', ''true'')]]\<rparr>"

record ValidatorBlockSigning =
  vbs_BlockHeight :: u64
  vbs_Timestamp :: time
  vbs_Proposer :: i32
  vbs_SignedVals :: "i32 list"
  vbs_ChainName :: string

definition table_ValidatorBlockSigning :: table_def where
  "table_ValidatorBlockSigning =
     \<lparr>td_Name = ''validator_block_signing'', td_Fields =
       [fld ''BlockHeight'' [(''db'', ''block_height''), (''dbtype'', ''bigint''), (''nullable'',
          ''false''), (''primary'', ''true'')],
        fld ''Timestamp'' [(''db'', ''timestamp''), (''dbtype'', ''timestamptz''), (''nullable'',
          ''false''), (''primary'', ''true'')],
        fld ''Proposer'' [(''db'', ''proposer''), (''dbtype'', ''integer''), (''nullable'',
          ''false''), (''primary'', ''false'')],
        fld ''SignedVals'' [(''db'', ''signed_vals''), (''dbtype'', ''integer[]''), (''nullable'',
          ''false''), (''primary'', ''false'')],
        fld ''ChainName'' [(''db'', ''chain_name''), (''dbtype'', ''chain_name''), (''nullable'',
          ''false''), (''primary'', ''true'')]]\<rparr>"

record AddressTx =
  at_Address :: i32
  at_TxId :: i64
  at_ChainName :: string
  at_Timestamp :: time

definition table_AddressTx :: table_def where
  "table_AddressTx =
     \<lparr>td_Name = ''address_tx'', td_Fields =
       [fld ''Address'' [(''db'', ''address''), (''dbtype'', ''INTEGER''), (''nullable'', ''false''),
          (''primary'', ''true'')],
        fld ''TxId'' [(''db'', ''tx_id''), (''dbtype'', ''bigint''), (''nullable'', ''false''),
          (''primary'', ''true'')],
        fld ''ChainName'' [(''db'', ''chain_name''), (''dbtype'', ''chain_name''), (''nullable'',
          ''false''), (''primary'', ''true'')],
        fld ''Timestamp'' [(''db'', ''timestamp''), (''dbtype'', ''timestamptz''), (''nullable'',
          ''false''), (''primary'', ''true'')]]\<rparr>"

record TransactionGeneral =
  tg_TxId :: i64
  tg_ChainName :: string
  tg_Timestamp :: time
  tg_BlockHeight :: u64
  tg_MsgTypes :: "string list"
  tg_TxEvents :: "Event list option"
  tg_TxEventsCompressed :: "byte list option"
  tg_CompressionOn :: bool
  tg_GasUsed :: u64
  tg_GasWanted :: u64
  tg_FeeAmount :: int
  tg_FeeDenom :: string
  tg_Success :: bool
  tg_ErrorLog :: "string option"

definition table_TransactionGeneral :: table_def where
  "table_TransactionGeneral =
     \<lparr>td_Name = ''transaction_general'', td_Fields =
       [fld ''TxId'' [(''db'', ''tx_id''), (''dbtype'', ''bigint''), (''nullable'', ''false''),
          (''primary'', ''true'')],
        fld ''ChainName'' [(''db'', ''chain_name''), (''dbtype'', ''chain_name''), (''nullable'',
          ''false''), (''primary'', ''true'')],
        fld ''Timestamp'' [(''db'', ''timestamp''), (''dbtype'', ''timestamptz''), (''nullable'',
          ''false''), (''primary'', ''true'')],
        fld ''BlockHeight'' [(''db'', ''block_height''), (''dbtype'', ''bigint''), (''nullable'',
          ''false''), (''primary'', ''false'')],
        fld ''MsgTypes'' [(''db'', ''msg_types''), (''dbtype'', ''TEXT[]''), (''nullable'',
          ''false''), (''primary'', ''false'')],
        fld ''TxEvents'' [(''db'', ''tx_events''), (''dbtype'', ''event[]''), (''nullable'',
          ''true''), (''primary'', ''false'')],
        fld ''TxEventsCompressed'' [(''db'', ''tx_events_compressed''), (''dbtype'', ''bytea''),
          (''nullable'', ''true''), (''primary'', ''false'')],
        fld ''CompressionOn'' [(''db'', ''compression_on''), (''dbtype'', ''boolean''),
          (''nullable'', ''false''), (''primary'', ''false'')],
        fld ''GasUsed'' [(''db'', ''gas_used''), (''dbtype'', ''bigint''), (''nullable'', ''false''),
          (''primary'', ''false'')],
        fld ''GasWanted'' [(''db'', ''gas_wanted''), (''dbtype'', ''bigint''), (''nullable'',
          ''false''), (''primary'', ''false'')],
        fld ''FeeAmount'' [(''db'', ''fee_amount''), (''dbtype'', ''numeric''), (''nullable'',
          ''false''), (''primary'', ''false'')],
        fld ''FeeDenom'' [(''db'', ''fee_denom''), (''dbtype'', ''text''), (''nullable'', ''false''),
          (''primary'', ''false'')],
        fld ''Success'' [(''db'', ''success''), (''dbtype'', ''boolean''), (''nullable'', ''false''),
          (''primary'', ''false''), (''default'', ''false'')],
        fld ''ErrorLog'' [(''db'', ''error_log''), (''dbtype'', ''TEXT''), (''nullable'', ''true''),
          (''primary'', ''false'')]]\<rparr>"

record MsgSend =
  ms_TxId :: i64
  ms_Timestamp :: time
  ms_ChainName :: string
  ms_FromAddress :: i32
  ms_ToAddress :: i32
  ms_Amount :: "Amount list"
  ms_Signers :: "i32 list"
  ms_MessageCounter :: i16

definition table_MsgSend :: table_def where
  "table_MsgSend =
     \<lparr>td_Name = ''bank_msg_send'', td_Fields =
       [fld ''TxId'' [(''db'', ''tx_id''), (''dbtype'', ''bigint''), (''nullable'', ''false''),
          (''primary'', ''true'')],
        fld ''Timestamp'' [(''db'', ''timestamp''), (''dbtype'', ''timestamptz''), (''nullable'',
          ''false''), (''primary'', ''true'')],
        fld ''ChainName'' [(''db'', ''chain_name''), (''dbtype'', ''chain_name''), (''nullable'',
          ''false''), (''primary'', ''true'')],
        fld ''FromAddress'' [(''db'', ''from_address''), (''dbtype'', ''INTEGER''), (''nullable'',
          ''false''), (''primary'', ''false'')],
        fld ''ToAddress'' [(''db'', ''to_address''), (''dbtype'', ''INTEGER''), (''nullable'',
          ''true''), (''primary'', ''false'')],
        fld ''Amount'' [(''db'', ''amount''), (''dbtype'', ''amount[]''), (''nullable'', ''false''),
          (''primary'', ''false'')],
        fld ''Signers'' [(''db'', ''signers''), (''dbtype'', ''INTEGER[]''), (''nullable'',
          ''false''), (''primary'', ''false'')],
        fld ''MessageCounter'' [(''db'', ''message_counter''), (''dbtype'', ''smallint''),
          (''nullable'', ''false''), (''primary'', ''true'')]]\<rparr>"

record MsgCall =
  mc_TxId :: i64
  mc_Timestamp :: time
  mc_ChainName :: string
  mc_Caller :: i32
  mc_PkgPath :: string
  mc_FuncName :: string
  mc_Args :: string
  mc_Send :: "Amount list"
  mc_MaxDeposit :: "Amount list"
  mc_Signers :: "i32 list"
  mc_MessageCounter :: i16

definition table_MsgCall :: table_def where
  "table_MsgCall =
     \<lparr>td_Name = ''vm_msg_call'', td_Fields =
       [fld ''TxId'' [(''db'', ''tx_id''), (''dbtype'', ''bigint''), (''nullable'', ''false''),
          (''primary'', ''true'')],
        fld ''Timestamp'' [(''db'', ''timestamp''), (''dbtype'', ''timestamptz''), (''nullable'',
          ''false''), (''primary'', ''true'')],
        fld ''ChainName'' [(''db'', ''chain_name''), (''dbtype'', ''chain_name''), (''nullable'',
          ''false''), (''primary'', ''true'')],
        fld ''Caller'' [(''db'', ''caller''), (''dbtype'', ''INTEGER''), (''nullable'', ''false''),
          (''primary'', ''false'')],
        fld ''PkgPath'' [(''db'', ''pkg_path''), (''dbtype'', ''TEXT''), (''nullable'', ''true''),
          (''primary'', ''false'')],
        fld ''FuncName'' [(''db'', ''func_name''), (''dbtype'', ''TEXT''), (''nullable'', ''true''),
          (''primary'', ''false'')],
        fld ''Args'' [(''db'', ''args''), (''dbtype'', ''TEXT''), (''nullable'', ''true''),
          (''primary'', ''false'')],
        fld ''Send'' [(''db'', ''send''), (''dbtype'', ''amount[]''), (''nullable'', ''true''),
          (''primary'', ''false'')],
        fld ''MaxDeposit'' [(''db'', ''max_deposit''), (''dbtype'', ''amount[]''), (''nullable'',
          ''true''), (''primary'', ''false'')],
        fld ''Signers'' [(''db'', ''signers''), (''dbtype'', ''INTEGER[]''), (''nullable'',
          ''false''), (''primary'', ''false'')],
        fld ''MessageCounter'' [(''db'', ''message_counter''), (''dbtype'', ''smallint''),
          (''nullable'', ''false''), (''primary'', ''true'')]]\<rparr>"

record MsgAddPackage =
  map_TxId :: i64
  map_Timestamp :: time
  map_ChainName :: string
  map_Creator :: i32
  map_PkgPath :: string
  map_PkgName :: string
  map_PkgFileNames :: "string list"
  map_Send :: "Amount list"
  map_MaxDeposit :: "Amount list"
  map_Signers :: "i32 list"
  map_MessageCounter :: i16

definition table_MsgAddPackage :: table_def where
  "table_MsgAddPackage =
     \<lparr>td_Name = ''vm_msg_add_package'', td_Fields =
       [fld ''TxId'' [(''db'', ''tx_id''), (''dbtype'', ''bigint''), (''nullable'', ''false''),
          (''primary'', ''true'')],
        fld ''Timestamp'' [(''db'', ''timestamp''), (''dbtype'', ''timestamptz''), (''nullable'',
          ''false''), (''primary'', ''true'')],
        fld ''ChainName'' [(''db'', ''chain_name''), (''dbtype'', ''chain_name''), (''nullable'',
          ''false''), (''primary'', ''true'')],
        fld ''Creator'' [(''db'', ''creator''), (''dbtype'', ''INTEGER''), (''nullable'', ''false''),
          (''primary'', ''false'')],
        fld ''PkgPath'' [(''db'', ''pkg_path''), (''dbtype'', ''TEXT''), (''nullable'', ''true''),
          (''primary'', ''false'')],
        fld ''PkgName'' [(''db'', ''pkg_name''), (''dbtype'', ''TEXT''), (''nullable'', ''true''),
          (''primary'', ''false'')],
        fld ''PkgFileNames'' [(''db'', ''pkg_file_names''), (''dbtype'', ''TEXT[]''), (''nullable'',
          ''true''), (''primary'', ''false'')],
        fld ''Send'' [(''db'', ''send''), (''dbtype'', ''amount[]''), (''nullable'', ''true''),
          (''primary'', ''false'')],
        fld ''MaxDeposit'' [(''db'', ''max_deposit''), (''dbtype'', ''amount[]''), (''nullable'',
          ''true''), (''primary'', ''false'')],
        fld ''Signers'' [(''db'', ''signers''), (''dbtype'', ''INTEGER[]''), (''nullable'',
          ''false''), (''primary'', ''false'')],
        fld ''MessageCounter'' [(''db'', ''message_counter''), (''dbtype'', ''smallint''),
          (''nullable'', ''false''), (''primary'', ''true'')]]\<rparr>"

record MsgRun =
  mr_TxId :: i64
  mr_Timestamp :: time
  mr_ChainName :: string
  mr_Caller :: i32
  mr_PkgPath :: string
  mr_PkgName :: string
  mr_PkgFileNames :: "string list"
  mr_Send :: "Amount list"
  mr_MaxDeposit :: "Amount list"
  mr_Signers :: "i32 list"
  mr_MessageCounter :: i16

definition table_MsgRun :: table_def where
  "table_MsgRun =
     \<lparr>td_Name = ''vm_msg_run'', td_Fields =
       [fld ''TxId'' [(''db'', ''tx_id''), (''dbtype'', ''bigint''), (''nullable'', ''false''),
          (''primary'', ''true'')],
        fld ''Timestamp'' [(''db'', ''timestamp''), (''dbtype'', ''timestamptz''), (''nullable'',
          ''false''), (''primary'', ''true'')],
        fld ''ChainName'' [(''db'', ''chain_name''), (''dbtype'', ''chain_name''), (''nullable'',
          ''false''), (''primary'', ''true'')],
        fld ''Caller'' [(''db'', ''caller''), (''dbtype'', ''INTEGER''), (''nullable'', ''false''),
          (''primary'', ''false'')],
        fld ''PkgPath'' [(''db'', ''pkg_path''), (''dbtype'', ''TEXT''), (''nullable'', ''true''),
          (''primary'', ''false'')],
        fld ''PkgName'' [(''db'', ''pkg_name''), (''dbtype'', ''TEXT''), (''nullable'', ''true''),
          (''primary'', ''false'')],
        fld ''PkgFileNames'' [(''db'', ''pkg_file_names''), (''dbtype'', ''TEXT[]''), (''nullable'',
          ''true''), (''primary'', ''false'')],
        fld ''Send'' [(''db'', ''send''), (''dbtype'', ''amount[]''), (''nullable'', ''true''),
          (''primary'', ''false'')],
        fld ''MaxDeposit'' [(''db'', ''max_deposit''), (''dbtype'', ''amount[]''), (''nullable'',
          ''true''), (''primary'', ''false'')],
        fld ''Signers'' [(''db'', ''signers''), (''dbtype'', ''INTEGER[]''), (''nullable'',
          ''false''), (''primary'', ''false'')],
        fld ''MessageCounter'' [(''db'', ''message_counter''), (''dbtype'', ''smallint''),
          (''nullable'', ''false''), (''primary'', ''true'')]]\<rparr>"

record MsgMultiSend =
  mms_TxId :: i64
  mms_Timestamp :: time
  mms_ChainName :: string
  mms_Direction :: bool
  mms_AddressId :: i32
  mms_Coins :: "Amount list"
  mms_Signers :: "i32 list"
  mms_MessageCounter :: i16

definition table_MsgMultiSend :: table_def where
  "table_MsgMultiSend =
     \<lparr>td_Name = ''bank_msg_multi_send'', td_Fields =
       [fld ''TxId'' [(''db'', ''tx_id''), (''dbtype'', ''bigint''), (''nullable'', ''false''),
          (''primary'', ''true'')],
        fld ''Timestamp'' [(''db'', ''timestamp''), (''dbtype'', ''timestamptz''), (''nullable'',
          ''false''), (''primary'', ''true'')],
        fld ''ChainName'' [(''db'', ''chain_name''), (''dbtype'', ''chain_name''), (''nullable'',
          ''false''), (''primary'', ''true'')],
        fld ''Direction'' [(''db'', ''direction''), (''dbtype'', ''boolean''), (''nullable'',
          ''false''), (''primary'', ''true'')],
        fld ''AddressId'' [(''db'', ''address_id''), (''dbtype'', ''integer''), (''nullable'',
          ''false''), (''primary'', ''true'')],
        fld ''Coins'' [(''db'', ''coins''), (''dbtype'', ''amount[]''), (''nullable'', ''false''),
          (''primary'', ''false'')],
        fld ''Signers'' [(''db'', ''signers''), (''dbtype'', ''INTEGER[]''), (''nullable'',
          ''false''), (''primary'', ''false'')],
        fld ''MessageCounter'' [(''db'', ''message_counter''), (''dbtype'', ''smallint''),
          (''nullable'', ''false''), (''primary'', ''true'')]]\<rparr>"

record MsgAuthCrSession =
  cs_TxId :: i64
  cs_Timestamp :: time
  cs_ChainName :: string
  cs_Creator :: i32
  cs_SessionKey :: i32
  cs_ExpiresAt :: time
  cs_SpendLimit :: "Amount list"
  cs_AllowPaths :: "string list option"
  cs_SpendPeriod :: i64
  cs_Signers :: "i32 list"
  cs_MessageCounter :: i16

definition table_MsgAuthCrSession :: table_def where
  "table_MsgAuthCrSession =
     \<lparr>td_Name = ''auth_msg_create_session'', td_Fields =
       [fld ''TxId'' [(''db'', ''tx_id''), (''dbtype'', ''bigint''), (''nullable'', ''false''),
          (''primary'', ''true'')],
        fld ''Timestamp'' [(''db'', ''timestamp''), (''dbtype'', ''timestamptz''), (''nullable'',
          ''false''), (''primary'', ''true'')],
        fld ''ChainName'' [(''db'', ''chain_name''), (''dbtype'', ''chain_name''), (''nullable'',
          ''false''), (''primary'', ''true'')],
        fld ''Creator'' [(''db'', ''creator''), (''dbtype'', ''integer''), (''nullable'', ''false''),
          (''primary'', ''false'')],
        fld ''SessionKey'' [(''db'', ''session_key''), (''dbtype'', ''integer''), (''nullable'',
          ''false''), (''primary'', ''false'')],
        fld ''ExpiresAt'' [(''db'', ''expires_at''), (''dbtype'', ''timestamptz''), (''nullable'',
          ''false''), (''primary'', ''false'')],
        fld ''SpendLimit'' [(''db'', ''spend_limit''), (''dbtype'', ''amount[]''), (''nullable'',
          ''false''), (''primary'', ''false'')],
        fld ''AllowPaths'' [(''db'', ''allow_paths''), (''dbtype'', ''text[]''), (''nullable'',
          ''false''), (''primary'', ''false'')],
        fld ''SpendPeriod'' [(''db'', ''spend_period''), (''dbtype'', ''bigint''), (''nullable'',
          ''false''), (''primary'', ''false'')],
        fld ''Signers'' [(''db'', ''signers''), (''dbtype'', ''INTEGER[]''), (''nullable'',
          ''false''), (''primary'', ''false'')],
        fld ''MessageCounter'' [(''db'', ''message_counter''), (''dbtype'', ''smallint''),
          (''nullable'', ''false''), (''primary'', ''true'')]]\<rparr>"

record MsgAuthRvSession =
  rs_TxId :: i64
  rs_Timestamp :: time
  rs_ChainName :: string
  rs_Creator :: i32
  rs_SessionKey :: i32
  rs_Signers :: "i32 list"
  rs_MessageCounter :: i16

definition table_MsgAuthRvSession :: table_def where
  "table_MsgAuthRvSession =
     \<lparr>td_Name = ''auth_msg_revoke_session'', td_Fields =
       [fld ''TxId'' [(''db'', ''tx_id''), (''dbtype'', ''bigint''), (''nullable'', ''false''),
          (''primary'', ''true'')],
        fld ''Timestamp'' [(''db'', ''timestamp''), (''dbtype'', ''timestamptz''), (''nullable'',
          ''false''), (''primary'', ''true'')],
        fld ''ChainName'' [(''db'', ''chain_name''), (''dbtype'', ''chain_name''), (''nullable'',
          ''false''), (''primary'', ''true'')],
        fld ''Creator'' [(''db'', ''creator''), (''dbtype'', ''integer''), (''nullable'', ''false''),
          (''primary'', ''false'')],
        fld ''SessionKey'' [(''db'', ''session_key''), (''dbtype'', ''integer''), (''nullable'',
          ''false''), (''primary'', ''false'')],
        fld ''Signers'' [(''db'', ''signers''), (''dbtype'', ''INTEGER[]''), (''nullable'',
          ''false''), (''primary'', ''false'')],
        fld ''MessageCounter'' [(''db'', ''message_counter''), (''dbtype'', ''smallint''),
          (''nullable'', ''false''), (''primary'', ''true'')]]\<rparr>"

record MsgAuthRvAllSessions =
  ras_TxId :: i64
  ras_Timestamp :: time
  ras_ChainName :: string
  ras_Creator :: i32
  ras_Signers :: "i32 list"
  ras_MessageCounter :: i16

definition table_MsgAuthRvAllSessions :: table_def where
  "table_MsgAuthRvAllSessions =
     \<lparr>td_Name = ''auth_msg_revoke_all_sessions'', td_Fields =
       [fld ''TxId'' [(''db'', ''tx_id''), (''dbtype'', ''bigint''), (''nullable'', ''false''),
          (''primary'', ''true'')],
        fld ''Timestamp'' [(''db'', ''timestamp''), (''dbtype'', ''timestamptz''), (''nullable'',
          ''false''), (''primary'', ''true'')],
        fld ''ChainName'' [(''db'', ''chain_name''), (''dbtype'', ''chain_name''), (''nullable'',
          ''false''), (''primary'', ''true'')],
        fld ''Creator'' [(''db'', ''creator''), (''dbtype'', ''integer''), (''nullable'', ''false''),
          (''primary'', ''false'')],
        fld ''Signers'' [(''db'', ''signers''), (''dbtype'', ''INTEGER[]''), (''nullable'',
          ''false''), (''primary'', ''false'')],
        fld ''MessageCounter'' [(''db'', ''message_counter''), (''dbtype'', ''smallint''),
          (''nullable'', ''false''), (''primary'', ''true'')]]\<rparr>"

definition table_GnoAddress :: table_def where
  "table_GnoAddress =
     \<lparr>td_Name = ''gno_addresses'', td_Fields =
       [fld ''Address'' [(''db'', ''address''), (''dbtype'', ''TEXT''), (''nullable'', ''false''),
          (''primary'', ''false''), (''unique'', ''true'')],
        fld ''ID'' [(''db'', ''id''), (''dbtype'', ''INTEGER GENERATED ALWAYS AS IDENTITY''),
          (''nullable'', ''false''), (''primary'', ''true'')],
        fld ''ChainName'' [(''db'', ''chain_name''), (''dbtype'', ''chain_name''), (''nullable'',
          ''false''), (''primary'', ''false''), (''unique'', ''true'')]]\<rparr>"

definition table_GnoValidatorAddress :: table_def where
  "table_GnoValidatorAddress =
     \<lparr>td_Name = ''gno_validators'', td_Fields =
       [fld ''Address'' [(''db'', ''address''), (''dbtype'', ''TEXT''), (''nullable'', ''false''),
          (''primary'', ''false''), (''unique'', ''true'')],
        fld ''ID'' [(''db'', ''id''), (''dbtype'', ''INTEGER GENERATED ALWAYS AS IDENTITY''),
          (''nullable'', ''false''), (''primary'', ''true'')],
        fld ''ChainName'' [(''db'', ''chain_name''), (''dbtype'', ''chain_name''), (''nullable'',
          ''false''), (''primary'', ''false''), (''unique'', ''true'')]]\<rparr>"

definition table_ApiKey :: table_def where
  "table_ApiKey =
     \<lparr>td_Name = ''api_keys'', td_Fields =
       [fld ''Id'' [(''db'', ''id''), (''dbtype'', ''UUID DEFAULT gen_random_uuid()''), (''primary'',
          ''true''), (''nullable'', ''false'')],
        fld ''Prefix'' [(''db'', ''prefix''), (''dbtype'', ''VARCHAR(10)''), (''nullable'',
          ''false''), (''primary'', ''false''), (''unique'', ''false'')],
        fld ''Hash'' [(''db'', ''hash''), (''dbtype'', ''BYTEA''), (''nullable'', ''false''),
          (''primary'', ''false''), (''unique'', ''false'')],
        fld ''Name'' [(''db'', ''name''), (''dbtype'', ''TEXT''), (''nullable'', ''false''),
          (''primary'', ''false''), (''unique'', ''true'')],
        fld ''RpmLimit'' [(''db'', ''rpm_limit''), (''dbtype'', ''INT''), (''nullable'', ''false''),
          (''primary'', ''false'')],
        fld ''IsActive'' [(''db'', ''is_active''), (''dbtype'', ''BOOLEAN DEFAULT TRUE''),
          (''nullable'', ''false''), (''primary'', ''false'')]]\<rparr>"

definition table_SchemaMigration :: table_def where
  "table_SchemaMigration =
     \<lparr>td_Name = ''schema_migrations'', td_Fields =
       [fld ''Version'' [(''db'', ''version''), (''dbtype'', ''INTEGER''), (''nullable'', ''false''),
          (''primary'', ''true'')],
        fld ''Description'' [(''db'', ''description''), (''dbtype'', ''TEXT''), (''nullable'',
          ''false''), (''primary'', ''false'')],
        fld ''AppliedAt'' [(''db'', ''applied_at''), (''dbtype'', ''TIMESTAMPTZ DEFAULT NOW()''),
          (''nullable'', ''false''), (''primary'', ''false'')],
        fld ''Success'' [(''db'', ''success''), (''dbtype'', ''BOOLEAN''), (''nullable'', ''false''),
          (''primary'', ''true'')]]\<rparr>"

section \<open>Values handed to COPY\<close>

datatype cell =
  CNull | CBytes "byte list" | CUint64 u64 | CInt64 i64 | CInt32 i32 | CInt16 i16 | CTime time
| CText string | CBool bool | CNumeric int | CInt32s "i32 list" | CTexts "string list"
| CAmounts "Amount list" | CEvents "Event list"

definition nullable :: "('a \<Rightarrow> cell) \<Rightarrow> 'a option \<Rightarrow> cell" where
  "nullable c v = (case v of None \<Rightarrow> CNull | Some x \<Rightarrow> c x)"

definition CopyRow_Blocks :: "Blocks \<Rightarrow> cell list" where
  "CopyRow_Blocks r =
     [nullable CBytes (bl_Hash r), CUint64 (bl_Height r), CTime (bl_Timestamp r),
          CText (bl_ChainID r), CText (bl_ChainName r)]"

definition CopyRow_ValidatorBlockSigning :: "ValidatorBlockSigning \<Rightarrow> cell list" where
  "CopyRow_ValidatorBlockSigning r =
     [CUint64 (vbs_BlockHeight r), CTime (vbs_Timestamp r), CInt32 (vbs_Proposer r),
          CInt32s (vbs_SignedVals r), CText (vbs_ChainName r)]"

definition CopyRow_TransactionGeneral :: "TransactionGeneral \<Rightarrow> cell list" where
  "CopyRow_TransactionGeneral r =
     [CInt64 (tg_TxId r), CText (tg_ChainName r), CTime (tg_Timestamp r), CUint64 (tg_BlockHeight r),
          CTexts (tg_MsgTypes r), nullable CEvents (tg_TxEvents r),
          nullable CBytes (tg_TxEventsCompressed r), CBool (tg_CompressionOn r),
          CUint64 (tg_GasUsed r), CUint64 (tg_GasWanted r), CNumeric (tg_FeeAmount r),
          CText (tg_FeeDenom r), CBool (tg_Success r), nullable CText (tg_ErrorLog r)]"

definition CopyRow_AddressTx :: "AddressTx \<Rightarrow> cell list" where
  "CopyRow_AddressTx r =
     [CInt32 (at_Address r), CInt64 (at_TxId r), CText (at_ChainName r), CTime (at_Timestamp r)]"

definition CopyRow_MsgSend :: "MsgSend \<Rightarrow> cell list" where
  "CopyRow_MsgSend r =
     [CInt64 (ms_TxId r), CTime (ms_Timestamp r), CText (ms_ChainName r), CInt32 (ms_FromAddress r),
          CInt32 (ms_ToAddress r), CAmounts (ms_Amount r), CInt32s (ms_Signers r),
          CInt16 (ms_MessageCounter r)]"

definition CopyRow_MsgMultiSend :: "MsgMultiSend \<Rightarrow> cell list" where
  "CopyRow_MsgMultiSend r =
     [CInt64 (mms_TxId r), CTime (mms_Timestamp r), CText (mms_ChainName r), CBool (mms_Direction r),
          CInt32 (mms_AddressId r), CAmounts (mms_Coins r), CInt32s (mms_Signers r),
          CInt16 (mms_MessageCounter r)]"

definition CopyRow_MsgCall :: "MsgCall \<Rightarrow> cell list" where
  "CopyRow_MsgCall r =
     [CInt64 (mc_TxId r), CTime (mc_Timestamp r), CText (mc_ChainName r), CInt32 (mc_Caller r),
          CText (mc_PkgPath r), CText (mc_FuncName r), CText (mc_Args r), CAmounts (mc_Send r),
          CAmounts (mc_MaxDeposit r), CInt32s (mc_Signers r), CInt16 (mc_MessageCounter r)]"

definition CopyRow_MsgAddPackage :: "MsgAddPackage \<Rightarrow> cell list" where
  "CopyRow_MsgAddPackage r =
     [CInt64 (map_TxId r), CTime (map_Timestamp r), CText (map_ChainName r), CInt32 (map_Creator r),
          CText (map_PkgPath r), CText (map_PkgName r), CTexts (map_PkgFileNames r),
          CAmounts (map_Send r), CAmounts (map_MaxDeposit r), CInt32s (map_Signers r),
          CInt16 (map_MessageCounter r)]"

definition CopyRow_MsgRun :: "MsgRun \<Rightarrow> cell list" where
  "CopyRow_MsgRun r =
     [CInt64 (mr_TxId r), CTime (mr_Timestamp r), CText (mr_ChainName r), CInt32 (mr_Caller r),
          CText (mr_PkgPath r), CText (mr_PkgName r), CTexts (mr_PkgFileNames r),
          CAmounts (mr_Send r), CAmounts (mr_MaxDeposit r), CInt32s (mr_Signers r),
          CInt16 (mr_MessageCounter r)]"

definition CopyRow_MsgAuthCrSession :: "MsgAuthCrSession \<Rightarrow> cell list" where
  "CopyRow_MsgAuthCrSession r =
     [CInt64 (cs_TxId r), CTime (cs_Timestamp r), CText (cs_ChainName r), CInt32 (cs_Creator r),
          CInt32 (cs_SessionKey r), CTime (cs_ExpiresAt r), CAmounts (cs_SpendLimit r),
          nullable CTexts (cs_AllowPaths r), CInt64 (cs_SpendPeriod r), CInt32s (cs_Signers r),
          CInt16 (cs_MessageCounter r)]"

definition CopyRow_MsgAuthRvSession :: "MsgAuthRvSession \<Rightarrow> cell list" where
  "CopyRow_MsgAuthRvSession r =
     [CInt64 (rs_TxId r), CTime (rs_Timestamp r), CText (rs_ChainName r), CInt32 (rs_Creator r),
          CInt32 (rs_SessionKey r), CInt32s (rs_Signers r), CInt16 (rs_MessageCounter r)]"

definition CopyRow_MsgAuthRvAllSessions :: "MsgAuthRvAllSessions \<Rightarrow> cell list" where
  "CopyRow_MsgAuthRvAllSessions r =
     [CInt64 (ras_TxId r), CTime (ras_Timestamp r), CText (ras_ChainName r), CInt32 (ras_Creator r),
          CInt32s (ras_Signers r), CInt16 (ras_MessageCounter r)]"

section \<open>Messages and insertable rows\<close>

datatype message =
  Msg_Send MsgSend | Msg_MultiSend MsgMultiSend | Msg_Call MsgCall | Msg_AddPackage MsgAddPackage
| Msg_Run MsgRun | Msg_CrSession MsgAuthCrSession | Msg_RvSession MsgAuthRvSession
| Msg_RvAllSessions MsgAuthRvAllSessions

datatype insertable =
  Row_Block Blocks | Row_Signing ValidatorBlockSigning | Row_Tx TransactionGeneral
| Row_Address AddressTx | Row_Message message

fun message_table :: "message \<Rightarrow> table_def" where
  "message_table (Msg_Send m) = table_MsgSend"
| "message_table (Msg_MultiSend m) = table_MsgMultiSend"
| "message_table (Msg_Call m) = table_MsgCall"
| "message_table (Msg_AddPackage m) = table_MsgAddPackage"
| "message_table (Msg_Run m) = table_MsgRun"
| "message_table (Msg_CrSession m) = table_MsgAuthCrSession"
| "message_table (Msg_RvSession m) = table_MsgAuthRvSession"
| "message_table (Msg_RvAllSessions m) = table_MsgAuthRvAllSessions"

fun row_table :: "insertable \<Rightarrow> table_def" where
  "row_table (Row_Block b) = table_Blocks"
| "row_table (Row_Signing v) = table_ValidatorBlockSigning"
| "row_table (Row_Tx t) = table_TransactionGeneral"
| "row_table (Row_Address a) = table_AddressTx"
| "row_table (Row_Message m) = message_table m"

definition TableName :: "insertable \<Rightarrow> string" where
  "TableName r = td_Name (row_table r)"

fun message_cells :: "message \<Rightarrow> cell list" where
  "message_cells (Msg_Send m) = CopyRow_MsgSend m"
| "message_cells (Msg_MultiSend m) = CopyRow_MsgMultiSend m"
| "message_cells (Msg_Call m) = CopyRow_MsgCall m"
| "message_cells (Msg_AddPackage m) = CopyRow_MsgAddPackage m"
| "message_cells (Msg_Run m) = CopyRow_MsgRun m"
| "message_cells (Msg_CrSession m) = CopyRow_MsgAuthCrSession m"
| "message_cells (Msg_RvSession m) = CopyRow_MsgAuthRvSession m"
| "message_cells (Msg_RvAllSessions m) = CopyRow_MsgAuthRvAllSessions m"

fun CopyRow :: "insertable \<Rightarrow> cell list" where
  "CopyRow (Row_Block b) = CopyRow_Blocks b"
| "CopyRow (Row_Signing v) = CopyRow_ValidatorBlockSigning v"
| "CopyRow (Row_Tx t) = CopyRow_TransactionGeneral t"
| "CopyRow (Row_Address a) = CopyRow_AddressTx a"
| "CopyRow (Row_Message m) = message_cells m"

section \<open>The addresses of a message\<close>

text \<open>A set of identities, kept as a list without repetitions.\<close>

record TxAddresses =
  ta_TxId :: i64
  ta_Addresses :: "i32 list"

definition NewTxAddresses :: "i64 \<Rightarrow> TxAddresses" where
  "NewTxAddresses txId = \<lparr>ta_TxId = txId, ta_Addresses = []\<rparr>"

definition AddAddress :: "i32 \<Rightarrow> TxAddresses \<Rightarrow> TxAddresses" where
  "AddAddress addressID ta = ta\<lparr>ta_Addresses := set_insert addressID (ta_Addresses ta)\<rparr>"

definition GetAddressList :: "(i32 list \<Rightarrow> i32 list) \<Rightarrow> TxAddresses \<Rightarrow> i32 list" where
  "GetAddressList it ta = it (ta_Addresses ta)"

definition GetAllAddresses_MsgSend :: "MsgSend \<Rightarrow> TxAddresses" where
  "GetAllAddresses_MsgSend m =
     (let ta = AddAddress (ms_FromAddress m) (NewTxAddresses (ms_TxId m));
          ta = (if ms_ToAddress m \<noteq> 0 then AddAddress (ms_ToAddress m) ta else ta)
      in fold AddAddress (ms_Signers m) ta)"

definition GetAllAddresses_MsgMultiSend :: "MsgMultiSend \<Rightarrow> TxAddresses" where
  "GetAllAddresses_MsgMultiSend m =
     AddAddress (mms_AddressId m) (NewTxAddresses (mms_TxId m))"

definition GetAllAddresses_MsgCall :: "MsgCall \<Rightarrow> TxAddresses" where
  "GetAllAddresses_MsgCall m =
     fold AddAddress (mc_Signers m) (AddAddress (mc_Caller m) (NewTxAddresses (mc_TxId m)))"

definition GetAllAddresses_MsgAddPackage :: "MsgAddPackage \<Rightarrow> TxAddresses" where
  "GetAllAddresses_MsgAddPackage m =
     fold AddAddress (map_Signers m) (AddAddress (map_Creator m) (NewTxAddresses (map_TxId m)))"

definition GetAllAddresses_MsgRun :: "MsgRun \<Rightarrow> TxAddresses" where
  "GetAllAddresses_MsgRun m =
     fold AddAddress (mr_Signers m) (AddAddress (mr_Caller m) (NewTxAddresses (mr_TxId m)))"

definition GetAllAddresses_MsgAuthCrSession :: "MsgAuthCrSession \<Rightarrow> TxAddresses" where
  "GetAllAddresses_MsgAuthCrSession m =
     fold AddAddress (cs_Signers m)
       (AddAddress (cs_SessionKey m) (AddAddress (cs_Creator m) (NewTxAddresses (cs_TxId m))))"

definition GetAllAddresses_MsgAuthRvSession :: "MsgAuthRvSession \<Rightarrow> TxAddresses" where
  "GetAllAddresses_MsgAuthRvSession m =
     fold AddAddress (rs_Signers m)
       (AddAddress (rs_SessionKey m) (AddAddress (rs_Creator m) (NewTxAddresses (rs_TxId m))))"

definition GetAllAddresses_MsgAuthRvAllSessions :: "MsgAuthRvAllSessions \<Rightarrow> TxAddresses" where
  "GetAllAddresses_MsgAuthRvAllSessions m =
     fold AddAddress (ras_Signers m) (AddAddress (ras_Creator m) (NewTxAddresses (ras_TxId m)))"

lemmas GetAllAddresses_defs =
  GetAllAddresses_MsgSend_def
  GetAllAddresses_MsgMultiSend_def
  GetAllAddresses_MsgCall_def
  GetAllAddresses_MsgAddPackage_def
  GetAllAddresses_MsgRun_def
  GetAllAddresses_MsgAuthCrSession_def
  GetAllAddresses_MsgAuthRvSession_def
  GetAllAddresses_MsgAuthRvAllSessions_def

fun GetAllAddresses_msg :: "message \<Rightarrow> TxAddresses" where
  "GetAllAddresses_msg (Msg_Send m) = GetAllAddresses_MsgSend m"
| "GetAllAddresses_msg (Msg_MultiSend m) = GetAllAddresses_MsgMultiSend m"
| "GetAllAddresses_msg (Msg_Call m) = GetAllAddresses_MsgCall m"
| "GetAllAddresses_msg (Msg_AddPackage m) = GetAllAddresses_MsgAddPackage m"
| "GetAllAddresses_msg (Msg_Run m) = GetAllAddresses_MsgRun m"
| "GetAllAddresses_msg (Msg_CrSession m) = GetAllAddresses_MsgAuthCrSession m"
| "GetAllAddresses_msg (Msg_RvSession m) = GetAllAddresses_MsgAuthRvSession m"
| "GetAllAddresses_msg (Msg_RvAllSessions m) = GetAllAddresses_MsgAuthRvAllSessions m"

text \<open>The identities a message refers to, as a set.\<close>

fun message_ids :: "message \<Rightarrow> i32 set" where
  "message_ids (Msg_Send m) =
     insert (ms_FromAddress m) (set (ms_Signers m) \<union> (if ms_ToAddress m = 0 then {} else {ms_ToAddress m}))"
| "message_ids (Msg_MultiSend m) = {mms_AddressId m}"
| "message_ids (Msg_Call m) = insert (mc_Caller m) (set (mc_Signers m))"
| "message_ids (Msg_AddPackage m) = insert (map_Creator m) (set (map_Signers m))"
| "message_ids (Msg_Run m) = insert (mr_Caller m) (set (mr_Signers m))"
| "message_ids (Msg_CrSession m) = {cs_Creator m, cs_SessionKey m} \<union> set (cs_Signers m)"
| "message_ids (Msg_RvSession m) = {rs_Creator m, rs_SessionKey m} \<union> set (rs_Signers m)"
| "message_ids (Msg_RvAllSessions m) = insert (ras_Creator m) (set (ras_Signers m))"

fun message_txid :: "message \<Rightarrow> i64" where
  "message_txid (Msg_Send m) = ms_TxId m"
| "message_txid (Msg_MultiSend m) = mms_TxId m"
| "message_txid (Msg_Call m) = mc_TxId m"
| "message_txid (Msg_AddPackage m) = map_TxId m"
| "message_txid (Msg_Run m) = mr_TxId m"
| "message_txid (Msg_CrSession m) = cs_TxId m"
| "message_txid (Msg_RvSession m) = rs_TxId m"
| "message_txid (Msg_RvAllSessions m) = ras_TxId m"

lemma AddAddress_simps [simp]:
  "set (ta_Addresses (AddAddress a ta)) = insert a (set (ta_Addresses ta))"
  "distinct (ta_Addresses (AddAddress a ta)) = distinct (ta_Addresses ta)"
  "ta_TxId (AddAddress a ta) = ta_TxId ta"
  by (simp_all add: AddAddress_def)

lemma fold_AddAddress [simp]:
  "set (ta_Addresses (fold AddAddress as ta)) = set as \<union> set (ta_Addresses ta)"
  "distinct (ta_Addresses (fold AddAddress as ta)) = distinct (ta_Addresses ta)"
  "ta_TxId (fold AddAddress as ta) = ta_TxId ta"
  by (induction as arbitrary: ta) auto

lemma NewTxAddresses_simps [simp]:
  "ta_Addresses (NewTxAddresses i) = []" "ta_TxId (NewTxAddresses i) = i"
  by (simp_all add: NewTxAddresses_def)

lemma GetAllAddresses_msg_simps [simp]:
  "set (ta_Addresses (GetAllAddresses_msg m)) = message_ids m"
  "distinct (ta_Addresses (GetAllAddresses_msg m))"
  "ta_TxId (GetAllAddresses_msg m) = message_txid m"
  by (cases m; auto simp: GetAllAddresses_defs Let_def)+

section \<open>Rows fit their tables\<close>

text \<open>The Postgres types a value can be copied into, as the tags write them.\<close>

fun cell_fits :: "cell \<Rightarrow> string \<Rightarrow> bool" where
  "cell_fits CNull t = True"
| "cell_fits (CBytes b) t = (t = ''bytea'')"
| "cell_fits (CUint64 n) t = (t = ''bigint'')"
| "cell_fits (CInt64 n) t = (t = ''bigint'')"
| "cell_fits (CInt32 n) t = (t = ''integer'' \<or> t = ''INTEGER'')"
| "cell_fits (CInt16 n) t = (t = ''smallint'')"
| "cell_fits (CTime n) t = (t = ''timestamptz'')"
| "cell_fits (CText s) t = (t = ''TEXT'' \<or> t = ''text'' \<or> t = ''chain_name'')"
| "cell_fits (CBool b) t = (t = ''boolean'')"
| "cell_fits (CNumeric n) t = (t = ''numeric'')"
| "cell_fits (CInt32s xs) t = (t = ''integer[]'' \<or> t = ''INTEGER[]'')"
| "cell_fits (CTexts xs) t = (t = ''TEXT[]'' \<or> t = ''text[]'')"
| "cell_fits (CAmounts xs) t = (t = ''amount[]'')"
| "cell_fits (CEvents xs) t = (t = ''event[]'')"

definition column_accepts :: "struct_field \<Rightarrow> cell \<Rightarrow> bool" where
  "column_accepts f c \<longleftrightarrow> cell_fits c (tag_get f ''dbtype'') \<and> (c = CNull \<longrightarrow> tag_get f ''nullable'' \<noteq> ''false'')"

text \<open>Every value of the row goes to a column that can hold it.\<close>

definition row_accepted :: "insertable \<Rightarrow> bool" where
  "row_accepted r \<longleftrightarrow> list_all2 column_accepts (td_Fields (row_table r)) (CopyRow r)"

text \<open>The two ways a row can carry a NULL into a NOT NULL column.\<close>

fun has_null_hole :: "insertable \<Rightarrow> bool" where
  "has_null_hole (Row_Block b) = (bl_Hash b = None)"
| "has_null_hole (Row_Message (Msg_CrSession m)) = (cs_AllowPaths m = None)"
| "has_null_hole _ = False"

text \<open>The primary key of a row: its values in the columns tagged primary.\<close>

definition primary_key :: "insertable \<Rightarrow> cell list" where
  "primary_key r =
     map snd (filter (\<lambda>(f, c). tag_get f ''primary'' = ''true'') (zip (td_Fields (row_table r)) (CopyRow r)))"

lemmas table_defs = table_TxHashId_def table_Blocks_def table_ValidatorBlockSigning_def
  table_AddressTx_def table_TransactionGeneral_def table_MsgSend_def table_MsgCall_def
  table_MsgAddPackage_def table_MsgRun_def table_MsgMultiSend_def table_MsgAuthCrSession_def
  table_MsgAuthRvSession_def table_MsgAuthRvAllSessions_def table_GnoAddress_def
  table_GnoValidatorAddress_def table_ApiKey_def table_SchemaMigration_def

lemmas copy_defs = CopyRow_Blocks_def CopyRow_ValidatorBlockSigning_def
  CopyRow_TransactionGeneral_def CopyRow_AddressTx_def CopyRow_MsgSend_def CopyRow_MsgMultiSend_def
  CopyRow_MsgCall_def CopyRow_MsgAddPackage_def CopyRow_MsgRun_def CopyRow_MsgAuthCrSession_def
  CopyRow_MsgAuthRvSession_def CopyRow_MsgAuthRvAllSessions_def

lemma table_name_simps [simp]:
  "td_Name table_TxHashId = ''tx_hash_id''"
  "td_Name table_Blocks = ''blocks''"
  "td_Name table_ValidatorBlockSigning = ''validator_block_signing''"
  "td_Name table_AddressTx = ''address_tx''"
  "td_Name table_TransactionGeneral = ''transaction_general''"
  "td_Name table_MsgSend = ''bank_msg_send''"
  "td_Name table_MsgCall = ''vm_msg_call''"
  "td_Name table_MsgAddPackage = ''vm_msg_add_package''"
  "td_Name table_MsgRun = ''vm_msg_run''"
  "td_Name table_MsgMultiSend = ''bank_msg_multi_send''"
  "td_Name table_MsgAuthCrSession = ''auth_msg_create_session''"
  "td_Name table_MsgAuthRvSession = ''auth_msg_revoke_session''"
  "td_Name table_MsgAuthRvAllSessions = ''auth_msg_revoke_all_sessions''"
  "td_Name table_GnoAddress = ''gno_addresses''"
  "td_Name table_GnoValidatorAddress = ''gno_validators''"
  "td_Name table_ApiKey = ''api_keys''"
  "td_Name table_SchemaMigration = ''schema_migrations''"
  by (simp_all add: table_defs)

section \<open>Properties\<close>


end
