(* ===== verification/Base64.thy ===== *)
theory Base64
  imports Go_Strings
begin

text \<open>
  Go's \<open>encoding/base64\<close>: the standard and the URL alphabet, both padded, with the strict
  decoder the cursors use (trailing bits must be zero) and the lenient one used everywhere
  else. Decoding skips carriage returns and line feeds, as the Go decoder does; an input it
  rejects is \<open>None\<close>.
\<close>

datatype alphabet = StdEncoding | URLEncoding

definition b64_char :: "alphabet \<Rightarrow> nat \<Rightarrow> char" where
  "b64_char al v =
     (if v < 26 then char_of (65 + v)
      else if v < 52 then char_of (71 + v)
      else if v < 62 then char_of (v - 4)
      else if v = 62 then (case al of StdEncoding \<Rightarrow> CHR ''+'' | URLEncoding \<Rightarrow> CHR ''-'')
      else (case al of StdEncoding \<Rightarrow> CHR ''/'' | URLEncoding \<Rightarrow> CHR ''_''))"

definition b64_val :: "alphabet \<Rightarrow> char \<Rightarrow> nat option" where
  "b64_val al c =
     (let n = char_code c in
      if 65 \<le> n \<and> n \<le> 90 then Some (n - 65)
      else if 97 \<le> n \<and> n \<le> 122 then Some (n - 71)
      else if 48 \<le> n \<and> n \<le> 57 then Some (n + 4)
      else if c = b64_char al 62 then Some 62
      else if c = b64_char al 63 then Some 63
      else None)"

abbreviation pad :: char where
  "pad \<equiv> CHR ''=''"

definition is_newline :: "char \<Rightarrow> bool" where
  "is_newline c \<longleftrightarrow> char_code c = 10 \<or> char_code c = 13"

fun encode_nats :: "alphabet \<Rightarrow> nat list \<Rightarrow> string" where
  "encode_nats al [] = []"
| "encode_nats al [a] = [b64_char al (a div 4), b64_char al (a mod 4 * 16), pad, pad]"
| "encode_nats al [a, b] =
     [b64_char al (a div 4), b64_char al (a mod 4 * 16 + b div 16), b64_char al (b mod 16 * 4), pad]"
| "encode_nats al (a # b # c # r) =
     b64_char al (a div 4) # b64_char al (a mod 4 * 16 + b div 16)
       # b64_char al (b mod 16 * 4 + c div 64) # b64_char al (c mod 64) # encode_nats al r"

definition encode_base64 :: "alphabet \<Rightarrow> byte list \<Rightarrow> string" where
  "encode_base64 al bs = encode_nats al (map unat bs)"

fun decode_quanta :: "alphabet \<Rightarrow> bool \<Rightarrow> string \<Rightarrow> nat list option" where
  "decode_quanta al strict [] = Some []"
| "decode_quanta al strict (c0 # c1 # c2 # c3 # r) =
     (case (b64_val al c0, b64_val al c1) of
        (Some v0, Some v1) \<Rightarrow>
          if c2 = pad then
            (if c3 = pad \<and> r = [] \<and> (strict \<longrightarrow> v1 mod 16 = 0)
             then Some [v0 * 4 + v1 div 16] else None)
          else (case b64_val al c2 of
             None \<Rightarrow> None
           | Some v2 \<Rightarrow>
               if c3 = pad then
                 (if r = [] \<and> (strict \<longrightarrow> v2 mod 4 = 0)
                  then Some [v0 * 4 + v1 div 16, v1 mod 16 * 16 + v2 div 4] else None)
               else (case b64_val al c3 of
                  None \<Rightarrow> None
                | Some v3 \<Rightarrow>
                    map_option (\<lambda>bs. (v0 * 4 + v1 div 16) # (v1 mod 16 * 16 + v2 div 4)
                                       # (v2 mod 4 * 64 + v3) # bs)
                      (decode_quanta al strict r)))
      | _ \<Rightarrow> None)"
| "decode_quanta al strict s = None"

definition decode_base64 :: "alphabet \<Rightarrow> bool \<Rightarrow> string \<Rightarrow> byte list option" where
  "decode_base64 al strict s =
     map_option (map of_nat) (decode_quanta al strict (filter (\<lambda>c. \<not> is_newline c) s))"

section \<open>The alphabets\<close>

lemma char_code_char_of [simp]: "n < 256 \<Longrightarrow> char_code (char_of n) = n"
  by (simp add: char_code_def)

lemma char_code_eqD: "char_code c \<noteq> char_code d \<Longrightarrow> c \<noteq> d"
  by auto

lemma b64_code:
  assumes "v < 64"
  shows "char_code (b64_char al v) =
    (if v < 26 then 65 + v else if v < 52 then 71 + v else if v < 62 then v - 4
     else if v = 62 then (case al of StdEncoding \<Rightarrow> 43 | URLEncoding \<Rightarrow> 45)
     else (case al of StdEncoding \<Rightarrow> 47 | URLEncoding \<Rightarrow> 95))"
  using assms by (cases al) (auto simp: b64_char_def, auto simp: char_code_def)

lemma b64_62_63: "b64_char al 63 \<noteq> b64_char al 62"
  by (cases al) (simp_all add: b64_char_def)

lemma b64_alphabet:
  assumes "v < 64"
  shows "b64_val al (b64_char al v) = Some v \<and> b64_char al v \<noteq> pad
    \<and> \<not> is_newline (b64_char al v) \<and> b64_char al v \<noteq> CHR ''|''"
proof (intro conjI)
  have pad: "char_code pad = 61" and bar: "char_code (CHR ''|'') = 124"
    by (simp_all add: char_code_def)
  have v: "v < 62 \<or> v = 62 \<or> v = 63" using assms by arith
  then show "b64_val al (b64_char al v) = Some v"
    unfolding b64_val_def Let_def
    by (elim disjE; cases al) (auto simp: b64_code b64_62_63)
  show "b64_char al v \<noteq> pad"
    by (rule char_code_eqD) (use assms in \<open>cases al; auto simp: b64_code pad\<close>)
  show "\<not> is_newline (b64_char al v)"
    using assms by (cases al) (auto simp: b64_code is_newline_def)
  show "b64_char al v \<noteq> CHR ''|''"
    by (rule char_code_eqD) (use assms in \<open>cases al; auto simp: b64_code bar\<close>)
qed

lemma b64_val_char [simp]: "v < 64 \<Longrightarrow> b64_val al (b64_char al v) = Some v"
  using b64_alphabet by blast

lemma b64_char_not_pad [simp]: "v < 64 \<Longrightarrow> b64_char al v \<noteq> pad"
  using b64_alphabet by blast

lemma b64_char_not_newline [simp]: "v < 64 \<Longrightarrow> \<not> is_newline (b64_char al v)"
  using b64_alphabet by blast

lemma b64_char_not_bar: "v < 64 \<Longrightarrow> b64_char al v \<noteq> CHR ''|''"
  using b64_alphabet by blast

lemma pad_not_newline [simp]: "\<not> is_newline pad"
  by (simp add: is_newline_def char_code_def)

section \<open>Round trips\<close>

lemma div_mod_pack:
  "(y::nat) < k \<Longrightarrow> (x * k + y) div k = x" "(y::nat) < k \<Longrightarrow> (x * k + y) mod k = y"
  by simp_all

lemma sextets_lt:
  "(a::nat) < 256 \<Longrightarrow> a div 4 < 64" "(a::nat) mod 4 * 16 < 64"
  "(b::nat) < 256 \<Longrightarrow> a mod 4 * 16 + b div 16 < 64" "(b::nat) mod 16 * 4 < 64"
  "(c::nat) < 256 \<Longrightarrow> b mod 16 * 4 + c div 64 < 64" "(c::nat) mod 64 < 64"
proof -
  have m4: "a mod 4 < 4" and m16: "b mod 16 < 16" by simp_all
  show "a < 256 \<Longrightarrow> a div 4 < 64" by (simp add: less_mult_imp_div_less)
  show "a mod 4 * 16 < 64" using m4 by simp
  show "b mod 16 * 4 < 64" using m16 by simp
  show "c mod 64 < 64" by simp
  show "a mod 4 * 16 + b div 16 < 64" if "b < 256"
  proof -
    have "b div 16 < 16" using that by (simp add: less_mult_imp_div_less)
    with m4 show ?thesis by linarith
  qed
  show "b mod 16 * 4 + c div 64 < 64" if "c < 256"
  proof -
    have "c div 64 < 4" using that by (simp add: less_mult_imp_div_less)
    with m16 show ?thesis by linarith
  qed
qed

lemma sextets_bytes:
  fixes a b c :: nat
  assumes "b < 256" "c < 256"
  shows "a div 4 * 4 + (a mod 4 * 16 + b div 16) div 16 = a"
    and "(a mod 4 * 16 + b div 16) mod 16 * 16 + (b mod 16 * 4 + c div 64) div 4 = b"
    and "(b mod 16 * 4 + c div 64) mod 4 * 64 + c mod 64 = c"
proof -
  have b: "b div 16 < 16" and c: "c div 64 < 4"
    using assms by (simp_all add: less_mult_imp_div_less)
  show "a div 4 * 4 + (a mod 4 * 16 + b div 16) div 16 = a"
    by (simp only: div_mod_pack [OF b] div_mult_mod_eq)
  show "(a mod 4 * 16 + b div 16) mod 16 * 16 + (b mod 16 * 4 + c div 64) div 4 = b"
    by (simp only: div_mod_pack [OF b] div_mod_pack [OF c] div_mult_mod_eq)
  show "(b mod 16 * 4 + c div 64) mod 4 * 64 + c mod 64 = c"
    by (simp only: div_mod_pack [OF c] div_mult_mod_eq)
qed

lemma set_encode_nats:
  "\<forall>b \<in> set bs. b < 256 \<Longrightarrow> set (encode_nats al bs) \<subseteq> insert pad (b64_char al ` {..<64})"
proof (induction al bs rule: encode_nats.induct)
  case (4 al a b c r)
  then have "set (encode_nats al r) \<subseteq> insert pad (b64_char al ` {..<64})"
    and "a < 256" "b < 256" "c < 256" by simp_all
  then show ?case by (simp add: sextets_lt)
qed (simp_all add: sextets_lt)

lemma decode_encode_nats:
  "\<forall>b \<in> set bs. b < 256 \<Longrightarrow> decode_quanta al strict (encode_nats al bs) = Some bs"
proof (induction al bs rule: encode_nats.induct)
  case (2 al a)
  then show ?case
    by (simp add: sextets_lt)
next
  case (3 al a b)
  then show ?case
    using sextets_bytes(2) [of b 0 a] by (simp add: sextets_lt sextets_bytes)
next
  case (4 al a b c r)
  then have "b div 16 < 16" "c div 64 < 4"
    by (simp_all add: less_mult_imp_div_less)
  with 4 show ?case
    by (simp add: sextets_lt)
qed simp

lemma unat_byte_lt [simp]: "unat (b :: byte) < 256"
  using unsigned_less [of b] by simp

lemma set_encode_base64: "set (encode_base64 al bs) \<subseteq> insert pad (b64_char al ` {..<64})"
  unfolding encode_base64_def by (rule set_encode_nats) simp

lemma filter_newline_encode [simp]:
  "filter (\<lambda>c. \<not> is_newline c) (encode_base64 al bs) = encode_base64 al bs"
  using set_encode_base64 [of al bs] by (auto simp: filter_id_conv)

lemma map_of_nat_unat: "map of_nat (map unat bs) = (bs :: byte list)"
  by (simp add: comp_def)

theorem decode_encode_base64 [simp]:
  "decode_base64 al strict (encode_base64 al bs) = Some bs"
proof -
  have "decode_quanta al strict (encode_base64 al bs) = Some (map unat bs)"
    unfolding encode_base64_def by (rule decode_encode_nats) simp
  then show ?thesis
    by (simp add: decode_base64_def map_of_nat_unat del: map_map)
qed

lemma encode_base64_no_bar: "CHR ''|'' \<notin> set (encode_base64 al bs)"
proof
  assume "CHR ''|'' \<in> set (encode_base64 al bs)"
  with set_encode_base64 [of al bs] obtain v where "v < 64" "CHR ''|'' = b64_char al v"
    by auto
  then show False using b64_char_not_bar by metis
qed

lemma length_encode_nats: "length (encode_nats al bs) = 4 * ((length bs + 2) div 3)"
proof (induction al bs rule: encode_nats.induct)
  case (4 al a b c r)
  have "(length (a # b # c # r) + 2) div 3 = Suc ((length r + 2) div 3)" by simp
  with 4 show ?case by simp
qed simp_all

lemma length_encode_base64 [simp]:
  "length (encode_base64 al bs) = 4 * ((length bs + 2) div 3)"
  by (simp add: encode_base64_def length_encode_nats)

lemma encode_base64_inj: "encode_base64 al xs = encode_base64 al ys \<Longrightarrow> xs = ys"
  by (metis decode_encode_base64 option.inject)

end
