(* ===== verification/Utf8.thy ===== *)
theory Utf8
  imports Go_Strings
begin

text \<open>
  Well-formed UTF-8, as \<open>unicode/utf8\<close> and \<open>strings.ToValidUTF8\<close> see it: Postgres rejects a
  text column that is not well formed, so the indexer repairs strings before it stores them.
\<close>

definition byte_in :: "nat \<Rightarrow> nat \<Rightarrow> char \<Rightarrow> bool" where
  "byte_in lo hi c \<longleftrightarrow> lo \<le> char_code c \<and> char_code c \<le> hi"

text \<open>The acceptable range of the second byte and the number of bytes, by the first byte
  (Go's \<open>first\<close> and \<open>acceptRanges\<close> tables); \<open>None\<close> for a byte that starts nothing.\<close>

definition rune_start :: "char \<Rightarrow> (nat \<times> nat \<times> nat) option" where
  "rune_start c =
     (let b = char_code c in
      if b < 128 then Some (1, 0, 255)
      else if 194 \<le> b \<and> b \<le> 223 then Some (2, 128, 191)
      else if b = 224 then Some (3, 160, 191)
      else if b = 237 then Some (3, 128, 159)
      else if 225 \<le> b \<and> b \<le> 239 then Some (3, 128, 191)
      else if b = 240 then Some (4, 144, 191)
      else if 241 \<le> b \<and> b \<le> 243 then Some (4, 128, 191)
      else if b = 244 then Some (4, 128, 143)
      else None)"

text \<open>The number of bytes of the rune a string starts with, 0 if it starts with none.\<close>

fun rune_width :: "string \<Rightarrow> nat" where
  "rune_width [] = 0"
| "rune_width (c # s) =
     (case rune_start c of
        None \<Rightarrow> 0
      | Some (n, lo, hi) \<Rightarrow>
          if n = 1 then 1
          else if length s < n - 1 then 0
          else if byte_in lo hi (hd s) \<and> list_all (byte_in 128 191) (take (n - 2) (tl s)) then n
          else 0)"

lemma rune_start_pos: "rune_start c = Some (n, lo, hi) \<Longrightarrow> 0 < n \<and> n \<le> 4"
  by (auto simp: rune_start_def Let_def split: if_splits)

lemma rune_width_le: "rune_width s \<le> length s"
  by (cases s) (auto split: option.splits dest: rune_start_pos)

lemma rune_width_append:
  "0 < rune_width s \<Longrightarrow> rune_width (take (rune_width s) s @ t) = rune_width s"
proof (cases s)
  case (Cons c r)
  assume pos: "0 < rune_width s"
  then obtain n lo hi where st: "rune_start c = Some (n, lo, hi)" and n: "rune_width s = n"
    by (auto simp: Cons split: option.splits if_splits)
  show ?thesis
  proof (cases "n = 1")
    case True
    with st n show ?thesis by (simp add: Cons)
  next
    case False
    with pos n st have n2: "2 \<le> n" "n - 1 \<le> length r" and ok: "byte_in lo hi (hd r)"
      "list_all (byte_in 128 191) (take (n - 2) (tl r))"
      using rune_start_pos [OF st] by (auto simp: Cons split: if_splits)
    then obtain d r' where r: "r = d # r'" by (cases r) auto
    have "take n s @ t = c # d # take (n - 2) r' @ t"
      using n2 by (simp add: Cons r take_Cons' numeral_2_eq_2)
    then show ?thesis
      using n2 ok st False by (auto simp: n r min_def)
  qed
qed simp

function valid_utf8 :: "string \<Rightarrow> bool" where
  "valid_utf8 s =
     (if s = [] then True
      else if rune_width s = 0 then False
      else valid_utf8 (drop (rune_width s) s))"
  by pat_completeness auto
termination
  by (relation "measure length") auto

declare valid_utf8.simps [simp del]

lemma valid_utf8_Nil [simp]: "valid_utf8 []"
  by (simp add: valid_utf8.simps)

lemma valid_utf8_rune:
  assumes "0 < rune_width s"
  shows "valid_utf8 (take (rune_width s) s @ t) = valid_utf8 t"
proof -
  have w: "rune_width (take (rune_width s) s @ t) = rune_width s"
    using assms by (rule rune_width_append)
  have "length (take (rune_width s) s) = rune_width s"
    using rune_width_le [of s] by simp
  then have "drop (rune_width s) (take (rune_width s) s @ t) = t" by simp
  then show ?thesis
    using assms w by (subst valid_utf8.simps) auto
qed

lemma valid_utf8_append: "valid_utf8 r \<Longrightarrow> valid_utf8 (r @ t) = valid_utf8 t"
proof (induction r rule: valid_utf8.induct)
  case (1 s)
  show ?case
  proof (cases "s = []")
    case False
    with 1 have pos: "0 < rune_width s" and rest: "valid_utf8 (drop (rune_width s) s)"
      using valid_utf8.simps [of s] by (auto split: if_splits)
    have "valid_utf8 (s @ t) = valid_utf8 (take (rune_width s) s @ drop (rune_width s) s @ t)"
      by (metis append.assoc append_take_drop_id)
    also have "\<dots> = valid_utf8 (drop (rune_width s) s @ t)"
      using pos by (rule valid_utf8_rune)
    also have "\<dots> = valid_utf8 t"
      using 1 False pos rest by simp
    finally show ?thesis .
  qed simp
qed

text \<open>\<open>strings.ToValidUTF8(s, rep)\<close>: every run of invalid bytes becomes one \<open>rep\<close>. The flag
  says that the previous byte was invalid.\<close>

function to_valid_utf8 :: "string \<Rightarrow> bool \<Rightarrow> string \<Rightarrow> string" where
  "to_valid_utf8 rep invalid s =
     (if s = [] then []
      else if rune_width s = 0
      then (if invalid then [] else rep) @ to_valid_utf8 rep True (tl s)
      else take (rune_width s) s @ to_valid_utf8 rep False (drop (rune_width s) s))"
  by pat_completeness auto
termination
  by (relation "measure (\<lambda>(rep, invalid, s). length s)") auto

declare to_valid_utf8.simps [simp del]

definition ToValidUTF8 :: "string \<Rightarrow> string \<Rightarrow> string" where
  "ToValidUTF8 s rep = to_valid_utf8 rep False s"

lemma valid_to_valid_utf8:
  "valid_utf8 rep \<Longrightarrow> valid_utf8 (to_valid_utf8 rep invalid s)"
proof (induction rep invalid s rule: to_valid_utf8.induct)
  case (1 rep invalid s)
  consider "s = []" | "s \<noteq> []" "rune_width s = 0" | "0 < rune_width s"
    by (cases "rune_width s") auto
  then show ?case
  proof cases
    case 2
    with 1 show ?thesis
      by (simp add: to_valid_utf8.simps [of rep invalid s] valid_utf8_append)
  next
    case 3
    then have "s \<noteq> []" by auto
    with 3 1 show ?thesis
      by (simp add: to_valid_utf8.simps [of rep invalid s] valid_utf8_rune)
  qed (simp add: to_valid_utf8.simps)
qed

text \<open>U+FFFD, the replacement character, in UTF-8.\<close>

definition replacement_char :: string where
  "replacement_char = map char_of [239, 191, 189 :: nat]"

lemma valid_replacement_char [simp]: "valid_utf8 replacement_char"
  
  by (simp add: replacement_char_def valid_utf8.simps [of "_ # _"] rune_start_def char_code_def byte_in_def)

end
