(* ===== verification/Decoder.thy ===== *)
theory Decoder
  imports Schema Base64 Utf8
begin

text \<open>
  Decoding transactions and turning their messages into rows (\<open>indexer/decoder\<close>). The message
  types of the chain come from a third-party package: the model has one constructor per type
  the registry knows, with the fields the code reads (addresses in their string form), and
  \<open>Unsupported\<close> for any other. \<open>amino.Unmarshal\<close> and \<open>sha256.Sum256\<close> are arguments.
\<close>

type_synonym coins = "(string \<times> i64) list"

record mem_package =
  mp_Path :: string
  mp_Name :: string
  mp_FileNames :: "string list"

datatype std_msg =
  BankSend (from_addr: string) (to_addr: string) (send_coins: coins)
| BankMultiSend (inputs: "(string \<times> coins) list") (outputs: "(string \<times> coins) list")
| VmCall (call_caller: string) (call_send: coins) (call_pkg: string) (call_func: string)
    (call_args: "string list") (call_deposit: coins)
| VmAddPackage (add_creator: string) (add_package: mem_package) (add_send: coins) (add_deposit: coins)
| VmRun (run_caller: string) (run_package: mem_package) (run_send: coins) (run_deposit: coins)
| AuthCreateSession (cr_creator: string) (cr_key: string) (cr_expires: i64) (cr_limit: coins)
    (cr_period: i64) (cr_paths: "string list option")
| AuthRevokeSession (rv_creator: string) (rv_key: string)
| AuthRevokeAllSessions (ra_creator: string)
| Unsupported (type_name: string)

record std_tx =
  stx_Signers :: "string list"
  stx_FeeAmount :: i64
  stx_FeeDenom :: string
  stx_Msgs :: "std_msg list"
  stx_Memo :: string

record BasicTxData =
  bd_TxHash :: "byte list"
  bd_Signers :: "string list"
  bd_Memo :: string
  bd_Fee :: Amount
  bd_TotalMsgCount :: nat

record DecodedMsg =
  dm_BasicData :: BasicTxData
  dm_Msgs :: "std_msg list"

section \<open>The registry\<close>

record convCtx =
  cc_txId :: i64
  cc_chainName :: string
  cc_timestamp :: time
  cc_resolver :: "string \<Rightarrow> i32"
  cc_signerIds :: "i32 list"
  cc_messageCounter :: i16

text \<open>The type label of each registered message type; \<open>None\<close> when \<open>lookup\<close> finds no entry.\<close>

fun registry_typeName :: "std_msg \<Rightarrow> string option" where
  "registry_typeName (BankSend f t c) = Some ''bank_msg_send''"
| "registry_typeName (BankMultiSend i out) = Some ''bank_msg_multi_send''"
| "registry_typeName (VmCall cl s p f a d) = Some ''vm_msg_call''"
| "registry_typeName (VmAddPackage c p s d) = Some ''vm_msg_add_package''"
| "registry_typeName (VmRun c p s d) = Some ''vm_msg_run''"
| "registry_typeName (AuthCreateSession c k e l p a) = Some ''auth_msg_create_session''"
| "registry_typeName (AuthRevokeSession c k) = Some ''auth_msg_revoke_session''"
| "registry_typeName (AuthRevokeAllSessions c) = Some ''auth_msg_revoke_all_sessions''"
| "registry_typeName (Unsupported t) = None"

definition registered :: "std_msg \<Rightarrow> bool" where
  "registered m \<longleftrightarrow> registry_typeName m \<noteq> None"

definition coinsToAmounts :: "coins \<Rightarrow> Amount list" where
  "coinsToAmounts cs = map (\<lambda>(denom, amount). \<lparr>am_Amount = sint amount, am_Denom = denom\<rparr>) cs"

definition sanitizeUTF8 :: "string \<Rightarrow> string" where
  "sanitizeUTF8 s = (if valid_utf8 s then s else ToValidUTF8 s replacement_char)"

definition sanitizeUTF8Slice :: "string list \<Rightarrow> string list" where
  "sanitizeUTF8Slice strs = map sanitizeUTF8 strs"

text \<open>The addresses a codec reports, in order. A message with no codec is skipped by the caller.\<close>

fun codec_addresses :: "std_msg \<Rightarrow> string list" where
  "codec_addresses (BankSend f t c) = [f, t]"
| "codec_addresses (BankMultiSend ins outs) = map fst ins @ map fst outs"
| "codec_addresses (VmCall cl s p f a d) = [cl]"
| "codec_addresses (VmAddPackage c p s d) = [c]"
| "codec_addresses (VmRun c p s d) = [c]"
| "codec_addresses (AuthCreateSession c k e l p a) = [c, k]"
| "codec_addresses (AuthRevokeSession c k) = [c, k]"
| "codec_addresses (AuthRevokeAllSessions c) = [c]"
| "codec_addresses (Unsupported t) = []"

definition multi_row :: "convCtx \<Rightarrow> bool \<Rightarrow> string \<times> coins \<Rightarrow> message" where
  "multi_row c dir entry =
     Msg_MultiSend \<lparr>mms_TxId = cc_txId c, mms_Timestamp = cc_timestamp c, mms_ChainName = cc_chainName c,
       mms_Direction = dir, mms_AddressId = cc_resolver c (fst entry),
       mms_Coins = coinsToAmounts (snd entry), mms_Signers = cc_signerIds c,
       mms_MessageCounter = cc_messageCounter c\<rparr>"

fun codec_convert :: "std_msg \<Rightarrow> convCtx \<Rightarrow> message list" where
  "codec_convert (BankSend f t cs) c =
     [Msg_Send \<lparr>ms_TxId = cc_txId c, ms_Timestamp = cc_timestamp c, ms_ChainName = cc_chainName c,
        ms_FromAddress = cc_resolver c f, ms_ToAddress = cc_resolver c t,
        ms_Amount = coinsToAmounts cs, ms_Signers = cc_signerIds c,
        ms_MessageCounter = cc_messageCounter c\<rparr>]"
| "codec_convert (BankMultiSend ins outs) c =
     map (multi_row c False) ins @ map (multi_row c True) outs"
| "codec_convert (VmCall cl s p f args d) c =
     [Msg_Call \<lparr>mc_TxId = cc_txId c, mc_Timestamp = cc_timestamp c, mc_ChainName = cc_chainName c,
        mc_Caller = cc_resolver c cl, mc_PkgPath = sanitizeUTF8 p, mc_FuncName = sanitizeUTF8 f,
        mc_Args = sanitizeUTF8 (join '','' args), mc_Send = coinsToAmounts s,
        mc_MaxDeposit = coinsToAmounts d, mc_Signers = cc_signerIds c,
        mc_MessageCounter = cc_messageCounter c\<rparr>]"
| "codec_convert (VmAddPackage cr p s d) c =
     [Msg_AddPackage \<lparr>map_TxId = cc_txId c, map_Timestamp = cc_timestamp c, map_ChainName = cc_chainName c,
        map_Creator = cc_resolver c cr, map_PkgPath = sanitizeUTF8 (mp_Path p),
        map_PkgName = sanitizeUTF8 (mp_Name p), map_PkgFileNames = sanitizeUTF8Slice (mp_FileNames p),
        map_Send = coinsToAmounts s, map_MaxDeposit = coinsToAmounts d, map_Signers = cc_signerIds c,
        map_MessageCounter = cc_messageCounter c\<rparr>]"
| "codec_convert (VmRun cl p s d) c =
     [Msg_Run \<lparr>mr_TxId = cc_txId c, mr_Timestamp = cc_timestamp c, mr_ChainName = cc_chainName c,
        mr_Caller = cc_resolver c cl, mr_PkgPath = sanitizeUTF8 (mp_Path p),
        mr_PkgName = sanitizeUTF8 (mp_Name p), mr_PkgFileNames = sanitizeUTF8Slice (mp_FileNames p),
        mr_Send = coinsToAmounts s, mr_MaxDeposit = coinsToAmounts d, mr_Signers = cc_signerIds c,
        mr_MessageCounter = cc_messageCounter c\<rparr>]"
| "codec_convert (AuthCreateSession cr k ex l p paths) c =
     [Msg_CrSession \<lparr>cs_TxId = cc_txId c, cs_Timestamp = cc_timestamp c, cs_ChainName = cc_chainName c,
        cs_Creator = cc_resolver c cr, cs_SessionKey = cc_resolver c k,
        cs_ExpiresAt = sint ex * second, cs_SpendLimit = coinsToAmounts l, cs_AllowPaths = paths,
        cs_SpendPeriod = p, cs_Signers = cc_signerIds c, cs_MessageCounter = cc_messageCounter c\<rparr>]"
| "codec_convert (AuthRevokeSession cr k) c =
     [Msg_RvSession \<lparr>rs_TxId = cc_txId c, rs_Timestamp = cc_timestamp c, rs_ChainName = cc_chainName c,
        rs_Creator = cc_resolver c cr, rs_SessionKey = cc_resolver c k, rs_Signers = cc_signerIds c,
        rs_MessageCounter = cc_messageCounter c\<rparr>]"
| "codec_convert (AuthRevokeAllSessions cr) c =
     [Msg_RvAllSessions \<lparr>ras_TxId = cc_txId c, ras_Timestamp = cc_timestamp c,
        ras_ChainName = cc_chainName c, ras_Creator = cc_resolver c cr, ras_Signers = cc_signerIds c,
        ras_MessageCounter = cc_messageCounter c\<rparr>]"
| "codec_convert (Unsupported t) c = []"

section \<open>Decoding\<close>

definition DecodeStdTxFromBase64 ::
  "(byte list \<Rightarrow> goerror + std_tx) \<Rightarrow> string \<Rightarrow> goerror + std_tx" where
  "DecodeStdTxFromBase64 unmarshal encodedTx =
     (case decode_base64 StdEncoding False encodedTx of
        None \<Rightarrow> Inl (ErrMsg ''illegal base64 data'')
      | Some bz \<Rightarrow> unmarshal bz)"

definition GetMessageFromStdTx ::
  "(byte list \<Rightarrow> goerror + std_tx) \<Rightarrow> (byte list \<Rightarrow> byte list) \<Rightarrow> string
   \<Rightarrow> goerror + BasicTxData \<times> std_msg list" where
  "GetMessageFromStdTx unmarshal sha256 encodedTx =
     bind_result (DecodeStdTxFromBase64 unmarshal encodedTx) (\<lambda>tx.
       case decode_base64 StdEncoding False encodedTx of
         None \<Rightarrow> Inl (ErrMsg ''illegal base64 data'')
       | Some bz \<Rightarrow>
           if \<not> list_all registered (stx_Msgs tx) then Inl (ErrMsg ''unknown or unsupported message type'')
           else Inr (\<lparr>bd_TxHash = sha256 bz, bd_Signers = stx_Signers tx, bd_Memo = stx_Memo tx,
                      bd_Fee = \<lparr>am_Amount = sint (stx_FeeAmount tx), am_Denom = stx_FeeDenom tx\<rparr>,
                      bd_TotalMsgCount = length (stx_Msgs tx)\<rparr>, stx_Msgs tx))"

text \<open>A transaction that cannot be decoded ends the process.\<close>

definition NewDecodedMsg ::
  "(byte list \<Rightarrow> goerror + std_tx) \<Rightarrow> (byte list \<Rightarrow> byte list) \<Rightarrow> string \<Rightarrow> DecodedMsg outcome" where
  "NewDecodedMsg unmarshal sha256 encodedTx =
     (case GetMessageFromStdTx unmarshal sha256 encodedTx of
        Inl e \<Rightarrow> Exit 1
      | Inr (basicData, messages) \<Rightarrow> Done \<lparr>dm_BasicData = basicData, dm_Msgs = messages\<rparr>)"

definition GetSigners :: "DecodedMsg \<Rightarrow> string list" where
  "GetSigners dm = bd_Signers (dm_BasicData dm)"

definition GetMemo :: "DecodedMsg \<Rightarrow> string" where
  "GetMemo dm = bd_Memo (dm_BasicData dm)"

definition GetFee :: "DecodedMsg \<Rightarrow> Amount" where
  "GetFee dm = bd_Fee (dm_BasicData dm)"

definition GetTotalMsgCount :: "DecodedMsg \<Rightarrow> nat" where
  "GetTotalMsgCount dm = bd_TotalMsgCount (dm_BasicData dm)"

fun msg_types_loop :: "std_msg list \<Rightarrow> string list \<Rightarrow> string list" where
  "msg_types_loop [] msgTypes = msgTypes"
| "msg_types_loop (msg # msgs) msgTypes =
     msg_types_loop msgs
       (case registry_typeName msg of None \<Rightarrow> msgTypes | Some t \<Rightarrow> set_insert t msgTypes)"

definition GetMsgTypes :: "DecodedMsg \<Rightarrow> string list" where
  "GetMsgTypes dm = msg_types_loop (dm_Msgs dm) []"

definition CollectAllAddresses :: "(string list \<Rightarrow> string list) \<Rightarrow> DecodedMsg \<Rightarrow> string list" where
  "CollectAllAddresses it dm =
     it (fold (\<lambda>msg set. if registered msg then fold set_insert (codec_addresses msg) set else set)
           (dm_Msgs dm) (fold set_insert (bd_Signers (dm_BasicData dm)) []))"

section \<open>Collections of rows\<close>

record messageRow =
  mrow_row :: message
  mrow_addresses :: TxAddresses
  mrow_chainName :: string
  mrow_timestamp :: time

record DbMessages =
  dbm_rows :: "messageRow list"

definition emptyDbMessages :: DbMessages where
  "emptyDbMessages = \<lparr>dbm_rows = []\<rparr>"

definition add_row :: "message \<Rightarrow> string \<Rightarrow> time \<Rightarrow> DbMessages \<Rightarrow> DbMessages" where
  "add_row r chainName timestamp m =
     m\<lparr>dbm_rows := dbm_rows m @
         [\<lparr>mrow_row = r, mrow_addresses = GetAllAddresses_msg r, mrow_chainName = chainName,
           mrow_timestamp = timestamp\<rparr>]\<rparr>"

definition Merge :: "DbMessages \<Rightarrow> DbMessages \<Rightarrow> DbMessages" where
  "Merge m other = m\<lparr>dbm_rows := dbm_rows m @ dbm_rows other\<rparr>"

record AddressEntry =
  aen_Addresses :: TxAddresses
  aen_ChainName :: string
  aen_Timestamp :: time
  aen_MsgType :: string

definition AddressEntries :: "DbMessages \<Rightarrow> AddressEntry list" where
  "AddressEntries m =
     map (\<lambda>r. \<lparr>aen_Addresses = mrow_addresses r, aen_ChainName = mrow_chainName r,
               aen_Timestamp = mrow_timestamp r, aen_MsgType = TableName (Row_Message (mrow_row r))\<rparr>)
       (dbm_rows m)"

record InsertBatch =
  ib_Rows :: "insertable list"
  ib_TxIds :: "i64 list"

text \<open>The state of the grouping loop: the batches by table, and the tables in the order in which
  they were first seen.\<close>

definition batch_step ::
  "messageRow \<Rightarrow> (string \<rightharpoonup> InsertBatch) \<times> string list \<Rightarrow> (string \<rightharpoonup> InsertBatch) \<times> string list" where
  "batch_step r s =
     (let (byTable, order) = s; table = TableName (Row_Message (mrow_row r));
          (batch, order') = (case byTable table of
             None \<Rightarrow> (\<lparr>ib_Rows = [], ib_TxIds = []\<rparr>, order @ [table])
           | Some b \<Rightarrow> (b, order)) in
      (byTable(table \<mapsto> \<lparr>ib_Rows = ib_Rows batch @ [Row_Message (mrow_row r)],
                          ib_TxIds = ib_TxIds batch @ [ta_TxId (mrow_addresses r)]\<rparr>), order'))"

definition InsertBatches :: "DbMessages \<Rightarrow> InsertBatch list" where
  "InsertBatches m =
     (let (byTable, order) = fold batch_step (dbm_rows m) (Map.empty, []) in
      map (\<lambda>table. the (byTable table)) order)"

text \<open>The loop over the messages of a transaction, with the index of the next one.\<close>

fun convert_loop ::
  "(string \<Rightarrow> i32) \<Rightarrow> i64 \<Rightarrow> string \<Rightarrow> time \<Rightarrow> i32 list \<Rightarrow> nat \<Rightarrow> std_msg list \<Rightarrow> DbMessages
   \<Rightarrow> goerror + DbMessages" where
  "convert_loop resolver txId chainName timestamp signerIds i [] out = Inr out"
| "convert_loop resolver txId chainName timestamp signerIds i (msg # msgs) out =
     (if i > 32767 then Inl (ErrMsg ''transaction message count exceeds maximum'')
      else if \<not> registered msg then Inl (ErrMsg ''unknown message type'')
      else
        (let rows = codec_convert msg \<lparr>cc_txId = txId, cc_chainName = chainName, cc_timestamp = timestamp,
                      cc_resolver = resolver, cc_signerIds = signerIds, cc_messageCounter = of_nat i\<rparr>
         in convert_loop resolver txId chainName timestamp signerIds (Suc i) msgs
              (fold (\<lambda>row. add_row row chainName timestamp) rows out)))"

definition ConvertToDbMessages ::
  "DecodedMsg \<Rightarrow> (string \<Rightarrow> i32) \<Rightarrow> i64 \<Rightarrow> string \<Rightarrow> time \<Rightarrow> string list \<Rightarrow> goerror + DbMessages" where
  "ConvertToDbMessages dm addressResolver txId chainName timestamp signers =
     convert_loop addressResolver txId chainName timestamp (map addressResolver signers) 0
       (dm_Msgs dm) emptyDbMessages"

section \<open>The rows of a transaction\<close>

text \<open>The reference for the conversion: the rows of each message, in order, the \<open>k\<close>-th message
  with counter \<open>k\<close>.\<close>

definition msg_ctx :: "(string \<Rightarrow> i32) \<Rightarrow> i64 \<Rightarrow> string \<Rightarrow> time \<Rightarrow> i32 list \<Rightarrow> nat \<Rightarrow> convCtx" where
  "msg_ctx resolver txId chainName timestamp signerIds i =
     \<lparr>cc_txId = txId, cc_chainName = chainName, cc_timestamp = timestamp, cc_resolver = resolver,
      cc_signerIds = signerIds, cc_messageCounter = of_nat i\<rparr>"

fun tx_rows ::
  "(string \<Rightarrow> i32) \<Rightarrow> i64 \<Rightarrow> string \<Rightarrow> time \<Rightarrow> i32 list \<Rightarrow> nat \<Rightarrow> std_msg list \<Rightarrow> message list" where
  "tx_rows r tx c t sg i [] = []"
| "tx_rows r tx c t sg i (m # ms) = codec_convert m (msg_ctx r tx c t sg i) @ tx_rows r tx c t sg (Suc i) ms"

definition entry_of :: "string \<Rightarrow> time \<Rightarrow> message \<Rightarrow> messageRow" where
  "entry_of c t m =
     \<lparr>mrow_row = m, mrow_addresses = GetAllAddresses_msg m, mrow_chainName = c, mrow_timestamp = t\<rparr>"

lemma add_rows: "dbm_rows (fold (\<lambda>row. add_row row c t) rows out) = dbm_rows out @ map (entry_of c t) rows"
  by (induction rows arbitrary: out) (simp_all add: add_row_def entry_of_def)

lemma DbMessages_eqI: "dbm_rows (a :: DbMessages) = dbm_rows b \<Longrightarrow> a = b"
  by (cases a; cases b) simp

lemma convert_loop_iff:
  "convert_loop r tx c t sg i ms out = Inr out' \<longleftrightarrow>
     list_all registered ms \<and> (ms = [] \<or> i + length ms \<le> 32768)
     \<and> dbm_rows out' = dbm_rows out @ map (entry_of c t) (tx_rows r tx c t sg i ms)"
proof (induction ms arbitrary: i out)
  case Nil
  then show ?case using DbMessages_eqI by auto
next
  case (Cons m ms)
  have len: "(ms = [] \<or> Suc i + length ms \<le> 32768) \<and> \<not> 32767 < i \<longleftrightarrow> i + length (m # ms) \<le> 32768"
    by (cases ms) auto
  show ?case
    using len by (auto simp: Let_def Cons add_rows msg_ctx_def)
qed

lemma ConvertToDbMessages_iff:
  "ConvertToDbMessages dm r tx c t signers = Inr out \<longleftrightarrow>
     list_all registered (dm_Msgs dm) \<and> length (dm_Msgs dm) \<le> 32768
     \<and> dbm_rows out = map (entry_of c t) (tx_rows r tx c t (map r signers) 0 (dm_Msgs dm))"
  unfolding ConvertToDbMessages_def convert_loop_iff by (auto simp: emptyDbMessages_def)

lemma tx_rows_in:
  assumes "m \<in> set (tx_rows r tx c t sg i ms)"
  shows "\<exists>k src. i \<le> k \<and> k < i + length ms \<and> src = ms ! (k - i) \<and> src \<in> set ms
    \<and> m \<in> set (codec_convert src (msg_ctx r tx c t sg k))"
  using assms
proof (induction ms arbitrary: i)
  case (Cons s ms)
  show ?case
  proof (cases "m \<in> set (codec_convert s (msg_ctx r tx c t sg i))")
    case True
    then show ?thesis by (intro exI [of _ i]) auto
  next
    case False
    with Cons.prems have "m \<in> set (tx_rows r tx c t sg (Suc i) ms)" by simp
    from Cons.IH [OF this] obtain k where "Suc i \<le> k" "k < Suc i + length ms" "ms ! (k - Suc i) \<in> set ms"
      "m \<in> set (codec_convert (ms ! (k - Suc i)) (msg_ctx r tx c t sg k))" by auto
    then show ?thesis by (intro exI [of _ k]) (auto simp: nth_Cons')
  qed
qed simp

section \<open>Keys\<close>

fun msg_counter :: "message \<Rightarrow> i16" where
  "msg_counter (Msg_Send m) = ms_MessageCounter m"
| "msg_counter (Msg_MultiSend m) = mms_MessageCounter m"
| "msg_counter (Msg_Call m) = mc_MessageCounter m"
| "msg_counter (Msg_AddPackage m) = map_MessageCounter m"
| "msg_counter (Msg_Run m) = mr_MessageCounter m"
| "msg_counter (Msg_CrSession m) = cs_MessageCounter m"
| "msg_counter (Msg_RvSession m) = rs_MessageCounter m"
| "msg_counter (Msg_RvAllSessions m) = ras_MessageCounter m"

definition row_key :: "message \<Rightarrow> string \<times> cell list" where
  "row_key m = (TableName (Row_Message m), primary_key (Row_Message m))"

lemma primary_key_simps:
  "primary_key (Row_Message (Msg_MultiSend m)) =
     [CInt64 (mms_TxId m), CTime (mms_Timestamp m), CText (mms_ChainName m), CBool (mms_Direction m),
      CInt32 (mms_AddressId m), CInt16 (mms_MessageCounter m)]"
  by (simp add: primary_key_def table_defs copy_defs tag_get_def fld_def)

lemma primary_key_last:
  "\<exists>pre. primary_key (Row_Message m) = pre @ [CInt16 (msg_counter m)]"
  by (cases m) (simp_all add: primary_key_def table_defs copy_defs tag_get_def fld_def)

lemma row_key_counter: "row_key a = row_key b \<Longrightarrow> msg_counter a = msg_counter b"
  using primary_key_last [of a] primary_key_last [of b] by (auto simp: row_key_def)

lemma codec_counter:
  "m \<in> set (codec_convert src cx) \<Longrightarrow> msg_counter m = cc_messageCounter cx"
  by (cases src) (auto simp: multi_row_def)

lemma msg_ctx_simps [simp]:
  "cc_messageCounter (msg_ctx r tx c t sg i) = of_nat i" "cc_resolver (msg_ctx r tx c t sg i) = r"
  "cc_signerIds (msg_ctx r tx c t sg i) = sg" "cc_txId (msg_ctx r tx c t sg i) = tx"
  "cc_chainName (msg_ctx r tx c t sg i) = c" "cc_timestamp (msg_ctx r tx c t sg i) = t"
  by (simp_all add: msg_ctx_def)

lemma of_nat_i16_inj: "i < 32768 \<Longrightarrow> j < 32768 \<Longrightarrow> (of_nat i :: i16) = of_nat j \<longleftrightarrow> i = j"
  by (simp add: of_nat_eq_iff word_of_nat_eq_iff take_bit_nat_eq_self)

text \<open>A multi-send whose resolved inputs, and whose resolved outputs, are different addresses.\<close>

fun distinct_parties :: "(string \<Rightarrow> i32) \<Rightarrow> std_msg \<Rightarrow> bool" where
  "distinct_parties r (BankMultiSend ins outs) =
     (distinct (map (r \<circ> fst) ins) \<and> distinct (map (r \<circ> fst) outs))"
| "distinct_parties r _ = True"

lemma row_key_multi_row:
  "row_key (multi_row cx d e) = row_key (multi_row cx d' e') \<longleftrightarrow>
     d = d' \<and> cc_resolver cx (fst e) = cc_resolver cx (fst e')"
  by (auto simp: row_key_def multi_row_def primary_key_simps TableName_def)

lemma distinct_multi_rows:
  "distinct (map (row_key \<circ> multi_row cx d) es) = distinct (map (cc_resolver cx \<circ> fst) es)"
  by (simp add: distinct_map inj_on_def row_key_multi_row)

lemma codec_keys_distinct:
  "distinct (map row_key (codec_convert src cx)) \<longleftrightarrow> distinct_parties (cc_resolver cx) src"
  by (cases src) (auto simp: distinct_multi_rows row_key_multi_row)

lemma tx_rows_keys:
  "i + length ms \<le> 32768 \<Longrightarrow>
   distinct (map row_key (tx_rows r tx c t sg i ms)) \<longleftrightarrow> list_all (distinct_parties r) ms"
proof (induction ms arbitrary: i)
  case (Cons m ms)
  have "row_key a \<noteq> row_key b"
    if a: "a \<in> set (codec_convert m (msg_ctx r tx c t sg i))"
      and b: "b \<in> set (tx_rows r tx c t sg (Suc i) ms)" for a b
  proof -
    from tx_rows_in [OF b] obtain k src where k: "Suc i \<le> k" "k < Suc i + length ms"
      and "b \<in> set (codec_convert src (msg_ctx r tx c t sg k))" by blast
    then have "msg_counter b = of_nat k" using codec_counter by fastforce
    moreover have "msg_counter a = of_nat i" using codec_counter [OF a] by simp
    ultimately show ?thesis
      using row_key_counter [of a b] k Cons.prems of_nat_i16_inj [of i k] by auto
  qed
  then have "row_key ` set (codec_convert m (msg_ctx r tx c t sg i))
      \<inter> row_key ` set (tx_rows r tx c t sg (Suc i) ms) = {}" by blast
  then show ?case
    using Cons codec_keys_distinct [of m "msg_ctx r tx c t sg i"] by auto
qed simp

section \<open>Grouping by table\<close>

abbreviation mrow_table :: "messageRow \<Rightarrow> string" where
  "mrow_table r \<equiv> TableName (Row_Message (mrow_row r))"

definition batch_of :: "string \<Rightarrow> messageRow list \<Rightarrow> InsertBatch" where
  "batch_of t rs =
     \<lparr>ib_Rows = map (\<lambda>r. Row_Message (mrow_row r)) (filter (\<lambda>r. mrow_table r = t) rs),
      ib_TxIds = map (\<lambda>r. ta_TxId (mrow_addresses r)) (filter (\<lambda>r. mrow_table r = t) rs)\<rparr>"

lemma fold_batch_step:
  "fold batch_step rs (Map.empty, []) =
     ((\<lambda>t. if t \<in> mrow_table ` set rs then Some (batch_of t rs) else None),
      fold set_insert (map mrow_table rs) [])"
proof (induction rs rule: rev_induct)
  case (snoc r rs)
  let ?F = "\<lambda>rs t. if t \<in> mrow_table ` set rs then Some (batch_of t rs) else None"
  let ?O = "fold set_insert (map mrow_table rs) []"
  have step: "fold batch_step (rs @ [r]) (Map.empty, []) = batch_step r (?F rs, ?O)"
    by (simp add: snoc)
  show ?case
  proof (cases "mrow_table r \<in> mrow_table ` set rs")
    case True
    then have "set_insert (mrow_table r) ?O = ?O" by (simp add: set_insert_def)
    then show ?thesis
      unfolding step using True by (auto simp: batch_step_def batch_of_def fun_eq_iff Let_def)
  next
    case False
    then have "set_insert (mrow_table r) ?O = ?O @ [mrow_table r]" by (simp add: set_insert_def)
    moreover have "filter (\<lambda>x. mrow_table x = mrow_table r) rs = []"
      by (intro filter_False ballI notI) (metis False image_eqI)
    ultimately show ?thesis
      unfolding step using False by (auto simp: batch_step_def batch_of_def fun_eq_iff Let_def)
  qed
qed simp

lemma InsertBatches_eq:
  "InsertBatches m = map (\<lambda>t. batch_of t (dbm_rows m)) (fold set_insert (map mrow_table (dbm_rows m)) [])"
  by (simp add: InsertBatches_def fold_batch_step)

lemma mset_filter_split:
  "t \<notin> A \<Longrightarrow> mset (filter (\<lambda>x. f x = t) xs) + mset (filter (\<lambda>x. f x \<in> A) xs)
    = mset (filter (\<lambda>x. f x = t \<or> f x \<in> A) xs)"
  by (induction xs) auto

lemma mset_concat_classes:
  "distinct ts \<Longrightarrow>
   mset (concat (map (\<lambda>t. map g (filter (\<lambda>x. f x = t) xs)) ts)) = mset (map g (filter (\<lambda>x. f x \<in> set ts) xs))"
proof (induction ts)
  case (Cons t ts)
  then have "t \<notin> set ts" by simp
  from arg_cong [OF mset_filter_split [OF this, of f xs], of "image_mset g"] Cons
  show ?case by simp
qed simp

section \<open>Addresses of a message are resolved\<close>

lemma fold_collect:
  "set (fold (\<lambda>msg S. if registered msg then fold set_insert (codec_addresses msg) S else S) ms S0)
   = set S0 \<union> (\<Union>m\<in>{m \<in> set ms. registered m}. set (codec_addresses m))"
  by (induction ms arbitrary: S0) auto

lemma fold_collect_distinct:
  "distinct (fold (\<lambda>msg S. if registered msg then fold set_insert (codec_addresses msg) S else S) ms S0)
   = distinct S0"
  by (induction ms arbitrary: S0) auto

lemma CollectAllAddresses_set:
  assumes "iteration it"
  shows "set (CollectAllAddresses it dm) =
    set (GetSigners dm) \<union> (\<Union>m\<in>{m \<in> set (dm_Msgs dm). registered m}. set (codec_addresses m))"
    and "distinct (CollectAllAddresses it dm)"
  using assms
  by (simp_all add: CollectAllAddresses_def GetSigners_def iteration_set iteration_distinct
      fold_collect fold_collect_distinct)

lemma codec_ids:
  "m \<in> set (codec_convert src cx) \<Longrightarrow>
     message_ids m \<subseteq> cc_resolver cx ` set (codec_addresses src) \<union> set (cc_signerIds cx)"
  by (cases src) (auto simp: multi_row_def, (metis UnCI fst_conv image_eqI)+)

fun message_texts :: "message \<Rightarrow> string list" where
  "message_texts (Msg_Call m) = [mc_PkgPath m, mc_FuncName m, mc_Args m]"
| "message_texts (Msg_AddPackage m) = [map_PkgPath m, map_PkgName m] @ map_PkgFileNames m"
| "message_texts (Msg_Run m) = [mr_PkgPath m, mr_PkgName m] @ mr_PkgFileNames m"
| "message_texts _ = []"

lemma valid_sanitizeUTF8 [simp]: "valid_utf8 (sanitizeUTF8 s)"
  by (simp add: sanitizeUTF8_def ToValidUTF8_def valid_to_valid_utf8)

lemma codec_texts: "m \<in> set (codec_convert src cx) \<Longrightarrow> list_all valid_utf8 (message_texts m)"
  by (cases src) (auto simp: multi_row_def sanitizeUTF8Slice_def list_all_iff)

lemma codec_table: "m \<in> set (codec_convert src cx) \<Longrightarrow> registry_typeName src = Some (TableName (Row_Message m))"
  by (cases src) (auto simp: multi_row_def TableName_def)

lemma codec_txid: "m \<in> set (codec_convert src cx) \<Longrightarrow> message_txid m = cc_txId cx"
  by (cases src) (auto simp: multi_row_def)

lemma msg_types_loop_set:
  "set (msg_types_loop ms ts) = set ts \<union> {t. \<exists>m\<in>set ms. registry_typeName m = Some t}
   \<and> distinct (msg_types_loop ms ts) = distinct ts"
  by (induction ms ts rule: msg_types_loop.induct) (auto split: option.splits)

lemma tx_rows_resolved:
  assumes "m \<in> set (tx_rows r tx c t (map r signers) i ms)" and "list_all registered ms"
    and "iteration it" and "dm_Msgs dm = ms" and "GetSigners dm = signers"
    and "\<forall>a\<in>set (CollectAllAddresses it dm). r a \<noteq> 0"
  shows "0 \<notin> message_ids m"
proof -
  from tx_rows_in [OF assms(1)] obtain k src where src: "src \<in> set ms"
    and conv: "m \<in> set (codec_convert src (msg_ctx r tx c t (map r signers) k))" by blast
  have reg: "registered src" using assms(2) src by (auto simp: list_all_iff)
  have "set (codec_addresses src) \<union> set signers \<subseteq> set (CollectAllAddresses it dm)"
    using src reg assms(4,5) by (auto simp: CollectAllAddresses_set [OF assms(3)])
  moreover have "\<exists>a\<in>set (codec_addresses src) \<union> set signers. i = r a" if "i \<in> message_ids m" for i
    using codec_ids [OF conv] that by auto
  ultimately show ?thesis using assms(6) by (metis subsetD)
qed

lemma GetMessageFromStdTx_registered:
  "GetMessageFromStdTx u h s = Inr (bd, ms) \<Longrightarrow> list_all registered ms"
  by (auto simp: GetMessageFromStdTx_def split: option.splits if_splits)

lemma NewDecodedMsg_registered: "NewDecodedMsg u h s = Done dm \<Longrightarrow> list_all registered (dm_Msgs dm)"
  by (auto simp: NewDecodedMsg_def dest: GetMessageFromStdTx_registered split: sum.splits)

section \<open>Properties\<close>

text \<open>C22: conversion gives the rows of a transaction different database keys (table and primary
  key) exactly when no multi-send of it names one resolved address twice among its inputs or
  twice among its outputs. A multi-send that does collides with itself, and the COPY of the
  whole batch is rejected.\<close>
theorem ConvertToDbMessages_keys:
  assumes "ConvertToDbMessages dm r tx c t signers = Inr out"
  shows "distinct (map (row_key \<circ> mrow_row) (dbm_rows out)) \<longleftrightarrow> list_all (distinct_parties r) (dm_Msgs dm)"
proof -
  from assms have rows: "dbm_rows out = map (entry_of c t) (tx_rows r tx c t (map r signers) 0 (dm_Msgs dm))"
    and len: "0 + length (dm_Msgs dm) \<le> 32768" by (simp_all add: ConvertToDbMessages_iff)
  have "map (row_key \<circ> mrow_row) (dbm_rows out) = map row_key (tx_rows r tx c t (map r signers) 0 (dm_Msgs dm))"
    by (simp add: rows entry_of_def comp_def)
  with tx_rows_keys [OF len] show ?thesis by simp
qed

text \<open>The addresses collected from a transaction are enough for its conversion: when each of
  them resolves to a real identity, no row of the transaction refers to identity 0, neither in
  its columns nor in the entries made for the address table.\<close>
theorem CollectAllAddresses_enough:
  assumes "iteration it" and "ConvertToDbMessages dm r tx c t (GetSigners dm) = Inr out"
    and "\<forall>a\<in>set (CollectAllAddresses it dm). r a \<noteq> 0"
  shows "\<forall>row\<in>set (dbm_rows out). 0 \<notin> message_ids (mrow_row row)
    \<and> 0 \<notin> set (ta_Addresses (mrow_addresses row))"
proof
  fix row assume "row \<in> set (dbm_rows out)"
  with assms(2) obtain m where row: "row = entry_of c t m"
    and m: "m \<in> set (tx_rows r tx c t (map r (GetSigners dm)) 0 (dm_Msgs dm))"
    by (auto simp: ConvertToDbMessages_iff)
  have "list_all registered (dm_Msgs dm)" using assms(2) by (simp add: ConvertToDbMessages_iff)
  from tx_rows_resolved [OF m this assms(1) refl refl assms(3)] have "0 \<notin> message_ids m" .
  then show "0 \<notin> message_ids (mrow_row row) \<and> 0 \<notin> set (ta_Addresses (mrow_addresses row))"
    by (simp add: row entry_of_def)
qed

text \<open>A transaction that was decoded converts exactly when it has at most 32768 messages, and
  then every row carries the identity of the transaction, a counter below the number of messages,
  a table that is one of the transaction's message types, and valid UTF-8 in the texts of its VM
  columns.\<close>
theorem decoded_converts:
  assumes "NewDecodedMsg u h s = Done dm"
  shows "((\<exists>out. ConvertToDbMessages dm r tx c t signers = Inr out) \<longleftrightarrow> length (dm_Msgs dm) \<le> 32768)
    \<and> (\<forall>out. ConvertToDbMessages dm r tx c t signers = Inr out \<longrightarrow>
      (\<forall>row\<in>set (dbm_rows out). message_txid (mrow_row row) = tx
        \<and> unat (msg_counter (mrow_row row)) < length (dm_Msgs dm)
        \<and> TableName (Row_Message (mrow_row row)) \<in> set (GetMsgTypes dm)
        \<and> list_all valid_utf8 (message_texts (mrow_row row))))"
proof (intro conjI)
  have reg: "list_all registered (dm_Msgs dm)" using NewDecodedMsg_registered [OF assms] .
  show "(\<exists>out. ConvertToDbMessages dm r tx c t signers = Inr out) \<longleftrightarrow> length (dm_Msgs dm) \<le> 32768"
    using reg by (auto simp: ConvertToDbMessages_iff)
       (metis DbMessages.select_convs(1))
  show "\<forall>out. ConvertToDbMessages dm r tx c t signers = Inr out \<longrightarrow>
      (\<forall>row\<in>set (dbm_rows out). message_txid (mrow_row row) = tx
        \<and> unat (msg_counter (mrow_row row)) < length (dm_Msgs dm)
        \<and> TableName (Row_Message (mrow_row row)) \<in> set (GetMsgTypes dm)
        \<and> list_all valid_utf8 (message_texts (mrow_row row)))"
  proof (intro allI impI ballI)
    fix out row
    assume out: "ConvertToDbMessages dm r tx c t signers = Inr out" and "row \<in> set (dbm_rows out)"
    then obtain m where row: "row = entry_of c t m"
      and m: "m \<in> set (tx_rows r tx c t (map r signers) 0 (dm_Msgs dm))"
      by (auto simp: ConvertToDbMessages_iff)
    from tx_rows_in [OF m] obtain k src where k: "k < length (dm_Msgs dm)" and src: "src \<in> set (dm_Msgs dm)"
      and conv: "m \<in> set (codec_convert src (msg_ctx r tx c t (map r signers) k))" by auto
    have "length (dm_Msgs dm) \<le> 32768" using out by (simp add: ConvertToDbMessages_iff)
    then have "unat (of_nat k :: i16) = k" using k by (simp add: unat_of_nat take_bit_nat_eq_self)
    moreover have "TableName (Row_Message m) \<in> set (GetMsgTypes dm)"
      using codec_table [OF conv] src by (auto simp: GetMsgTypes_def msg_types_loop_set)
    ultimately show "message_txid (mrow_row row) = tx
        \<and> unat (msg_counter (mrow_row row)) < length (dm_Msgs dm)
        \<and> TableName (Row_Message (mrow_row row)) \<in> set (GetMsgTypes dm)
        \<and> list_all valid_utf8 (message_texts (mrow_row row))"
      using k codec_counter [OF conv] codec_txid [OF conv] codec_texts [OF conv]
      by (simp add: row entry_of_def)
  qed
qed

text \<open>Grouping for insertion loses nothing and mixes nothing: the tables of the batches are
  different, each batch is not empty and holds rows of one table only, next to as many transaction
  identities, and together the batches hold exactly the rows collected.\<close>
theorem InsertBatches_partition:
  "(\<exists>tables. distinct tables \<and> list_all2 (\<lambda>t b. ib_Rows b \<noteq> [] \<and> list_all (\<lambda>r. TableName r = t) (ib_Rows b)
        \<and> length (ib_TxIds b) = length (ib_Rows b)) tables (InsertBatches m))
   \<and> mset (concat (map ib_Rows (InsertBatches m))) = mset (map (\<lambda>r. Row_Message (mrow_row r)) (dbm_rows m))"
proof
  let ?ts = "fold set_insert (map mrow_table (dbm_rows m)) []"
  have "list_all2 (\<lambda>t b. ib_Rows b \<noteq> [] \<and> list_all (\<lambda>r. TableName r = t) (ib_Rows b)
        \<and> length (ib_TxIds b) = length (ib_Rows b)) ?ts (InsertBatches m)"
  proof -
    have "batch_of t (dbm_rows m) = b \<Longrightarrow> t \<in> set ?ts \<Longrightarrow> ib_Rows b \<noteq> [] \<and> list_all (\<lambda>r. TableName r = t) (ib_Rows b)
        \<and> length (ib_TxIds b) = length (ib_Rows b)" for t b
      by (auto simp: batch_of_def filter_empty_conv list_all_iff)
    then have "\<forall>t\<in>set ?ts. ib_Rows (batch_of t (dbm_rows m)) \<noteq> []
        \<and> list_all (\<lambda>r. TableName r = t) (ib_Rows (batch_of t (dbm_rows m)))
        \<and> length (ib_TxIds (batch_of t (dbm_rows m))) = length (ib_Rows (batch_of t (dbm_rows m)))"
      by blast
    then show ?thesis unfolding InsertBatches_eq list_all2_map2 list_all2_same by blast
  qed
  moreover have "distinct ?ts" by simp
  ultimately show "\<exists>tables. distinct tables \<and> list_all2 (\<lambda>t b. ib_Rows b \<noteq> [] \<and> list_all (\<lambda>r. TableName r = t) (ib_Rows b)
        \<and> length (ib_TxIds b) = length (ib_Rows b)) tables (InsertBatches m)" by blast
  have rows: "map ib_Rows (InsertBatches m) =
      map (\<lambda>t. map (\<lambda>r. Row_Message (mrow_row r)) (filter (\<lambda>r. mrow_table r = t) (dbm_rows m))) ?ts"
    by (simp add: InsertBatches_eq batch_of_def comp_def)
  have "filter (\<lambda>r. mrow_table r \<in> set ?ts) (dbm_rows m) = dbm_rows m"
    by (auto simp: filter_id_conv)
  then show "mset (concat (map ib_Rows (InsertBatches m))) = mset (map (\<lambda>r. Row_Message (mrow_row r)) (dbm_rows m))"
    unfolding rows
    using mset_concat_classes [of ?ts "\<lambda>r. Row_Message (mrow_row r)" mrow_table "dbm_rows m"] by simp
qed

section \<open>The properties at a concrete transaction\<close>

definition sample_tx :: std_tx where
  "sample_tx = \<lparr>stx_Signers = [''a''], stx_FeeAmount = 1, stx_FeeDenom = ''ugnot'',
     stx_Msgs = [BankSend ''a'' ''bb'' [], BankMultiSend [(''a'', []), (''a'', [])] [(''bb'', [])]], stx_Memo = []\<rparr>"

definition sample_dm :: DecodedMsg where
  "sample_dm = \<lparr>dm_BasicData = \<lparr>bd_TxHash = [], bd_Signers = [''a''], bd_Memo = [],
       bd_Fee = \<lparr>am_Amount = 1, am_Denom = ''ugnot''\<rparr>, bd_TotalMsgCount = 2\<rparr>, dm_Msgs = stx_Msgs sample_tx\<rparr>"

lemma sample_registered: "list_all registered (dm_Msgs sample_dm)"
  by (simp add: sample_dm_def sample_tx_def registered_def)

lemma sample_decoded: "NewDecodedMsg (\<lambda>b. Inr sample_tx) (\<lambda>b. []) [] = Done sample_dm"
  using sample_registered
  by (simp add: NewDecodedMsg_def GetMessageFromStdTx_def DecodeStdTxFromBase64_def decode_base64_def
      sample_dm_def sample_tx_def)

lemma sample_converts:
  "\<exists>out. ConvertToDbMessages sample_dm r tx c t signers = Inr out"
  using sample_registered unfolding ConvertToDbMessages_iff
  by (intro exI [of _ "\<lparr>dbm_rows = map (entry_of c t) (tx_rows r tx c t (map r signers) 0 (dm_Msgs sample_dm))\<rparr>"])
     (simp add: sample_dm_def sample_tx_def)

lemma ConvertToDbMessages_keys_witness:
  "\<exists>out. ConvertToDbMessages sample_dm (\<lambda>a. of_nat (length a)) 7 ''c'' 0 [''a''] = Inr out
    \<and> \<not> distinct (map (row_key \<circ> mrow_row) (dbm_rows out))"
proof -
  obtain out where out: "ConvertToDbMessages sample_dm (\<lambda>a. of_nat (length a)) 7 ''c'' 0 [''a''] = Inr out"
    using sample_converts by blast
  with ConvertToDbMessages_keys [OF out] show ?thesis by (simp add: sample_dm_def sample_tx_def)
qed

lemma CollectAllAddresses_enough_witness:
  "\<exists>out. ConvertToDbMessages sample_dm (\<lambda>a. of_nat (length a)) 7 ''c'' 0 (GetSigners sample_dm) = Inr out
    \<and> (\<forall>row\<in>set (dbm_rows out). 0 \<notin> message_ids (mrow_row row))"
proof -
  obtain out where out: "ConvertToDbMessages sample_dm (\<lambda>a. of_nat (length a)) 7 ''c'' 0 (GetSigners sample_dm) = Inr out"
    using sample_converts by blast
  have "\<forall>a\<in>set (CollectAllAddresses id sample_dm). (of_nat (length a) :: i32) \<noteq> 0"
    by (simp add: CollectAllAddresses_def sample_dm_def sample_tx_def registered_def set_insert_def)
  from CollectAllAddresses_enough [OF iteration_id(1) out this] out show ?thesis by blast
qed

lemma decoded_converts_witness:
  "NewDecodedMsg (\<lambda>b. Inr sample_tx) (\<lambda>b. []) [] = Done sample_dm
   \<and> (\<exists>out. ConvertToDbMessages sample_dm (\<lambda>a. 1) 7 ''c'' 0 [''a''] = Inr out)"
  using decoded_converts [OF sample_decoded, of "\<lambda>a. 1" 7 "''c''" 0 "[''a'']"] sample_decoded
  by (simp add: sample_dm_def sample_tx_def)

end
