(* ===== verification/Rpc_Types.thy ===== *)
theory Rpc_Types
  imports Go_Strings
begin

text \<open>
  The node's responses (\<open>indexer/rpc_client/blocks.go\<close>, \<open>commit.go\<close>, \<open>transactions.go\<close>,
  \<open>validator.go\<close>): the JSON structs as records, a pointer that may be nil as an option, a
  field of type \<open>any\<close> that is only compared with nil as an optional string. The getters
  are nil-safe in the code and take the optional response here.
\<close>

record JsonRpcError =
  je_Code :: i64
  je_Message :: string

section \<open>Blocks\<close>

record Parts =
  pt_Total :: string
  pt_Hash :: string

record BlockID =
  bid_Hash :: string
  bid_Parts :: Parts

record BlockHeader =
  bh_Version :: string
  bh_ChainID :: string
  bh_Height :: string
  bh_Time :: time
  bh_NumTxs :: string
  bh_TotalTxs :: string
  bh_AppVersion :: string
  bh_LastBlockID :: BlockID
  bh_LastCommitHash :: string
  bh_DataHash :: string
  bh_ValidatorsHash :: string
  bh_NextValidatorsHash :: string
  bh_ConsensusHash :: string
  bh_AppHash :: string
  bh_LastResultsHash :: "string option"
  bh_ProposerAddress :: string

record BlockData =
  bd_Txs :: "string list option"

record Precommit =
  pc_Type :: i64
  pc_Height :: string
  pc_Round :: string
  pc_BlockID :: BlockID
  pc_Timestamp :: time
  pc_ValidatorAddress :: string
  pc_ValidatorIndex :: string
  pc_Signature :: string

record LastCommit =
  lc_BlockID :: BlockID
  lc_Precommits :: "Precommit option list"

record BlockMeta =
  bm_BlockID :: BlockID
  bm_Header :: BlockHeader

record BlockInfo =
  bi_Header :: BlockHeader
  bi_Data :: BlockData
  bi_LastCommit :: LastCommit

record BlockResult =
  brs_BlockMeta :: BlockMeta
  brs_Block :: BlockInfo

record BlockResponse =
  br_Jsonrpc :: string
  br_ID :: i64
  br_Error :: "JsonRpcError option"
  br_Result :: BlockResult

definition block_GetHeight :: "BlockResponse option \<Rightarrow> goerror + u64" where
  "block_GetHeight br =
     (case br of
        None \<Rightarrow> Inl (ErrMsg ''BlockResponse is nil'')
      | Some b \<Rightarrow> ParseUint (bh_Height (bi_Header (brs_Block (br_Result b)))))"

definition block_GetTimestamp :: "BlockResponse option \<Rightarrow> time" where
  "block_GetTimestamp br =
     (case br of None \<Rightarrow> zero_time | Some b \<Rightarrow> bh_Time (bi_Header (brs_Block (br_Result b))))"

definition block_GetChainID :: "BlockResponse option \<Rightarrow> string" where
  "block_GetChainID br =
     (case br of None \<Rightarrow> [] | Some b \<Rightarrow> bh_ChainID (bi_Header (brs_Block (br_Result b))))"

definition block_GetProposerAddress :: "BlockResponse option \<Rightarrow> string" where
  "block_GetProposerAddress br =
     (case br of None \<Rightarrow> [] | Some b \<Rightarrow> bh_ProposerAddress (bi_Header (brs_Block (br_Result b))))"

definition block_GetBlockHash :: "BlockResponse option \<Rightarrow> string" where
  "block_GetBlockHash br =
     (case br of None \<Rightarrow> [] | Some b \<Rightarrow> bid_Hash (bm_BlockID (brs_BlockMeta (br_Result b))))"

definition block_GetTxHashes :: "BlockResponse option \<Rightarrow> string list option" where
  "block_GetTxHashes br =
     (case br of None \<Rightarrow> None | Some b \<Rightarrow> bd_Txs (bi_Data (brs_Block (br_Result b))))"

definition block_GetPrecommits :: "BlockResponse option \<Rightarrow> Precommit option list" where
  "block_GetPrecommits br =
     (case br of None \<Rightarrow> [] | Some b \<Rightarrow> lc_Precommits (bi_LastCommit (brs_Block (br_Result b))))"

definition block_IsValid :: "BlockResponse option \<Rightarrow> bool" where
  "block_IsValid br = (case br of None \<Rightarrow> False | Some b \<Rightarrow> br_Error b = None)"

section \<open>Commits\<close>

record Commit =
  cm_BlockID :: BlockID
  cm_Precommits :: "Precommit option list"

record SignedHeader =
  sh_Header :: BlockHeader
  sh_Commit :: Commit

record CommitResult =
  crs_SignedHeader :: SignedHeader

record CommitResponse =
  cr_Jsonrpc :: string
  cr_ID :: i64
  cr_Error :: "JsonRpcError option"
  cr_Result :: CommitResult

definition commit_GetHeight :: "CommitResponse option \<Rightarrow> goerror + u64" where
  "commit_GetHeight cr =
     (case cr of
        None \<Rightarrow> Inl (ErrMsg ''CommitResponse Header Height is nil'')
      | Some c \<Rightarrow>
          (case ParseUint (bh_Height (sh_Header (crs_SignedHeader (cr_Result c)))) of
             Inl e \<Rightarrow> Inl (ErrMsg ''failed to parse height'')
           | Inr h \<Rightarrow> Inr h))"

definition commit_GetTimestamp :: "CommitResponse option \<Rightarrow> time" where
  "commit_GetTimestamp cr =
     (case cr of None \<Rightarrow> zero_time | Some c \<Rightarrow> bh_Time (sh_Header (crs_SignedHeader (cr_Result c))))"

definition commit_GetSigners :: "CommitResponse option \<Rightarrow> Precommit option list" where
  "commit_GetSigners cr =
     (case cr of None \<Rightarrow> [] | Some c \<Rightarrow> cm_Precommits (sh_Commit (crs_SignedHeader (cr_Result c))))"

definition commit_GetProposerAddress :: "CommitResponse option \<Rightarrow> string" where
  "commit_GetProposerAddress cr =
     (case cr of
        None \<Rightarrow> []
      | Some c \<Rightarrow> bh_ProposerAddress (sh_Header (crs_SignedHeader (cr_Result c))))"

section \<open>Transactions\<close>

record EventAttribute =
  ea_Key :: string
  ea_Value :: string

record RpcEvent =
  ev_AtType :: string
  ev_Type :: string
  ev_Attrs :: "EventAttribute list"
  ev_PkgPath :: string

record ResponseBase =
  rb_Error :: "string option"
  rb_Data :: string
  rb_Events :: "RpcEvent list"
  rb_Log :: string
  rb_Info :: string

record TxResult =
  tr_ResponseBase :: ResponseBase
  tr_GasWanted :: string
  tr_GasUsed :: string

record TxResultData =
  td_Hash :: string
  td_Height :: string
  td_Index :: i64
  td_TxResult :: TxResult
  td_Tx :: string

record TxResponse =
  tx_Jsonrpc :: string
  tx_ID :: i64
  tx_Error :: "JsonRpcError option"
  tx_Result :: TxResultData

definition tx_GetHash :: "TxResponse option \<Rightarrow> string" where
  "tx_GetHash tr = (case tr of None \<Rightarrow> [] | Some t \<Rightarrow> td_Hash (tx_Result t))"

definition tx_GetHeight :: "TxResponse option \<Rightarrow> goerror + u64" where
  "tx_GetHeight tr =
     (case tr of
        None \<Rightarrow> Inl (ErrMsg ''TxResponse is nil'')
      | Some t \<Rightarrow> ParseUint (td_Height (tx_Result t)))"

definition tx_GetEvents :: "TxResponse option \<Rightarrow> RpcEvent list" where
  "tx_GetEvents tr =
     (case tr of None \<Rightarrow> [] | Some t \<Rightarrow> rb_Events (tr_ResponseBase (td_TxResult (tx_Result t))))"

definition tx_GetGasWanted :: "TxResponse option \<Rightarrow> goerror + u64" where
  "tx_GetGasWanted tr =
     (case tr of
        None \<Rightarrow> Inl (ErrMsg ''TxResponse is nil'')
      | Some t \<Rightarrow> ParseUint (tr_GasWanted (td_TxResult (tx_Result t))))"

definition tx_GetGasUsed :: "TxResponse option \<Rightarrow> goerror + u64" where
  "tx_GetGasUsed tr =
     (case tr of
        None \<Rightarrow> Inl (ErrMsg ''TxResponse is nil'')
      | Some t \<Rightarrow> ParseUint (tr_GasUsed (td_TxResult (tx_Result t))))"

definition tx_GetTx :: "TxResponse option \<Rightarrow> string" where
  "tx_GetTx tr = (case tr of None \<Rightarrow> [] | Some t \<Rightarrow> td_Tx (tx_Result t))"

definition tx_GetIndex :: "TxResponse option \<Rightarrow> i64" where
  "tx_GetIndex tr = (case tr of None \<Rightarrow> 0 | Some t \<Rightarrow> td_Index (tx_Result t))"

definition tx_IsValid :: "TxResponse option \<Rightarrow> bool" where
  "tx_IsValid tr = (case tr of None \<Rightarrow> False | Some t \<Rightarrow> tx_Error t = None)"

definition tx_HasError :: "TxResponse option \<Rightarrow> bool" where
  "tx_HasError tr =
     (case tr of
        None \<Rightarrow> False
      | Some t \<Rightarrow> rb_Error (tr_ResponseBase (td_TxResult (tx_Result t))) \<noteq> None)"

section \<open>Validators\<close>

record ValPubKey =
  vp_Type :: string
  vp_Value :: string

record ValidatorsSlice =
  vs_Address :: string
  vs_PubKey :: ValPubKey
  vs_VotingPower :: string
  vs_ProposerPriority :: string

record ValidatorResult =
  vr_BlockHeight :: string
  vr_Validators :: "ValidatorsSlice list"

record ValidatorsResponse =
  vrs_Jsonrpc :: string
  vrs_ID :: i64
  vrs_Error :: "JsonRpcError option"
  vrs_Result :: ValidatorResult

definition validators_IsValid :: "ValidatorsResponse option \<Rightarrow> bool" where
  "validators_IsValid vr = (case vr of None \<Rightarrow> False | Some v \<Rightarrow> vrs_Error v = None)"

lemmas rpc_getters =
  block_GetHeight_def block_GetTimestamp_def block_GetTxHashes_def commit_GetHeight_def
  commit_GetTimestamp_def commit_GetSigners_def commit_GetProposerAddress_def tx_GetHash_def

end
