(* ===== verification/Events.thy ===== *)
theory Events
  imports Schema Rpc_Types
begin

text \<open>
  Transaction events: how the indexer stores them (\<open>indexer/data_processor/event.go\<close>,
  \<open>pkgs/events_proto/parse.go\<close>) and how the API reads them back (\<open>decodeEvents\<close> in
  \<open>queries_tx.go\<close>, \<open>ToTransaction\<close> in \<open>pkgs/database/types.go\<close>). The wire format of the protobuf
  package, zstd, and the float conversions of \<open>strconv\<close> are arguments; floats are a type
  variable.
\<close>

section \<open>Attribute values\<close>

datatype 'f attr_value = StringValue string | Int64Value i64 | BoolValue bool | DoubleValue 'f

record 'f pAttribute =
  pa_Key :: string
  pa_Value :: "'f attr_value option"

record 'f pEvent =
  pe_AtType :: string
  pe_Type :: string
  pe_Attributes :: "'f pAttribute list"
  pe_PkgPath :: "string option"

definition parseBool :: "string \<Rightarrow> bool \<times> bool" where
  "parseBool s =
     (if s = ''true'' then (True, True) else if s = ''false'' then (False, True) else (False, False))"

definition parseAttributeValue :: "(string \<Rightarrow> 'f option) \<Rightarrow> string \<Rightarrow> 'f attr_value" where
  "parseAttributeValue parseFloat s =
     (case parseBool s of
        (b, True) \<Rightarrow> BoolValue b
      | (b, False) \<Rightarrow>
          (case ParseInt s of
             Inr i \<Rightarrow> Int64Value i
           | Inl e \<Rightarrow>
               (case parseFloat s of Some f \<Rightarrow> DoubleValue f | None \<Rightarrow> StringValue s)))"

definition NewAttributeFromString :: "(string \<Rightarrow> 'f option) \<Rightarrow> string \<Rightarrow> string \<Rightarrow> 'f pAttribute" where
  "NewAttributeFromString parseFloat key value =
     \<lparr>pa_Key = key, pa_Value = Some (parseAttributeValue parseFloat value)\<rparr>"

section \<open>Storing\<close>

datatype EventFormat = NativeFormat | CompressedFormat

record EventResult =
  er_Format :: EventFormat
  er_NativeEvents :: "Event list"
  er_CompressedData :: "byte list"

definition IsNative :: "EventResult \<Rightarrow> bool" where
  "IsNative er \<longleftrightarrow> er_Format er = NativeFormat"

definition IsCompressed :: "EventResult \<Rightarrow> bool" where
  "IsCompressed er \<longleftrightarrow> er_Format er = CompressedFormat"

definition GetNativeEvents :: "EventResult \<Rightarrow> Event list option" where
  "GetNativeEvents er = (if er_Format er = NativeFormat then Some (er_NativeEvents er) else None)"

definition GetCompressedData :: "EventResult \<Rightarrow> byte list option" where
  "GetCompressedData er =
     (if er_Format er = CompressedFormat then Some (er_CompressedData er) else None)"

definition proto_event :: "(string \<Rightarrow> 'f option) \<Rightarrow> RpcEvent \<Rightarrow> 'f pEvent" where
  "proto_event parseFloat event =
     \<lparr>pe_AtType = ev_AtType event, pe_Type = ev_Type event,
      pe_Attributes = map (\<lambda>a. NewAttributeFromString parseFloat (ea_Key a) (ea_Value a)) (ev_Attrs event),
      pe_PkgPath = Some (ev_PkgPath event)\<rparr>"

definition serializeEvent ::
  "('f pEvent list \<Rightarrow> goerror + byte list) \<Rightarrow> (string \<Rightarrow> 'f option) \<Rightarrow> RpcEvent list \<Rightarrow> goerror + byte list" where
  "serializeEvent marshal parseFloat events = marshal (map (proto_event parseFloat) events)"

definition native_event :: "RpcEvent \<Rightarrow> Event" where
  "native_event event =
     \<lparr>evt_AtType = ev_AtType event, evt_Type = ev_Type event,
      evt_Attributes = map (\<lambda>a. \<lparr>atr_Key = ea_Key a, atr_Value = ea_Value a\<rparr>) (ev_Attrs event),
      evt_PkgPath = ev_PkgPath event\<rparr>"

definition EventSolver ::
  "('f pEvent list \<Rightarrow> goerror + byte list) \<Rightarrow> (string \<Rightarrow> 'f option) \<Rightarrow> (byte list \<Rightarrow> byte list)
   \<Rightarrow> TxResponse \<Rightarrow> bool \<Rightarrow> goerror + EventResult" where
  "EventSolver marshal parseFloat encodeAll txResponse useCompressed =
     (let events = rb_Events (tr_ResponseBase (td_TxResult (tx_Result txResponse)));
          evCount = length events in
      if useCompressed \<and> evCount \<ge> 2
      then bind_result (serializeEvent marshal parseFloat events) (\<lambda>bs.
             Inr \<lparr>er_Format = CompressedFormat, er_NativeEvents = [], er_CompressedData = encodeAll bs\<rparr>)
      else Inr \<lparr>er_Format = NativeFormat, er_NativeEvents = map native_event events, er_CompressedData = []\<rparr>)"

section \<open>Reading back\<close>

definition attribute_text :: "('f \<Rightarrow> string) \<Rightarrow> 'f attr_value option \<Rightarrow> string" where
  "attribute_text formatFloat v =
     (case v of
        None \<Rightarrow> []
      | Some (StringValue s) \<Rightarrow> s
      | Some (Int64Value i) \<Rightarrow> FormatInt i
      | Some (BoolValue b) \<Rightarrow> FormatBool b
      | Some (DoubleValue f) \<Rightarrow> formatFloat f)"

definition stored_event :: "('f \<Rightarrow> string) \<Rightarrow> 'f pEvent \<Rightarrow> Event" where
  "stored_event formatFloat event =
     \<lparr>evt_AtType = pe_AtType event, evt_Type = pe_Type event,
      evt_Attributes = map (\<lambda>a. \<lparr>atr_Key = pa_Key a, atr_Value = attribute_text formatFloat (pa_Value a)\<rparr>)
        (pe_Attributes event),
      evt_PkgPath = (case pe_PkgPath event of None \<Rightarrow> [] | Some p \<Rightarrow> p)\<rparr>"

definition decodeEvents ::
  "(byte list \<Rightarrow> goerror + byte list) \<Rightarrow> (byte list \<Rightarrow> goerror + 'f pEvent list) \<Rightarrow> ('f \<Rightarrow> string)
   \<Rightarrow> byte list \<Rightarrow> goerror + Event list" where
  "decodeEvents decodeAll unmarshal formatFloat txEvents =
     (if txEvents = [] then Inr []
      else bind_result (decodeAll txEvents) (\<lambda>decompressed.
             bind_result (unmarshal decompressed) (\<lambda>evs.
               Inr (map (stored_event formatFloat) evs))))"

record FullTxData =
  ft_TxHash :: string
  ft_Timestamp :: time
  ft_BlockHeight :: u64
  ft_TxEvents :: "Event list"
  ft_TxEventsCompressed :: "byte list"
  ft_CompressionOn :: bool
  ft_GasUsed :: u64
  ft_GasWanted :: u64
  ft_FeeAmount :: string
  ft_FeeDenom :: string
  ft_MsgTypes :: "string list"
  ft_Success :: bool
  ft_ErrorLog :: "string option"

record Transaction =
  t_TxHash :: string
  t_Timestamp :: time
  t_BlockHeight :: u64
  t_TxEvents :: "Event list"
  t_GasUsed :: u64
  t_GasWanted :: u64
  t_FeeAmount :: string
  t_FeeDenom :: string
  t_MsgTypes :: "string list"
  t_Success :: bool
  t_ErrorLog :: "string option"

text \<open>The decoder is always passed by the callers; it answers with a pointer, never nil.\<close>

definition ToTransaction :: "(byte list \<Rightarrow> goerror + Event list) \<Rightarrow> FullTxData \<Rightarrow> goerror + Transaction" where
  "ToTransaction decode f =
     (let tx = (\<lambda>events. \<lparr>t_TxHash = ft_TxHash f, t_Timestamp = ft_Timestamp f,
                  t_BlockHeight = ft_BlockHeight f, t_TxEvents = events, t_GasUsed = ft_GasUsed f,
                  t_GasWanted = ft_GasWanted f, t_FeeAmount = ft_FeeAmount f,
                  t_FeeDenom = ft_FeeDenom f, t_MsgTypes = ft_MsgTypes f,
                  t_Success = ft_Success f, t_ErrorLog = ft_ErrorLog f\<rparr>) in
      if ft_CompressionOn f
      then bind_result (decode (ft_TxEventsCompressed f)) (\<lambda>events. Inr (tx events))
      else Inr (tx (ft_TxEvents f)))"

section \<open>Which values survive\<close>

text \<open>The text an attribute value has after it was parsed, stored and printed.\<close>

definition reprinted :: "(string \<Rightarrow> 'f option) \<Rightarrow> ('f \<Rightarrow> string) \<Rightarrow> string \<Rightarrow> string" where
  "reprinted parseFloat formatFloat s = attribute_text formatFloat (Some (parseAttributeValue parseFloat s))"

text \<open>A value written the way the printer writes it: a boolean word, an integer in canonical
  form, a float in the printer's form, or a text that is no number.\<close>

definition canonical :: "(string \<Rightarrow> 'f option) \<Rightarrow> ('f \<Rightarrow> string) \<Rightarrow> string \<Rightarrow> bool" where
  "canonical parseFloat formatFloat s \<longleftrightarrow>
     s = ''true'' \<or> s = ''false''
     \<or> (\<exists>i. s = FormatInt i)
     \<or> ((\<exists>e. ParseInt s = Inl e) \<and> (\<forall>f. parseFloat s = Some f \<longrightarrow> formatFloat f = s))"

lemma ParseInt_words: "ParseInt ''true'' = Inl (ErrMsg ''invalid syntax'')" "ParseInt ''false'' = Inl (ErrMsg ''invalid syntax'')"
  by (simp_all add: ParseInt_def parse_sign_def ParseUint_def char_class)

lemma reprinted_canonical: "reprinted pf ff s = s \<longleftrightarrow> canonical pf ff s"
proof (cases "s = ''true'' \<or> s = ''false''")
  case True
  then show ?thesis
    by (auto simp: reprinted_def parseAttributeValue_def parseBool_def attribute_text_def
        FormatBool_def canonical_def)
next
  case False
  then show ?thesis
  proof (cases "ParseInt s")
    case (Inr i)
    then have "reprinted pf ff s = FormatInt i"
      using False by (simp add: reprinted_def parseAttributeValue_def parseBool_def attribute_text_def)
    moreover have "(\<exists>j. s = FormatInt j) \<longleftrightarrow> s = FormatInt i"
      using Inr by (metis ParseInt_FormatInt sum.inject(2))
    ultimately show ?thesis using False Inr by (auto simp: canonical_def)
  next
    case (Inl e)
    then have "\<nexists>j. s = FormatInt j" by (metis ParseInt_FormatInt sum.distinct(1))
    with Inl False show ?thesis
      by (auto simp: reprinted_def parseAttributeValue_def parseBool_def attribute_text_def canonical_def
          split: option.splits)
  qed
qed

lemma stored_proto_event:
  "stored_event ff (proto_event pf ev) = native_event ev \<longleftrightarrow>
     list_all (\<lambda>a. canonical pf ff (ea_Value a)) (ev_Attrs ev)"
proof -
  have "attribute_text ff (Some (parseAttributeValue pf v)) = v \<longleftrightarrow> canonical pf ff v" for v
    using reprinted_canonical [of pf ff v] by (simp add: reprinted_def)
  then show ?thesis
    by (simp add: stored_event_def proto_event_def native_event_def NewAttributeFromString_def
        list_all_iff comp_def)
qed

text \<open>The documented behaviour of the packages: unmarshalling inverts marshalling, decompression
  inverts compression, and a compressed frame is never empty.\<close>

definition codec_ok ::
  "('f pEvent list \<Rightarrow> goerror + byte list) \<Rightarrow> (byte list \<Rightarrow> goerror + 'f pEvent list)
   \<Rightarrow> (byte list \<Rightarrow> byte list) \<Rightarrow> (byte list \<Rightarrow> goerror + byte list) \<Rightarrow> bool" where
  "codec_ok marshal unmarshal encodeAll decodeAll \<longleftrightarrow>
     (\<forall>evs bs. marshal evs = Inr bs \<longrightarrow> unmarshal bs = Inr evs)
     \<and> (\<forall>bs. decodeAll (encodeAll bs) = Inr bs \<and> encodeAll bs \<noteq> [])"

text \<open>The row as it comes back from the table: NULL columns scan as empty slices.\<close>

definition row_as_read :: "EventResult \<Rightarrow> FullTxData \<Rightarrow> FullTxData" where
  "row_as_read er f =
     f\<lparr>ft_TxEvents := (case GetNativeEvents er of None \<Rightarrow> [] | Some e \<Rightarrow> e),
       ft_TxEventsCompressed := (case GetCompressedData er of None \<Rightarrow> [] | Some b \<Rightarrow> b),
       ft_CompressionOn := IsCompressed er\<rparr>"

section \<open>Properties\<close>


text \<open>A codec for the witness: an association of the one encoded list with one byte.\<close>

definition sample_events :: "RpcEvent list" where
  "sample_events =
     [\<lparr>ev_AtType = ''a'', ev_Type = ''t'', ev_Attrs = [\<lparr>ea_Key = ''k'', ea_Value = ''007''\<rparr>], ev_PkgPath = ''p''\<rparr>,
      \<lparr>ev_AtType = ''a'', ev_Type = ''t'', ev_Attrs = [], ev_PkgPath = ''p''\<rparr>]"

definition sample_marshal :: "unit pEvent list \<Rightarrow> goerror + byte list" where
  "sample_marshal evs =
     (if evs = map (proto_event (\<lambda>s. None)) sample_events then Inr [1] else Inl (ErrMsg ''unsupported''))"

definition sample_unmarshal :: "byte list \<Rightarrow> goerror + unit pEvent list" where
  "sample_unmarshal bs = Inr (map (proto_event (\<lambda>s. None)) sample_events)"

definition sample_response :: TxResponse where
  "sample_response = \<lparr>tx_Jsonrpc = [], tx_ID = 0, tx_Error = None, tx_Result =
     \<lparr>td_Hash = [], td_Height = [], td_Index = 0, td_TxResult =
        \<lparr>tr_ResponseBase = \<lparr>rb_Error = None, rb_Data = [], rb_Events = sample_events, rb_Log = [], rb_Info = []\<rparr>,
          tr_GasWanted = [], tr_GasUsed = []\<rparr>, td_Tx = []\<rparr>\<rparr>"

lemma not_canonical_007: "\<not> canonical pf ff ''007''"
proof -
  have p: "ParseInt ''007'' = Inr 7"
    by (simp add: ParseInt_def parse_sign_def ParseUint_def char_class digits_value_def)
  have "FormatInt (7 :: i64) = [char_of (55 :: nat)]"
    by (simp add: FormatInt_def show_nat.simps digit_char_def)
  then have "''007'' \<noteq> FormatInt 7" by simp
  moreover have "''007'' = FormatInt i \<Longrightarrow> i = 7" for i
    by (metis ParseInt_FormatInt p sum.inject(2))
  ultimately show ?thesis using p by (auto simp: canonical_def)
qed


end
