(* ===== verification/Row_Db.thy ===== *)
theory Row_Db
  imports Schema Base64 "HOL-Library.AList"
begin

text \<open>
  The generic insert path (\<open>pkgs/database/timescaledb/insert.go\<close>). The pool's \<open>CopyFrom\<close> and the
  INSERT ... RETURNING query are arguments. The locale \<open>copy_store\<close> says what COPY promises
  (all rows or none), and is interpreted on a store of tables with keys.
\<close>

type_synonym 'db copy_op = "string \<Rightarrow> string list \<Rightarrow> cell list list \<Rightarrow> 'db \<Rightarrow> goerror option \<times> 'db"

definition InsertRows :: "'db copy_op \<Rightarrow> insertable list \<Rightarrow> 'db \<Rightarrow> goerror option \<times> 'db" where
  "InsertRows copy rows db =
     (if length rows = 0 then (None, db)
      else copy (TableName (hd rows)) (TableColumns (row_table (hd rows))) (map CopyRow rows) db)"

text \<open>The rows of \<open>RETURNING tx_hash, tx_id\<close> in order, or an error; a later row with the same hash
  overwrites an earlier one.\<close>

type_synonym 'db returning_op =
  "byte list list \<Rightarrow> time list \<Rightarrow> string \<Rightarrow> 'db \<Rightarrow> (goerror + (byte list \<times> i64) list) \<times> 'db"

definition decode_hash :: "string \<Rightarrow> goerror + byte list" where
  "decode_hash h =
     (case decode_base64 StdEncoding False h of
        None \<Rightarrow> Inl (ErrMsg ''illegal base64 data'') | Some bs \<Rightarrow> Inr bs)"

definition InsertTxHashIds ::
  "'db returning_op \<Rightarrow> string list \<Rightarrow> time list \<Rightarrow> string \<Rightarrow> 'db
   \<Rightarrow> (goerror + (string \<times> i64) list) \<times> 'db" where
  "InsertTxHashIds query txHashes timestamps chainName db =
     (if txHashes = [] \<or> timestamps = [] then (Inl (ErrMsg ''no tx hashes to insert''), db)
      else if length txHashes \<noteq> length timestamps
      then (Inl (ErrMsg ''tx hashes and timestamps must have the same length''), db)
      else (case mapM_result decode_hash txHashes of
              Inl e \<Rightarrow> (Inl e, db)
            | Inr txHashBytes \<Rightarrow>
                (case query txHashBytes timestamps chainName db of
                   (Inl e, db') \<Rightarrow> (Inl e, db')
                 | (Inr rows, db') \<Rightarrow>
                     (Inr (fold (\<lambda>(h, i) m. AList.update (encode_base64 StdEncoding h) i m) rows []), db'))))"

section \<open>What COPY promises\<close>

text \<open>\<open>content\<close> is what each table holds. A COPY appends all its rows or changes nothing.\<close>

locale copy_store =
  fixes copy :: "'db copy_op" and content :: "'db \<Rightarrow> string \<Rightarrow> cell list list"
  assumes copy_ok: "copy t cols rows db = (None, db') \<Longrightarrow>
      content db' = (content db)(t := content db t @ rows)"
    and copy_fail: "copy t cols rows db = (Some e, db') \<Longrightarrow> content db' = content db"
begin

lemma InsertRows_ok:
  assumes "InsertRows copy rows db = (None, db')" and "\<forall>r\<in>set rows. TableName r = t"
  shows "content db' = (content db)(t := content db t @ map CopyRow rows)"
proof (cases rows)
  case Nil
  with assms show ?thesis by (auto simp: InsertRows_def)
next
  case (Cons r rs)
  with assms have "copy t (TableColumns (row_table r)) (map CopyRow rows) db = (None, db')"
    by (simp add: InsertRows_def)
  then show ?thesis by (rule copy_ok)
qed

lemma InsertRows_fail: "InsertRows copy rows db = (Some e, db') \<Longrightarrow> content db' = content db"
  by (auto simp: InsertRows_def split: if_splits dest: copy_fail)

end

text \<open>A store of tables. A COPY fails when the environment makes it fail, when a row does not have
  one value per column, or when a check on the new rows of the table fails (a NULL in a NOT NULL
  column, a key that is taken).\<close>

record table_store =
  ts_tables :: "string \<Rightarrow> cell list list"
  ts_check :: "string \<Rightarrow> cell list list \<Rightarrow> cell list list \<Rightarrow> bool"
  ts_faults :: "bool list"

definition store_copy :: "table_store copy_op" where
  "store_copy t cols rows db =
     (let (fault, db') = (case ts_faults db of [] \<Rightarrow> (False, db) | f # fs \<Rightarrow> (f, db\<lparr>ts_faults := fs\<rparr>)) in
      if fault then (Some (ErrMsg ''copy failed''), db')
      else if \<not> list_all (\<lambda>r. length r = length cols) rows then (Some (ErrMsg ''column count''), db')
      else if \<not> ts_check db t (ts_tables db t) rows then (Some (ErrMsg ''constraint violated''), db')
      else (None, db'\<lparr>ts_tables := (ts_tables db)(t := ts_tables db t @ rows)\<rparr>))"

interpretation stored: copy_store store_copy ts_tables
  by unfold_locales (auto simp: store_copy_def Let_def split: list.splits if_splits prod.splits)

text \<open>Tables that are a part of a larger state keep the promise there.\<close>

locale copy_part = copy_store copy content
  for copy :: "'db copy_op" and content +
  fixes part :: "'w \<Rightarrow> 'db" and put :: "'db \<Rightarrow> 'w \<Rightarrow> 'w"
  assumes part_put: "part (put db w) = db"

sublocale copy_part \<subseteq> whole: copy_store "\<lambda>t cols rows. on_part part put (copy t cols rows)" "\<lambda>w. content (part w)"
  by unfold_locales (auto simp: on_part_eq part_put dest: copy_ok copy_fail)

section \<open>The identities returned for hashes\<close>

lemma fold_update_keys:
  "fst ` set (fold (\<lambda>(h, i) m. AList.update (f h) i m) rows m) = fst ` set m \<union> f ` fst ` set rows"
proof (induction rows arbitrary: m)
  case (Cons r rows)
  obtain h i where "r = (h, i)" by (cases r)
  then show ?case by (simp add: Cons dom_update)
qed simp

lemma fold_update_distinct:
  "distinct (map fst m) \<Longrightarrow> distinct (map fst (fold (\<lambda>(h, i) m. AList.update (f h) i m) rows m))"
  by (induction rows arbitrary: m) (auto simp: distinct_update)

lemma map_of_fold_update:
  "inj f \<Longrightarrow> distinct (map fst rows) \<Longrightarrow> (h, i) \<in> set rows
   \<Longrightarrow> map_of (fold (\<lambda>(h, i) m. AList.update (f h) i m) rows m) (f h) = Some i"
proof (induction rows rule: rev_induct)
  case (snoc r rows)
  obtain h' i' where r: "r = (h', i')" by (cases r)
  show ?case
  proof (cases "h = h'")
    case True
    then have "i = i'" using snoc.prems r by (auto simp: image_iff)
    then show ?thesis using True by (simp add: r update_conv)
  next
    case False
    then have "f h \<noteq> f h'" using snoc.prems(1) by (auto dest: injD)
    then show ?thesis using snoc False by (auto simp: r update_conv)
  qed
qed simp

lemma inj_encode: "inj (encode_base64 al)"
  by (rule injI) (rule encode_base64_inj)

lemma decode_hash_encode [simp]: "decode_hash (encode_base64 StdEncoding bs) = Inr bs"
  by (simp add: decode_hash_def)

section \<open>Properties\<close>

text \<open>When the database answers with one identity per hash sent, every canonically encoded hash
  is found in the returned map, with the identity the database gave to its bytes, and nothing else
  is in it.\<close>
theorem InsertTxHashIds_map:
  assumes "bs \<noteq> []" and "length ts = length bs" and "distinct bs"
    and "query bs ts c db = (Inr (zip bs ids), db')" and "length ids = length bs"
  shows "\<exists>m. InsertTxHashIds query (map (encode_base64 StdEncoding) bs) ts c db = (Inr m, db')
    \<and> map_of m = map_of (zip (map (encode_base64 StdEncoding) bs) ids)"
proof -
  let ?e = "encode_base64 StdEncoding" and ?m = "fold (\<lambda>(h, i) m. AList.update (encode_base64 StdEncoding h) i m) (zip bs ids) []"
  have "mapM_result decode_hash (map ?e bs) = Inr bs"
    by (simp add: mapM_result_Inr_iff list_all2_conv_all_nth)
  then have res: "InsertTxHashIds query (map ?e bs) ts c db = (Inr ?m, db')"
    using assms by (auto simp: InsertTxHashIds_def)
  have dz: "distinct (map fst (zip bs ids))" using assms(3,5) by simp
  have dk: "distinct (map fst ?m)" by (rule fold_update_distinct) simp
  have "map_of ?m k = map_of (zip (map ?e bs) ids) k" for k
  proof (cases "k \<in> ?e ` set bs")
    case True
    then obtain n where n: "n < length bs" "k = ?e (bs ! n)" by (auto simp: in_set_conv_nth)
    then have "(bs ! n, ids ! n) \<in> set (zip bs ids)" using assms(5) by (auto simp: set_zip)
    then have "map_of ?m k = Some (ids ! n)"
      unfolding n(2) by (rule map_of_fold_update [OF inj_encode dz])
    moreover have "distinct (map ?e bs)" using assms(3) inj_encode by (simp add: distinct_map inj_on_def inj_def)
    then have "map_of (zip (map ?e bs) ids) k = Some (ids ! n)"
      using n assms(5) map_of_zip_nth [of "map ?e bs" ids n] by simp
    ultimately show ?thesis by simp
  next
    case False
    have "fst ` set ?m = ?e ` set bs"
      unfolding fold_update_keys using assms(5) by (metis image_empty list.set(1) map_fst_zip set_map sup_bot_left)
    then have "map_of ?m k = None" using False by (simp add: map_of_eq_None_iff)
    moreover have "map_of (zip (map ?e bs) ids) k = None"
      using False assms(5) by (simp add: map_of_zip_is_None)
    ultimately show ?thesis by simp
  qed
  then show ?thesis using res by blast
qed

lemma InsertTxHashIds_map_witness:
  "\<exists>m. InsertTxHashIds (\<lambda>bs ts c db. (Inr (zip bs [7, 8]), db)) (map (encode_base64 StdEncoding) [[1], [2]]) [0, 0] ''c'' ()
     = (Inr m, ()) \<and> map_of m (encode_base64 StdEncoding [2]) = Some 8"
proof -
  have ne: "encode_base64 StdEncoding [1] \<noteq> encode_base64 StdEncoding [2]"
    using encode_base64_inj [of StdEncoding "[1]" "[2]"] by auto
  obtain m where "InsertTxHashIds (\<lambda>bs ts c db. (Inr (zip bs [7, 8]), db)) (map (encode_base64 StdEncoding) [[1], [2]]) [0, 0] ''c'' ()
      = (Inr m, ())" "map_of m = map_of (zip (map (encode_base64 StdEncoding) [[1], [2]]) [7, 8])"
    using InsertTxHashIds_map [of "[[1], [2]]" "[0, 0]" "\<lambda>bs ts c db. (Inr (zip bs [7, 8]), db)" "''c''" "()" "[7, 8]" "()"]
    by auto
  with ne show ?thesis by auto
qed

end
