(* ===== verification/Data_Processor.thy ===== *)
theory Data_Processor
  imports Address_Cache Decoder Events Row_Db
begin

text \<open>
  The data processor (\<open>indexer/data_processor/operator.go\<close>, \<open>types.go\<close>): it turns fetched blocks,
  commits and transactions into rows and inserts them. Its database and its third-party codecs
  are arguments. Each goroutine owns one slot; the schedule in which they run, and the orders in
  which Go iterates over its maps, are arguments too.
\<close>

section \<open>What it is given\<close>

record 'db DbOps =
  op_InsertRows :: "insertable list \<Rightarrow> 'db \<Rightarrow> goerror option \<times> 'db"
  op_InsertTxHashIds :: "string list \<Rightarrow> time list \<Rightarrow> string \<Rightarrow> 'db \<Rightarrow> (goerror + (string \<times> i64) list) \<times> 'db"
  op_FindExisting :: "'db find_op"
  op_InsertAddresses :: "'db insert_op"

record 'f Codecs =
  cd_unmarshalTx :: "byte list \<Rightarrow> goerror + std_tx"
  cd_sha256 :: "byte list \<Rightarrow> byte list"
  cd_marshalEvents :: "'f pEvent list \<Rightarrow> goerror + byte list"
  cd_parseFloat :: "string \<Rightarrow> 'f option"
  cd_encodeAll :: "byte list \<Rightarrow> byte list"

record Orders =
  ord_strings :: "string list \<Rightarrow> string list"
  ord_ids :: "i32 list \<Rightarrow> i32 list"
  ord_rows :: "AddressTx list \<Rightarrow> AddressTx list"
  ord_hashes :: "(string \<times> i64) list \<Rightarrow> (string \<times> i64) list"

definition orders_ok :: "Orders \<Rightarrow> bool" where
  "orders_ok o1 \<longleftrightarrow> iteration (ord_strings o1) \<and> iteration (ord_ids o1) \<and> iteration (ord_rows o1)
     \<and> iteration (ord_hashes o1)"

record DataProcessor =
  dp_addressCache :: AddressCache
  dp_validatorCache :: AddressCache
  dp_chainName :: string
  dp_txHashCache :: "(string \<times> i64) list"

record TransactionsData =
  tdt_Response :: "TxResponse option"
  tdt_Timestamp :: time
  tdt_BlockHeight :: u64

type_synonym 'db dp_state = "DataProcessor \<times> 'db"

definition NewDataProcessor :: "AddressCache \<Rightarrow> AddressCache \<Rightarrow> string \<Rightarrow> DataProcessor" where
  "NewDataProcessor addressCache validatorCache chainName =
     \<lparr>dp_addressCache = addressCache, dp_validatorCache = validatorCache, dp_chainName = chainName,
      dp_txHashCache = []\<rparr>"

text \<open>Dereferencing a nil pointer panics.\<close>

definition deref :: "'a option \<Rightarrow> 'a outcome" where
  "deref p = (case p of None \<Rightarrow> Panic ''nil pointer dereference'' | Some v \<Rightarrow> Done v)"

definition response_base :: "TxResponse \<Rightarrow> ResponseBase" where
  "response_base r = tr_ResponseBase (td_TxResult (tx_Result r))"

definition GetSuccess :: "TxResponse \<Rightarrow> bool" where
  "GetSuccess r \<longleftrightarrow> rb_Error (response_base r) = None"

definition GetTransactionErrorDetails :: "TxResponse \<Rightarrow> string option" where
  "GetTransactionErrorDetails r =
     (let log = rb_Log (response_base r) in
      if log = [] then None
      else if length log > 255 then Some (take 255 log)
      else Some log)"

section \<open>Validator addresses\<close>

definition processPrecommits :: "BlockResponse option \<Rightarrow> string list \<Rightarrow> string list outcome" where
  "processPrecommits block addressesMap =
     bind_outcome (deref block) (\<lambda>b.
       let info = brs_Block (br_Result b);
           m = fold (\<lambda>precommit m. case precommit of None \<Rightarrow> m | Some pc \<Rightarrow> set_insert (pc_ValidatorAddress pc) m)
                 (lc_Precommits (bi_LastCommit info)) addressesMap
       in Done (set_insert (bh_ProposerAddress (bi_Header info)) m))"

definition extractAddresses :: "(string list \<Rightarrow> string list) \<Rightarrow> string list \<Rightarrow> string list" where
  "extractAddresses it addressesMap = it addressesMap"

definition ProcessValidatorAddresses ::
  "'db DbOps \<Rightarrow> Orders \<Rightarrow> nat list \<Rightarrow> BlockResponse option list \<Rightarrow> 'db dp_state \<Rightarrow> 'db dp_state outcome" where
  "ProcessValidatorAddresses ops o1 sched blocks s =
     (let (d, db) = s in
      bind_outcome (foldM_outcome (\<lambda>i. processPrecommits (blocks ! i)) sched []) (\<lambda>addressesMap.
        let addresses = extractAddresses (ord_strings o1) addressesMap;
            (cache, db') = AddressSolver (op_FindExisting ops) (op_InsertAddresses ops) addresses
              (dp_chainName d) True 3 None (dp_validatorCache d, db)
        in Done (d\<lparr>dp_validatorCache := cache\<rparr>, db')))"

section \<open>Blocks\<close>

definition zero_block :: Blocks where
  "zero_block = \<lparr>bl_Hash = None, bl_Height = 0, bl_Timestamp = zero_time, bl_ChainID = [], bl_ChainName = []\<rparr>"

text \<open>\<open>None\<close>: the goroutine returns early and leaves its slot as it was made.\<close>

definition processBlock :: "string \<Rightarrow> BlockResponse option \<Rightarrow> Blocks option outcome" where
  "processBlock chainName block =
     bind_outcome (deref block) (\<lambda>b.
       let header = bi_Header (brs_Block (br_Result b)) in
       Done (case decode_base64 StdEncoding False (bid_Hash (bm_BlockID (brs_BlockMeta (br_Result b)))) of
               None \<Rightarrow> None
             | Some hash \<Rightarrow>
                 (case ParseUint (bh_Height header) of
                    Inl e \<Rightarrow> None
                  | Inr height \<Rightarrow>
                      Some \<lparr>bl_Hash = Some hash, bl_Height = height, bl_Timestamp = bh_Time header,
                            bl_ChainID = bh_ChainID header, bl_ChainName = chainName\<rparr>)))"

definition blocks_rows :: "nat list \<Rightarrow> string \<Rightarrow> BlockResponse option list \<Rightarrow> Blocks list outcome" where
  "blocks_rows sched chainName blocks =
     run_slots sched (\<lambda>i. bind_outcome (processBlock chainName (blocks ! i))
                            (\<lambda>r. Done (case r of None \<Rightarrow> zero_block | Some b \<Rightarrow> b)))
       (replicate (length blocks) zero_block)"

definition ProcessBlocks ::
  "'db DbOps \<Rightarrow> nat list \<Rightarrow> BlockResponse option list \<Rightarrow> 'db dp_state \<Rightarrow> 'db dp_state outcome" where
  "ProcessBlocks ops sched blocks s =
     (let (d, db) = s in
      bind_outcome (blocks_rows sched (dp_chainName d) blocks) (\<lambda>blocksData.
        Done (d, snd (op_InsertRows ops (map Row_Block blocksData) db))))"

section \<open>Transactions\<close>

definition ProcessTxHashIds ::
  "'db DbOps \<Rightarrow> TransactionsData list \<Rightarrow> 'db dp_state \<Rightarrow> 'db dp_state" where
  "ProcessTxHashIds ops txData s =
     (let (d, db) = s in
      case op_InsertTxHashIds ops (map (\<lambda>tx. tx_GetHash (tdt_Response tx)) txData)
             (map tdt_Timestamp txData) (dp_chainName d) db of
        (Inl e, db') \<Rightarrow> (d, db')
      | (Inr txHashIds, db') \<Rightarrow> (d\<lparr>dp_txHashCache := txHashIds\<rparr>, db'))"

definition transaction_row ::
  "'f Codecs \<Rightarrow> bool \<Rightarrow> DataProcessor \<Rightarrow> TransactionsData \<Rightarrow> TxResponse \<Rightarrow> DecodedMsg \<Rightarrow> TransactionGeneral option" where
  "transaction_row cd compressEvents d transaction r decodedMsg =
     (let txResult = td_TxResult (tx_Result r) in
      case map_of (dp_txHashCache d) (tx_GetHash (Some r)) of
        None \<Rightarrow> None
      | Some txId \<Rightarrow>
          (case ParseUint (tr_GasWanted txResult) of
             Inl e \<Rightarrow> None
           | Inr gasWanted \<Rightarrow>
               (case ParseUint (tr_GasUsed txResult) of
                  Inl e \<Rightarrow> None
                | Inr gasUsed \<Rightarrow>
                    (case EventSolver (cd_marshalEvents cd) (cd_parseFloat cd) (cd_encodeAll cd) r compressEvents of
                       Inl e \<Rightarrow> None
                     | Inr events \<Rightarrow>
                         Some \<lparr>tg_TxId = txId, tg_ChainName = dp_chainName d,
                               tg_Timestamp = tdt_Timestamp transaction,
                               tg_BlockHeight = tdt_BlockHeight transaction,
                               tg_MsgTypes = GetMsgTypes decodedMsg,
                               tg_TxEvents = GetNativeEvents events,
                               tg_TxEventsCompressed = GetCompressedData events,
                               tg_CompressionOn = IsCompressed events,
                               tg_GasUsed = gasUsed, tg_GasWanted = gasWanted,
                               tg_FeeAmount = am_Amount (GetFee decodedMsg),
                               tg_FeeDenom = am_Denom (GetFee decodedMsg),
                               tg_Success = GetSuccess r,
                               tg_ErrorLog = (if GetSuccess r then None else GetTransactionErrorDetails r)\<rparr>))))"

definition processTransaction ::
  "'f Codecs \<Rightarrow> bool \<Rightarrow> DataProcessor \<Rightarrow> TransactionsData \<Rightarrow> TransactionGeneral option outcome" where
  "processTransaction cd compressEvents d transaction =
     bind_outcome (deref (tdt_Response transaction)) (\<lambda>r.
       bind_outcome (NewDecodedMsg (cd_unmarshalTx cd) (cd_sha256 cd) (td_Tx (tx_Result r))) (\<lambda>decodedMsg.
         Done (transaction_row cd compressEvents d transaction r decodedMsg)))"

definition keep_valid :: "'a option list \<Rightarrow> 'a list" where
  "keep_valid slots = map the (filter (\<lambda>s. s \<noteq> None) slots)"

definition ProcessTransactions ::
  "'db DbOps \<Rightarrow> 'f Codecs \<Rightarrow> nat list \<Rightarrow> TransactionsData list \<Rightarrow> bool \<Rightarrow> 'db dp_state \<Rightarrow> 'db dp_state outcome" where
  "ProcessTransactions ops cd sched transactions compressEvents s =
     (let (d, db) = s in
      bind_outcome (run_slots sched (\<lambda>i. processTransaction cd compressEvents d (transactions ! i))
                      (replicate (length transactions) None)) (\<lambda>slots.
        Done (d, snd (op_InsertRows ops (map Row_Tx (keep_valid slots)) db))))"

section \<open>Messages\<close>

text \<open>One goroutine of the first phase: decode, and add the addresses to the shared set. The
  decoder ends the process on failure, so its result is never nil.\<close>

definition decodeTx ::
  "'f Codecs \<Rightarrow> (string list \<Rightarrow> string list) \<Rightarrow> TransactionsData \<Rightarrow> (DecodedMsg \<times> string list) outcome" where
  "decodeTx cd it transaction =
     bind_outcome (deref (tdt_Response transaction)) (\<lambda>r.
       bind_outcome (NewDecodedMsg (cd_unmarshalTx cd) (cd_sha256 cd) (td_Tx (tx_Result r))) (\<lambda>decodedMsg.
         Done (decodedMsg, CollectAllAddresses it decodedMsg)))"

definition transactionDecoding ::
  "'f Codecs \<Rightarrow> (string list \<Rightarrow> string list) \<Rightarrow> nat list \<Rightarrow> TransactionsData list
   \<Rightarrow> (DecodedMsg option list \<times> string list) outcome" where
  "transactionDecoding cd it sched transactions =
     bind_outcome (run_slots sched (\<lambda>i. bind_outcome (decodeTx cd it (transactions ! i)) (\<lambda>p. Done (Some p)))
                     (replicate (length transactions) None)) (\<lambda>slots.
       Done (map (map_option fst) slots,
             fold (\<lambda>i m. case slots ! i of None \<Rightarrow> m | Some (dm, addresses) \<Rightarrow> fold set_insert addresses m) sched []))"

text \<open>One goroutine of the second phase: a result, an error, or neither when the transaction has
  no identity in the cache.\<close>

definition processMessageGroup ::
  "DataProcessor \<Rightarrow> TransactionsData \<Rightarrow> DecodedMsg option \<Rightarrow> DbMessages option \<times> goerror option" where
  "processMessageGroup d transaction decodedMsg =
     (case decodedMsg of
        None \<Rightarrow> (None, None)
      | Some dm \<Rightarrow>
          (case map_of (dp_txHashCache d) (tx_GetHash (tdt_Response transaction)) of
             None \<Rightarrow> (None, None)
           | Some txId \<Rightarrow>
               (case ConvertToDbMessages dm (GetAddress (dp_addressCache d)) txId (dp_chainName d)
                       (tdt_Timestamp transaction) (GetSigners dm) of
                  Inl e \<Rightarrow> (None, Some (ErrWrap (''tx '' @ tx_GetHash (tdt_Response transaction)) e))
                | Inr dbMessages \<Rightarrow> (Some dbMessages, None))))"

definition aggregate_messages :: "DbMessages option list \<Rightarrow> DbMessages" where
  "aggregate_messages results =
     fold (\<lambda>r agg. case r of None \<Rightarrow> agg | Some m \<Rightarrow> Merge agg m) results emptyDbMessages"

definition address_key :: "AddressTx \<Rightarrow> i32 \<times> i64 \<times> string" where
  "address_key a = (at_Address a, at_TxId a, at_ChainName a)"

definition add_entry :: "AddressTx \<Rightarrow> AddressTx list \<Rightarrow> AddressTx list" where
  "add_entry a seen = (if address_key a \<in> address_key ` set seen then seen else seen @ [a])"

definition addToAddressTx ::
  "(i32 list \<Rightarrow> i32 list) \<Rightarrow> TxAddresses \<Rightarrow> string \<Rightarrow> time \<Rightarrow> AddressTx list \<Rightarrow> AddressTx list" where
  "addToAddressTx it addresses chainName ts seen =
     fold (\<lambda>addr. add_entry \<lparr>at_Address = addr, at_TxId = ta_TxId addresses, at_ChainName = chainName,
                            at_Timestamp = ts\<rparr>) (GetAddressList it addresses) seen"

definition createAddressTx :: "Orders \<Rightarrow> DbMessages \<Rightarrow> AddressTx list" where
  "createAddressTx o1 msgs =
     ord_rows o1 (fold (\<lambda>e. addToAddressTx (ord_ids o1) (aen_Addresses e) (aen_ChainName e) (aen_Timestamp e))
       (AddressEntries msgs) [])"

definition findHashes :: "Orders \<Rightarrow> DataProcessor \<Rightarrow> i64 list \<Rightarrow> string list" where
  "findHashes o1 d txIds = map fst (filter (\<lambda>(hash, i). i \<in> set txIds) (ord_hashes o1 (dp_txHashCache d)))"

definition insertMessageBatch ::
  "'db DbOps \<Rightarrow> Orders \<Rightarrow> DataProcessor \<Rightarrow> InsertBatch \<Rightarrow> goerror list \<times> 'db \<Rightarrow> goerror list \<times> 'db" where
  "insertMessageBatch ops o1 d batch s =
     (let (errors, db) = s in
      case op_InsertRows ops (ib_Rows batch) db of
        (None, db') \<Rightarrow> (errors, db')
      | (Some e, db') \<Rightarrow>
          (errors @ [ErrWrap (''failed to insert '' @ TableName (hd (ib_Rows batch)) @ '' hashes: ''
                       @ join '' '' (findHashes o1 d (ib_TxIds batch))) e], db'))"

definition insertMessageBatches ::
  "'db DbOps \<Rightarrow> Orders \<Rightarrow> DataProcessor \<Rightarrow> InsertBatch list \<Rightarrow> 'db \<Rightarrow> goerror option \<times> 'db" where
  "insertMessageBatches ops o1 d batches db =
     (let (insertErrors, db') =
        fold (\<lambda>batch s. if length (ib_Rows batch) > 0 then insertMessageBatch ops o1 d batch s else s)
          batches ([], db) in
      if length insertErrors > 0 then (Some (ErrMsg ''multiple insertion errors''), db') else (None, db'))"

definition resolve_messages ::
  "'db DbOps \<Rightarrow> Orders \<Rightarrow> string list \<Rightarrow> 'db dp_state \<Rightarrow> 'db dp_state" where
  "resolve_messages ops o1 addressesMap s =
     (let (d, db) = s; allAddresses = extractAddresses (ord_strings o1) addressesMap in
      if length allAddresses > 0
      then (let (cache, db') = AddressSolver (op_FindExisting ops) (op_InsertAddresses ops) allAddresses
                  (dp_chainName d) False 3 None (dp_addressCache d, db)
            in (d\<lparr>dp_addressCache := cache\<rparr>, db'))
      else (d, db))"

definition ProcessMessages ::
  "'db DbOps \<Rightarrow> 'f Codecs \<Rightarrow> Orders \<Rightarrow> nat list \<Rightarrow> nat list \<Rightarrow> TransactionsData list \<Rightarrow> 'db dp_state
   \<Rightarrow> (goerror option \<times> 'db dp_state) outcome" where
  "ProcessMessages ops cd o1 sched1 sched2 transactions s =
     bind_outcome (transactionDecoding cd (ord_strings o1) sched1 transactions) (\<lambda>(allDecodedMsgs, addressesMap).
       let (d, db) = resolve_messages ops o1 addressesMap s;
           slots = fill_slots sched2 (\<lambda>i. processMessageGroup d (transactions ! i) (allDecodedMsgs ! i))
                     (replicate (length transactions) (None, None));
           conversionErrors = keep_valid (map snd slots) in
       if length conversionErrors > 0 then Done (Some (ErrMsg ''failed to convert messages''), d, db)
       else
         (let aggregated = aggregate_messages (map fst slots);
              addresses = createAddressTx o1 aggregated in
          case op_InsertRows ops (map Row_Address addresses) db of
            (Some e, db') \<Rightarrow> Done (Some (ErrWrap ''failed to insert address tx'' e), d, db')
          | (None, db') \<Rightarrow>
              (case insertMessageBatches ops o1 d (InsertBatches aggregated) db' of
                 (Some e, db'') \<Rightarrow> Done (Some (ErrWrap ''failed to insert messages'' e), d, db'')
               | (None, db'') \<Rightarrow> Done (None, d, db''))))"

section \<open>Validator signings\<close>

definition processValidatorSigning :: "DataProcessor \<Rightarrow> CommitResponse option \<Rightarrow> ValidatorBlockSigning option" where
  "processValidatorSigning d commit =
     (let proposer = GetAddress (dp_validatorCache d) (commit_GetProposerAddress commit);
          signedVals = concat (map (\<lambda>precommit. case precommit of None \<Rightarrow> []
                                 | Some pc \<Rightarrow> [GetAddress (dp_validatorCache d) (pc_ValidatorAddress pc)])
                         (commit_GetSigners commit)) in
      case commit_GetHeight commit of
        Inl e \<Rightarrow> None
      | Inr height \<Rightarrow>
          Some \<lparr>vbs_BlockHeight = height, vbs_Timestamp = commit_GetTimestamp commit,
                vbs_Proposer = proposer, vbs_SignedVals = signedVals, vbs_ChainName = dp_chainName d\<rparr>)"

definition ProcessValidatorSignings ::
  "'db DbOps \<Rightarrow> nat list \<Rightarrow> CommitResponse option list \<Rightarrow> 'db dp_state \<Rightarrow> 'db dp_state" where
  "ProcessValidatorSignings ops sched commits s =
     (let (d, db) = s;
          slots = fill_slots sched (\<lambda>i. processValidatorSigning d (commits ! i)) (replicate (length commits) None)
      in (d, snd (op_InsertRows ops (map Row_Signing (keep_valid slots)) db)))"

section \<open>Slots\<close>

lemma map_upt_nth: "map (\<lambda>i. f (xs ! i)) [0..<length xs] = map f xs"
  by (intro nth_equalityI) auto

lemma run_slots_list:
  assumes "schedule sched (length xs)" and "\<And>x. x \<in> set xs \<Longrightarrow> f x = Done (g x)"
  shows "run_slots sched (\<lambda>i. f (xs ! i)) (replicate (length xs) z) = Done (map g xs)"
proof -
  have "run_slots sched (\<lambda>i. f (xs ! i)) (replicate (length xs) z) = Done (map (\<lambda>i. g (xs ! i)) [0..<length xs])"
    by (rule run_slots_Done [OF assms(1)]) (simp_all add: assms(2))
  then show ?thesis by (simp only: map_upt_nth)
qed

lemma run_slots_list_fails:
  assumes "schedule sched (length xs)" and "x \<in> set xs" and "\<not> returns (f x)"
  shows "\<not> returns (run_slots sched (\<lambda>i. f (xs ! i)) init)"
proof -
  from assms(2) obtain i where "i < length xs" "x = xs ! i" by (auto simp: in_set_conv_nth)
  with assms show ?thesis by (intro run_slots_not_Done [where i = i]) auto
qed

lemma fill_slots_list:
  assumes "schedule sched (length xs)"
  shows "fill_slots sched (\<lambda>i. f (xs ! i)) (replicate (length xs) z) = map f xs"
proof -
  have "fill_slots sched (\<lambda>i. f (xs ! i)) (replicate (length xs) z) = map (\<lambda>i. f (xs ! i)) [0..<length xs]"
    by (rule fill_slots_schedule [OF assms]) simp
  then show ?thesis by (simp only: map_upt_nth)
qed

lemma keep_valid_map: "keep_valid (map f xs) = List.map_filter f xs"
  by (induction xs) (auto simp: keep_valid_def map_filter_simps split: option.splits)

lemma returns_iff: "returns r \<longleftrightarrow> (\<exists>x. r = Done x)"
  by (cases r) auto

section \<open>Rows of the address table\<close>

lemma add_entry_fold:
  "address_key ` set (fold add_entry es seen) = address_key ` set seen \<union> address_key ` set es"
  "distinct (map address_key seen) \<Longrightarrow> distinct (map address_key (fold add_entry es seen))"
  by (induction es arbitrary: seen) (auto simp: add_entry_def)

definition tx_entries :: "(i32 list \<Rightarrow> i32 list) \<Rightarrow> AddressEntry \<Rightarrow> AddressTx list" where
  "tx_entries it e =
     map (\<lambda>addr. \<lparr>at_Address = addr, at_TxId = ta_TxId (aen_Addresses e), at_ChainName = aen_ChainName e,
                 at_Timestamp = aen_Timestamp e\<rparr>) (GetAddressList it (aen_Addresses e))"

lemma addToAddressTx_entries:
  "addToAddressTx it (aen_Addresses e) (aen_ChainName e) (aen_Timestamp e) = fold add_entry (tx_entries it e)"
  by (rule ext) (simp add: addToAddressTx_def tx_entries_def fold_map comp_def)

lemma fold_fold_concat: "fold (\<lambda>e. fold f (g e)) es s = fold f (concat (map g es)) s"
  by (induction es arbitrary: s) simp_all

lemma createAddressTx_fold:
  "createAddressTx o1 msgs =
     ord_rows o1 (fold add_entry (concat (map (tx_entries (ord_ids o1)) (AddressEntries msgs))) [])"
  by (simp add: createAddressTx_def addToAddressTx_entries fold_fold_concat)

lemma createAddressTx_keys:
  assumes "orders_ok o1"
  shows "address_key ` set (createAddressTx o1 msgs) =
      (\<Union>row\<in>set (dbm_rows msgs). (\<lambda>a. (a, ta_TxId (mrow_addresses row), mrow_chainName row)) ` set (ta_Addresses (mrow_addresses row)))"
    and "distinct (map address_key (createAddressTx o1 msgs))"
proof -
  have it: "iteration (ord_ids o1)" "iteration (ord_rows o1)" using assms by (simp_all add: orders_ok_def)
  let ?es = "concat (map (tx_entries (ord_ids o1)) (AddressEntries msgs))"
  have "address_key ` set (createAddressTx o1 msgs) = address_key ` set ?es"
    by (simp add: createAddressTx_fold iteration_set [OF it(2)] add_entry_fold del: set_concat)
  also have "\<dots> = (\<Union>row\<in>set (dbm_rows msgs). (\<lambda>a. (a, ta_TxId (mrow_addresses row), mrow_chainName row)) ` set (ta_Addresses (mrow_addresses row)))"
    by (simp add: tx_entries_def AddressEntries_def GetAddressList_def iteration_set [OF it(1)]
        address_key_def image_UN image_image)
  finally show "address_key ` set (createAddressTx o1 msgs) = \<dots>" .
  have "distinct (map address_key (fold add_entry ?es []))" by (rule add_entry_fold) simp
  moreover have "mset (map address_key (ord_rows o1 (fold add_entry ?es []))) = mset (map address_key (fold add_entry ?es []))"
    using it(2) by (simp add: iteration_def)
  ultimately show "distinct (map address_key (createAddressTx o1 msgs))"
    unfolding createAddressTx_fold by (metis mset_eq_imp_distinct_iff)
qed

section \<open>Inserting batches\<close>

lemma fold_insert_errors:
  "\<exists>more. fst (fold (\<lambda>batch s. if length (ib_Rows batch) > 0 then insertMessageBatch ops o1 d batch s else s) bs (errs, db))
     = errs @ more"
proof (induction bs arbitrary: errs db)
  case (Cons b bs)
  obtain errs1 db1 where s: "(if length (ib_Rows b) > 0 then insertMessageBatch ops o1 d b (errs, db) else (errs, db)) = (errs1, db1)"
    by force
  then have "\<exists>m. errs1 = errs @ m"
    by (auto simp: insertMessageBatch_def split: if_splits prod.splits option.splits)
  with Cons [of errs1 db1] s show ?case by auto
qed simp

text \<open>When no batch fails, the batches have been inserted one after the other.\<close>

primrec insert_all :: "'db DbOps \<Rightarrow> InsertBatch list \<Rightarrow> 'db \<Rightarrow> 'db option" where
  "insert_all ops [] db = Some db"
| "insert_all ops (b # bs) db =
     (if ib_Rows b = [] then insert_all ops bs db
      else (case op_InsertRows ops (ib_Rows b) db of
              (None, db') \<Rightarrow> insert_all ops bs db'
            | (Some e, db') \<Rightarrow> None))"

lemma insertMessageBatches_ok:
  "insertMessageBatches ops o1 d bs db = (None, db') \<longleftrightarrow> insert_all ops bs db = Some db'"
proof -
  let ?step = "\<lambda>batch s. if length (ib_Rows batch) > 0 then insertMessageBatch ops o1 d batch s else s"
  have "fold ?step bs ([], db) = ([], db') \<longleftrightarrow> insert_all ops bs db = Some db'"
  proof (induction bs arbitrary: db)
    case (Cons b bs)
    show ?case
    proof (cases "ib_Rows b = []")
      case True
      with Cons show ?thesis by simp
    next
      case False
      obtain r db1 where op: "op_InsertRows ops (ib_Rows b) db = (r, db1)" by force
      show ?thesis
      proof (cases r)
        case None
        with False op Cons show ?thesis by (simp add: insertMessageBatch_def)
      next
        case (Some e)
        obtain es where st: "?step b ([], db) = (es, db1)" "es \<noteq> []"
          using False op Some by (simp add: insertMessageBatch_def)
        obtain more where "fst (fold ?step bs (es, db1)) = es @ more"
          using fold_insert_errors [of ops o1 d bs es db1] by (rule exE)
        then have "fst (fold ?step (b # bs) ([], db)) \<noteq> []" using st by simp
        then have "fold ?step (b # bs) ([], db) \<noteq> ([], db')" by (metis fst_conv)
        with False op Some show ?thesis by simp
      qed
    qed
  qed simp
  then show ?thesis by (auto simp: insertMessageBatches_def split: prod.splits)
qed

end
