(* ===== verification/Phases.thy ===== *)
theory Phases
  imports Data_Processor
begin

text \<open>
  How the orchestrator runs the data processor on one chunk (\<open>processAll\<close>, \<open>processPhase1\<close> and
  \<open>processPhase2\<close> of \<open>indexer/orchestrator/operator.go\<close>): two phases of concurrent tasks, chained by
  channels. The goroutines are a step relation; \<open>processAll\<close> runs the tasks in one given order of
  each phase, and every run of the step relation that returns is such a run.
\<close>

section \<open>The tasks\<close>

text \<open>The interface \<open>DataProcessor\<close> that the orchestrator declares.\<close>

record 's Processor =
  pr_ProcessValidatorAddresses :: "BlockResponse option list \<Rightarrow> u64 \<Rightarrow> u64 \<Rightarrow> 's \<Rightarrow> 's outcome"
  pr_ProcessBlocks :: "BlockResponse option list \<Rightarrow> u64 \<Rightarrow> u64 \<Rightarrow> 's \<Rightarrow> 's outcome"
  pr_ProcessTransactions :: "TransactionsData list \<Rightarrow> bool \<Rightarrow> u64 \<Rightarrow> u64 \<Rightarrow> 's \<Rightarrow> 's outcome"
  pr_ProcessMessages :: "TransactionsData list \<Rightarrow> u64 \<Rightarrow> u64 \<Rightarrow> 's \<Rightarrow> (goerror option \<times> 's) outcome"
  pr_ProcessValidatorSignings :: "CommitResponse option list \<Rightarrow> u64 \<Rightarrow> u64 \<Rightarrow> 's \<Rightarrow> 's outcome"
  pr_ProcessTxHashIds :: "TransactionsData list \<Rightarrow> 's \<Rightarrow> 's outcome"

record processingContext =
  pcx_blocks :: "BlockResponse option list"
  pcx_commits :: "CommitResponse option list"
  pcx_transactions :: "TransactionsData list"
  pcx_compressEvents :: bool
  pcx_fromHeight :: u64
  pcx_toHeight :: u64
  pcx_hasTxs :: bool

datatype task =
    T_ValidatorAddresses | T_TxHashIds
  | T_Blocks | T_ValidatorSignings | T_Messages | T_Transactions

text \<open>The error of \<open>ProcessMessages\<close> is logged and dropped.\<close>

fun run_task :: "'s Processor \<Rightarrow> processingContext \<Rightarrow> task \<Rightarrow> 's \<Rightarrow> 's outcome" where
  "run_task P ctx T_ValidatorAddresses s =
     pr_ProcessValidatorAddresses P (pcx_blocks ctx) (pcx_fromHeight ctx) (pcx_toHeight ctx) s"
| "run_task P ctx T_TxHashIds s = pr_ProcessTxHashIds P (pcx_transactions ctx) s"
| "run_task P ctx T_Blocks s =
     pr_ProcessBlocks P (pcx_blocks ctx) (pcx_fromHeight ctx) (pcx_toHeight ctx) s"
| "run_task P ctx T_ValidatorSignings s =
     pr_ProcessValidatorSignings P (pcx_commits ctx) (pcx_fromHeight ctx) (pcx_toHeight ctx) s"
| "run_task P ctx T_Messages s =
     bind_outcome (pr_ProcessMessages P (pcx_transactions ctx) (pcx_fromHeight ctx) (pcx_toHeight ctx) s)
       (\<lambda>(err, s'). Done s')"
| "run_task P ctx T_Transactions s =
     pr_ProcessTransactions P (pcx_transactions ctx) (pcx_compressEvents ctx) (pcx_fromHeight ctx)
       (pcx_toHeight ctx) s"

definition phase1_tasks :: "processingContext \<Rightarrow> task list" where
  "phase1_tasks ctx = T_ValidatorAddresses # (if pcx_hasTxs ctx then [T_TxHashIds] else [])"

definition phase2_tasks :: "processingContext \<Rightarrow> task list" where
  "phase2_tasks ctx =
     [T_Blocks, T_ValidatorSignings] @ (if pcx_hasTxs ctx then [T_Messages, T_Transactions] else [])"

lemmas phase_tasks = phase1_tasks_def phase2_tasks_def

definition processAll ::
  "'s Processor \<Rightarrow> processingContext \<Rightarrow> task list \<Rightarrow> task list \<Rightarrow> 's \<Rightarrow> (goerror option \<times> 's) outcome" where
  "processAll P ctx order1 order2 s =
     bind_outcome (foldM_outcome (run_task P ctx) order1 s) (\<lambda>s1.
       bind_outcome (foldM_outcome (run_task P ctx) order2 s1) (\<lambda>s2. Done (None, s2)))"

section \<open>The goroutines\<close>

record 's phases =
  ph_started :: "task list"
  ph_finished :: "task list"
  ph_phase1Done :: bool
  ph_phase2Done :: bool
  ph_returned :: bool
  ph_crashed :: bool
  ph_state :: 's

definition phases_init :: "'s \<Rightarrow> 's phases" where
  "phases_init s =
     \<lparr>ph_started = [], ph_finished = [], ph_phase1Done = False, ph_phase2Done = False,
      ph_returned = False, ph_crashed = False, ph_state = s\<rparr>"

text \<open>A task takes effect when it finishes. A task that panics takes the process down.\<close>

inductive phase_step :: "'s Processor \<Rightarrow> processingContext \<Rightarrow> 's phases \<Rightarrow> 's phases \<Rightarrow> bool"
  for P :: "'s Processor" and ctx :: processingContext where
  start1: "\<not> ph_crashed p \<Longrightarrow> t \<in> set (phase1_tasks ctx) \<Longrightarrow> t \<notin> set (ph_started p) \<Longrightarrow>
    phase_step P ctx p (p\<lparr>ph_started := ph_started p @ [t]\<rparr>)"
| start2: "\<not> ph_crashed p \<Longrightarrow> ph_phase1Done p \<Longrightarrow> t \<in> set (phase2_tasks ctx) \<Longrightarrow>
    t \<notin> set (ph_started p) \<Longrightarrow> phase_step P ctx p (p\<lparr>ph_started := ph_started p @ [t]\<rparr>)"
| finish: "\<not> ph_crashed p \<Longrightarrow> t \<in> set (ph_started p) \<Longrightarrow> t \<notin> set (ph_finished p) \<Longrightarrow>
    run_task P ctx t (ph_state p) = Done s' \<Longrightarrow>
    phase_step P ctx p (p\<lparr>ph_finished := ph_finished p @ [t], ph_state := s'\<rparr>)"
| crash: "\<not> ph_crashed p \<Longrightarrow> t \<in> set (ph_started p) \<Longrightarrow> t \<notin> set (ph_finished p) \<Longrightarrow>
    \<not> returns (run_task P ctx t (ph_state p)) \<Longrightarrow> phase_step P ctx p (p\<lparr>ph_crashed := True\<rparr>)"
| close1: "\<not> ph_crashed p \<Longrightarrow> \<not> ph_phase1Done p \<Longrightarrow> set (phase1_tasks ctx) \<subseteq> set (ph_finished p) \<Longrightarrow>
    phase_step P ctx p (p\<lparr>ph_phase1Done := True\<rparr>)"
| close2: "\<not> ph_crashed p \<Longrightarrow> ph_phase1Done p \<Longrightarrow> \<not> ph_phase2Done p \<Longrightarrow>
    set (phase2_tasks ctx) \<subseteq> set (ph_finished p) \<Longrightarrow> phase_step P ctx p (p\<lparr>ph_phase2Done := True\<rparr>)"
| returned: "\<not> ph_crashed p \<Longrightarrow> ph_phase2Done p \<Longrightarrow> \<not> ph_returned p \<Longrightarrow>
    phase_step P ctx p (p\<lparr>ph_returned := True\<rparr>)"

inductive phases_reachable :: "'s Processor \<Rightarrow> processingContext \<Rightarrow> 's \<Rightarrow> 's phases \<Rightarrow> bool"
  for P :: "'s Processor" and ctx :: processingContext and s :: 's where
  init: "phases_reachable P ctx s (phases_init s)"
| step: "phases_reachable P ctx s p \<Longrightarrow> phase_step P ctx p q \<Longrightarrow> phases_reachable P ctx s q"

inductive_cases phase_stepE: "phase_step P ctx p q"

section \<open>The invariant\<close>

text \<open>The finished tasks are those of phase 1 followed by those of phase 2, and have been run in
  that order; phase 2 has not started before phase 1 was done.\<close>

definition phases_inv :: "'s Processor \<Rightarrow> processingContext \<Rightarrow> 's \<Rightarrow> 's phases \<Rightarrow> bool" where
  "phases_inv P ctx s p \<longleftrightarrow>
     distinct (ph_finished p) \<and> distinct (ph_started p)
   \<and> set (ph_finished p) \<subseteq> set (ph_started p)
   \<and> set (ph_started p) \<subseteq> set (phase1_tasks ctx) \<union> set (phase2_tasks ctx)
   \<and> (\<not> ph_phase1Done p \<longrightarrow> set (ph_started p) \<subseteq> set (phase1_tasks ctx))
   \<and> (ph_phase1Done p \<longrightarrow> set (phase1_tasks ctx) \<subseteq> set (ph_finished p))
   \<and> (ph_phase2Done p \<longrightarrow> ph_phase1Done p \<and> set (phase2_tasks ctx) \<subseteq> set (ph_finished p))
   \<and> (ph_returned p \<longrightarrow> ph_phase2Done p)
   \<and> (\<exists>a b. ph_finished p = a @ b \<and> set a \<subseteq> set (phase1_tasks ctx) \<and> set b \<subseteq> set (phase2_tasks ctx))
   \<and> foldM_outcome (run_task P ctx) (ph_finished p) s = Done (ph_state p)"

lemma foldM_outcome_append:
  "foldM_outcome f (xs @ ys) s = bind_outcome (foldM_outcome f xs s) (foldM_outcome f ys)"
proof (induction xs arbitrary: s)
  case (Cons x xs)
  then show ?case by (cases "f x s") simp_all
qed simp

lemma phase_tasks_disjoint: "set (phase1_tasks ctx) \<inter> set (phase2_tasks ctx) = {}"
  by (auto simp: phase_tasks)

lemma finish_split:
  assumes "fin = a @ b" and "set a \<subseteq> A" and "set b \<subseteq> B" and "A \<inter> B = {}"
    and "t \<in> A \<union> B" and "t \<in> A \<Longrightarrow> b = []"
  shows "\<exists>a b. fin @ [t] = a @ b \<and> set a \<subseteq> A \<and> set b \<subseteq> B"
proof (cases "t \<in> A")
  case True
  with assms show ?thesis by (intro exI [of _ "fin @ [t]"] exI [of _ "[]"]) auto
next
  case False
  with assms show ?thesis by (intro exI [of _ a] exI [of _ "b @ [t]"]) auto
qed

lemma phase_step_inv:
  assumes "phases_inv P ctx s p" and "phase_step P ctx p q"
  shows "phases_inv P ctx s q"
  using assms(2)
proof (cases rule: phase_step.cases)
  case (finish t s')
  from assms(1) obtain a b where ab: "ph_finished p = a @ b" "set a \<subseteq> set (phase1_tasks ctx)"
      "set b \<subseteq> set (phase2_tasks ctx)" by (auto simp: phases_inv_def)
  have t: "t \<in> set (phase1_tasks ctx) \<union> set (phase2_tasks ctx)"
    using assms(1) finish by (auto simp: phases_inv_def)
  have "b = []" if "t \<in> set (phase1_tasks ctx)"
  proof (cases "ph_phase1Done p")
    case True
    with that finish assms(1) show ?thesis by (auto simp: phases_inv_def)
  next
    case False
    with assms(1) have "set b \<subseteq> set (phase1_tasks ctx)" using ab by (auto simp: phases_inv_def)
    then have "set b \<subseteq> set (phase1_tasks ctx) \<inter> set (phase2_tasks ctx)" using ab(3) by (rule Int_greatest)
    then have "set b = {}" unfolding phase_tasks_disjoint by (rule subset_empty [THEN iffD1])
    then show ?thesis by simp
  qed
  from finish_split [OF ab phase_tasks_disjoint t this]
  have "\<exists>a b. ph_finished p @ [t] = a @ b \<and> set a \<subseteq> set (phase1_tasks ctx) \<and> set b \<subseteq> set (phase2_tasks ctx)" .
  with finish assms(1) show ?thesis
    by (auto simp: phases_inv_def foldM_outcome_append)
qed (use assms(1) phase_tasks_disjoint [of ctx] in \<open>auto simp: phases_inv_def\<close>)

lemma phases_init_inv: "phases_inv P ctx s (phases_init s)"
  by (simp add: phases_inv_def phases_init_def)

lemma reachable_inv: "phases_reachable P ctx s p \<Longrightarrow> phases_inv P ctx s p"
  by (induction rule: phases_reachable.induct) (auto intro: phases_init_inv phase_step_inv)

section \<open>Progress\<close>

text \<open>What is left to do: starts, finishes, the two channels, the return.\<close>

definition work_left :: "'s phases \<Rightarrow> nat" where
  "work_left p =
     (6 - length (ph_started p)) + (6 - length (ph_finished p)) + of_bool (\<not> ph_phase1Done p)
   + of_bool (\<not> ph_phase2Done p) + of_bool (\<not> ph_returned p) + of_bool (\<not> ph_crashed p)"

lemma distinct_tasks_length: "distinct (ts :: task list) \<Longrightarrow> length ts \<le> 6"
proof -
  assume d: "distinct ts"
  have "set ts \<subseteq> {T_ValidatorAddresses, T_TxHashIds, T_Blocks, T_ValidatorSignings, T_Messages, T_Transactions}"
    using task.exhaust by blast
  then have "card (set ts) \<le> card {T_ValidatorAddresses, T_TxHashIds, T_Blocks, T_ValidatorSignings, T_Messages, T_Transactions}"
    by (intro card_mono) auto
  then show "length ts \<le> 6" using d by (simp add: distinct_card)
qed

lemma phase_step_decreases:
  assumes "phases_inv P ctx s p" and "phase_step P ctx p q"
  shows "work_left q < work_left p"
proof -
  have "phases_inv P ctx s q" using assms by (rule phase_step_inv)
  then have len: "length (ph_started q) \<le> 6" "length (ph_finished q) \<le> 6"
    by (auto simp: phases_inv_def intro: distinct_tasks_length)
  from assms(2) show ?thesis
  proof (cases rule: phase_step.cases)
    case (start1 t)
    then have "length (ph_started p) < 6" using len(1) by simp
    then show ?thesis by (simp add: start1(1) work_left_def)
  next
    case (start2 t)
    then have "length (ph_started p) < 6" using len(1) by simp
    then show ?thesis by (simp add: start2(1) work_left_def)
  next
    case (finish t s')
    then have "length (ph_finished p) < 6" using len(2) by simp
    then show ?thesis by (simp add: finish(1) work_left_def)
  qed (simp_all add: work_left_def)
qed

lemma unfinished_step:
  assumes "\<not> ph_crashed p" and "t \<in> set (ph_started p)" and "t \<notin> set (ph_finished p)"
  shows "\<exists>q. phase_step P ctx p q"
proof (cases "run_task P ctx t (ph_state p)")
  case (Done s')
  with assms show ?thesis by (blast intro: phase_step.finish)
qed (use assms in \<open>auto intro!: exI phase_step.crash\<close>)

lemma phase_progress:
  assumes "phases_inv P ctx s p" and "\<not> ph_crashed p" and "\<not> ph_returned p"
  shows "\<exists>q. phase_step P ctx p q"
proof -
  consider (start1) t where "t \<in> set (phase1_tasks ctx)" "t \<notin> set (ph_started p)"
    | (running) t where "t \<in> set (ph_started p)" "t \<notin> set (ph_finished p)"
    | (close1) "\<not> ph_phase1Done p" "set (phase1_tasks ctx) \<subseteq> set (ph_finished p)"
    | (start2) t where "ph_phase1Done p" "t \<in> set (phase2_tasks ctx)" "t \<notin> set (ph_started p)"
    | (close2) "ph_phase1Done p" "\<not> ph_phase2Done p" "set (phase2_tasks ctx) \<subseteq> set (ph_finished p)"
    | (return) "ph_phase2Done p"
    by blast
  then show ?thesis
    by cases (use assms in \<open>blast intro: phase_step.intros unfinished_step\<close>)+
qed

section \<open>Properties\<close>


text \<open>The goroutines of a chunk never deadlock and never run forever: as long as the call has
  not returned and no task has panicked some goroutine can move, and every move leaves less work,
  of which there are at most 16 units.\<close>
theorem processAll_terminates:
  assumes "phases_reachable P ctx s p"
  shows "work_left p \<le> 16 \<and> (ph_crashed p \<or> ph_returned p \<or> (\<exists>q. phase_step P ctx p q))
    \<and> (\<forall>q. phase_step P ctx p q \<longrightarrow> work_left q < work_left p)"
proof -
  have I: "phases_inv P ctx s p" using assms by (rule reachable_inv)
  have bool: "of_bool b \<le> (1 :: nat)" for b by simp
  have "work_left p \<le> 16"
    using bool [of "\<not> ph_phase1Done p"] bool [of "\<not> ph_phase2Done p"] bool [of "\<not> ph_returned p"]
      bool [of "\<not> ph_crashed p"] diff_le_self [of 6 "length (ph_started p)"] diff_le_self [of 6 "length (ph_finished p)"]
    unfolding work_left_def by linarith
  then show ?thesis using phase_progress [OF I] phase_step_decreases [OF I] by blast
qed

section \<open>The properties at a concrete run\<close>

definition logging :: "task list Processor" where
  "logging =
     \<lparr>pr_ProcessValidatorAddresses = (\<lambda>b f t s. Done (s @ [T_ValidatorAddresses])),
      pr_ProcessBlocks = (\<lambda>b f t s. Done (s @ [T_Blocks])),
      pr_ProcessTransactions = (\<lambda>x c f t s. Done (s @ [T_Transactions])),
      pr_ProcessMessages = (\<lambda>x f t s. Done (None, s @ [T_Messages])),
      pr_ProcessValidatorSignings = (\<lambda>x f t s. Done (s @ [T_ValidatorSignings])),
      pr_ProcessTxHashIds = (\<lambda>x s. Done (s @ [T_TxHashIds]))\<rparr>"

definition blank_context :: processingContext where
  "blank_context = \<lparr>pcx_blocks = [None], pcx_commits = [], pcx_transactions = [], pcx_compressEvents = True,
     pcx_fromHeight = 5, pcx_toHeight = 5, pcx_hasTxs = False\<rparr>"

lemmas logging_run = logging_def blank_context_def phase_tasks phases_init_def

definition after_phase1 :: "task list phases" where
  "after_phase1 = \<lparr>ph_started = [T_ValidatorAddresses], ph_finished = [T_ValidatorAddresses],
     ph_phase1Done = True, ph_phase2Done = False, ph_returned = False, ph_crashed = False,
     ph_state = [T_ValidatorAddresses]\<rparr>"

definition after_all :: "task list phases" where
  "after_all = \<lparr>ph_started = [T_ValidatorAddresses, T_Blocks, T_ValidatorSignings],
     ph_finished = [T_ValidatorAddresses, T_ValidatorSignings, T_Blocks],
     ph_phase1Done = True, ph_phase2Done = True, ph_returned = True, ph_crashed = False,
     ph_state = [T_ValidatorAddresses, T_ValidatorSignings, T_Blocks]\<rparr>"

lemma reach_after_phase1: "phases_reachable logging blank_context [] after_phase1"
proof -
  let ?R = "phases_reachable logging blank_context []"
  have "?R (phases_init [])" by (rule phases_reachable.init)
  from phases_reachable.step [OF this phase_step.start1 [where t = T_ValidatorAddresses]]
  have "?R (phases_init []\<lparr>ph_started := [T_ValidatorAddresses]\<rparr>)" by (simp add: logging_run)
  from phases_reachable.step [OF this phase_step.finish [where t = T_ValidatorAddresses and s' = "[T_ValidatorAddresses]"]]
  have "?R (phases_init []\<lparr>ph_started := [T_ValidatorAddresses], ph_finished := [T_ValidatorAddresses],
      ph_state := [T_ValidatorAddresses]\<rparr>)" by (simp add: logging_run)
  from phases_reachable.step [OF this phase_step.close1]
  show ?thesis by (simp add: logging_run after_phase1_def)
qed

lemma reach_after_all: "phases_reachable logging blank_context [] after_all"
proof -
  let ?R = "phases_reachable logging blank_context []"
  from phases_reachable.step [OF reach_after_phase1 phase_step.start2 [where t = T_Blocks]]
  have "?R (after_phase1\<lparr>ph_started := [T_ValidatorAddresses, T_Blocks]\<rparr>)"
    by (simp add: logging_run after_phase1_def)
  from phases_reachable.step [OF this phase_step.start2 [where t = T_ValidatorSignings]]
  have "?R (after_phase1\<lparr>ph_started := [T_ValidatorAddresses, T_Blocks, T_ValidatorSignings]\<rparr>)"
    by (simp add: logging_run after_phase1_def)
  from phases_reachable.step [OF this phase_step.finish [where t = T_ValidatorSignings and s' = "[T_ValidatorAddresses, T_ValidatorSignings]"]]
  have "?R (after_phase1\<lparr>ph_started := [T_ValidatorAddresses, T_Blocks, T_ValidatorSignings],
      ph_finished := [T_ValidatorAddresses, T_ValidatorSignings], ph_state := [T_ValidatorAddresses, T_ValidatorSignings]\<rparr>)"
    by (simp add: logging_run after_phase1_def)
  from phases_reachable.step [OF this phase_step.finish [where t = T_Blocks and s' = "[T_ValidatorAddresses, T_ValidatorSignings, T_Blocks]"]]
  have "?R (after_phase1\<lparr>ph_started := [T_ValidatorAddresses, T_Blocks, T_ValidatorSignings],
      ph_finished := [T_ValidatorAddresses, T_ValidatorSignings, T_Blocks],
      ph_state := [T_ValidatorAddresses, T_ValidatorSignings, T_Blocks]\<rparr>)"
    by (simp add: logging_run after_phase1_def)
  from phases_reachable.step [OF this phase_step.close2]
  have "?R (after_all\<lparr>ph_returned := False\<rparr>)" by (simp add: logging_run after_phase1_def after_all_def)
  from phases_reachable.step [OF this phase_step.returned]
  show ?thesis by (simp add: after_all_def)
qed


lemma processAll_terminates_witness: "\<exists>q. phase_step logging blank_context after_phase1 q"
  using processAll_terminates [OF reach_after_phase1] by (simp add: after_phase1_def)

end
