(* ===== verification/Retry.thy ===== *)
theory Retry
  imports Prelude
begin

text \<open>
  \<open>indexer/retry/worker.go\<close>: retrying a query a bounded number of times with a growing
  backoff. The retried function is the sequence of answers it would give, one per call; the
  model returns the result together with the number of calls and the sleeps, in order.
\<close>

record 't RetryResult =
  rr_Value :: 't
  rr_Error :: "goerror option"
  rr_Success :: bool

definition retry_sleeps :: "int \<Rightarrow> int \<Rightarrow> duration \<Rightarrow> duration \<Rightarrow> nat \<Rightarrow> duration list outcome" where
  "retry_sleeps retryAmount pause pauseTime backoff i =
     (if int i < retryAmount - 1 then
        (if pause = 0 then Panic ''integer divide by zero''
         else Done (backoff * (int i + 1)
                      # (if (int i + 1) mod pause = 0 then [pauseTime] else [])))
      else Done [])"

function retry_loop ::
  "'t \<Rightarrow> int \<Rightarrow> int \<Rightarrow> duration \<Rightarrow> duration \<Rightarrow> (nat \<Rightarrow> goerror + 't) \<Rightarrow> nat \<Rightarrow> goerror option
   \<Rightarrow> duration list \<Rightarrow> ('t RetryResult \<times> nat \<times> duration list) outcome" where
  "retry_loop zero retryAmount pause pauseTime backoff fn i lastErr sleeps =
     (if int i < retryAmount then
        (case fn i of
           Inr v \<Rightarrow> Done (\<lparr>rr_Value = v, rr_Error = None, rr_Success = True\<rparr>, Suc i, sleeps)
         | Inl e \<Rightarrow>
             bind_outcome (retry_sleeps retryAmount pause pauseTime backoff i) (\<lambda>more.
               retry_loop zero retryAmount pause pauseTime backoff fn (Suc i) (Some e)
                 (sleeps @ more)))
      else Done (\<lparr>rr_Value = zero, rr_Error = lastErr, rr_Success = False\<rparr>, i, sleeps))"
  by pat_completeness auto
termination
  by (relation "measure (\<lambda>(zero, amount, pause, pt, bo, fn, i, e, s). nat (amount - int i))") auto

declare retry_loop.simps [simp del]

definition GenericRetryQuery ::
  "'t \<Rightarrow> int \<Rightarrow> int \<Rightarrow> duration \<Rightarrow> duration \<Rightarrow> (nat \<Rightarrow> goerror + 't)
   \<Rightarrow> ('t RetryResult \<times> nat \<times> duration list) outcome" where
  "GenericRetryQuery zero retryAmount pause pauseTime backoff fn =
     retry_loop zero retryAmount pause pauseTime backoff fn 0 None []"

text \<open>\<open>RetryWithContext\<close> hands the value to one callback or the error to the other.\<close>

definition RetryWithContext ::
  "'t \<Rightarrow> int \<Rightarrow> int \<Rightarrow> duration \<Rightarrow> duration \<Rightarrow> (nat \<Rightarrow> goerror + 't)
   \<Rightarrow> ('t \<Rightarrow> 'r) \<Rightarrow> (goerror option \<Rightarrow> 'r) \<Rightarrow> 'r outcome" where
  "RetryWithContext zero retryAmount pause pauseTime backoff fn onSuccess onFailure =
     bind_outcome (GenericRetryQuery zero retryAmount pause pauseTime backoff fn)
       (\<lambda>(result, calls, sleeps).
          if rr_Success result then Done (onSuccess (rr_Value result))
          else Done (onFailure (rr_Error result)))"

section \<open>The first success\<close>

text \<open>The contract: the value of the first call that succeeds among the first \<open>n\<close>.\<close>

definition first_success :: "(nat \<Rightarrow> 'e + 't) \<Rightarrow> nat \<Rightarrow> 't option" where
  "first_success fn n = map_option (\<lambda>i. projr (fn i)) (find (\<lambda>i. isl (fn i) = False) [0..<n])"

lemma first_success_0 [simp]: "first_success fn 0 = None"
  by (simp add: first_success_def)

lemma find_map: "find P (map f xs) = map_option f (find (\<lambda>x. P (f x)) xs)"
  by (induction xs) auto

lemma first_success_Suc:
  "first_success fn (Suc n) =
     (case fn 0 of Inr v \<Rightarrow> Some v | Inl e \<Rightarrow> first_success (\<lambda>i. fn (Suc i)) n)"
proof -
  have "[0..<Suc n] = 0 # map Suc [0..<n]" by (simp add: map_Suc_upt upt_conv_Cons)
  then show ?thesis
    by (simp add: first_success_def find_map option.map_comp comp_def split: sum.splits)
qed

lemma first_success_None_iff: "first_success fn n = None \<longleftrightarrow> (\<forall>i<n. isl (fn i))"
  by (auto simp: first_success_def find_None_iff)

section \<open>Functional behaviour and bounds\<close>

lemma retry_sleeps_Done: "pause \<noteq> 0 \<Longrightarrow> \<exists>more. retry_sleeps amount pause pt bo i = Done more"
  by (auto simp: retry_sleeps_def)

lemma retry_loop_result:
  assumes "pause \<noteq> 0"
  shows "\<exists>e calls more.
    retry_loop zero amount pause pt bo fn i lastErr sleeps =
      Done (case first_success (\<lambda>k. fn (i + k)) (nat (amount - int i)) of
              Some v \<Rightarrow> \<lparr>rr_Value = v, rr_Error = None, rr_Success = True\<rparr>
            | None \<Rightarrow> \<lparr>rr_Value = zero, rr_Error = e, rr_Success = False\<rparr>,
            calls, sleeps @ more)
    \<and> calls \<le> max i (nat amount)"
  using assms
proof (induction zero amount pause pt bo fn i lastErr sleeps rule: retry_loop.induct)
  case (1 zero amount pause pt bo fn i lastErr sleeps)
  show ?case
  proof (cases "int i < amount")
    case False
    then show ?thesis by (simp add: retry_loop.simps [of zero amount pause pt bo fn i])
  next
    case True
    then have n: "nat (amount - int i) = Suc (nat (amount - int (Suc i)))" by simp
    show ?thesis
    proof (cases "fn i")
      case (Inr v)
      with True show ?thesis
        by (simp add: retry_loop.simps [of zero amount pause pt bo fn i] n first_success_Suc)
    next
      case (Inl e)
      obtain more where more: "retry_sleeps amount pause pt bo i = Done more"
        using retry_sleeps_Done [OF "1.prems"] by blast
      from "1.IH" [OF True Inl, of more] "1.prems"
      obtain e' calls more' where IH:
        "retry_loop zero amount pause pt bo fn (Suc i) (Some e) (sleeps @ more) =
          Done (case first_success (\<lambda>k. fn (Suc i + k)) (nat (amount - int (Suc i))) of
              Some v \<Rightarrow> \<lparr>rr_Value = v, rr_Error = None, rr_Success = True\<rparr>
            | None \<Rightarrow> \<lparr>rr_Value = zero, rr_Error = e', rr_Success = False\<rparr>,
            calls, (sleeps @ more) @ more')"
        and calls: "calls \<le> max (Suc i) (nat amount)" by blast
      have "first_success (\<lambda>k. fn (i + k)) (nat (amount - int i))
          = first_success (\<lambda>k. fn (Suc i + k)) (nat (amount - int (Suc i)))"
        by (simp only: n first_success_Suc) (simp add: Inl)
      moreover have "calls \<le> max i (nat amount)" using calls True by simp
      ultimately show ?thesis
        using IH True Inl more
        by (intro exI [of _ e'] exI [of _ calls] exI [of _ "more @ more'"])
           (simp add: retry_loop.simps [of zero amount pause pt bo fn i])
    qed
  qed
qed

lemma GenericRetryQuery_result:
  assumes "pause \<noteq> 0"
  obtains e calls sleeps where
    "GenericRetryQuery zero amount pause pt bo fn =
      Done (case first_success fn (nat amount) of
              Some v \<Rightarrow> \<lparr>rr_Value = v, rr_Error = None, rr_Success = True\<rparr>
            | None \<Rightarrow> \<lparr>rr_Value = zero, rr_Error = e, rr_Success = False\<rparr>,
            calls, sleeps)"
    and "calls \<le> nat amount"
  using retry_loop_result [OF assms, of zero amount pt bo fn 0 None "[]"]
  unfolding GenericRetryQuery_def by (auto simp: max_def)

lemma RetryWithContext_result:
  assumes "pause \<noteq> 0"
  shows "\<exists>e. RetryWithContext zero amount pause pt bo fn onS onF =
    Done (case first_success fn (nat amount) of Some v \<Rightarrow> onS v | None \<Rightarrow> onF e)"
proof -
  obtain e calls sleeps where
    "GenericRetryQuery zero amount pause pt bo fn =
      Done (case first_success fn (nat amount) of
              Some v \<Rightarrow> \<lparr>rr_Value = v, rr_Error = None, rr_Success = True\<rparr>
            | None \<Rightarrow> \<lparr>rr_Value = zero, rr_Error = e, rr_Success = False\<rparr>,
            calls, sleeps)"
    using GenericRetryQuery_result [OF assms] by metis
  then show ?thesis
    by (intro exI [of _ e]) (simp add: RetryWithContext_def split: option.splits)
qed

end
