(* ===== verification/Query_Operator.thy ===== *)
theory Query_Operator
  imports Retry Rpc_Types
begin

text \<open>
  \<open>indexer/query/operator.go\<close>: fetching a range of blocks or commits, or a list of
  transactions, with one goroutine per item and retries. The RPC client is an argument: its
  answer to the \<open>n\<close>-th call for a given height or hash (call 0 is the first try, the calls
  after it are the retries). The order in which the goroutines finish is the schedule.
\<close>

record QueryOperator =
  qo_retryAmount :: int
  qo_pause :: int
  qo_pauseTime :: duration
  qo_exponentialBackoff :: duration

definition or_default :: "int option \<Rightarrow> int \<Rightarrow> int" where
  "or_default p d = (case p of None \<Rightarrow> d | Some v \<Rightarrow> if v = 0 then d else v)"

definition NewQueryOperator ::
  "int option \<Rightarrow> int option \<Rightarrow> duration option \<Rightarrow> duration option \<Rightarrow> QueryOperator" where
  "NewQueryOperator retryAmount pause pauseTime exponentialBackoff =
     \<lparr>qo_retryAmount = or_default retryAmount 6,
      qo_pause = or_default pause 3,
      qo_pauseTime = or_default pauseTime (15 * second),
      qo_exponentialBackoff = or_default exponentialBackoff (2 * second)\<rparr>"

text \<open>The body of one goroutine: try once, then retry; nil when every attempt failed.\<close>

definition fetch_slot ::
  "QueryOperator \<Rightarrow> ('k \<Rightarrow> nat \<Rightarrow> goerror + 't option) \<Rightarrow> 'k \<Rightarrow> 't option outcome" where
  "fetch_slot q get k =
     (case get k 0 of
        Inr v \<Rightarrow> Done v
      | Inl e \<Rightarrow>
          RetryWithContext None (qo_retryAmount q) (qo_pause q) (qo_pauseTime q)
            (qo_exponentialBackoff q) (\<lambda>i. get k (Suc i)) (\<lambda>result. result) (\<lambda>err. None))"

text \<open>\<open>make\<close> panics when the length does not fit Go's \<open>int\<close>; a nil slice has length 0.\<close>

definition fetch_range ::
  "QueryOperator \<Rightarrow> nat list \<Rightarrow> (u64 \<Rightarrow> nat \<Rightarrow> goerror + 't option) \<Rightarrow> u64 \<Rightarrow> u64
   \<Rightarrow> 't option list outcome" where
  "fetch_range q sched get fromHeight toHeight =
     (let diff = toHeight - fromHeight + 1 in
      if diff < 1 then Done []
      else if 2 ^ 63 \<le> unat diff then Panic ''makeslice: len out of range''
      else run_slots sched (\<lambda>i. fetch_slot q get (fromHeight + of_nat i))
             (replicate (unat diff) None))"

definition GetFromToBlocks ::
  "QueryOperator \<Rightarrow> nat list \<Rightarrow> (u64 \<Rightarrow> nat \<Rightarrow> goerror + BlockResponse option) \<Rightarrow> u64 \<Rightarrow> u64
   \<Rightarrow> BlockResponse option list outcome" where
  "GetFromToBlocks q sched getBlock fromHeight toHeight =
     fetch_range q sched getBlock fromHeight toHeight"

definition GetFromToCommits ::
  "QueryOperator \<Rightarrow> nat list \<Rightarrow> (u64 \<Rightarrow> nat \<Rightarrow> goerror + CommitResponse option) \<Rightarrow> u64 \<Rightarrow> u64
   \<Rightarrow> CommitResponse option list outcome" where
  "GetFromToCommits q sched getCommit fromHeight toHeight =
     fetch_range q sched getCommit fromHeight toHeight"

definition GetTransactions ::
  "QueryOperator \<Rightarrow> nat list \<Rightarrow> (string \<Rightarrow> nat \<Rightarrow> goerror + TxResponse option) \<Rightarrow> string list
   \<Rightarrow> TxResponse option list outcome" where
  "GetTransactions q sched getTx txs =
     (if length txs < 1 then Done []
      else run_slots sched (\<lambda>i. fetch_slot q getTx (txs ! i)) (replicate (length txs) None))"

definition query_GetLatestBlockHeight :: "goerror + u64 \<Rightarrow> goerror + u64" where
  "query_GetLatestBlockHeight answer =
     (case answer of Inl e \<Rightarrow> Inl e | Inr h \<Rightarrow> Inr h)"

section \<open>What a slot holds\<close>

text \<open>The reference: the first successful answer among the first try and the retries.\<close>

definition fetched :: "int \<Rightarrow> ('k \<Rightarrow> nat \<Rightarrow> goerror + 't option) \<Rightarrow> 'k \<Rightarrow> 't option" where
  "fetched retries get k =
     (case first_success (get k) (Suc (nat retries)) of Some v \<Rightarrow> v | None \<Rightarrow> None)"

lemma fetch_slot_fetched:
  assumes "qo_pause q \<noteq> 0"
  shows "fetch_slot q get k = Done (fetched (qo_retryAmount q) get k)"
proof -
  have
    "RetryWithContext None (qo_retryAmount q) (qo_pause q) (qo_pauseTime q)
       (qo_exponentialBackoff q) (\<lambda>i. get k (Suc i)) (\<lambda>result. result) (\<lambda>err. None) =
     Done (case first_success (\<lambda>i. get k (Suc i)) (nat (qo_retryAmount q)) of
             Some v \<Rightarrow> v | None \<Rightarrow> None)"
    using RetryWithContext_result [OF assms, of None "qo_retryAmount q" "qo_pauseTime q"
      "qo_exponentialBackoff q" "\<lambda>i. get k (Suc i)" "\<lambda>result. result" "\<lambda>err. None"]
    by (auto split: option.splits)
  then show ?thesis
    by (simp add: fetch_slot_def fetched_def first_success_Suc split: sum.splits)
qed

lemma NewQueryOperator_pause [simp]: "qo_pause (NewQueryOperator ra p pt eb) \<noteq> 0"
  by (simp add: NewQueryOperator_def or_default_def split: option.splits)

lemma diff_lt_1: "\<not> toH - fromH + 1 < (1::u64) \<longleftrightarrow> toH - fromH + 1 \<noteq> 0"
  by (metis word_gt_0 linorder_not_less unsigned_1 word_less_1)

lemma unat_range_length:
  assumes "fromH \<le> (toH :: u64)" and "unat toH - unat fromH < 2 ^ 64 - 1"
  shows "unat (toH - fromH + 1) = unat toH - unat fromH + 1"
proof -
  have d: "unat (toH - fromH) = unat toH - unat fromH"
    using assms(1) by (rule unat_sub)
  then have "unat (toH - fromH) + unat (1::u64) < 2 ^ LENGTH(64)"
    using assms(2) by simp
  then show ?thesis using d by (simp add: unat_add_lem [THEN iffD1])
qed

lemma fetch_range_Done:
  assumes "qo_pause q \<noteq> 0" and "fromH \<le> toH" and "unat toH - unat fromH < 2 ^ 63 - 1"
    and "schedule sched (unat toH - unat fromH + 1)"
  shows "fetch_range q sched get fromH toH =
    Done (map (\<lambda>i. fetched (qo_retryAmount q) get (fromH + of_nat i))
            [0..<unat toH - unat fromH + 1])"
proof -
  have len: "unat (toH - fromH + 1) = unat toH - unat fromH + 1"
    using assms by (intro unat_range_length) auto
  then have "toH - fromH + 1 \<noteq> 0" by (metis Suc_eq_plus1 nat.distinct(1) unsigned_0)
  then show ?thesis
    using assms len
    by (simp only: fetch_range_def Let_def diff_lt_1 if_False)
       (simp add: run_slots_Done fetch_slot_fetched del: upt_Suc)
qed

text \<open>A range whose end lies below its start wraps to more than \<open>2^63\<close> slots.\<close>

lemma reversed_diff:
  assumes "toH < (fromH :: u64)" and "unat toH + 1 \<noteq> unat fromH"
  shows "unat (toH - fromH + 1) = 2 ^ 64 - (unat fromH - unat toH - 1)"
proof -
  have le: "toH + 1 \<le> fromH" and suc: "unat (toH + 1) = unat toH + 1"
    using assms(1) by (simp_all add: inc_le unat_plus_1)
  have "unat (fromH - (toH + 1)) = unat fromH - unat toH - 1"
    using le suc by (simp add: unat_sub)
  moreover have "fromH - (toH + 1) \<noteq> 0"
    using assms(2) suc by auto
  moreover have "toH - fromH + 1 = - (fromH - (toH + 1))" by simp
  ultimately show ?thesis
    by (metis unat_uminus)
qed

lemma fetch_range_reversed:
  assumes "toH < fromH" and "unat fromH - unat toH \<le> 2 ^ 63 + 1" and "unat toH + 1 \<noteq> unat fromH"
  shows "fetch_range q sched get fromH toH = Panic ''makeslice: len out of range''"
proof -
  have big: "2 ^ 63 \<le> unat (toH - fromH + 1)"
    using reversed_diff [OF assms(1,3)] assms(2) by simp
  then have "toH - fromH + 1 \<noteq> 0" by auto
  with big show ?thesis
    by (simp only: fetch_range_def Let_def diff_lt_1 if_False) simp
qed

section \<open>Properties\<close>

text \<open>For every schedule of the goroutines, fetching a range of blocks returns one slot per
  height, in order: the first answer of the node for that height among one try and the configured
  retries, or nil when all of them failed.\<close>
theorem GetFromToBlocks_slots:
  assumes "fromH \<le> toH" and "unat toH - unat fromH < 2 ^ 63 - 1"
    and "schedule sched (unat toH - unat fromH + 1)"
  shows "GetFromToBlocks (NewQueryOperator ra p pt eb) sched getBlock fromH toH =
    Done (map (\<lambda>i. fetched (or_default ra 6) getBlock (fromH + of_nat i)) [0..<unat toH - unat fromH + 1])"
  unfolding GetFromToBlocks_def
  using fetch_range_Done [OF NewQueryOperator_pause assms, of ra p pt eb getBlock]
  by (simp add: NewQueryOperator_def)

text \<open>A retried query always returns, after at most the configured number of calls; its result is
  the first value one of these calls returns, and failure when none of them succeeds.\<close>
theorem GenericRetryQuery_spec:
  assumes "pause \<noteq> 0"
  shows "\<exists>err calls sleeps. GenericRetryQuery zero amount pause pauseTime backoff fn =
      Done (case first_success fn (nat amount) of
              Some v \<Rightarrow> \<lparr>rr_Value = v, rr_Error = None, rr_Success = True\<rparr>
            | None \<Rightarrow> \<lparr>rr_Value = zero, rr_Error = err, rr_Success = False\<rparr>, calls, sleeps)
    \<and> calls \<le> nat amount"
  using GenericRetryQuery_result [OF assms, of zero amount pauseTime backoff fn] by metis

section \<open>The properties at concrete inputs\<close>

definition answer_at :: "nat \<Rightarrow> u64 \<Rightarrow> nat \<Rightarrow> goerror + u64 option" where
  "answer_at n h i = (if i < n then Inl ErrNotFound else Inr (Some h))"

lemma GenericRetryQuery_spec_witness:
  "\<exists>calls sleeps. GenericRetryQuery None 4 2 7 3 (answer_at 1 5)
     = Done (\<lparr>rr_Value = Some 5, rr_Error = None, rr_Success = True\<rparr>, calls, sleeps) \<and> calls \<le> 4"
proof -
  have "first_success (answer_at 1 5) (Suc (Suc (Suc (Suc 0)))) = Some (Some 5)"
    by (simp add: first_success_Suc answer_at_def)
  then show ?thesis using GenericRetryQuery_spec [of 2 "None :: u64 option" 4 7 3 "answer_at 1 5"]
    by (auto simp: eval_nat_numeral)
qed

lemma GetFromToBlocks_slots_witness:
  "GetFromToBlocks (NewQueryOperator None None None None) [1, 0] (\<lambda>h i. if h = 8 then Inr None else Inl ErrNotFound) 8 9
     = Done [None, None]"
proof -
  have "schedule [1, 0] (unat (9 :: u64) - unat (8 :: u64) + 1)"
    by (simp add: schedule_def add_mset_commute upt_conv_Cons)
  from GetFromToBlocks_slots [OF _ _ this, of None None None None "\<lambda>h i. if h = 8 then Inr None else Inl ErrNotFound"]
  show ?thesis
    by (auto simp: fetched_def first_success_def find_Some_iff upt_conv_Cons split: option.splits)
qed

end
