(* ===== verification/Orchestrator.thy ===== *)
theory Orchestrator
  imports Phases Query_Operator Row_Db
begin

text \<open>
  The orchestrator (\<open>indexer/orchestrator/operator.go\<close>, \<open>types.go\<close>): collecting the transactions
  of a chunk, processing a chunk, and the historic and live loops. The query operator, the data
  processor and the hash function are arguments; what the environment does in one iteration (the
  answers of the node, the order of the tasks of a phase, whether the context is cancelled) is an
  argument of that iteration.
\<close>

section \<open>State\<close>

record Orchestrator =
  or_chainName :: string
  or_runningMode :: string
  or_MaxBlockChunkSize :: u64
  or_isProcessing :: bool
  or_currentProcessingHeight :: u64

definition NewOrchestrator :: "string \<Rightarrow> u64 \<Rightarrow> string \<Rightarrow> Orchestrator outcome" where
  "NewOrchestrator runningMode maxBlockChunkSize chainName =
     (if runningMode \<noteq> ''live'' \<and> runningMode \<noteq> ''historic''
      then Panic ''invalid running mode, please choose between live and historic''
      else Done \<lparr>or_chainName = chainName, or_runningMode = runningMode,
                 or_MaxBlockChunkSize = maxBlockChunkSize, or_isProcessing = False,
                 or_currentProcessingHeight = 0\<rparr>)"

text \<open>The interface \<open>QueryOperator\<close>, with what the scheduler chose for one chunk.\<close>

record ChunkEnv =
  ce_GetFromToBlocks :: "u64 \<Rightarrow> u64 \<Rightarrow> BlockResponse option list outcome"
  ce_GetFromToCommits :: "u64 \<Rightarrow> u64 \<Rightarrow> CommitResponse option list outcome"
  ce_GetTransactions :: "string list \<Rightarrow> TxResponse option list outcome"
  ce_order1 :: "task list"
  ce_order2 :: "task list"

section \<open>The transactions of a chunk\<close>

record BlockTx =
  btx_txHash :: string
  btx_blockHeight :: u64
  btx_timestamp :: time

text \<open>The entry of one raw transaction of a block: its hash as the node names it.\<close>

definition block_tx_entry :: "(byte list \<Rightarrow> byte list) \<Rightarrow> BlockResponse option \<Rightarrow> string \<Rightarrow> BlockTx list" where
  "block_tx_entry sha256 block txHash =
     (case decode_base64 StdEncoding False txHash of
        None \<Rightarrow> []
      | Some txHashBytes \<Rightarrow>
          (case block_GetHeight block of
             Inl e \<Rightarrow> []
           | Inr height \<Rightarrow>
               [\<lparr>btx_txHash = encode_base64 StdEncoding (sha256 txHashBytes), btx_blockHeight = height,
                 btx_timestamp = block_GetTimestamp block\<rparr>]))"

definition block_tx_entries :: "(byte list \<Rightarrow> byte list) \<Rightarrow> BlockResponse option \<Rightarrow> BlockTx list" where
  "block_tx_entries sha256 block =
     (case block of
        None \<Rightarrow> []
      | Some b \<Rightarrow>
          (case block_GetTxHashes block of
             None \<Rightarrow> []
           | Some txHashes \<Rightarrow> concat (map (block_tx_entry sha256 block) txHashes)))"

definition collectTransactionsFromBlocks ::
  "(byte list \<Rightarrow> byte list) \<Rightarrow> (string list \<Rightarrow> TxResponse option list outcome) \<Rightarrow> BlockResponse option list
   \<Rightarrow> TransactionsData list outcome" where
  "collectTransactionsFromBlocks sha256 getTransactions blocks =
     (let blockTxData = concat (map (block_tx_entries sha256) blocks) in
      if length blockTxData = 0 then Done []
      else bind_outcome (getTransactions (map btx_txHash blockTxData)) (\<lambda>transactions.
        Done (concat (map (\<lambda>tx. case tx of
            None \<Rightarrow> []
          | Some r \<Rightarrow>
              concat (map (\<lambda>blockTx.
                if btx_txHash blockTx = tx_GetHash tx
                then [\<lparr>tdt_Response = tx, tdt_Timestamp = btx_timestamp blockTx,
                       tdt_BlockHeight = btx_blockHeight blockTx\<rparr>]
                else []) blockTxData)) transactions))))"

section \<open>One chunk\<close>

definition processChunk ::
  "'s Processor \<Rightarrow> (byte list \<Rightarrow> byte list) \<Rightarrow> ChunkEnv \<Rightarrow> u64 \<Rightarrow> u64 \<Rightarrow> bool \<Rightarrow> 's
   \<Rightarrow> (goerror option \<times> 's) outcome" where
  "processChunk P sha256 env chunkStart chunkEnd compressEvents s =
     bind_outcome (ce_GetFromToBlocks env chunkStart chunkEnd) (\<lambda>blocks.
     bind_outcome (ce_GetFromToCommits env chunkStart chunkEnd) (\<lambda>commits.
       if length blocks = 0 \<and> length commits = 0 then Done (None, s)
       else
         bind_outcome (collectTransactionsFromBlocks sha256 (ce_GetTransactions env) blocks) (\<lambda>allTransactions.
         bind_outcome
           (processAll P
              \<lparr>pcx_blocks = blocks, pcx_commits = commits, pcx_transactions = allTransactions,
               pcx_compressEvents = compressEvents, pcx_fromHeight = chunkStart, pcx_toHeight = chunkEnd,
               pcx_hasTxs = (length allTransactions > 0)\<rparr>
              (ce_order1 env) (ce_order2 env) s) (\<lambda>(err, s').
           case err of
             Some e \<Rightarrow> Done (Some (ErrWrap ''failed to process live chunk'' e), s')
           | None \<Rightarrow> Done (None, s')))))"

section \<open>The historic loop\<close>

text \<open>\<open>cancelled n\<close>: the context is done when iteration \<open>n\<close> checks it. The loop has fuel: it may
  run forever.\<close>

primrec historic_loop ::
  "nat \<Rightarrow> 's Processor \<Rightarrow> (byte list \<Rightarrow> byte list) \<Rightarrow> (nat \<Rightarrow> ChunkEnv) \<Rightarrow> (nat \<Rightarrow> bool) \<Rightarrow> u64 \<Rightarrow> bool
   \<Rightarrow> nat \<Rightarrow> u64 \<Rightarrow> Orchestrator \<times> 's \<Rightarrow> (Orchestrator \<times> 's) outcome option" where
  "historic_loop 0 P sha256 env cancelled toHeight compressEvents n startHeight s = None"
| "historic_loop (Suc fuel) P sha256 env cancelled toHeight compressEvents n startHeight s =
     (if startHeight \<le> toHeight \<and> \<not> cancelled n then
        (let (ork, st) = s;
             chunkEndHeight = min (startHeight + or_MaxBlockChunkSize ork - 1) toHeight in
         case processChunk P sha256 (env n) startHeight chunkEndHeight compressEvents st of
           Done (err, st') \<Rightarrow>
             historic_loop fuel P sha256 env cancelled toHeight compressEvents (Suc n) (chunkEndHeight + 1)
               (ork\<lparr>or_currentProcessingHeight := chunkEndHeight\<rparr>, st')
         | Panic m \<Rightarrow> Some (Panic m)
         | Exit c \<Rightarrow> Some (Exit c))
      else Some (Done s))"

definition HistoricProcess ::
  "nat \<Rightarrow> 's Processor \<Rightarrow> (byte list \<Rightarrow> byte list) \<Rightarrow> (nat \<Rightarrow> ChunkEnv) \<Rightarrow> (nat \<Rightarrow> bool) \<Rightarrow> u64 \<Rightarrow> u64
   \<Rightarrow> bool \<Rightarrow> Orchestrator \<times> 's \<Rightarrow> (Orchestrator \<times> 's) outcome option" where
  "HistoricProcess fuel P sha256 env cancelled fromHeight toHeight compressEvents s =
     (let (ork, st) = s in
      map_option (\<lambda>r. bind_outcome r (\<lambda>(ork', st'). Done (ork'\<lparr>or_isProcessing := False\<rparr>, st')))
        (historic_loop fuel P sha256 env cancelled toHeight compressEvents 0 fromHeight
           (ork\<lparr>or_isProcessing := True, or_currentProcessingHeight := fromHeight\<rparr>, st)))"

section \<open>Saving the state\<close>

record ProcessingState =
  ps_ChainName :: string
  ps_RunningMode :: string
  ps_IsProcessing :: bool
  ps_CurrentProcessingHeight :: u64
  ps_Timestamp :: time
  ps_Reason :: string

record state_files =
  sf_format :: "time \<Rightarrow> string"
  sf_mkdir_ok :: bool
  sf_write_ok :: bool
  sf_files :: "(string \<times> ProcessingState) list"

definition saveProcessingState ::
  "Orchestrator \<Rightarrow> time \<Rightarrow> u64 \<Rightarrow> string \<Rightarrow> state_files \<Rightarrow> state_files" where
  "saveProcessingState ork now height reason fs =
     (let state = \<lparr>ps_ChainName = or_chainName ork, ps_RunningMode = or_runningMode ork,
            ps_IsProcessing = or_isProcessing ork, ps_CurrentProcessingHeight = height,
            ps_Timestamp = now, ps_Reason = reason\<rparr>;
          filename = ''processing_state_'' @ sf_format fs now @ ''_'' @ FormatUint height @ ''.json'' in
      if \<not> sf_mkdir_ok fs then fs
      else if \<not> sf_write_ok fs then fs
      else fs\<lparr>sf_files := (''state_dumps/'' @ filename, state) # sf_files fs\<rparr>)"

definition Cleanup :: "Orchestrator \<Rightarrow> time \<Rightarrow> state_files \<Rightarrow> goerror option \<times> state_files" where
  "Cleanup ork now fs =
     (None, saveProcessingState ork now (or_currentProcessingHeight ork) ''cleanup_requested'' fs)"

section \<open>The live loop\<close>

record 's LiveState =
  lv_or :: Orchestrator
  lv_lastProcessedHeight :: u64
  lv_running :: bool
  lv_files :: state_files
  lv_state :: 's

text \<open>What one iteration meets: a done context, the node's latest height, the chunk's environment,
  the clock.\<close>

record LiveInput =
  li_cancelled :: bool
  li_latest :: "goerror + u64"
  li_env :: ChunkEnv
  li_now :: time

definition live_stop :: "LiveInput \<Rightarrow> 's LiveState \<Rightarrow> 's LiveState" where
  "live_stop i st =
     st\<lparr>lv_files := saveProcessingState (lv_or st) (li_now i) (lv_lastProcessedHeight st) ''live_interrupted'' (lv_files st),
        lv_or := (lv_or st)\<lparr>or_isProcessing := False\<rparr>, lv_running := False\<rparr>"

definition live_chunk_end :: "u64 \<Rightarrow> u64 \<Rightarrow> u64 \<Rightarrow> u64" where
  "live_chunk_end maxBlockChunkSize lastProcessedHeight latestHeight =
     (let blocksBehind = latestHeight - lastProcessedHeight;
          currentChunkSize = min blocksBehind maxBlockChunkSize;
          chunkStart = lastProcessedHeight + 1
      in min (chunkStart + currentChunkSize - 1) latestHeight)"

definition live_iteration ::
  "'s Processor \<Rightarrow> (byte list \<Rightarrow> byte list) \<Rightarrow> bool \<Rightarrow> LiveInput \<Rightarrow> 's LiveState \<Rightarrow> 's LiveState outcome" where
  "live_iteration P sha256 compressEvents i st =
     (if \<not> lv_running st then Done st
      else if li_cancelled i then Done (live_stop i st)
      else case li_latest i of
        Inl e \<Rightarrow> Done st
      | Inr latestHeight \<Rightarrow>
          if latestHeight - lv_lastProcessedHeight st \<le> 0 then Done st
          else
            (let chunkStart = lv_lastProcessedHeight st + 1;
                 chunkEnd = live_chunk_end (or_MaxBlockChunkSize (lv_or st)) (lv_lastProcessedHeight st) latestHeight
             in bind_outcome (processChunk P sha256 (li_env i) chunkStart chunkEnd compressEvents (lv_state st))
                  (\<lambda>(err, s').
                     let st' = st\<lparr>lv_or := (lv_or st)\<lparr>or_currentProcessingHeight := chunkStart\<rparr>, lv_state := s'\<rparr> in
                     case err of
                       Some e \<Rightarrow> Done st'
                     | None \<Rightarrow> Done (st'\<lparr>lv_lastProcessedHeight := chunkEnd,
                                        lv_or := (lv_or st')\<lparr>or_currentProcessingHeight := chunkEnd\<rparr>\<rparr>))))"

text \<open>The start: the last height of the database, or the node's when the check is skipped. The loop
  itself ends only when it is cancelled: a run is given by the inputs of its first iterations.\<close>

definition LiveProcess ::
  "'s Processor \<Rightarrow> (byte list \<Rightarrow> byte list) \<Rightarrow> (string \<Rightarrow> goerror + u64) \<Rightarrow> goerror + u64 \<Rightarrow> bool \<Rightarrow> bool
   \<Rightarrow> LiveInput list \<Rightarrow> Orchestrator \<Rightarrow> state_files \<Rightarrow> 's \<Rightarrow> 's LiveState outcome" where
  "LiveProcess P sha256 getLastBlockHeight latest skipInitialDbCheck compressEvents iters ork fs s =
     (let or0 = ork\<lparr>or_isProcessing := True, or_currentProcessingHeight := 0\<rparr>;
          loop = (\<lambda>lastProcessedHeight.
            foldM_outcome (live_iteration P sha256 compressEvents) iters
              \<lparr>lv_or = or0\<lparr>or_currentProcessingHeight := lastProcessedHeight\<rparr>,
               lv_lastProcessedHeight = lastProcessedHeight, lv_running = True, lv_files = fs, lv_state = s\<rparr>)
      in if \<not> skipInitialDbCheck then
           (case getLastBlockHeight (or_chainName ork) of Inl e \<Rightarrow> Exit 1 | Inr h \<Rightarrow> loop h)
         else
           (case latest of
              Inl e \<Rightarrow> Done \<lparr>lv_or = or0\<lparr>or_isProcessing := False\<rparr>, lv_lastProcessedHeight = 0,
                             lv_running = False, lv_files = fs, lv_state = s\<rparr>
            | Inr h \<Rightarrow> loop h))"

end
