(* ===== verification/Orchestrator_Runs.thy ===== *)
theory Orchestrator_Runs
  imports Orchestrator
begin

text \<open>
  What the historic and the live loop do: the reference is a list of chunks run one after the
  other, and the theorems say which heights these chunks hold.
\<close>

section \<open>Chunks in sequence\<close>

definition run_chunk ::
  "'s Processor \<Rightarrow> (byte list \<Rightarrow> byte list) \<Rightarrow> bool \<Rightarrow> ChunkEnv \<times> u64 \<times> u64 \<Rightarrow> 's \<Rightarrow> 's outcome" where
  "run_chunk P sha256 c chunk s =
     (let (env, a, b) = chunk in bind_outcome (processChunk P sha256 env a b c s) (\<lambda>(err, s'). Done s'))"

definition chunk_heights :: "(ChunkEnv \<times> u64 \<times> u64) list \<Rightarrow> nat list" where
  "chunk_heights chunks = concat (map (\<lambda>(env, a, b). [unat a..<Suc (unat b)]) chunks)"

lemma chunk_heights_simps [simp]:
  "chunk_heights [] = []"
  "chunk_heights ((env, a, b) # chunks) = [unat a..<Suc (unat b)] @ chunk_heights chunks"
  "chunk_heights (xs @ ys) = chunk_heights xs @ chunk_heights ys"
  by (simp_all add: chunk_heights_def del: upt_Suc)

lemma processChunk_no_error: "processChunk P sha256 env a b c s = Done (err, s') \<Longrightarrow> err = None"
  by (auto simp: processChunk_def processAll_def split: if_splits)

lemma run_chunk_Done [simp]:
  "run_chunk P sha256 c (env, a, b) s = Done s' \<longleftrightarrow> processChunk P sha256 env a b c s = Done (None, s')"
  by (auto simp: run_chunk_def dest: processChunk_no_error)

section \<open>The historic loop\<close>

lemma historic_chunk_end:
  assumes "start \<le> (toH :: u64)" and "0 < sz" and "unat toH + unat sz < 2 ^ 64"
  shows "unat (min (start + sz - 1) toH) = min (unat start + unat sz - 1) (unat toH)"
    and "unat start \<le> unat (min (start + sz - 1) toH)"
    and "unat (min (start + sz - 1) toH + 1) = Suc (unat (min (start + sz - 1) toH))"
proof -
  have le: "unat start \<le> unat toH" using assms(1) by (simp add: word_le_nat_alt)
  have pos: "0 < unat sz" using assms(2) by (simp add: unat_gt_0 word_gt_0)
  have sum: "unat (start + sz) = unat start + unat sz"
    using assms(3) le by (intro unat_plus) linarith
  have "1 \<le> start + sz"
    unfolding word_le_nat_alt sum using pos by simp
  then have sub: "unat (start + sz - 1) = unat start + unat sz - 1"
    by (simp add: unat_sub sum)
  show m: "unat (min (start + sz - 1) toH) = min (unat start + unat sz - 1) (unat toH)"
    by (simp add: min_def word_le_nat_alt sub)
  then show "unat start \<le> unat (min (start + sz - 1) toH)"
    using le pos by simp
  have "unat (min (start + sz - 1) toH) + unat (1 :: u64) < 2 ^ 64"
    using m assms(3) pos by simp
  from unat_plus [OF this] show "unat (min (start + sz - 1) toH + 1) = Suc (unat (min (start + sz - 1) toH))"
    by simp
qed

definition chunk_end_or :: "u64 \<Rightarrow> (ChunkEnv \<times> u64 \<times> u64) list \<Rightarrow> u64" where
  "chunk_end_or h chunks = (if chunks = [] then h else snd (snd (last chunks)))"

lemma chunk_end_or_simps [simp]:
  "chunk_end_or h [] = h"
  "chunk_end_or h ((env, a, b) # chunks) = chunk_end_or b chunks"
  by (auto simp: chunk_end_or_def)

text \<open>The chunks a historic run is to process, as a reference.\<close>

primrec historic_plan ::
  "nat \<Rightarrow> (nat \<Rightarrow> ChunkEnv) \<Rightarrow> (nat \<Rightarrow> bool) \<Rightarrow> u64 \<Rightarrow> u64 \<Rightarrow> nat \<Rightarrow> u64 \<Rightarrow> (ChunkEnv \<times> u64 \<times> u64) list" where
  "historic_plan 0 env cancelled sz toH n start = []"
| "historic_plan (Suc fuel) env cancelled sz toH n start =
     (if start \<le> toH \<and> \<not> cancelled n then
        (let b = min (start + sz - 1) toH in (env n, start, b) # historic_plan fuel env cancelled sz toH (Suc n) (b + 1))
      else [])"

lemma heights_before:
  "a \<le> Suc b \<Longrightarrow> chunk_heights chunks = [Suc b..<stop] \<Longrightarrow> [a..<Suc b] @ chunk_heights chunks = [a..<max stop (Suc b)]"
  using upt_add_eq_append [of a "Suc b" "stop - Suc b"] by (cases "Suc b \<le> stop") (auto simp del: upt_Suc simp: max_def)

lemma historic_plan_heights:
  assumes "0 < sz" and "unat toH + unat sz < 2 ^ 64"
    and "unat start \<le> Suc (unat toH)" and "Suc (unat toH) - unat start < fuel"
  shows "\<exists>stop. chunk_heights (historic_plan fuel env cancelled sz toH n start) = [unat start..<stop]
    \<and> (stop = Suc (unat toH) \<or> cancelled (n + length (historic_plan fuel env cancelled sz toH n start)))"
  using assms
proof (induction fuel arbitrary: n start)
  case (Suc fuel)
  show ?case
  proof (cases "start \<le> toH \<and> \<not> cancelled n")
    case False
    then have "unat start = Suc (unat toH) \<or> cancelled n"
      using Suc.prems(3) by (auto simp: word_le_nat_alt)
    then show ?thesis using False by (intro exI [of _ "unat start"]) auto
  next
    case True
    define b where "b = min (start + sz - 1) toH"
    note ends = historic_chunk_end [of start toH sz, OF conjunct1 [OF True] Suc.prems(1,2), folded b_def]
    have "unat (b + 1) \<le> Suc (unat toH)" "Suc (unat toH) - unat (b + 1) < fuel"
      using ends Suc.prems(3,4) True by (auto simp: word_le_nat_alt)
    from Suc.IH [OF Suc.prems(1,2) this, of "Suc n"] obtain stop where
      stop: "chunk_heights (historic_plan fuel env cancelled sz toH (Suc n) (b + 1)) = [Suc (unat b)..<stop]"
        "stop = Suc (unat toH) \<or> cancelled (Suc n + length (historic_plan fuel env cancelled sz toH (Suc n) (b + 1)))"
      unfolding ends(3) by blast
    have "unat b \<le> unat toH" using ends(1) by simp
    with True stop heights_before [OF le_SucI [OF ends(2)] stop(1)] show ?thesis
      by (intro exI [of _ "max stop (Suc (unat b))"]) (auto simp: b_def [symmetric] Let_def max_def simp del: upt_Suc)
  qed
qed simp

lemma historic_plan_chunks:
  assumes "0 < sz" and "unat toH + unat sz < 2 ^ 64"
  shows "list_all (\<lambda>(e, a, b). unat b < unat a + unat sz) (historic_plan fuel env cancelled sz toH n start)
    \<and> (\<forall>i<length (historic_plan fuel env cancelled sz toH n start).
         fst (historic_plan fuel env cancelled sz toH n start ! i) = env (n + i) \<and> \<not> cancelled (n + i))"
proof (induction fuel arbitrary: n start)
  case (Suc fuel)
  have "0 < unat sz" using assms(1) by (simp add: unat_gt_0 word_gt_0)
  then have "start \<le> toH \<Longrightarrow> unat (min (start + sz - 1) toH) < unat start + unat sz"
    using historic_chunk_end(1) [OF _ assms, of start] by simp
  with Suc [of "Suc n" "min (start + sz - 1) toH + 1"] show ?case
    by (auto simp: Let_def All_less_Suc2)
qed simp

lemma historic_loop_plan:
  assumes "or_MaxBlockChunkSize ork = sz" and "0 < sz" and "unat toH + unat sz < 2 ^ 64"
    and "unat start \<le> Suc (unat toH)" and "Suc (unat toH) - unat start < fuel"
  shows "historic_loop fuel P sha256 env cancelled toH c n start (ork, st) =
    Some (bind_outcome (foldM_outcome (run_chunk P sha256 c) (historic_plan fuel env cancelled sz toH n start) st)
      (\<lambda>st'. Done (ork\<lparr>or_currentProcessingHeight :=
         chunk_end_or (or_currentProcessingHeight ork) (historic_plan fuel env cancelled sz toH n start)\<rparr>, st')))"
  using assms
proof (induction fuel arbitrary: n start ork st)
  case (Suc fuel)
  show ?case
  proof (cases "start \<le> toH \<and> \<not> cancelled n")
    case True
    note ends = historic_chunk_end [of start toH sz, OF conjunct1 [OF True] Suc.prems(2,3)]
    have "unat (min (start + sz - 1) toH + 1) \<le> Suc (unat toH)" "Suc (unat toH) - unat (min (start + sz - 1) toH + 1) < fuel"
      using ends(2,3) Suc.prems(4,5) True by (auto simp: word_le_nat_alt ends(1) simp del: min_def)
    note IH = Suc.IH [of "ork\<lparr>or_currentProcessingHeight := min (start + sz - 1) toH\<rparr>", OF _ Suc.prems(2,3) this, of "Suc n"]
    show ?thesis using True Suc.prems(1) IH
      by (cases "processChunk P sha256 (env n) start (min (start + sz - 1) toH) c st")
         (auto simp: Let_def run_chunk_def split: prod.splits)
  qed auto
qed simp

lemma historic_loop_chunks:
  assumes "or_MaxBlockChunkSize ork = sz" and "0 < sz" and "unat toH + unat sz < 2 ^ 64"
    and "unat start \<le> Suc (unat toH)" and "Suc (unat toH) - unat start < fuel"
  shows "\<exists>chunks stop. chunk_heights chunks = [unat start..<stop]
    \<and> list_all (\<lambda>(e, a, b). unat b < unat a + unat sz) chunks
    \<and> (\<forall>i<length chunks. fst (chunks ! i) = env (n + i) \<and> \<not> cancelled (n + i))
    \<and> (stop = Suc (unat toH) \<or> cancelled (n + length chunks))
    \<and> historic_loop fuel P sha256 env cancelled toH c n start (ork, st) =
        Some (bind_outcome (foldM_outcome (run_chunk P sha256 c) chunks st)
          (\<lambda>st'. Done (ork\<lparr>or_currentProcessingHeight := chunk_end_or (or_currentProcessingHeight ork) chunks\<rparr>, st')))"
  using historic_plan_heights [OF assms(2-5), of env cancelled n] historic_plan_chunks [OF assms(2,3), of fuel env cancelled n start]
    historic_loop_plan [OF assms, of P sha256 env cancelled c n st]
  by blast

section \<open>The live loop\<close>

text \<open>The node never reports a height below one it has reported.\<close>

fun never_back :: "u64 \<Rightarrow> LiveInput list \<Rightarrow> bool" where
  "never_back h [] = True"
| "never_back h (i # is) =
     (case li_latest i of Inl e \<Rightarrow> never_back h is | Inr h' \<Rightarrow> h \<le> h' \<and> never_back h' is)"

lemma live_chunk_end_ahead:
  assumes "lastH \<le> (h :: u64)"
  shows "unat (live_chunk_end sz lastH h) = min (unat lastH + unat sz) (unat h)"
proof -
  have le: "unat lastH \<le> unat h" using assms by (simp add: word_le_nat_alt)
  have m: "unat (min (h - lastH) sz) = min (unat h - unat lastH) (unat sz)"
    using assms by (simp add: min_def word_le_nat_alt unat_sub)
  have "unat lastH + unat (min (h - lastH) sz) < 2 ^ 64"
    unfolding m using le unat_u64_less [of h] by simp
  then have "unat (lastH + min (h - lastH) sz) = unat lastH + min (unat h - unat lastH) (unat sz)"
    unfolding m [symmetric] by (rule unat_plus)
  moreover have "live_chunk_end sz lastH h = min (lastH + min (h - lastH) sz) h"
    by (simp add: live_chunk_end_def Let_def)
  ultimately show ?thesis using le by (auto simp add: min_def word_le_nat_alt split: if_splits)
qed

text \<open>One iteration of a running loop when the node is not behind: nothing, or one chunk.\<close>

lemma live_iteration_cases:
  assumes "live_iteration P sha256 c i st = Done st'" and "lv_running st"
    and "\<forall>h. li_latest i = Inr h \<longrightarrow> lv_lastProcessedHeight st \<le> h"
    and "or_currentProcessingHeight (lv_or st) = lv_lastProcessedHeight st"
  obtains (idle) "lv_lastProcessedHeight st' = lv_lastProcessedHeight st" "lv_state st' = lv_state st"
      "or_MaxBlockChunkSize (lv_or st') = or_MaxBlockChunkSize (lv_or st)"
      "or_currentProcessingHeight (lv_or st') = lv_lastProcessedHeight st'"
    | (chunk) h where "li_latest i = Inr h" "lv_lastProcessedHeight st < h" "lv_running st'"
      "lv_lastProcessedHeight st' = live_chunk_end (or_MaxBlockChunkSize (lv_or st)) (lv_lastProcessedHeight st) h"
      "run_chunk P sha256 c (li_env i, lv_lastProcessedHeight st + 1, lv_lastProcessedHeight st') (lv_state st)
         = Done (lv_state st')"
      "or_MaxBlockChunkSize (lv_or st') = or_MaxBlockChunkSize (lv_or st)"
      "or_currentProcessingHeight (lv_or st') = lv_lastProcessedHeight st'"
proof (cases "li_cancelled i")
  case True
  with assms have "st' = live_stop i st" by (simp add: live_iteration_def)
  with assms(4) show ?thesis by (intro idle) (simp_all add: live_stop_def)
next
  case False
  show ?thesis
  proof (cases "li_latest i")
    case (Inl e)
    with False assms have "st' = st" by (simp add: live_iteration_def)
    with assms(4) show ?thesis by (intro idle) simp_all
  next
    case (Inr h)
    show ?thesis
    proof (cases "h - lv_lastProcessedHeight st = 0")
      case True
      with False Inr assms have "st' = st" by (simp add: live_iteration_def)
      with assms(4) show ?thesis by (intro idle) simp_all
    next
      case ne: False
      let ?stop = "live_chunk_end (or_MaxBlockChunkSize (lv_or st)) (lv_lastProcessedHeight st) h"
      have lt: "lv_lastProcessedHeight st < h" using assms(3) Inr ne by (simp add: order_less_le)
      from False Inr ne assms(1,2) obtain err s' where
        pc: "processChunk P sha256 (li_env i) (lv_lastProcessedHeight st + 1) ?stop c (lv_state st) = Done (err, s')"
        and r: "(let st' = st\<lparr>lv_or := (lv_or st)\<lparr>or_currentProcessingHeight := lv_lastProcessedHeight st + 1\<rparr>, lv_state := s'\<rparr> in
            case err of Some e \<Rightarrow> Done st' | None \<Rightarrow> Done (st'\<lparr>lv_lastProcessedHeight := ?stop,
              lv_or := (lv_or st')\<lparr>or_currentProcessingHeight := ?stop\<rparr>\<rparr>)) = Done st'"
        by (auto simp: live_iteration_def Let_def)
      have "err = None" using pc by (rule processChunk_no_error)
      with r pc assms(2) lt Inr show ?thesis
        by (intro chunk [of h]) (auto simp: Let_def)
    qed
  qed
qed

lemma live_stopped: "\<not> lv_running st \<Longrightarrow> foldM_outcome (live_iteration P sha256 c) iters st = Done st"
  by (induction iters) (simp_all add: live_iteration_def)

lemma live_iteration_running:
  "live_iteration P sha256 c i st = Done st' \<Longrightarrow> \<not> lv_running st' \<Longrightarrow> lv_running st \<Longrightarrow> st' = live_stop i st"
  by (auto simp: live_iteration_def Let_def split: if_splits sum.splits option.splits prod.splits)

lemma never_back_next:
  assumes "never_back h (i # iters)" and "l \<le> h"
  obtains h' where "never_back h' iters" "l \<le> h'" "\<forall>x. li_latest i = Inr x \<longrightarrow> h' = x"
  using assms by (cases "li_latest i") (auto intro: order_trans)

lemma live_loop_chunks:
  assumes "foldM_outcome (live_iteration P sha256 c) iters st = Done st'" and "lv_running st"
    and "never_back h iters" and "lv_lastProcessedHeight st \<le> h"
    and "or_currentProcessingHeight (lv_or st) = lv_lastProcessedHeight st"
  shows "\<exists>chunks. chunk_heights chunks = [Suc (unat (lv_lastProcessedHeight st))..<Suc (unat (lv_lastProcessedHeight st'))]
    \<and> list_all (\<lambda>(e, a, b). unat b < unat a + unat (or_MaxBlockChunkSize (lv_or st))) chunks
    \<and> foldM_outcome (run_chunk P sha256 c) chunks (lv_state st) = Done (lv_state st')
    \<and> lv_lastProcessedHeight st \<le> lv_lastProcessedHeight st'
    \<and> or_currentProcessingHeight (lv_or st') = lv_lastProcessedHeight st'"
  using assms
proof (induction iters arbitrary: st h)
  case Nil
  then show ?case by (intro exI [of _ "[]"]) simp
next
  case (Cons i iters)
  then obtain st1 where s1: "live_iteration P sha256 c i st = Done st1"
    and rest: "foldM_outcome (live_iteration P sha256 c) iters st1 = Done st'" by auto
  have ahead: "\<forall>h'. li_latest i = Inr h' \<longrightarrow> lv_lastProcessedHeight st \<le> h'"
    using Cons.prems(3,4) by (auto intro: order_trans)
  obtain h' where h': "never_back h' iters" "lv_lastProcessedHeight st \<le> h'" "\<forall>x. li_latest i = Inr x \<longrightarrow> h' = x"
    using Cons.prems(3,4) by (rule never_back_next)
  from s1 Cons.prems(2) ahead Cons.prems(5) show ?case
  proof (cases rule: live_iteration_cases)
    case idle
    show ?thesis
    proof (cases "lv_running st1")
      case True
      then show ?thesis using Cons.IH [OF rest True h'(1)] h'(2) idle by metis
    next
      case False
      with rest have "st' = st1" by (simp add: live_stopped)
      with idle show ?thesis by (intro exI [of _ "[]"]) simp
    qed
  next
    case (chunk x)
    let ?l = "lv_lastProcessedHeight st" and ?l1 = "lv_lastProcessedHeight st1"
    have u: "unat ?l1 = min (unat ?l + unat (or_MaxBlockChunkSize (lv_or st))) (unat x)"
      using live_chunk_end_ahead [of ?l x] chunk(2,4) by simp
    have l1: "?l1 \<le> x" "?l \<le> ?l1" using u chunk(2) by (simp_all add: word_le_nat_alt word_less_nat_alt)
    have x: "h' = x" using h'(3) chunk(1) by simp
    from Cons.IH [OF rest chunk(3) h'(1) l1(1) [folded x] chunk(7)] obtain chunks where
      ch: "chunk_heights chunks = [Suc (unat ?l1)..<Suc (unat (lv_lastProcessedHeight st'))]"
        "list_all (\<lambda>(e, a, b). unat b < unat a + unat (or_MaxBlockChunkSize (lv_or st))) chunks"
        "foldM_outcome (run_chunk P sha256 c) chunks (lv_state st1) = Done (lv_state st')"
        "?l1 \<le> lv_lastProcessedHeight st'"
        "or_currentProcessingHeight (lv_or st') = lv_lastProcessedHeight st'"
      unfolding chunk(6) by blast
    have suc: "unat (?l + 1) = Suc (unat ?l)" using unat_plus_1 [OF chunk(2)] by simp
    have le: "unat ?l \<le> unat ?l1" "unat ?l1 \<le> unat (lv_lastProcessedHeight st')"
      using l1(2) ch(4) by (simp_all add: word_le_nat_alt)
    then have "[Suc (unat ?l)..<Suc (unat ?l1)] @ chunk_heights chunks
        = [Suc (unat ?l)..<Suc (unat (lv_lastProcessedHeight st'))]"
      using heights_before [OF _ ch(1), of "Suc (unat ?l)"] by (simp add: max_def del: upt_Suc)
    then show ?thesis
      using ch(2-) suc u chunk(5) l1(2)
      by (intro exI [of _ "(li_env i, ?l + 1, ?l1) # chunks"])
         (simp del: upt_Suc run_chunk_Done add: min_def)
  qed
qed

section \<open>Catching up\<close>

lemma live_iteration_chunk:
  assumes "live_iteration P sha256 c i st = Done st'" and "lv_running st"
    and "\<not> li_cancelled i" and "li_latest i = Inr h" and "lv_lastProcessedHeight st \<le> h"
  shows "lv_running st' \<and> or_MaxBlockChunkSize (lv_or st') = or_MaxBlockChunkSize (lv_or st)
    \<and> unat (lv_lastProcessedHeight st') =
        min (unat (lv_lastProcessedHeight st) + unat (or_MaxBlockChunkSize (lv_or st))) (unat h)"
proof (cases "h = lv_lastProcessedHeight st")
  case True
  with assms have "st' = st" by (simp add: live_iteration_def)
  with True assms(2) show ?thesis by simp
next
  case False
  with assms(1-4) have "lv_running st' \<and> or_MaxBlockChunkSize (lv_or st') = or_MaxBlockChunkSize (lv_or st)
    \<and> lv_lastProcessedHeight st' = live_chunk_end (or_MaxBlockChunkSize (lv_or st)) (lv_lastProcessedHeight st) h"
    by (auto simp: live_iteration_def Let_def split: option.splits dest: processChunk_no_error)
  then show ?thesis using live_chunk_end_ahead [OF assms(5)] by simp
qed

lemma live_iterations_catch_up:
  assumes "foldM_outcome (live_iteration P sha256 c) iters st = Done st'" and "lv_running st"
    and "list_all (\<lambda>i. \<not> li_cancelled i \<and> li_latest i = Inr h) iters" and "lv_lastProcessedHeight st \<le> h"
  shows "lv_running st' \<and> unat (lv_lastProcessedHeight st') =
    min (unat (lv_lastProcessedHeight st) + length iters * unat (or_MaxBlockChunkSize (lv_or st))) (unat h)"
  using assms
proof (induction iters arbitrary: st)
  case Nil
  then show ?case by (simp add: word_le_nat_alt)
next
  case (Cons i iters)
  then obtain st1 where s1: "live_iteration P sha256 c i st = Done st1"
    and rest: "foldM_outcome (live_iteration P sha256 c) iters st1 = Done st'" by auto
  from Cons.prems(3) have i: "\<not> li_cancelled i" "li_latest i = Inr h"
    and all: "list_all (\<lambda>i. \<not> li_cancelled i \<and> li_latest i = Inr h) iters" by simp_all
  note one = live_iteration_chunk [OF s1 Cons.prems(2) i Cons.prems(4)]
  then have le: "lv_lastProcessedHeight st1 \<le> h" by (simp add: word_le_nat_alt)
  from Cons.IH [OF rest _ all le] one show ?case by (auto simp: min_def algebra_simps)
qed

section \<open>Wiring\<close>

text \<open>The chunk environment made of the query operator: the node's answers and the schedules are
  arguments.\<close>

definition query_env ::
  "QueryOperator \<Rightarrow> (nat \<Rightarrow> nat list) \<Rightarrow> (u64 \<Rightarrow> nat \<Rightarrow> goerror + BlockResponse option)
   \<Rightarrow> (u64 \<Rightarrow> nat \<Rightarrow> goerror + CommitResponse option) \<Rightarrow> (string \<Rightarrow> nat \<Rightarrow> goerror + TxResponse option)
   \<Rightarrow> task list \<Rightarrow> task list \<Rightarrow> ChunkEnv" where
  "query_env q sched getBlock getCommit getTx order1 order2 =
     \<lparr>ce_GetFromToBlocks = (\<lambda>a b. GetFromToBlocks q (sched (unat (b - a + 1))) getBlock a b),
      ce_GetFromToCommits = (\<lambda>a b. GetFromToCommits q (sched (unat (b - a + 1))) getCommit a b),
      ce_GetTransactions = (\<lambda>txs. GetTransactions q (sched (length txs)) getTx txs),
      ce_order1 = order1, ce_order2 = order2\<rparr>"

lemma empty_chunk:
  assumes "b + 1 = a"
  shows "processChunk P sha256 (query_env q sched getB getC getT o1 o2) a b c s = Done (None, s)"
proof -
  have "b - a + 1 = 0" using assms by (metis add_diff_cancel_left' diff_add_eq diff_self)
  then show ?thesis
    by (simp add: processChunk_def query_env_def GetFromToBlocks_def GetFromToCommits_def fetch_range_def)
qed

lemma historic_zero_chunk:
  assumes "or_MaxBlockChunkSize ork = 0" and "0 < fromH" and "fromH \<le> toH" and "\<forall>n. \<not> cancelled n"
  shows "historic_loop fuel P sha256 (\<lambda>n. query_env q sched (getB n) getC getT o1 o2) cancelled toH c n fromH (ork, s) = None"
  using assms
proof (induction fuel arbitrary: n ork)
  case (Suc fuel)
  have "1 \<le> fromH" using Suc.prems(2) by (simp add: word_less_nat_alt word_le_nat_alt)
  then have "fromH - 1 \<le> toH"
    using Suc.prems(3) by (simp add: word_le_nat_alt unat_sub)
  then have m: "min (fromH - 1) toH = fromH - 1" by simp
  from Suc.IH [of "ork\<lparr>or_currentProcessingHeight := fromH - 1\<rparr>" "Suc n"] Suc.prems
  show ?case by (simp add: m empty_chunk)
qed simp

end
