(* ===== verification/Processor_Rows.thy ===== *)
theory Processor_Rows
  imports Data_Processor
begin

text \<open>
  What the data processor leaves in the database. The locale \<open>indexer_store\<close> joins the address
  statements and COPY into one database; its interpretation is a database that holds the address
  tables of \<open>Address_Db\<close> next to the row tables of \<open>Row_Db\<close>.
\<close>

section \<open>The database behind the processor\<close>

definition timescale_ops ::
  "'db copy_op \<Rightarrow> 'db returning_op \<Rightarrow> 'db find_op \<Rightarrow> 'db insert_op \<Rightarrow> 'db DbOps" where
  "timescale_ops copy query look ins =
     \<lparr>op_InsertRows = InsertRows copy, op_InsertTxHashIds = InsertTxHashIds query,
      op_FindExisting = look, op_InsertAddresses = ins\<rparr>"

text \<open>The address statements and COPY work on different tables of one database.\<close>

locale indexer_store = account_store lookup ins load ids good ready + copy_store copy content
  for lookup :: "'db find_op" and ins :: "'db insert_op" and load :: "'db load_op"
    and ids good ready and copy :: "'db copy_op" and content +
  assumes lookup_content: "lookup as c v db = (r, db') \<Longrightarrow> content db' = content db"
    and ins_content: "ins as c v db = (err, db') \<Longrightarrow> content db' = content db"
begin

lemma solver_content:
  "content (snd (AddressSolver lookup ins as c v n o1 s)) = content (snd s)"
proof -
  have one: "content (insertOneByOne ins as c v db) = content db" for as db
    by (induction as arbitrary: db) (simp_all add: ins_content [OF surjective_pairing])
  have att: "content (insert_attempts ins as c v n o1 is db) = content db" for as "is" db
  proof (induction "is" arbitrary: db)
    case (Cons i rest)
    obtain r db1 where e: "ins as c v db = (r, db1)" by force
    then show ?case by (cases r) (simp_all add: Cons one ins_content [OF e])
  qed simp
  have retry: "content (insertWithRetry ins as c v n o1 db) = content db" for as db
    by (simp add: insertWithRetry_def att)
  have fetch: "content (snd (fetchAndCacheInserted lookup as c v s)) = content (snd s)" for as s
    by (auto simp: fetchAndCacheInserted_def lookup_content split: prod.splits sum.splits)
  have sync: "content (snd (snd (syncExistingFromDB lookup as c v s))) = content (snd s)" for as
    by (auto simp: syncExistingFromDB_def lookup_content Let_def split: prod.splits sum.splits)
  obtain rest a db where sy: "syncExistingFromDB lookup (findUncached (fst s) as) c v s = (rest, a, db)"
    by (metis prod_cases3)
  then have "content db = content (snd s)" using sync [of "findUncached (fst s) as"] by simp
  with sy show ?thesis by (simp add: AddressSolver_def Let_def fetch retry)
qed

lemma resolve_content:
  "content (snd (resolve_messages (timescale_ops copy query lookup ins) o1 m s)) = content (snd s)"
  using solver_content by (auto simp: resolve_messages_def timescale_ops_def Let_def split: prod.splits)
    (metis snd_conv)+

lemma insert_all_content:
  assumes "insert_all (timescale_ops copy query lookup ins) bs db = Some db'"
    and "list_all2 (\<lambda>t b. \<forall>r\<in>set (ib_Rows b). TableName r = t) ts bs"
  shows "content db' t = content db t @ map CopyRow (filter (\<lambda>r. TableName r = t) (concat (map ib_Rows bs)))"
  using assms
proof (induction bs arbitrary: db ts)
  case (Cons b bs)
  from Cons.prems(2) obtain u us where u: "\<forall>r\<in>set (ib_Rows b). TableName r = u"
      and us: "list_all2 (\<lambda>t b. \<forall>r\<in>set (ib_Rows b). TableName r = t) us bs"
    by (auto simp: list_all2_Cons2)
  show ?case
  proof (cases "ib_Rows b = []")
    case True
    with Cons us show ?thesis by simp
  next
    case False
    with Cons.prems(1) obtain db1 where op: "InsertRows copy (ib_Rows b) db = (None, db1)"
        and rest: "insert_all (timescale_ops copy query lookup ins) bs db1 = Some db'"
      by (auto simp: timescale_ops_def split: prod.splits option.splits)
    have "content db1 = (content db)(u := content db u @ map CopyRow (ib_Rows b))"
      using InsertRows_ok [OF op u] .
    moreover have "filter (\<lambda>r. TableName r = t) (ib_Rows b) = (if t = u then ib_Rows b else [])"
      using u by (auto simp: filter_id_conv filter_empty_conv)
    ultimately show ?thesis
      using Cons.IH [OF rest us] by simp
  qed
qed simp

end

lemma filter_concat_classes:
  "distinct ts \<Longrightarrow>
   filter (\<lambda>y. h y = t) (concat (map (\<lambda>u. map g (filter (\<lambda>x. h (g x) = u) xs)) ts))
   = (if t \<in> set ts then filter (\<lambda>y. h y = t) (map g xs) else [])"
proof (induction ts)
  case (Cons u ts)
  have "filter (\<lambda>y. h y = t) (map g (filter (\<lambda>x. h (g x) = u) xs))
      = (if t = u then filter (\<lambda>y. h y = t) (map g xs) else [])"
    by (auto simp: filter_map comp_def filter_empty_conv)
  with Cons show ?case by auto
qed simp

lemma filter_InsertBatches:
  "filter (\<lambda>r. TableName r = t) (concat (map ib_Rows (InsertBatches m)))
   = filter (\<lambda>r. TableName r = t) (map (\<lambda>r. Row_Message (mrow_row r)) (dbm_rows m))"
proof -
  let ?ts = "fold set_insert (map mrow_table (dbm_rows m)) []"
  have rows: "map ib_Rows (InsertBatches m) =
      map (\<lambda>u. map (\<lambda>r. Row_Message (mrow_row r)) (filter (\<lambda>r. mrow_table r = u) (dbm_rows m))) ?ts"
    by (simp add: InsertBatches_eq batch_of_def comp_def)
  have "t \<notin> set ?ts \<Longrightarrow> filter (\<lambda>r. TableName r = t) (map (\<lambda>r. Row_Message (mrow_row r)) (dbm_rows m)) = []"
    by (auto simp: filter_empty_conv)
  then show ?thesis
    unfolding rows
    by (subst filter_concat_classes [where h = TableName and g = "\<lambda>r. Row_Message (mrow_row r)"]) auto
qed

lemma InsertBatches_homogeneous:
  "\<exists>ts. list_all2 (\<lambda>t b. \<forall>r\<in>set (ib_Rows b). TableName r = t) ts (InsertBatches m)"
proof
  show "list_all2 (\<lambda>t b. \<forall>r\<in>set (ib_Rows b). TableName r = t)
      (fold set_insert (map mrow_table (dbm_rows m)) []) (InsertBatches m)"
    unfolding InsertBatches_eq list_all2_map2 list_all2_same by (auto simp: batch_of_def)
qed

section \<open>The messages of a range\<close>

text \<open>Decoding of one transaction, as both phases do it.\<close>

definition decoded :: "'f Codecs \<Rightarrow> TransactionsData \<Rightarrow> DecodedMsg outcome" where
  "decoded cd transaction =
     bind_outcome (deref (tdt_Response transaction)) (\<lambda>r.
       NewDecodedMsg (cd_unmarshalTx cd) (cd_sha256 cd) (td_Tx (tx_Result r)))"

text \<open>The rows of one transaction once its addresses are resolved: none if it has no identity.\<close>

definition tx_messages :: "DataProcessor \<Rightarrow> TransactionsData \<Rightarrow> DecodedMsg \<Rightarrow> message list" where
  "tx_messages d tx dm =
     (case map_of (dp_txHashCache d) (tx_GetHash (tdt_Response tx)) of
        None \<Rightarrow> []
      | Some txId \<Rightarrow>
          tx_rows (GetAddress (dp_addressCache d)) txId (dp_chainName d) (tdt_Timestamp tx)
            (map (GetAddress (dp_addressCache d)) (GetSigners dm)) 0 (dm_Msgs dm))"

definition group_error :: "DataProcessor \<Rightarrow> TransactionsData \<Rightarrow> DecodedMsg \<Rightarrow> bool" where
  "group_error d tx dm \<longleftrightarrow>
     map_of (dp_txHashCache d) (tx_GetHash (tdt_Response tx)) \<noteq> None \<and> 32768 < length (dm_Msgs dm)"

lemma processMessageGroup_cases:
  assumes "list_all registered (dm_Msgs dm)"
  shows "group_error d tx dm \<Longrightarrow> \<exists>e. processMessageGroup d tx (Some dm) = (None, Some e)"
    and "\<not> group_error d tx dm \<Longrightarrow> \<exists>r. processMessageGroup d tx (Some dm) = (r, None)
      \<and> (case r of None \<Rightarrow> [] | Some m \<Rightarrow> dbm_rows m)
          = map (entry_of (dp_chainName d) (tdt_Timestamp tx)) (tx_messages d tx dm)"
proof -
  let ?conv = "\<lambda>i. ConvertToDbMessages dm (GetAddress (dp_addressCache d)) i (dp_chainName d) (tdt_Timestamp tx) (GetSigners dm)"
  have ok: "\<exists>out. ?conv i = Inr out \<and> dbm_rows out = map (entry_of (dp_chainName d) (tdt_Timestamp tx))
      (tx_rows (GetAddress (dp_addressCache d)) i (dp_chainName d) (tdt_Timestamp tx)
         (map (GetAddress (dp_addressCache d)) (GetSigners dm)) 0 (dm_Msgs dm))"
    if "length (dm_Msgs dm) \<le> 32768" for i
    using that assms unfolding ConvertToDbMessages_iff by (metis DbMessages.select_convs(1))
  have err: "\<exists>e. ?conv i = Inl e" if "32768 < length (dm_Msgs dm)" for i
  proof (cases "?conv i")
    case (Inr out)
    then show ?thesis using that by (simp add: ConvertToDbMessages_iff)
  qed simp
  show "group_error d tx dm \<Longrightarrow> \<exists>e. processMessageGroup d tx (Some dm) = (None, Some e)"
    using err by (auto simp: processMessageGroup_def group_error_def split: sum.splits) (metis sum.distinct(1))
  show "\<not> group_error d tx dm \<Longrightarrow> \<exists>r. processMessageGroup d tx (Some dm) = (r, None)
      \<and> (case r of None \<Rightarrow> [] | Some m \<Rightarrow> dbm_rows m)
          = map (entry_of (dp_chainName d) (tdt_Timestamp tx)) (tx_messages d tx dm)"
  proof (cases "map_of (dp_txHashCache d) (tx_GetHash (tdt_Response tx))")
    case (Some i)
    assume "\<not> group_error d tx dm"
    with Some have "length (dm_Msgs dm) \<le> 32768" by (simp add: group_error_def)
    from ok [OF this, of i] Some show ?thesis
      by (auto simp: processMessageGroup_def tx_messages_def)
  qed (simp add: processMessageGroup_def tx_messages_def)
qed

lemma decodeTx_decoded:
  "decodeTx cd it tx = bind_outcome (decoded cd tx) (\<lambda>dm. Done (dm, CollectAllAddresses it dm))"
  by (cases "tdt_Response tx")
     (simp_all add: decodeTx_def decoded_def deref_def)

lemma transactionDecoding_Done:
  assumes sched: "schedule sched (length txs)" and dec: "list_all2 (\<lambda>tx dm. decoded cd tx = Done dm) txs dms"
  shows "\<exists>m. transactionDecoding cd it sched txs = Done (map Some dms, m)
    \<and> distinct m \<and> set m = (\<Union>dm\<in>set dms. set (CollectAllAddresses it dm))"
proof -
  define g where "g = (\<lambda>tx. case decoded cd tx of Done dm \<Rightarrow> Some (dm, CollectAllAddresses it dm) | _ \<Rightarrow> None)"
  have g: "map g txs = map (\<lambda>dm. Some (dm, CollectAllAddresses it dm)) dms"
    using dec by (induction txs dms rule: list_all2_induct) (simp_all add: g_def)
  have st: "bind_outcome (decodeTx cd it tx) (\<lambda>p. Done (Some p)) = Done (g tx)" if "tx \<in> set txs" for tx
  proof -
    from that dec obtain dm where "decoded cd tx = Done dm" by (auto simp: list_all2_conv_all_nth in_set_conv_nth)
    then show ?thesis by (simp add: decodeTx_decoded g_def)
  qed
  have slots: "run_slots sched (\<lambda>i. bind_outcome (decodeTx cd it (txs ! i)) (\<lambda>p. Done (Some p)))
      (replicate (length txs) None) = Done (map (\<lambda>dm. Some (dm, CollectAllAddresses it dm)) dms)"
    using run_slots_list [OF sched, of "\<lambda>tx. bind_outcome (decodeTx cd it tx) (\<lambda>p. Done (Some p))" g None]
      st by (simp add: g)
  have len: "length dms = length txs" using dec by (simp add: list_all2_lengthD)
  have "set sched = {0..<length dms}" using schedule_set [OF sched] len by simp
  then have "(case map (\<lambda>dm. Some (dm, CollectAllAddresses it dm)) dms ! i of None \<Rightarrow> m
      | Some (dm, addresses) \<Rightarrow> fold set_insert addresses m) = fold set_insert (CollectAllAddresses it (dms ! i)) m"
    if "i \<in> set sched" for i m
    using that by simp
  then have "fold (\<lambda>i m. case map (\<lambda>dm. Some (dm, CollectAllAddresses it dm)) dms ! i of None \<Rightarrow> m
      | Some (dm, addresses) \<Rightarrow> fold set_insert addresses m) sched []
    = fold (\<lambda>i. fold set_insert (CollectAllAddresses it (dms ! i))) sched []"
    by (intro fold_cong) auto
  also have "\<dots> = fold set_insert (concat (map (\<lambda>i. CollectAllAddresses it (dms ! i)) sched)) []"
    by (rule fold_fold_concat)
  finally have res: "transactionDecoding cd it sched txs =
      Done (map Some dms, fold set_insert (concat (map (\<lambda>i. CollectAllAddresses it (dms ! i)) sched)) [])"
    by (simp add: transactionDecoding_def slots comp_def)
  have "(\<Union>i\<in>set sched. set (CollectAllAddresses it (dms ! i))) = (\<Union>dm\<in>set dms. set (CollectAllAddresses it dm))"
    unfolding \<open>set sched = _\<close> by (force simp: in_set_conv_nth)
  then show ?thesis by (simp add: res)
qed

definition message_rows :: "DataProcessor \<Rightarrow> TransactionsData list \<Rightarrow> DecodedMsg list \<Rightarrow> message list" where
  "message_rows d txs dms = concat (map (\<lambda>(tx, dm). tx_messages d tx dm) (zip txs dms))"

lemma dbm_rows_aggregate:
  "dbm_rows (aggregate_messages rs) = concat (map (\<lambda>r. case r of None \<Rightarrow> [] | Some m \<Rightarrow> dbm_rows m) rs)"
proof -
  have "dbm_rows (fold (\<lambda>r agg. case r of None \<Rightarrow> agg | Some m \<Rightarrow> Merge agg m) rs a)
      = dbm_rows a @ concat (map (\<lambda>r. case r of None \<Rightarrow> [] | Some m \<Rightarrow> dbm_rows m) rs)" for a
    by (induction rs arbitrary: a) (auto simp: Merge_def split: option.splits)
  then show ?thesis by (simp add: aggregate_messages_def emptyDbMessages_def)
qed

definition groups :: "DataProcessor \<Rightarrow> TransactionsData list \<Rightarrow> DecodedMsg list \<Rightarrow> (DbMessages option \<times> goerror option) list" where
  "groups d txs dms = map (\<lambda>(tx, dm). processMessageGroup d tx (Some dm)) (zip txs dms)"

lemma groups_slots:
  assumes "schedule sched (length txs)" and "length dms = length txs"
  shows "fill_slots sched (\<lambda>i. processMessageGroup d (txs ! i) (map Some dms ! i))
      (replicate (length txs) (None, None)) = groups d txs dms"
proof -
  have "fill_slots sched (\<lambda>i. processMessageGroup d (txs ! i) (map Some dms ! i)) (replicate (length txs) (None, None))
      = map (\<lambda>i. processMessageGroup d (txs ! i) (map Some dms ! i)) [0..<length txs]"
    by (rule fill_slots_schedule [OF assms(1)]) simp
  also have "\<dots> = groups d txs dms"
    using assms(2) by (intro nth_equalityI) (simp_all add: groups_def)
  finally show ?thesis .
qed

lemma groups_cases:
  assumes "\<forall>dm\<in>set dms. list_all registered (dm_Msgs dm)"
  shows "keep_valid (map snd (groups d txs dms)) = [] \<longleftrightarrow> (\<forall>(tx, dm)\<in>set (zip txs dms). \<not> group_error d tx dm)"
    and "\<forall>(tx, dm)\<in>set (zip txs dms). \<not> group_error d tx dm \<Longrightarrow>
      map mrow_row (dbm_rows (aggregate_messages (map fst (groups d txs dms)))) = message_rows d txs dms
      \<and> (\<forall>row\<in>set (dbm_rows (aggregate_messages (map fst (groups d txs dms)))).
            mrow_addresses row = GetAllAddresses_msg (mrow_row row) \<and> mrow_chainName row = dp_chainName d)"
proof -
  have reg: "list_all registered (dm_Msgs dm)" if "(tx, dm) \<in> set (zip txs dms)" for tx dm
    using that assms by (auto dest: set_zip_rightD)
  have "snd (processMessageGroup d tx (Some dm)) = None \<longleftrightarrow> \<not> group_error d tx dm" if "(tx, dm) \<in> set (zip txs dms)" for tx dm
    using processMessageGroup_cases [OF reg [OF that], of d tx] by fastforce
  then show "keep_valid (map snd (groups d txs dms)) = [] \<longleftrightarrow> (\<forall>(tx, dm)\<in>set (zip txs dms). \<not> group_error d tx dm)"
    by (auto simp: keep_valid_def groups_def filter_empty_conv)
  assume no_err: "\<forall>(tx, dm)\<in>set (zip txs dms). \<not> group_error d tx dm"
  have rows: "(case fst (processMessageGroup d tx (Some dm)) of None \<Rightarrow> [] | Some m \<Rightarrow> dbm_rows m)
      = map (entry_of (dp_chainName d) (tdt_Timestamp tx)) (tx_messages d tx dm)" if "(tx, dm) \<in> set (zip txs dms)" for tx dm
    using processMessageGroup_cases(2) [OF reg [OF that], of d tx] no_err that by fastforce
  have "dbm_rows (aggregate_messages (map fst (groups d txs dms))) =
      concat (map (\<lambda>(tx, dm). case fst (processMessageGroup d tx (Some dm)) of None \<Rightarrow> [] | Some m \<Rightarrow> dbm_rows m) (zip txs dms))"
    by (simp add: dbm_rows_aggregate groups_def comp_def case_prod_unfold)
  also have "\<dots> = concat (map (\<lambda>(tx, dm). map (entry_of (dp_chainName d) (tdt_Timestamp tx)) (tx_messages d tx dm)) (zip txs dms))"
    using rows by (intro arg_cong [where f = concat] map_cong) auto
  finally have agg: "dbm_rows (aggregate_messages (map fst (groups d txs dms))) = \<dots>" .
  show "map mrow_row (dbm_rows (aggregate_messages (map fst (groups d txs dms)))) = message_rows d txs dms
      \<and> (\<forall>row\<in>set (dbm_rows (aggregate_messages (map fst (groups d txs dms)))).
            mrow_addresses row = GetAllAddresses_msg (mrow_row row) \<and> mrow_chainName row = dp_chainName d)"
    unfolding agg message_rows_def
    by (auto simp: map_concat entry_of_def comp_def case_prod_unfold)
qed

text \<open>The second half of the operation, once the messages are decoded and resolved.\<close>

definition insert_messages ::
  "'db DbOps \<Rightarrow> Orders \<Rightarrow> TransactionsData list \<Rightarrow> DecodedMsg list \<Rightarrow> 'db dp_state \<Rightarrow> goerror option \<times> 'db dp_state" where
  "insert_messages ops o1 txs dms s =
     (let (d, db) = s; aggregated = aggregate_messages (map fst (groups d txs dms)) in
      if keep_valid (map snd (groups d txs dms)) \<noteq> [] then (Some (ErrMsg ''failed to convert messages''), d, db)
      else (case op_InsertRows ops (map Row_Address (createAddressTx o1 aggregated)) db of
          (Some e, db') \<Rightarrow> (Some (ErrWrap ''failed to insert address tx'' e), d, db')
        | (None, db') \<Rightarrow>
            (case insertMessageBatches ops o1 d (InsertBatches aggregated) db' of
               (Some e, db'') \<Rightarrow> (Some (ErrWrap ''failed to insert messages'' e), d, db'')
             | (None, db'') \<Rightarrow> (None, d, db''))))"

lemma insert_messages_None:
  assumes "insert_messages ops o1 txs dms (d, db) = (None, d', db')"
  shows "keep_valid (map snd (groups d txs dms)) = []" and "d' = d"
    and "\<exists>db1. op_InsertRows ops (map Row_Address (createAddressTx o1 (aggregate_messages (map fst (groups d txs dms))))) db = (None, db1)
      \<and> insert_all ops (InsertBatches (aggregate_messages (map fst (groups d txs dms)))) db1 = Some db'"
proof -
  let ?agg = "aggregate_messages (map fst (groups d txs dms))"
  show kv: "keep_valid (map snd (groups d txs dms)) = []"
    using assms by (auto simp: insert_messages_def Let_def split: if_splits)
  obtain r db1 where r: "op_InsertRows ops (map Row_Address (createAddressTx o1 ?agg)) db = (r, db1)" by force
  have r0: "r = None" using assms kv r by (cases r) (simp_all add: insert_messages_def)
  obtain r2 db2 where r2: "insertMessageBatches ops o1 d (InsertBatches ?agg) db1 = (r2, db2)" by force
  have "r2 = None \<and> d' = d \<and> db' = db2" using assms kv r r0 r2 by (cases r2) (simp_all add: insert_messages_def)
  then show "d' = d" and "\<exists>db1. op_InsertRows ops (map Row_Address (createAddressTx o1 ?agg)) db = (None, db1)
      \<and> insert_all ops (InsertBatches ?agg) db1 = Some db'"
    using r r0 r2 insertMessageBatches_ok by fastforce+
qed

lemma ProcessMessages_Done:
  assumes "schedule sched1 (length txs)" and "schedule sched2 (length txs)"
    and "list_all2 (\<lambda>tx dm. decoded cd tx = Done dm) txs dms"
  shows "\<exists>m. ProcessMessages ops cd o1 sched1 sched2 txs s = Done (insert_messages ops o1 txs dms (resolve_messages ops o1 m s))
    \<and> distinct m \<and> set m = (\<Union>dm\<in>set dms. set (CollectAllAddresses (ord_strings o1) dm))"
proof -
  from transactionDecoding_Done [OF assms(1,3), of "ord_strings o1"] obtain m where
    td: "transactionDecoding cd (ord_strings o1) sched1 txs = Done (map Some dms, m)"
    and m: "distinct m" "set m = (\<Union>dm\<in>set dms. set (CollectAllAddresses (ord_strings o1) dm))" by blast
  have len: "length dms = length txs" using assms(3) by (simp add: list_all2_lengthD)
  obtain d db where r: "resolve_messages ops o1 m s = (d, db)" by force
  have "ProcessMessages ops cd o1 sched1 sched2 txs s = Done (insert_messages ops o1 txs dms (d, db))"
    by (simp add: ProcessMessages_def td r insert_messages_def Let_def groups_slots [OF assms(2) len]
        split: prod.splits option.splits)
  with m r show ?thesis by (intro exI [of _ m]) simp
qed

section \<open>What a run of ProcessMessages leaves in the database\<close>

lemma message_table_not_address: "TableName (Row_Message m) \<noteq> ''address_tx''"
  by (cases m) (simp_all add: TableName_def)

lemma resolve_chain: "dp_chainName (fst (resolve_messages ops o1 m s)) = dp_chainName (fst s)
    \<and> dp_txHashCache (fst (resolve_messages ops o1 m s)) = dp_txHashCache (fst s)"
  by (auto simp: resolve_messages_def Let_def split: prod.splits)

context indexer_store
begin

lemma address_rows_keys:
  assumes "orders_ok o1" and "\<forall>dm\<in>set dms. list_all registered (dm_Msgs dm)"
    and "\<forall>(tx, dm)\<in>set (zip txs dms). \<not> group_error d tx dm"
  shows "address_key ` set (createAddressTx o1 (aggregate_messages (map fst (groups d txs dms)))) =
    (\<Union>m\<in>set (message_rows d txs dms). (\<lambda>a. (a, message_txid m, dp_chainName d)) ` message_ids m)"
proof -
  let ?agg = "aggregate_messages (map fst (groups d txs dms))"
  note agg = groups_cases(2) [OF assms(2,3)]
  have "address_key ` set (createAddressTx o1 ?agg) = (\<Union>row\<in>set (dbm_rows ?agg).
      (\<lambda>a. (a, message_txid (mrow_row row), dp_chainName d)) ` message_ids (mrow_row row))"
    using conjunct2 [OF agg] by (simp add: createAddressTx_keys [OF assms(1)])
  also have "\<dots> = (\<Union>m\<in>mrow_row ` set (dbm_rows ?agg). (\<lambda>a. (a, message_txid m, dp_chainName d)) ` message_ids m)"
    by simp
  also have "mrow_row ` set (dbm_rows ?agg) = set (message_rows d txs dms)"
    using conjunct1 [OF agg] by (metis list.set_map)
  finally show ?thesis .
qed

lemma insert_messages_content:
  assumes "\<forall>dm\<in>set dms. list_all registered (dm_Msgs dm)"
    and "\<forall>(tx, dm)\<in>set (zip txs dms). \<not> group_error d tx dm"
    and "insert_messages (timescale_ops copy query lookup ins) o1 txs dms (d, db) = (None, d', db')"
  shows "content db' t = ((content db)(''address_tx'' := content db ''address_tx''
      @ map (CopyRow \<circ> Row_Address) (createAddressTx o1 (aggregate_messages (map fst (groups d txs dms)))))) t
    @ map CopyRow (filter (\<lambda>r. TableName r = t) (map Row_Message (message_rows d txs dms)))"
proof -
  let ?agg = "aggregate_messages (map fst (groups d txs dms))"
  from insert_messages_None(3) [OF assms(3)] obtain db1
    where i1: "InsertRows copy (map Row_Address (createAddressTx o1 ?agg)) db = (None, db1)"
      and i2: "insert_all (timescale_ops copy query lookup ins) (InsertBatches ?agg) db1 = Some db'"
    by (auto simp: timescale_ops_def)
  have c1: "content db1 = (content db)(''address_tx'' := content db ''address_tx''
      @ map (CopyRow \<circ> Row_Address) (createAddressTx o1 ?agg))"
    using InsertRows_ok [OF i1] by (simp add: TableName_def)
  obtain ts where "list_all2 (\<lambda>t b. \<forall>r\<in>set (ib_Rows b). TableName r = t) ts (InsertBatches ?agg)"
    using InsertBatches_homogeneous by blast
  from insert_all_content [OF i2 this]
  have "content db' t = content db1 t @ map CopyRow (filter (\<lambda>r. TableName r = t)
      (map (\<lambda>r. Row_Message (mrow_row r)) (dbm_rows ?agg)))"
    by (simp only: filter_InsertBatches)
  moreover have "map (\<lambda>r. Row_Message (mrow_row r)) (dbm_rows ?agg) = map Row_Message (message_rows d txs dms)"
    using conjunct1 [OF groups_cases(2) [OF assms(1,2)], symmetric] by (simp add: comp_def)
  ultimately show ?thesis by (simp only: c1)
qed

lemma insert_messages_ok:
  assumes ord: "orders_ok o1" and reg: "\<forall>dm\<in>set dms. list_all registered (dm_Msgs dm)"
    and res: "insert_messages (timescale_ops copy query lookup ins) o1 txs dms (d, db) = (None, d', db')"
  shows "d' = d"
    and "t \<noteq> ''address_tx'' \<Longrightarrow> content db' t = content db t
      @ map CopyRow (filter (\<lambda>r. TableName r = t) (map Row_Message (message_rows d txs dms)))"
    and "\<exists>addrs. content db' ''address_tx'' = content db ''address_tx'' @ map (CopyRow \<circ> Row_Address) addrs
      \<and> distinct (map address_key addrs)
      \<and> address_key ` set addrs = (\<Union>m\<in>set (message_rows d txs dms). (\<lambda>a. (a, message_txid m, dp_chainName d)) ` message_ids m)"
proof -
  have no_err: "\<forall>(tx, dm)\<in>set (zip txs dms). \<not> group_error d tx dm"
    using groups_cases(1) [OF reg] insert_messages_None(1) [OF res] by blast
  note c = insert_messages_content [OF reg no_err res]
  show "d' = d" by (rule insert_messages_None(2) [OF res])
  show "t \<noteq> ''address_tx'' \<Longrightarrow> content db' t = content db t
      @ map CopyRow (filter (\<lambda>r. TableName r = t) (map Row_Message (message_rows d txs dms)))"
    by (simp only: c fun_upd_other not_False_eq_True)
  have "filter (\<lambda>r. TableName r = ''address_tx'') (map Row_Message (message_rows d txs dms)) = []"
    by (auto simp: filter_empty_conv message_table_not_address)
  then show "\<exists>addrs. content db' ''address_tx'' = content db ''address_tx'' @ map (CopyRow \<circ> Row_Address) addrs
      \<and> distinct (map address_key addrs)
      \<and> address_key ` set addrs = (\<Union>m\<in>set (message_rows d txs dms). (\<lambda>a. (a, message_txid m, dp_chainName d)) ` message_ids m)"
    using c [of "''address_tx''"] createAddressTx_keys(2) [OF ord] address_rows_keys [OF ord reg no_err] by simp blast
qed

lemma insert_messages_abort:
  assumes "\<forall>dm\<in>set dms. list_all registered (dm_Msgs dm)"
    and "(tx, dm) \<in> set (zip txs dms)" and "group_error d tx dm"
  shows "insert_messages (timescale_ops copy query lookup ins) o1 txs dms (d, db)
    = (Some (ErrMsg ''failed to convert messages''), d, db)"
proof -
  have "keep_valid (map snd (groups d txs dms)) \<noteq> []"
    using groups_cases(1) [OF assms(1)] assms(2,3) by blast
  then show ?thesis by (simp add: insert_messages_def Let_def)
qed

lemma resolve_messages_solved:
  assumes "consistent (dp_chainName d) False (dp_addressCache d, db)" and "ready (length m) db"
    and "distinct m" and "orders_ok o1" and "a \<in> set m"
  shows "GetAddress (dp_addressCache (fst (resolve_messages (timescale_ops copy query lookup ins) o1 m (d, db)))) a \<noteq> 0"
proof -
  have it: "iteration (ord_strings o1)" using assms(4) by (simp add: orders_ok_def)
  let ?m = "ord_strings o1 m"
  have m: "length ?m = length m" "distinct ?m" "a \<in> set ?m"
    using assms(3,5) iteration_length [OF it] iteration_distinct [OF it] iteration_set [OF it] by auto
  have rdy: "ready (length ?m) (snd (dp_addressCache d, db))" using assms(2) m(1) by simp
  obtain cache db' where s: "AddressSolver lookup ins ?m (dp_chainName d) False 3 None (dp_addressCache d, db) = (cache, db')"
    by force
  have "GetAddress cache a \<noteq> 0"
    using solved_ids(1) [OF assms(1) rdy m(2), of 3 "(cache, db')" None a a] s m(3) by simp
  moreover have "?m \<noteq> []" using m(3) by auto
  ultimately show ?thesis by (simp add: resolve_messages_def extractAddresses_def timescale_ops_def s Let_def)
qed

end

section \<open>The indexer's database\<close>

record indexer_db =
  ix_addr :: address_db
  ix_rows :: table_store

definition ix_find :: "indexer_db find_op" where
  "ix_find as c v db = (let (r, a) = FindExistingAccounts as c v (ix_addr db) in (r, db\<lparr>ix_addr := a\<rparr>))"

definition ix_insert :: "indexer_db insert_op" where
  "ix_insert as c v db = (let (r, a) = InsertAddresses as c v (ix_addr db) in (r, db\<lparr>ix_addr := a\<rparr>))"

definition ix_load :: "indexer_db load_op" where
  "ix_load c v h db = (let (r, a) = GetAllAddresses c v h (ix_addr db) in (r, db\<lparr>ix_addr := a\<rparr>))"

definition ix_copy :: "indexer_db copy_op" where
  "ix_copy t cols rows db = (let (r, a) = store_copy t cols rows (ix_rows db) in (r, db\<lparr>ix_rows := a\<rparr>))"

lemma ix_parts:
  "ix_find = (\<lambda>as c v. on_part ix_addr (\<lambda>a. ix_addr_update (\<lambda>_. a)) (FindExistingAccounts as c v))"
  "ix_insert = (\<lambda>as c v. on_part ix_addr (\<lambda>a. ix_addr_update (\<lambda>_. a)) (InsertAddresses as c v))"
  "ix_load = (\<lambda>c v h. on_part ix_addr (\<lambda>a. ix_addr_update (\<lambda>_. a)) (GetAllAddresses c v h))"
  "ix_copy = (\<lambda>t cols rows. on_part ix_rows (\<lambda>a. ix_rows_update (\<lambda>_. a)) (store_copy t cols rows))"
  by (simp_all add: fun_eq_iff ix_find_def ix_insert_def ix_load_def ix_copy_def on_part_def)

interpretation ix_accounts: account_part FindExistingAccounts InsertAddresses GetAllAddresses db_ids db_inv db_ready
  ix_addr "\<lambda>a. ix_addr_update (\<lambda>_. a)"
  by unfold_locales simp

interpretation ix_tables: copy_part store_copy ts_tables ix_rows "\<lambda>a. ix_rows_update (\<lambda>_. a)"
  by unfold_locales simp

interpretation ix: indexer_store ix_find ix_insert ix_load "\<lambda>db. db_ids (ix_addr db)"
  "\<lambda>db. db_inv (ix_addr db)" "\<lambda>n db. db_ready n (ix_addr db)" ix_copy "\<lambda>db. ts_tables (ix_rows db)"
  unfolding ix_parts
  by (intro indexer_store.intro ix_accounts.whole.account_store_axioms ix_tables.whole.copy_store_axioms
        indexer_store_axioms.intro)
     (auto simp: on_part_eq)

lemma decoded_registered: "decoded cd tx = Done dm \<Longrightarrow> list_all registered (dm_Msgs dm)"
  by (auto simp: decoded_def dest: NewDecodedMsg_registered)

lemma all_registered:
  "list_all2 (\<lambda>tx dm. decoded cd tx = Done dm) txs dms \<Longrightarrow> \<forall>dm\<in>set dms. list_all registered (dm_Msgs dm)"
  by (auto simp: list_all2_conv_all_nth in_set_conv_nth) (metis decoded_registered)

lemma ProcessMessages_obtain:
  assumes "schedule sched1 (length txs)" and "schedule sched2 (length txs)"
    and "list_all2 (\<lambda>tx dm. decoded cd tx = Done dm) txs dms"
  obtains m d1 db1 where "resolve_messages ops o1 m s = (d1, db1)"
    and "ProcessMessages ops cd o1 sched1 sched2 txs s = Done (insert_messages ops o1 txs dms (d1, db1))"
    and "distinct m" and "set m = (\<Union>dm\<in>set dms. set (CollectAllAddresses (ord_strings o1) dm))"
  using ProcessMessages_Done [OF assms, of ops o1 s] by (metis surj_pair)

abbreviation ix_ops :: "indexer_db returning_op \<Rightarrow> indexer_db DbOps" where
  "ix_ops query \<equiv> timescale_ops ix_copy query ix_find ix_insert"

abbreviation ix_table :: "indexer_db \<Rightarrow> string \<Rightarrow> cell list list" where
  "ix_table db t \<equiv> ts_tables (ix_rows db) t"

section \<open>Properties\<close>

text \<open>C1: when ProcessMessages reports success, every message table has received exactly the rows
  of the messages of the range for that table, in order, and the address table exactly one row for
  each identity, transaction and chain that these messages refer to; whatever the schedules and the
  map orders.\<close>
theorem ProcessMessages_inserts:
  assumes "orders_ok o1" and "schedule sched1 (length txs)" and "schedule sched2 (length txs)"
    and "list_all2 (\<lambda>tx dm. decoded cd tx = Done dm) txs dms"
    and "ProcessMessages (ix_ops query) cd o1 sched1 sched2 txs (d, db) = Done (None, d', db')"
  shows "(\<forall>t. t \<noteq> ''address_tx'' \<longrightarrow> ix_table db' t = ix_table db t
        @ map CopyRow (filter (\<lambda>r. TableName r = t) (map Row_Message (message_rows d' txs dms))))
    \<and> (\<exists>addrs. ix_table db' ''address_tx'' = ix_table db ''address_tx'' @ map (CopyRow \<circ> Row_Address) addrs
        \<and> distinct (map address_key addrs)
        \<and> address_key ` set addrs = (\<Union>m\<in>set (message_rows d' txs dms).
              (\<lambda>a. (a, message_txid m, dp_chainName d)) ` message_ids m))"
proof -
  obtain m d1 db1 where r: "resolve_messages (ix_ops query) o1 m (d, db) = (d1, db1)"
    and pm: "ProcessMessages (ix_ops query) cd o1 sched1 sched2 txs (d, db) =
      Done (insert_messages (ix_ops query) o1 txs dms (d1, db1))"
    using ProcessMessages_obtain [OF assms(2-4)] by metis
  have im: "insert_messages (ix_ops query) o1 txs dms (d1, db1) = (None, d', db')" using pm assms(5) by simp
  have same: "ts_tables (ix_rows db1) = ts_tables (ix_rows db)"
    using ix.resolve_content [of query o1 m "(d, db)"] r by simp
  have chain: "dp_chainName d1 = dp_chainName d"
    using resolve_chain [of "ix_ops query" o1 m "(d, db)"] r by simp
  note ok = ix.insert_messages_ok [OF assms(1) all_registered [OF assms(4)] im]
  show ?thesis unfolding ok(1) using ok(2,3) [unfolded same chain] by blast
qed



text \<open>A transaction whose hash has no identity in the cache is dropped without an error: when
  no transaction of the range has one (after a failed insert of the hashes, say), ProcessMessages
  reports success and the tables are as before.\<close>
theorem ProcessMessages_drops_unknown:
  assumes "orders_ok o1" and "schedule sched1 (length txs)" and "schedule sched2 (length txs)"
    and "list_all2 (\<lambda>tx dm. decoded cd tx = Done dm) txs dms"
    and "\<forall>tx\<in>set txs. map_of (dp_txHashCache d) (tx_GetHash (tdt_Response tx)) = None"
  shows "\<exists>d' db'. ProcessMessages (ix_ops query) cd o1 sched1 sched2 txs (d, db) = Done (None, d', db')
    \<and> ix_table db' = ix_table db"
proof -
  obtain m d1 db1 where r: "resolve_messages (ix_ops query) o1 m (d, db) = (d1, db1)"
    and pm: "ProcessMessages (ix_ops query) cd o1 sched1 sched2 txs (d, db) =
      Done (insert_messages (ix_ops query) o1 txs dms (d1, db1))"
    using ProcessMessages_obtain [OF assms(2-4)] by metis
  have none: "map_of (dp_txHashCache d1) (tx_GetHash (tdt_Response tx)) = None" if "(tx, dm) \<in> set (zip txs dms)" for tx dm
    using that assms(5) resolve_chain [of "ix_ops query" o1 m "(d, db)"] r by (auto dest: set_zip_leftD)
  have reg: "\<forall>dm\<in>set dms. list_all registered (dm_Msgs dm)" using all_registered [OF assms(4)] .
  have no_err: "\<forall>(tx, dm)\<in>set (zip txs dms). \<not> group_error d1 tx dm" using none by (auto simp: group_error_def)
  have "message_rows d1 txs dms = []" using none by (auto simp: message_rows_def tx_messages_def)
  then have agg: "dbm_rows (aggregate_messages (map fst (groups d1 txs dms))) = []"
    using groups_cases(2) [OF reg no_err] by simp
  have "address_key ` set (createAddressTx o1 (aggregate_messages (map fst (groups d1 txs dms)))) = {}"
    by (simp add: createAddressTx_keys(1) [OF assms(1)] agg)
  then have addrs: "createAddressTx o1 (aggregate_messages (map fst (groups d1 txs dms))) = []" by simp
  have batches: "InsertBatches (aggregate_messages (map fst (groups d1 txs dms))) = []"
    using agg by (simp add: InsertBatches_eq)
  have "keep_valid (map snd (groups d1 txs dms)) = []" using groups_cases(1) [OF reg] no_err by blast
  then have "insert_messages (ix_ops query) o1 txs dms (d1, db1) = (None, d1, db1)"
    by (simp add: insert_messages_def addrs batches timescale_ops_def InsertRows_def insertMessageBatches_def)
  then show ?thesis using pm r ix.resolve_content [of query o1 m "(d, db)"] by simp
qed

end
