(* ===== verification/Orchestrator_Store.thy ===== *)
theory Orchestrator_Store
  imports Orchestrator_Runs Processor_Rows
begin

text \<open>
  What the orchestrator's runs keep of the store. The locale \<open>chunk_processor\<close> states what a data
  processor promises (every task keeps an invariant); it is interpreted on the model of the data
  processor over the tables, whose invariant says that the two address caches hold only identities
  the tables record.
\<close>

section \<open>The interface\<close>

locale chunk_processor =
  fixes P :: "'s Processor" and ok :: "'s \<Rightarrow> bool"
  assumes task_ok: "ok s \<Longrightarrow> run_task P ctx t s = Done s' \<Longrightarrow> ok s'"
begin

lemma tasks_ok: "ok s \<Longrightarrow> foldM_outcome (run_task P ctx) ts s = Done s' \<Longrightarrow> ok s'"
  by (induction ts arbitrary: s) (auto intro: task_ok)

lemma processAll_ok: "ok s \<Longrightarrow> processAll P ctx order1 order2 s = Done (err, s') \<Longrightarrow> ok s'"
  by (auto simp: processAll_def dest: tasks_ok)

lemma processChunk_ok: "ok s \<Longrightarrow> processChunk P sha256 env a b c s = Done (err, s') \<Longrightarrow> ok s'"
  by (auto simp: processChunk_def split: if_splits option.splits dest: processAll_ok)

lemma chunks_ok: "ok s \<Longrightarrow> foldM_outcome (run_chunk P sha256 c) chunks s = Done s' \<Longrightarrow> ok s'"
proof (induction chunks arbitrary: s)
  case (Cons x chunks)
  then show ?case by (cases x) (auto dest: processChunk_ok)
qed simp

lemma historic_loop_ok:
  "ok s \<Longrightarrow> historic_loop fuel P sha256 env cancelled toH c n start (ork, s) = Some (Done (ork', s')) \<Longrightarrow> ok s'"
proof (induction fuel arbitrary: n start ork s)
  case (Suc fuel)
  then show ?case
    by (auto simp: Let_def split: if_splits outcome.splits dest: processChunk_ok)
qed simp

lemma live_iteration_ok:
  "ok (lv_state st) \<Longrightarrow> live_iteration P sha256 c i st = Done st' \<Longrightarrow> ok (lv_state st')"
  by (auto simp: live_iteration_def live_stop_def Let_def
      split: if_splits sum.splits option.splits dest: processChunk_ok)

lemma live_loop_ok:
  "ok (lv_state st) \<Longrightarrow> foldM_outcome (live_iteration P sha256 c) iters st = Done st' \<Longrightarrow> ok (lv_state st')"
  by (induction iters arbitrary: st) (auto dest: live_iteration_ok)

lemma HistoricProcess_ok:
  "ok s \<Longrightarrow> HistoricProcess fuel P sha256 env cancelled fromH toH c (ork, s) = Some (Done (ork', s')) \<Longrightarrow> ok s'"
  by (auto simp: HistoricProcess_def dest: historic_loop_ok)

lemma LiveProcess_ok:
  "ok s \<Longrightarrow> LiveProcess P sha256 getLast latest skip c iters ork fs s = Done st \<Longrightarrow> ok (lv_state st)"
  by (auto simp: LiveProcess_def Let_def split: if_splits sum.splits dest: live_loop_ok [rotated])

end

section \<open>The data processor provides it\<close>

text \<open>The query behind \<open>InsertTxHashIds\<close> reads and writes the table store only.\<close>

definition ix_query :: "table_store returning_op \<Rightarrow> indexer_db returning_op" where
  "ix_query q hashes ts c db = (let (r, rows) = q hashes ts c (ix_rows db) in (r, db\<lparr>ix_rows := rows\<rparr>))"

definition ix_processor ::
  "table_store returning_op \<Rightarrow> 'f Codecs \<Rightarrow> Orders \<Rightarrow> (nat \<Rightarrow> nat list) \<Rightarrow> indexer_db dp_state Processor" where
  "ix_processor q cd o1 sched =
     \<lparr>pr_ProcessValidatorAddresses = (\<lambda>blocks f t. ProcessValidatorAddresses (ix_ops (ix_query q)) o1 (sched (length blocks)) blocks),
      pr_ProcessBlocks = (\<lambda>blocks f t. ProcessBlocks (ix_ops (ix_query q)) (sched (length blocks)) blocks),
      pr_ProcessTransactions = (\<lambda>txs c f t. ProcessTransactions (ix_ops (ix_query q)) cd (sched (length txs)) txs c),
      pr_ProcessMessages = (\<lambda>txs f t. ProcessMessages (ix_ops (ix_query q)) cd o1 (sched (length txs)) (sched (length txs)) txs),
      pr_ProcessValidatorSignings = (\<lambda>commits f t s. Done (ProcessValidatorSignings (ix_ops (ix_query q)) (sched (length commits)) commits s)),
      pr_ProcessTxHashIds = (\<lambda>txs s. Done (ProcessTxHashIds (ix_ops (ix_query q)) txs s))\<rparr>"

definition store_ok :: "indexer_db dp_state \<Rightarrow> bool" where
  "store_ok s \<longleftrightarrow> (let (d, db) = s in
     db_inv (ix_addr db)
   \<and> ac_address (dp_addressCache d) \<subseteq>\<^sub>m db_ids (ix_addr db) (dp_chainName d) False
   \<and> ac_address (dp_validatorCache d) \<subseteq>\<^sub>m db_ids (ix_addr db) (dp_chainName d) True)"

lemma store_ok_rows:
  "store_ok (d, db) \<Longrightarrow> ix_addr db' = ix_addr db \<Longrightarrow> dp_addressCache d' = dp_addressCache d
   \<Longrightarrow> dp_validatorCache d' = dp_validatorCache d \<Longrightarrow> dp_chainName d' = dp_chainName d \<Longrightarrow> store_ok (d', db')"
  by (simp add: store_ok_def)

text \<open>Two caches loaded from the tables hold what the tables hold.\<close>

lemma loaded_caches_ok:
  assumes v: "NewAddressCache ix_load chainName True db = Done (vc, vdb)"
    and a: "NewAddressCache ix_load chainName False vdb = Done (ac, db')" and "db_inv (ix_addr db)"
  shows "store_ok (NewDataProcessor ac vc chainName, db')"
proof -
  have vc: "ix.consistent chainName True (vc, vdb)"
    by (rule ix.new_cache_consistent [OF v assms(3)])
  then have g: "db_inv (ix_addr vdb)" by (simp add: ix.consistent_def)
  have ac: "ix.consistent chainName False (ac, db')"
    by (rule ix.new_cache_consistent [OF a g])
  obtain res where "ix_load chainName False None vdb = (res, db')"
    using a by (auto simp: NewAddressCache_def loadAddresses_def split: prod.splits sum.splits)
  from ix.load_state [OF this g] have "db_ids (ix_addr db') = db_ids (ix_addr vdb)" by simp
  with vc ac show ?thesis by (simp add: store_ok_def ix.consistent_def NewDataProcessor_def)
qed

lemma ix_copy_addr: "ix_addr (snd (ix_copy t cols rows db)) = ix_addr db"
  by (simp add: ix_copy_def split: prod.splits)

lemma InsertRows_addr: "ix_addr (snd (InsertRows ix_copy rows db)) = ix_addr db"
  by (simp add: InsertRows_def ix_copy_addr)

lemma op_InsertRows_addr [simp]: "ix_addr (snd (op_InsertRows (ix_ops q) rows db)) = ix_addr db"
  by (simp add: timescale_ops_def InsertRows_addr)

lemma batch_addr: "ix_addr (snd (insertMessageBatch (ix_ops q) o1 d b s)) = ix_addr (snd s)"
  using op_InsertRows_addr [of q "ib_Rows b" "snd s"]
  by (auto simp: insertMessageBatch_def simp del: op_InsertRows_addr split: prod.splits option.splits)

lemma batches_addr: "ix_addr (snd (insertMessageBatches (ix_ops q) o1 d bs db)) = ix_addr db"
proof -
  let ?step = "\<lambda>batch s. if length (ib_Rows batch) > 0 then insertMessageBatch (ix_ops q) o1 d batch s else s"
  have "ix_addr (snd (fold ?step bs s)) = ix_addr (snd s)" for s
    by (induction bs arbitrary: s) (simp_all add: batch_addr)
  from this [of "([], db)"] show ?thesis
    by (auto simp: insertMessageBatches_def split: prod.splits)
qed

lemma InsertTxHashIds_addr: "ix_addr (snd (InsertTxHashIds (ix_query q) hs ts c db)) = ix_addr db"
  by (auto simp: InsertTxHashIds_def ix_query_def Let_def split: sum.splits prod.splits)

lemma solver_ok:
  assumes "store_ok (d, db)"
    and "AddressSolver ix_find ix_insert as (dp_chainName d) v n o1
      (if v then dp_validatorCache d else dp_addressCache d, db) = (cache, db')"
  shows "store_ok (if v then d\<lparr>dp_validatorCache := cache\<rparr> else d\<lparr>dp_addressCache := cache\<rparr>, db')"
proof -
  have "ix.consistent (dp_chainName d) v (if v then dp_validatorCache d else dp_addressCache d, db)"
    using assms(1) by (simp add: store_ok_def ix.consistent_def)
  note sc = ix.solver_consistent [OF this, of as n o1]
  have "ix.consistent (dp_chainName d) v (cache, db')" using sc assms(2) by simp
  moreover have "db_ids (ix_addr db) c' v' \<subseteq>\<^sub>m db_ids (ix_addr db') c' v'" for c' v'
    using sc [of c' v'] assms(2) by simp
  ultimately show ?thesis
    using assms(1) by (auto simp: store_ok_def ix.consistent_def intro: map_le_trans)
qed

lemma validator_addresses_ok:
  assumes "store_ok s" and "ProcessValidatorAddresses (ix_ops q) o1 sched blocks s = Done s'"
  shows "store_ok s'"
proof -
  obtain d db where s: "s = (d, db)" by (cases s)
  with assms(2) obtain m where m: "foldM_outcome (\<lambda>i. processPrecommits (blocks ! i)) sched [] = Done m"
    by (auto simp: ProcessValidatorAddresses_def Let_def)
  obtain cache db' where a: "AddressSolver ix_find ix_insert (extractAddresses (ord_strings o1) m) (dp_chainName d)
      True 3 None (dp_validatorCache d, db) = (cache, db')" by force
  with assms(2) s m have "s' = (d\<lparr>dp_validatorCache := cache\<rparr>, db')"
    by (simp add: ProcessValidatorAddresses_def timescale_ops_def Let_def)
  with a solver_ok [of d db "extractAddresses (ord_strings o1) m" True 3 None cache db'] assms(1) s
  show ?thesis by simp
qed

lemma resolve_ok:
  assumes "store_ok s" shows "store_ok (resolve_messages (ix_ops q) o1 m s)"
proof -
  obtain d db where s: "s = (d, db)" by (cases s)
  obtain cache db' where a: "AddressSolver ix_find ix_insert (extractAddresses (ord_strings o1) m) (dp_chainName d)
      False 3 None (dp_addressCache d, db) = (cache, db')" by force
  with solver_ok [of d db "extractAddresses (ord_strings o1) m" False 3 None cache db'] assms s
  show ?thesis by (simp add: resolve_messages_def timescale_ops_def Let_def)
qed

lemma messages_ok:
  assumes "store_ok s" and "ProcessMessages (ix_ops q) cd o1 sched1 sched2 txs s = Done (err, s')"
  shows "store_ok s'"
proof -
  from assms(2) obtain dms m where
    "transactionDecoding cd (ord_strings o1) sched1 txs = Done (dms, m)"
    by (auto simp: ProcessMessages_def)
  obtain d db where r: "resolve_messages (ix_ops q) o1 m s = (d, db)" by force
  with resolve_ok [OF assms(1), of q o1 m] have ok: "store_ok (d, db)" by simp
  obtain d' db' where s': "s' = (d', db')" by (cases s')
  have ins: "op_InsertRows (ix_ops q) rows db1 = (e, db2) \<Longrightarrow> ix_addr db2 = ix_addr db1" for rows db1 e db2
    by (metis op_InsertRows_addr snd_conv)
  have bat: "insertMessageBatches (ix_ops q) o1 d1 bs db1 = (e, db2) \<Longrightarrow> ix_addr db2 = ix_addr db1" for d1 bs db1 e db2
    by (metis batches_addr snd_conv)
  have "d' = d \<and> ix_addr db' = ix_addr db"
    using assms(2) s' r \<open>transactionDecoding cd (ord_strings o1) sched1 txs = Done (dms, m)\<close>
    by (auto simp: ProcessMessages_def Let_def split: if_splits prod.splits option.splits dest!: ins bat)
  with ok s' show ?thesis using store_ok_rows [of d db db' d] by simp
qed

interpretation ixp: chunk_processor "ix_processor q cd o1 sched" store_ok for q cd o1 sched
proof (unfold_locales, goal_cases)
  case (1 s ctx t s')
  obtain d db where s: "s = (d, db)" by (cases s)
  from 1 s show ?case
  proof (cases t)
    case T_TxHashIds
    obtain r db1 where "InsertTxHashIds (ix_query q) (map (\<lambda>tx. tx_GetHash (tdt_Response tx)) (pcx_transactions ctx))
        (map tdt_Timestamp (pcx_transactions ctx)) (dp_chainName d) db = (r, db1)" by force
    moreover from this have "ix_addr db1 = ix_addr db" using InsertTxHashIds_addr by (metis snd_conv)
    ultimately show ?thesis using 1 s T_TxHashIds
      by (auto simp: ix_processor_def ProcessTxHashIds_def timescale_ops_def elim!: store_ok_rows split: sum.splits)
  next
    case T_ValidatorAddresses
    with 1 show ?thesis by (auto simp: ix_processor_def intro: validator_addresses_ok)
  next
    case T_Messages
    with 1 show ?thesis by (auto simp: ix_processor_def intro: messages_ok)
  next
    case T_Blocks
    with 1 s show ?thesis
      by (auto simp: ix_processor_def ProcessBlocks_def intro: store_ok_rows)
  next
    case T_Transactions
    with 1 s show ?thesis
      by (auto simp: ix_processor_def ProcessTransactions_def intro: store_ok_rows)
  next
    case T_ValidatorSignings
    with 1 s show ?thesis
      by (auto simp: ix_processor_def ProcessValidatorSignings_def Let_def intro: store_ok_rows)
  qed
qed

end
