(* ===== verification/Processor_Witness.thy ===== *)
theory Processor_Witness
  imports Processor_Rows
begin

text \<open>
  A database that accepts every insertion, on which ProcessMessages succeeds, and the properties of
  the message rows at a concrete range of one transaction.
\<close>

section \<open>An accepting database\<close>

definition accepting :: "indexer_db \<Rightarrow> bool" where
  "accepting db \<longleftrightarrow> ts_faults (ix_rows db) = [] \<and> (\<forall>t old new. ts_check (ix_rows db) t old new)"

lemma length_CopyRow: "length (CopyRow r) = length (TableColumns (row_table r))"
proof (cases r)
  case (Row_Message m)
  then show ?thesis by (cases m) (simp_all add: copy_defs table_defs TableColumns_def)
qed (simp_all add: copy_defs table_defs TableColumns_def)

lemma message_table_eq:
  "TableName (Row_Message a) = TableName (Row_Message b) \<Longrightarrow> message_table a = message_table b"
proof -
  define f where "f = map_of (map (\<lambda>t. (td_Name t, t)) [table_MsgSend, table_MsgMultiSend, table_MsgCall,
    table_MsgAddPackage, table_MsgRun, table_MsgAuthCrSession, table_MsgAuthRvSession, table_MsgAuthRvAllSessions])"
  have "message_table m = the (f (TableName (Row_Message m)))" for m
    by (cases m) (simp_all add: f_def TableName_def)
  then show "TableName (Row_Message a) = TableName (Row_Message b) \<Longrightarrow> message_table a = message_table b"
    by metis
qed

lemma InsertRows_accepting:
  assumes "accepting db" and "list_all (\<lambda>r. row_table r = row_table (hd rows)) rows"
  shows "\<exists>db'. InsertRows ix_copy rows db = (None, db') \<and> accepting db' \<and> ix_addr db' = ix_addr db"
proof (cases "rows = []")
  case True
  with assms(1) show ?thesis by (simp add: InsertRows_def)
next
  case False
  have "list_all (\<lambda>r. length r = length (TableColumns (row_table (hd rows)))) (map CopyRow rows)"
    using assms(2) by (auto simp: list_all_iff length_CopyRow)
  with assms(1) False show ?thesis
    by (auto simp: InsertRows_def ix_copy_def store_copy_def accepting_def)
qed

lemma insert_all_accepting:
  "accepting db \<Longrightarrow> list_all (\<lambda>b. list_all (\<lambda>r. row_table r = row_table (hd (ib_Rows b))) (ib_Rows b)) bs
   \<Longrightarrow> \<exists>db'. insert_all (ix_ops query) bs db = Some db'"
proof (induction bs arbitrary: db)
  case (Cons b bs)
  from Cons.prems(2) have "list_all (\<lambda>r. row_table r = row_table (hd (ib_Rows b))) (ib_Rows b)" by simp
  from InsertRows_accepting [OF Cons.prems(1) this] obtain db1
    where "InsertRows ix_copy (ib_Rows b) db = (None, db1)" "accepting db1" by blast
  with Cons.prems Cons.IH [of db1] Cons.IH [of db] show ?case by (simp add: timescale_ops_def)
qed simp

lemma InsertBatches_tables:
  "list_all (\<lambda>b. list_all (\<lambda>r. row_table r = row_table (hd (ib_Rows b))) (ib_Rows b)) (InsertBatches m)"
proof -
  have "row_table r = row_table (hd (ib_Rows (batch_of t rs)))" if "r \<in> set (ib_Rows (batch_of t rs))" for r t rs
  proof -
    have names: "\<exists>x. y = Row_Message x \<and> TableName (Row_Message x) = t" if "y \<in> set (ib_Rows (batch_of t rs))" for y
      using that by (auto simp: batch_of_def)
    have "hd (ib_Rows (batch_of t rs)) \<in> set (ib_Rows (batch_of t rs))"
      using that by (metis hd_in_set empty_iff list.set(1))
    from names [OF this] names [OF that] obtain x y where
      "hd (ib_Rows (batch_of t rs)) = Row_Message x" "r = Row_Message y"
      "TableName (Row_Message x) = TableName (Row_Message y)" by metis
    with message_table_eq [of x y] show ?thesis by simp
  qed
  then show ?thesis by (simp add: InsertBatches_eq list_all_iff)
qed

lemma insert_messages_accepting:
  assumes "accepting db" and "\<forall>dm\<in>set dms. list_all registered (dm_Msgs dm)"
    and "\<forall>(tx, dm)\<in>set (zip txs dms). \<not> group_error d tx dm"
  shows "\<exists>db'. insert_messages (ix_ops query) o1 txs dms (d, db) = (None, d, db')"
proof -
  let ?agg = "aggregate_messages (map fst (groups d txs dms))"
  have kv: "keep_valid (map snd (groups d txs dms)) = []" using groups_cases(1) [OF assms(2)] assms(3) by blast
  obtain db1 where i1: "InsertRows ix_copy (map Row_Address (createAddressTx o1 ?agg)) db = (None, db1)" and a1: "accepting db1"
    using InsertRows_accepting [OF assms(1), of "map Row_Address (createAddressTx o1 ?agg)"]
    by (cases "createAddressTx o1 ?agg") (auto simp: list_all_iff)
  obtain db2 where "insert_all (ix_ops query) (InsertBatches ?agg) db1 = Some db2"
    using insert_all_accepting [OF a1 InsertBatches_tables] by blast
  then have "insertMessageBatches (ix_ops query) o1 d (InsertBatches ?agg) db1 = (None, db2)"
    by (simp only: insertMessageBatches_ok)
  moreover have "op_InsertRows (ix_ops query) = InsertRows ix_copy" by (simp add: timescale_ops_def)
  ultimately show ?thesis using kv i1 by (simp add: insert_messages_def)
qed

lemma resolve_accepting:
  assumes "accepting db" shows "accepting (snd (resolve_messages (ix_ops query) o1 m (d, db)))"
proof -
  have look: "ix_rows (snd (ix_find as c v db)) = ix_rows db" "ix_rows (snd (ix_insert as c v db)) = ix_rows db" for as c v db
    by (simp_all add: ix_find_def ix_insert_def split: prod.splits)
  define keep where "keep = (\<lambda>db'. ix_rows db' = ix_rows db)"
  have one: "ix_rows (insertOneByOne ix_insert as c v db) = ix_rows db" for as c v db
    by (induction as arbitrary: db) (simp_all add: look)
  have att: "ix_rows (insert_attempts ix_insert as c v n o2 is db) = ix_rows db" for as c v n o2 "is" db
  proof (induction "is" arbitrary: db)
    case (Cons i rest)
    obtain r db1 where e: "ix_insert as c v db = (r, db1)" by force
    then have "ix_rows db1 = ix_rows db" using look(2) [of as c v db] by simp
    with e show ?case by (cases r) (simp_all add: Cons one)
  qed simp
  have sync: "ix_rows (snd (snd (syncExistingFromDB ix_find as c v s))) = ix_rows (snd s)" for as c v s
    using look(1) [of as c v "snd s"]
    by (auto simp: syncExistingFromDB_def Let_def split: prod.splits sum.splits)
  have fetch: "ix_rows (snd (fetchAndCacheInserted ix_find as c v s)) = ix_rows (snd s)" for as c v s
    using look(1) [of as c v "snd s"]
    by (auto simp: fetchAndCacheInserted_def split: prod.splits sum.splits)
  have solver: "ix_rows (snd (AddressSolver ix_find ix_insert as c v n o2 s)) = ix_rows (snd s)" for as c v n o2 s
  proof -
    obtain rest a db where sy: "syncExistingFromDB ix_find (findUncached (fst s) as) c v s = (rest, a, db)"
      by (metis prod_cases3)
    then have "ix_rows db = ix_rows (snd s)" using sync [of "findUncached (fst s) as" c v s] by simp
    with sy show ?thesis by (simp add: AddressSolver_def Let_def fetch insertWithRetry_def att)
  qed
  obtain cache db' where s: "AddressSolver ix_find ix_insert (extractAddresses (ord_strings o1) m) (dp_chainName d)
      False 3 None (dp_addressCache d, db) = (cache, db')" by force
  then have "ix_rows db' = ix_rows db"
    using solver [of "extractAddresses (ord_strings o1) m" "dp_chainName d" False 3 None "(dp_addressCache d, db)"] by simp
  then show ?thesis using assms s by (simp add: resolve_messages_def timescale_ops_def accepting_def Let_def)
qed

section \<open>One transaction\<close>

definition sample_codecs :: "unit Codecs" where
  "sample_codecs =
     \<lparr>cd_unmarshalTx = (\<lambda>b. Inr sample_tx), cd_sha256 = (\<lambda>b. []), cd_marshalEvents = (\<lambda>e. Inr []),
      cd_parseFloat = (\<lambda>s. None), cd_encodeAll = id\<rparr>"

definition plain_orders :: Orders where
  "plain_orders = \<lparr>ord_strings = id, ord_ids = rev, ord_rows = id, ord_hashes = id\<rparr>"

definition sample_data :: TransactionsData where
  "sample_data = \<lparr>tdt_Response = Some sample_response, tdt_Timestamp = 5, tdt_BlockHeight = 9\<rparr>"

definition sample_processor :: "(string \<times> i64) list \<Rightarrow> DataProcessor" where
  "sample_processor ids =
     \<lparr>dp_addressCache = \<lparr>ac_address = Map.empty, ac_highestIndex = 0\<rparr>,
      dp_validatorCache = \<lparr>ac_address = Map.empty, ac_highestIndex = 0\<rparr>,
      dp_chainName = ''c'', dp_txHashCache = ids\<rparr>"

definition sample_store :: indexer_db where
  "sample_store =
     \<lparr>ix_addr = sample_db [], ix_rows = \<lparr>ts_tables = (\<lambda>t. []), ts_check = (\<lambda>t a b. True), ts_faults = []\<rparr>\<rparr>"

abbreviation sample_run :: "(string \<times> i64) list \<Rightarrow> (goerror option \<times> indexer_db dp_state) outcome" where
  "sample_run ids \<equiv> ProcessMessages (ix_ops (\<lambda>b t c db. (Inr [], db))) sample_codecs plain_orders [0] [0] [sample_data]
     (sample_processor ids, sample_store)"

lemma plain_orders_ok: "orders_ok plain_orders"
  by (simp add: orders_ok_def plain_orders_def)

lemma schedule_one: "schedule [0] (length [x])"
  by (simp add: schedule_def)

lemma sample_decoded_tx: "decoded sample_codecs sample_data = Done sample_dm"
  using sample_decoded
  by (simp add: decoded_def sample_codecs_def sample_data_def deref_def sample_response_def)

lemma sample_decoded_all: "list_all2 (\<lambda>tx dm. decoded sample_codecs tx = Done dm) [sample_data] [sample_dm]"
  by (simp add: sample_decoded_tx)

lemma sample_run_ok: "\<exists>d' db'. sample_run ids = Done (None, d', db')"
proof -
  obtain m d1 db1 where r: "resolve_messages (ix_ops (\<lambda>b t c db. (Inr [], db))) plain_orders m
      (sample_processor ids, sample_store) = (d1, db1)"
    and pm: "sample_run ids = Done (insert_messages (ix_ops (\<lambda>b t c db. (Inr [], db))) plain_orders
      [sample_data] [sample_dm] (d1, db1))"
    by (rule ProcessMessages_obtain [OF schedule_one schedule_one sample_decoded_all])
  have "accepting sample_store" by (simp add: accepting_def sample_store_def)
  from resolve_accepting [OF this, of "\<lambda>b t c db. (Inr [], db)" plain_orders m "sample_processor ids"]
  have acc: "accepting db1" unfolding r by (simp only: snd_conv)
  have reg: "\<forall>dm\<in>set [sample_dm]. list_all registered (dm_Msgs dm)" using sample_registered by simp
  have "\<forall>(tx, dm)\<in>set (zip [sample_data] [sample_dm]). \<not> group_error d1 tx dm"
    by (simp add: group_error_def sample_dm_def sample_tx_def)
  from insert_messages_accepting [OF acc reg this] obtain db' where
    "insert_messages (ix_ops (\<lambda>b t c db. (Inr [], db))) plain_orders [sample_data] [sample_dm] (d1, db1) = (None, d1, db')"
    by blast
  then show ?thesis unfolding pm by blast
qed

section \<open>The properties at this transaction\<close>

lemma ProcessMessages_inserts_witness:
  "\<exists>d' db'. sample_run [([], 7)] = Done (None, d', db')
    \<and> ix_table db' ''bank_msg_multi_send'' = map CopyRow (filter (\<lambda>r. TableName r = ''bank_msg_multi_send'')
          (map Row_Message (message_rows d' [sample_data] [sample_dm])))"
proof -
  obtain d' db' where run: "sample_run [([], 7)] = Done (None, d', db')" using sample_run_ok by blast
  have "\<forall>t. t \<noteq> ''address_tx'' \<longrightarrow> ix_table db' t = ix_table sample_store t
      @ map CopyRow (filter (\<lambda>r. TableName r = t) (map Row_Message (message_rows d' [sample_data] [sample_dm])))"
    by (rule conjunct1 [OF ProcessMessages_inserts [OF plain_orders_ok schedule_one schedule_one sample_decoded_all run]])
  then have "ix_table db' ''bank_msg_multi_send'' = ix_table sample_store ''bank_msg_multi_send''
      @ map CopyRow (filter (\<lambda>r. TableName r = ''bank_msg_multi_send'')
          (map Row_Message (message_rows d' [sample_data] [sample_dm])))"
    by (elim allE [of _ "''bank_msg_multi_send''"] impE) (simp, assumption)
  moreover have "ix_table sample_store ''bank_msg_multi_send'' = []" by (simp add: sample_store_def)
  ultimately show ?thesis using run by (metis append_Nil)
qed

definition crowded_tx :: std_tx where
  "crowded_tx = sample_tx\<lparr>stx_Msgs := replicate 32769 (AuthRevokeAllSessions ''a'')\<rparr>"

definition crowded_codecs :: "unit Codecs" where
  "crowded_codecs = sample_codecs\<lparr>cd_unmarshalTx := (\<lambda>b. Inr crowded_tx)\<rparr>"

lemma crowded_decoded:
  "\<exists>dm. decoded crowded_codecs sample_data = Done dm \<and> length (dm_Msgs dm) = 32769"
proof -
  have "list_all registered (replicate 32769 (AuthRevokeAllSessions ''a''))"
    by (simp add: list_all_iff registered_def)
  then show ?thesis
    by (simp add: decoded_def sample_data_def deref_def sample_response_def crowded_codecs_def
        NewDecodedMsg_def GetMessageFromStdTx_def DecodeStdTxFromBase64_def decode_base64_def crowded_tx_def)
qed



lemma ProcessMessages_drops_unknown_witness:
  "\<exists>d' db'. sample_run [] = Done (None, d', db') \<and> ix_table db' = ix_table sample_store"
proof -
  have "\<forall>tx\<in>set [sample_data]. map_of (dp_txHashCache (sample_processor [])) (tx_GetHash (tdt_Response tx)) = None"
    by (simp add: sample_processor_def)
  from ProcessMessages_drops_unknown [OF plain_orders_ok schedule_one schedule_one sample_decoded_all this]
  show ?thesis .
qed

end
