(* ===== verification/Processor_Slots.thy ===== *)
theory Processor_Slots
  imports Processor_Witness
begin

text \<open>
  The other operations of the data processor: transactions, blocks, validator addresses and
  validator signings, for every schedule of their goroutines.
\<close>

section \<open>Transactions\<close>

definition tx_row :: "'f Codecs \<Rightarrow> bool \<Rightarrow> DataProcessor \<Rightarrow> TransactionsData \<Rightarrow> TransactionGeneral option" where
  "tx_row cd compressEvents d tx =
     (case (tdt_Response tx, decoded cd tx) of
        (Some r, Done dm) \<Rightarrow> transaction_row cd compressEvents d tx r dm
      | _ \<Rightarrow> None)"

lemma processTransaction_Done:
  "returns (decoded cd tx) \<Longrightarrow> processTransaction cd c d tx = Done (tx_row cd c d tx)"
  by (cases "tdt_Response tx")
     (auto simp: returns_iff processTransaction_def decoded_def tx_row_def deref_def)

lemma processTransaction_returns: "returns (processTransaction cd c d tx) \<longleftrightarrow> returns (decoded cd tx)"
proof (cases "tdt_Response tx")
  case (Some r)
  then show ?thesis
    by (cases "NewDecodedMsg (cd_unmarshalTx cd) (cd_sha256 cd) (td_Tx (tx_Result r))")
       (simp_all add: processTransaction_def decoded_def deref_def)
qed (simp add: processTransaction_def decoded_def deref_def)

section \<open>Addresses of validators\<close>

text \<open>The validator addresses of a block: its precommits that are not nil, and its proposer.\<close>

definition block_validators :: "BlockResponse \<Rightarrow> string set" where
  "block_validators b =
     insert (block_GetProposerAddress (Some b))
       (pc_ValidatorAddress ` {pc. Some pc \<in> set (block_GetPrecommits (Some b))})"

lemma fold_precommits:
  "set (fold (\<lambda>precommit m. case precommit of None \<Rightarrow> m | Some pc \<Rightarrow> set_insert (pc_ValidatorAddress pc) m) ps m)
     = set m \<union> pc_ValidatorAddress ` {pc. Some pc \<in> set ps}
   \<and> distinct (fold (\<lambda>precommit m. case precommit of None \<Rightarrow> m | Some pc \<Rightarrow> set_insert (pc_ValidatorAddress pc) m) ps m)
     = distinct m"
proof (induction ps arbitrary: m)
  case (Cons p ps)
  then show ?case by (cases p) auto
qed simp

lemma processPrecommits_Some:
  "\<exists>m'. processPrecommits (Some b) m = Done m' \<and> set m' = set m \<union> block_validators b \<and> distinct m' = distinct m"
  using fold_precommits [of "block_GetPrecommits (Some b)" m]
  by (auto simp: processPrecommits_def deref_def block_validators_def block_GetPrecommits_def
      block_GetProposerAddress_def Let_def)

lemma foldM_processPrecommits:
  "\<forall>i\<in>set is. \<exists>b. blocks ! i = Some b \<Longrightarrow>
   \<exists>m'. foldM_outcome (\<lambda>i. processPrecommits (blocks ! i)) is m = Done m'
     \<and> set m' = set m \<union> (\<Union>b\<in>{b. \<exists>i\<in>set is. blocks ! i = Some b}. block_validators b) \<and> distinct m' = distinct m"
proof (induction "is" arbitrary: m)
  case (Cons i rest)
  then obtain b where b: "blocks ! i = Some b" by auto
  obtain m1 where m1: "processPrecommits (Some b) m = Done m1" "set m1 = set m \<union> block_validators b"
      "distinct m1 = distinct m"
    using processPrecommits_Some by blast
  obtain m2 where "foldM_outcome (\<lambda>i. processPrecommits (blocks ! i)) rest m1 = Done m2"
      "set m2 = set m1 \<union> (\<Union>b\<in>{b. \<exists>i\<in>set rest. blocks ! i = Some b}. block_validators b)"
      "distinct m2 = distinct m1"
    using Cons by fastforce
  with b m1 show ?case by (intro exI [of _ m2]) (auto 0 3)
qed simp

lemma foldM_not_returns:
  "i \<in> set is \<Longrightarrow> (\<And>s. \<not> returns (f i s)) \<Longrightarrow> \<not> returns (foldM_outcome f is s)"
proof (induction "is" arbitrary: s)
  case (Cons j rest)
  show ?case
  proof (cases "f j s")
    case (Done s1)
    with Cons show ?thesis by (cases "i = j") (auto simp: returns_iff)
  qed simp_all
qed simp

section \<open>Properties\<close>


text \<open>C28: when every block of the range was fetched and the address statements succeed,
  ProcessValidatorAddresses resolves every precommit address and every proposer of the blocks to a
  non-zero identity; a block that could not be fetched (nil) takes the process down.\<close>
theorem ProcessValidatorAddresses_spec:
  assumes "orders_ok o1" and "schedule sched (length blocks)" and "db_inv (ix_addr db)"
    and "ac_address (dp_validatorCache d) \<subseteq>\<^sub>m db_ids (ix_addr db) (dp_chainName d) True"
    and "db_ready (card (\<Union>b\<in>{b. Some b \<in> set blocks}. block_validators b)) (ix_addr db)"
  shows "if None \<in> set blocks
    then \<not> returns (ProcessValidatorAddresses (ix_ops query) o1 sched blocks (d, db))
    else \<exists>d' db'. ProcessValidatorAddresses (ix_ops query) o1 sched blocks (d, db) = Done (d', db')
      \<and> (\<forall>b. Some b \<in> set blocks \<longrightarrow> (\<forall>a\<in>block_validators b. GetAddress (dp_validatorCache d') a \<noteq> 0))"
proof (cases "None \<in> set blocks")
  case True
  then obtain i where i: "i < length blocks" "blocks ! i = None" by (metis in_set_conv_nth)
  then have "i \<in> set sched" using schedule_set [OF assms(2)] by simp
  then have "\<not> returns (foldM_outcome (\<lambda>i. processPrecommits (blocks ! i)) sched [])"
    by (rule foldM_not_returns) (simp add: i processPrecommits_def deref_def)
  then show ?thesis using True
    by (auto simp: ProcessValidatorAddresses_def returns_iff Let_def)
next
  case False
  have "\<forall>i\<in>set sched. \<exists>b. blocks ! i = Some b"
    using False schedule_set [OF assms(2)] by (metis atLeastLessThan_iff not_None_eq nth_mem)
  from foldM_processPrecommits [OF this, of "[]"] obtain m where
    m: "foldM_outcome (\<lambda>i. processPrecommits (blocks ! i)) sched [] = Done m" "distinct m"
    and ms: "set m = (\<Union>b\<in>{b. \<exists>i\<in>set sched. blocks ! i = Some b}. block_validators b)" by auto
  have "{b. \<exists>i\<in>set sched. blocks ! i = Some b} = {b. Some b \<in> set blocks}"
    using schedule_set [OF assms(2)] by (auto simp: in_set_conv_nth)
  with ms have set_m: "set m = (\<Union>b\<in>{b. Some b \<in> set blocks}. block_validators b)" by simp
  let ?m = "ord_strings o1 m"
  have it: "iteration (ord_strings o1)" using assms(1) by (simp add: orders_ok_def)
  have m': "distinct ?m" "set ?m = set m" "length ?m = card (set m)"
    using m(2) iteration_distinct [OF it] iteration_set [OF it] iteration_length [OF it] by (auto simp: distinct_card)
  obtain cache db' where s: "AddressSolver ix_find ix_insert ?m (dp_chainName d) True 3 None (dp_validatorCache d, db) = (cache, db')"
    by force
  have cons: "ix.consistent (dp_chainName d) True (dp_validatorCache d, db)"
    using assms(3,4) by (simp add: ix.consistent_def)
  have rdy: "db_ready (length ?m) (ix_addr (snd (dp_validatorCache d, db)))" using assms(5) m'(3) set_m by simp
  have "GetAddress cache a \<noteq> 0" if "a \<in> set m" for a
    using ix.solved_ids(1) [OF cons rdy m'(1), of 3 "(cache, db')" None a a] s that m'(2) by simp
  moreover have "ProcessValidatorAddresses (ix_ops query) o1 sched blocks (d, db) =
      Done (d\<lparr>dp_validatorCache := cache\<rparr>, db')"
    by (simp add: ProcessValidatorAddresses_def m(1) extractAddresses_def timescale_ops_def s)
  ultimately show ?thesis using False set_m by auto
qed

text \<open>For every schedule, ProcessValidatorSignings inserts one row per commit with a readable
  height; and a row lists identity 0 among its signers exactly when some signer of the commit is
  not in the validator cache. The cache is filled from the last commits inside the blocks of the
  range, which are the commits of the heights before.\<close>
theorem ProcessValidatorSignings_spec:
  assumes "schedule sched (length commits)" and "db_inv (ix_addr (db :: indexer_db))"
    and "ac_address (dp_validatorCache d) \<subseteq>\<^sub>m db_ids (ix_addr db) (dp_chainName d) True"
  shows "ProcessValidatorSignings ops sched commits (d, db2) =
      (d, snd (op_InsertRows ops (map Row_Signing (List.map_filter (processValidatorSigning d) commits)) db2))
    \<and> (\<forall>c row. processValidatorSigning d c = Some row \<longrightarrow>
         (0 \<in> set (vbs_SignedVals row) \<longleftrightarrow>
            (\<exists>pc. Some pc \<in> set (commit_GetSigners c) \<and> pc_ValidatorAddress pc \<notin> dom (ac_address (dp_validatorCache d)))))"
proof (intro conjI allI impI)
  show "ProcessValidatorSignings ops sched commits (d, db2) =
      (d, snd (op_InsertRows ops (map Row_Signing (List.map_filter (processValidatorSigning d) commits)) db2))"
    using fill_slots_list [OF assms(1), of "processValidatorSigning d" None]
    by (simp add: ProcessValidatorSignings_def keep_valid_map)
  fix c row assume row: "processValidatorSigning d c = Some row"
  have cons: "ix.consistent (dp_chainName d) True (dp_validatorCache d, db)"
    using assms(2,3) by (simp add: ix.consistent_def)
  have zero: "GetAddress (dp_validatorCache d) a = 0 \<longleftrightarrow> a \<notin> dom (ac_address (dp_validatorCache d))" for a
    using ix.cached_id(2) [OF cons, of a] by (cases "ac_address (dp_validatorCache d) a") (auto simp: GetAddress_def dom_def)
  have "vbs_SignedVals row = concat (map (\<lambda>p. case p of None \<Rightarrow> []
      | Some pc \<Rightarrow> [GetAddress (dp_validatorCache d) (pc_ValidatorAddress pc)]) (commit_GetSigners c))"
    using row by (auto simp: processValidatorSigning_def Let_def split: sum.splits)
  then have "set (vbs_SignedVals row) = {GetAddress (dp_validatorCache d) (pc_ValidatorAddress pc) |pc.
      Some pc \<in> set (commit_GetSigners c)}"
    by (force split: option.splits)
  then show "0 \<in> set (vbs_SignedVals row) \<longleftrightarrow>
      (\<exists>pc. Some pc \<in> set (commit_GetSigners c) \<and> pc_ValidatorAddress pc \<notin> dom (ac_address (dp_validatorCache d)))"
    using zero by (smt (verit, best) mem_Collect_eq)
qed

text \<open>The row a fetched block leaves, and when its table takes it.\<close>

definition block_row :: "string \<Rightarrow> BlockResponse option \<Rightarrow> Blocks" where
  "block_row chainName b = (case processBlock chainName b of Done (Some row) \<Rightarrow> row | _ \<Rightarrow> zero_block)"

lemma block_row_cases:
  assumes "b \<noteq> None"
  shows "processBlock chainName b = Done None \<and> block_row chainName b = zero_block
    \<or> (\<exists>h. bl_Hash (block_row chainName b) = Some h \<and> processBlock chainName b = Done (Some (block_row chainName b)))"
  using assms by (cases b) (auto simp: block_row_def processBlock_def deref_def Let_def split: option.splits sum.splits)

lemma block_row_accepted: "row_accepted (Row_Block r) \<longleftrightarrow> bl_Hash r \<noteq> None"
  by (auto simp: row_accepted_def table_Blocks_def CopyRow_Blocks_def column_accepts_def tag_get_def
      fld_def nullable_def split: option.splits)

lemma blocks_rows_fetched:
  assumes "schedule sched (length blocks)"
  shows "if None \<in> set blocks then \<not> returns (blocks_rows sched chainName blocks)
    else blocks_rows sched chainName blocks = Done (map (block_row chainName) blocks)"
proof -
  let ?f = "\<lambda>b. bind_outcome (processBlock chainName b) (\<lambda>r. Done (case r of None \<Rightarrow> zero_block | Some b \<Rightarrow> b))"
  have "\<not> returns (?f None)" by (simp add: processBlock_def deref_def)
  note fails = run_slots_list_fails [where f = ?f, OF assms _ this]
  have "?f b = Done (block_row chainName b)" if "b \<noteq> None" for b
    using block_row_cases [OF that, of chainName] by auto
  then have "None \<notin> set blocks \<Longrightarrow> blocks_rows sched chainName blocks = Done (map (block_row chainName) blocks)"
    unfolding blocks_rows_def using run_slots_list [OF assms, of ?f "block_row chainName" zero_block] by metis
  with fails show ?thesis by (simp add: blocks_rows_def)
qed


text \<open>The error log of a failed transaction is cut at 255 bytes, and the cut can split a
  character: a valid UTF-8 log can be stored as bytes that are not valid UTF-8, which a text column
  of the database rejects.\<close>
theorem error_log_cut_invalid:
  "\<exists>r l. valid_utf8 (rb_Log (response_base r)) \<and> GetTransactionErrorDetails r = Some l \<and> \<not> valid_utf8 l"
proof -
  define log where "log = replicate 254 CHR ''a'' @ [char_of (195 :: nat), char_of (169 :: nat)]"
  define r where "r = sample_response\<lparr>tx_Result := (tx_Result sample_response)
    \<lparr>td_TxResult := (td_TxResult (tx_Result sample_response))
      \<lparr>tr_ResponseBase := (response_base sample_response)\<lparr>rb_Log := log\<rparr>\<rparr>\<rparr>\<rparr>"
  have as: "valid_utf8 (replicate n CHR ''a'')" for n
  proof (induction n)
    case (Suc n)
    have "valid_utf8 [CHR ''a'']"
      by (simp add: valid_utf8.simps [of "_ # _"] rune_start_def char_code_def)
    from valid_utf8_append [OF this] Suc show ?case by (metis append_Cons append_Nil replicate_Suc)
  qed simp
  have full: "valid_utf8 log"
    unfolding log_def valid_utf8_append [OF as]
    by (simp add: valid_utf8.simps [of "_ # _"] rune_start_def byte_in_def char_code_def)
  have "take 255 log = replicate 254 CHR ''a'' @ [char_of (195 :: nat)]" by (simp add: log_def)
  then have cut: "\<not> valid_utf8 (take 255 log)"
    using valid_utf8_append [OF as, of 254 "[char_of (195 :: nat)]"]
    by (simp add: valid_utf8.simps [of "_ # _"] rune_start_def byte_in_def char_code_def)
  have log: "rb_Log (response_base r) = log" by (simp add: r_def response_base_def)
  have "GetTransactionErrorDetails r = Some (take 255 log)"
    unfolding GetTransactionErrorDetails_def log Let_def by (simp add: log_def)
  then show ?thesis using full cut log by metis
qed

section \<open>The properties at concrete ranges\<close>

definition sample_header :: "string \<Rightarrow> BlockHeader" where
  "sample_header proposer =
     \<lparr>bh_Version = [], bh_ChainID = ''c'', bh_Height = ''9'', bh_Time = 5, bh_NumTxs = [], bh_TotalTxs = [],
      bh_AppVersion = [], bh_LastBlockID = \<lparr>bid_Hash = [], bid_Parts = \<lparr>pt_Total = [], pt_Hash = []\<rparr>\<rparr>,
      bh_LastCommitHash = [], bh_DataHash = [], bh_ValidatorsHash = [], bh_NextValidatorsHash = [],
      bh_ConsensusHash = [], bh_AppHash = [], bh_LastResultsHash = None, bh_ProposerAddress = proposer\<rparr>"

abbreviation sample_block_id :: "string \<Rightarrow> BlockID" where
  "sample_block_id hash \<equiv> \<lparr>bid_Hash = hash, bid_Parts = \<lparr>pt_Total = [], pt_Hash = []\<rparr>\<rparr>"

definition sample_precommit :: "string \<Rightarrow> Precommit" where
  "sample_precommit addr =
     \<lparr>pc_Type = 2, pc_Height = [], pc_Round = [], pc_BlockID = sample_block_id [], pc_Timestamp = 5,
      pc_ValidatorAddress = addr, pc_ValidatorIndex = [], pc_Signature = []\<rparr>"

text \<open>A block signed by one of two validators of the height before, and its commit.\<close>

definition sample_block :: "string \<Rightarrow> BlockResponse" where
  "sample_block hash =
     \<lparr>br_Jsonrpc = [], br_ID = 0, br_Error = None, br_Result =
        \<lparr>brs_BlockMeta = \<lparr>bm_BlockID = sample_block_id hash, bm_Header = sample_header ''g1p''\<rparr>,
         brs_Block = \<lparr>bi_Header = sample_header ''g1p'', bi_Data = \<lparr>bd_Txs = None\<rparr>,
           bi_LastCommit = \<lparr>lc_BlockID = sample_block_id [], lc_Precommits = [None, Some (sample_precommit ''g1v'')]\<rparr>\<rparr>\<rparr>\<rparr>"

definition sample_commit :: CommitResponse where
  "sample_commit =
     \<lparr>cr_Jsonrpc = [], cr_ID = 0, cr_Error = None, cr_Result = \<lparr>crs_SignedHeader =
        \<lparr>sh_Header = sample_header ''g1p'',
         sh_Commit = \<lparr>cm_BlockID = sample_block_id [], cm_Precommits = [Some (sample_precommit ''g1w'')]\<rparr>\<rparr>\<rparr>\<rparr>"

lemma ParseUint_9: "ParseUint ''9'' = Inr 9"
  by (simp add: ParseUint_def char_class digits_value_def)


lemma sample_block_validators: "block_validators (sample_block h) = {''g1p'', ''g1v''}"
  by (auto simp: block_validators_def sample_block_def sample_header_def sample_precommit_def
      block_GetProposerAddress_def block_GetPrecommits_def)

lemma schedule_single: "schedule [0] (length [x])"
  by (simp add: schedule_def)

lemma ProcessValidatorAddresses_spec_witness:
  "\<exists>d' db'. ProcessValidatorAddresses (ix_ops (\<lambda>b t c db. (Inr [], db))) plain_orders [0] [Some (sample_block [])]
      (sample_processor [], sample_store) = Done (d', db')
    \<and> GetAddress (dp_validatorCache d') ''g1p'' \<noteq> 0 \<and> GetAddress (dp_validatorCache d') ''g1v'' \<noteq> 0"
proof -
  have inv: "db_inv (ix_addr sample_store)" using sample_db_inv by (simp add: sample_store_def)
  have cache: "ac_address (dp_validatorCache (sample_processor []))
      \<subseteq>\<^sub>m db_ids (ix_addr sample_store) (dp_chainName (sample_processor [])) True"
    by (simp add: sample_processor_def)
  have "(\<Union>b\<in>{b. Some b \<in> set [Some (sample_block [])]}. block_validators b) = {''g1p'', ''g1v''}"
    by (simp add: sample_block_validators)
  moreover have "card {''g1p'', ''g1v''} = Suc (Suc 0)" by simp
  ultimately have "db_ready (card (\<Union>b\<in>{b. Some b \<in> set [Some (sample_block [])]}. block_validators b)) (ix_addr sample_store)"
    using sample_db_ready by (simp add: sample_store_def)
  from ProcessValidatorAddresses_spec [OF plain_orders_ok schedule_single inv cache this] sample_block_validators
  show ?thesis by auto
qed

lemma ProcessValidatorSignings_spec_witness:
  "\<exists>row. processValidatorSigning (sample_processor []) (Some sample_commit) = Some row \<and> 0 \<in> set (vbs_SignedVals row)"
proof -
  have inv: "db_inv (ix_addr sample_store)" using sample_db_inv by (simp add: sample_store_def)
  have cache: "ac_address (dp_validatorCache (sample_processor []))
      \<subseteq>\<^sub>m db_ids (ix_addr sample_store) (dp_chainName (sample_processor [])) True"
    by (simp add: sample_processor_def)
  obtain row where row: "processValidatorSigning (sample_processor []) (Some sample_commit) = Some row"
    by (simp add: processValidatorSigning_def sample_commit_def commit_GetHeight_def sample_header_def ParseUint_9)
  have "Some (sample_precommit ''g1w'') \<in> set (commit_GetSigners (Some sample_commit))"
    by (simp add: commit_GetSigners_def sample_commit_def)
  moreover have "pc_ValidatorAddress (sample_precommit ''g1w'') \<notin> dom (ac_address (dp_validatorCache (sample_processor [])))"
    by (simp add: sample_processor_def)
  ultimately show ?thesis
    using ProcessValidatorSignings_spec [OF schedule_single inv cache, of "ix_ops (\<lambda>b t c db. (Inr [], db))"
        "Some sample_commit" sample_store] row by blast
qed


end
