(* ===== verification/Orchestrator_Spec.thy ===== *)
theory Orchestrator_Spec
  imports Orchestrator_Store Processor_Slots
begin

text \<open>
  The properties of the orchestrator: which heights the historic and the live loop process, when
  they stop and when they fail, which transactions a chunk collects, and what a whole run keeps of
  the store; with their instances at concrete runs.
\<close>

section \<open>Collecting transactions\<close>

lemma concat_map_filter: "concat (map (\<lambda>x. if P x then [f x] else []) xs) = map f (filter P xs)"
  by (induction xs) auto

lemma filter_distinct_key:
  "distinct (map key xs) \<Longrightarrow> x \<in> set xs \<Longrightarrow> filter (\<lambda>y. key y = key x) xs = [x]"
proof (induction xs)
  case (Cons a xs)
  show ?case
  proof (cases "a = x")
    case True
    with Cons.prems have "filter (\<lambda>y. key y = key x) xs = []"
      by (auto simp: filter_empty_conv image_iff)
    with True show ?thesis by simp
  next
    case False
    with Cons.prems have "key a \<noteq> key x" by (auto simp: image_iff)
    with Cons False show ?thesis by simp
  qed
qed simp

definition collected :: "(string \<Rightarrow> TxResponse option) \<Rightarrow> BlockTx \<Rightarrow> TransactionsData option" where
  "collected tx_of e =
     (case tx_of (btx_txHash e) of
        None \<Rightarrow> None
      | Some r \<Rightarrow> Some \<lparr>tdt_Response = Some r, tdt_Timestamp = btx_timestamp e, tdt_BlockHeight = btx_blockHeight e\<rparr>)"

lemma collect_matches:
  assumes "\<And>h r. tx_of h = Some r \<Longrightarrow> tx_GetHash (Some r) = h"
    and "distinct (map btx_txHash entries)" and "set es \<subseteq> set entries"
  shows "concat (map (\<lambda>tx. case tx of
            None \<Rightarrow> []
          | Some r \<Rightarrow>
              concat (map (\<lambda>blockTx.
                if btx_txHash blockTx = tx_GetHash tx
                then [\<lparr>tdt_Response = tx, tdt_Timestamp = btx_timestamp blockTx,
                       tdt_BlockHeight = btx_blockHeight blockTx\<rparr>]
                else []) entries)) (map tx_of (map btx_txHash es)))
    = List.map_filter (collected tx_of) es"
  using assms(3)
proof (induction es)
  case (Cons e es)
  have "filter (\<lambda>b. btx_txHash b = btx_txHash e) entries = [e]"
    using assms(2) Cons.prems by (intro filter_distinct_key) auto
  with Cons assms(1) [of "btx_txHash e"] show ?case
    by (auto simp: collected_def map_filter_simps concat_map_filter split: option.splits)
qed (simp add: map_filter_simps)

text \<open>C8: when the transactions of a chunk have distinct hashes and the node answers a hash with the
  transaction of that hash, collecting them yields, in the order of the blocks, each transaction
  that could be fetched within the retries, with the height and the time of its own block, and
  leaves out the others, for every schedule of the fetches.\<close>
theorem collectTransactions_spec:
  assumes "entries = concat (map (block_tx_entries sha256) blocks)"
    and "distinct (map btx_txHash entries)" and "schedule sched (length entries)"
    and "qo_pause q \<noteq> 0" and "\<forall>h i r. getTx h i = Inr (Some r) \<longrightarrow> tx_GetHash (Some r) = h"
  shows "collectTransactionsFromBlocks sha256 (GetTransactions q sched getTx) blocks =
    Done (List.map_filter (collected (fetched (qo_retryAmount q) getTx)) entries)"
proof (cases "entries = []")
  case True
  then have "concat (map (block_tx_entries sha256) blocks) = []" using assms(1) by simp
  then show ?thesis using True by (simp only: collectTransactionsFromBlocks_def Let_def) (simp add: map_filter_simps)
next
  case False
  let ?get = "fetched (qo_retryAmount q) getTx" and ?hs = "map btx_txHash entries"
  have hash: "tx_GetHash (Some r) = h" if "?get h = Some r" for h r
  proof -
    from that obtain i where "getTx h i = Inr (Some r)"
      by (auto simp: fetched_def first_success_def find_Some_iff split: option.splits sum.splits)
         (metis isl_def sum.collapse(2) sum.disc(2))
    with assms(5) show ?thesis by blast
  qed
  have "run_slots sched (\<lambda>i. fetch_slot q getTx (?hs ! i)) (replicate (length ?hs) None) = Done (map ?get ?hs)"
    using assms(3,4) by (intro run_slots_list) (simp_all add: fetch_slot_fetched)
  then have "GetTransactions q sched getTx ?hs = Done (map ?get ?hs)"
    using False by (simp add: GetTransactions_def)
  then show ?thesis
    using False collect_matches [OF hash assms(2) subset_refl]
    by (simp only: collectTransactionsFromBlocks_def Let_def assms(1) [symmetric]) simp
qed

section \<open>The historic loop\<close>

text \<open>C3: with a positive chunk size the historic process returns; it runs chunks of at most that size
  one after the other, which together hold every height from the first one on exactly once and in
  order, up to the last height of the range or up to the chunk at which the context was found
  cancelled; and the recorded height is the end of the last chunk run.\<close>
theorem HistoricProcess_covers:
  assumes "0 < or_MaxBlockChunkSize ork" and "unat toH + unat (or_MaxBlockChunkSize ork) < 2 ^ 64"
    and "fromH \<le> toH" and "Suc (unat toH) - unat fromH < fuel"
  shows "\<exists>chunks stop. chunk_heights chunks = [unat fromH..<stop]
    \<and> list_all (\<lambda>(e, a, b). unat b < unat a + unat (or_MaxBlockChunkSize ork)) chunks
    \<and> (\<forall>i<length chunks. fst (chunks ! i) = env i \<and> \<not> cancelled i)
    \<and> (stop = Suc (unat toH) \<or> cancelled (length chunks))
    \<and> HistoricProcess fuel P sha256 env cancelled fromH toH c (ork, st) =
        Some (bind_outcome (foldM_outcome (run_chunk P sha256 c) chunks st)
          (\<lambda>st'. Done (ork\<lparr>or_isProcessing := False, or_currentProcessingHeight := chunk_end_or fromH chunks\<rparr>, st')))"
proof -
  let ?ork = "ork\<lparr>or_isProcessing := True, or_currentProcessingHeight := fromH\<rparr>"
  have "unat fromH \<le> Suc (unat toH)" using assms(3) by (simp add: word_le_nat_alt)
  then obtain chunks stop where C: "chunk_heights chunks = [unat fromH..<stop]"
      "list_all (\<lambda>(e, a, b). unat b < unat a + unat (or_MaxBlockChunkSize ork)) chunks"
      "\<forall>i<length chunks. fst (chunks ! i) = env i \<and> \<not> cancelled i"
      "stop = Suc (unat toH) \<or> cancelled (length chunks)"
    and L: "historic_loop fuel P sha256 env cancelled toH c 0 fromH (?ork, st) =
        Some (bind_outcome (foldM_outcome (run_chunk P sha256 c) chunks st)
          (\<lambda>st'. Done (?ork\<lparr>or_currentProcessingHeight := chunk_end_or (or_currentProcessingHeight ?ork) chunks\<rparr>, st')))"
    using historic_loop_chunks [of ?ork "or_MaxBlockChunkSize ork" toH fromH fuel env 0 cancelled P sha256 c st] assms
    by auto
  have "HistoricProcess fuel P sha256 env cancelled fromH toH c (ork, st) =
        Some (bind_outcome (foldM_outcome (run_chunk P sha256 c) chunks st)
          (\<lambda>st'. Done (ork\<lparr>or_isProcessing := False, or_currentProcessingHeight := chunk_end_or fromH chunks\<rparr>, st')))"
    using L by (cases "foldM_outcome (run_chunk P sha256 c) chunks st") (simp_all add: HistoricProcess_def)
  with C show ?thesis by blast
qed

text \<open>With a chunk size of 0, which the configuration accepts, the historic process over heights
  above 0 never ends: no amount of fuel is enough, and no block is ever fetched.\<close>
theorem HistoricProcess_zero_chunk:
  assumes "or_MaxBlockChunkSize ork = 0" and "0 < fromH" and "fromH \<le> toH" and "\<forall>n. \<not> cancelled n"
  shows "HistoricProcess fuel P sha256 (\<lambda>n. query_env q sched (getB n) getC getT o1 o2) cancelled fromH toH c (ork, s) = None"
  using historic_zero_chunk [of "ork\<lparr>or_isProcessing := True, or_currentProcessingHeight := fromH\<rparr>" fromH toH cancelled]
    assms by (simp add: HistoricProcess_def)

section \<open>The live loop\<close>

text \<open>C4: as long as the node never reports a height below an earlier one, the live process runs
  chunks of at most the configured size that together hold, exactly once and in order, the heights
  after the last height of the database up to the height it has recorded.\<close>
theorem LiveProcess_contiguous:
  assumes "LiveProcess P sha256 getLast latest False c iters ork fs s = Done st"
    and "getLast (or_chainName ork) = Inr h" and "never_back h iters"
  shows "\<exists>chunks. chunk_heights chunks = [Suc (unat h)..<Suc (unat (lv_lastProcessedHeight st))]
    \<and> list_all (\<lambda>(e, a, b). unat b < unat a + unat (or_MaxBlockChunkSize ork)) chunks
    \<and> foldM_outcome (run_chunk P sha256 c) chunks s = Done (lv_state st)
    \<and> or_currentProcessingHeight (lv_or st) = lv_lastProcessedHeight st"
proof -
  let ?st = "\<lparr>lv_or = ork\<lparr>or_isProcessing := True, or_currentProcessingHeight := h\<rparr>,
      lv_lastProcessedHeight = h, lv_running = True, lv_files = fs, lv_state = s\<rparr>"
  from assms(1,2) have "foldM_outcome (live_iteration P sha256 c) iters ?st = Done st"
    by (simp add: LiveProcess_def)
  from live_loop_chunks [OF this _ assms(3)] show ?thesis by auto
qed

text \<open>C29: while the node stays at one height, the live process catches up with it: after \<open>n\<close>
  iterations it has processed \<open>n\<close> chunk sizes more, or all of the heights.\<close>
theorem LiveProcess_catches_up:
  assumes "LiveProcess P sha256 getLast latest False c iters ork fs s = Done st"
    and "getLast (or_chainName ork) = Inr h0" and "h0 \<le> h"
    and "list_all (\<lambda>i. \<not> li_cancelled i \<and> li_latest i = Inr h) iters"
  shows "lv_running st \<and> unat (lv_lastProcessedHeight st) =
    min (unat h0 + length iters * unat (or_MaxBlockChunkSize ork)) (unat h)"
proof -
  let ?st = "\<lparr>lv_or = ork\<lparr>or_isProcessing := True, or_currentProcessingHeight := h0\<rparr>,
      lv_lastProcessedHeight = h0, lv_running = True, lv_files = fs, lv_state = s\<rparr>"
  from assms(1,2) have "foldM_outcome (live_iteration P sha256 c) iters ?st = Done st"
    by (simp add: LiveProcess_def)
  from live_iterations_catch_up [OF this _ assms(4)] assms(3) show ?thesis by simp
qed

text \<open>When the node reports a height below the last processed one (another node behind the same
  address, a node that was restored), the difference wraps around instead of reading as caught up,
  and the live process panics.\<close>
theorem live_node_behind_panics:
  assumes "lv_running st" and "\<not> li_cancelled i" and "li_latest i = Inr h"
    and "h < lv_lastProcessedHeight st" and "unat (lv_lastProcessedHeight st) - unat h \<le> 2 ^ 63"
    and "unat (lv_lastProcessedHeight st) + unat (or_MaxBlockChunkSize (lv_or st)) < 2 ^ 64"
    and "li_env i = query_env q sched getB getC getT o1 o2"
    and "unat (lv_lastProcessedHeight st) < 2 ^ 64 - 1"
  shows "live_iteration P sha256 c i st = Panic ''makeslice: len out of range''"
proof -
  let ?l = "lv_lastProcessedHeight st" and ?m = "or_MaxBlockChunkSize (lv_or st)"
  have suc: "unat (?l + 1) = Suc (unat ?l)"
    using assms(8) unat_plus [of ?l 1] by simp
  have "unat (min (h - ?l) ?m) \<le> unat ?m" by (simp add: min_def word_le_nat_alt)
  then have "unat (?l + min (h - ?l) ?m) = unat ?l + unat (min (h - ?l) ?m)"
    using assms(6) by (intro unat_plus) linarith
  then have "h \<le> ?l + min (h - ?l) ?m"
    using assms(4) by (simp add: word_le_nat_alt word_less_nat_alt)
  then have end_h: "live_chunk_end ?m ?l h = h" by (simp add: live_chunk_end_def Let_def)
  have lt: "h < ?l + 1" "unat (?l + 1) - unat h \<le> 2 ^ 63 + 1" "unat h + 1 \<noteq> unat (?l + 1)"
    using assms(4,5) suc by (simp_all add: word_less_nat_alt)
  have "processChunk P sha256 (li_env i) (?l + 1) h c (lv_state st) = Panic ''makeslice: len out of range''"
    by (simp add: processChunk_def assms(7) query_env_def GetFromToBlocks_def fetch_range_reversed [OF lt])
  moreover have "h - ?l \<noteq> 0" using assms(4) by simp
  ultimately show ?thesis
    using assms(1-3) by (simp add: live_iteration_def end_h)
qed

section \<open>Whole runs over the tables\<close>

text \<open>A whole historic or live run of the data processor over the tables, whatever statements
  fail on the way and whatever the schedules, ends with address caches that hold only identities
  the tables record for the chain, and with address tables in order.\<close>
theorem runs_keep_caches:
  assumes "store_ok s"
  shows "(\<forall>ork' s'. HistoricProcess fuel (ix_processor q cd o1 sched) sha256 env cancelled fromH toH c (ork, s) = Some (Done (ork', s'))
        \<longrightarrow> store_ok s')
    \<and> (\<forall>st. LiveProcess (ix_processor q cd o1 sched) sha256 getLast latest skip c iters ork fs s = Done st
        \<longrightarrow> store_ok (lv_state st))"
  by (intro conjI allI impI) (erule ixp.HistoricProcess_ok [OF assms], erule ixp.LiveProcess_ok [OF assms])

section \<open>The properties at concrete runs\<close>

text \<open>A query operator with the default options, a node without blocks, a node that has one
  transaction.\<close>

definition default_query :: QueryOperator where
  "default_query = NewQueryOperator None None None None"

definition quiet_env :: ChunkEnv where
  "quiet_env = query_env default_query (\<lambda>n. [0..<n]) (\<lambda>h i. Inr None) (\<lambda>h i. Inr None) (\<lambda>h i. Inr None)
     [T_ValidatorAddresses] [T_Blocks, T_ValidatorSignings]"

definition sample_or :: "u64 \<Rightarrow> Orchestrator" where
  "sample_or n = \<lparr>or_chainName = ''c'', or_runningMode = ''live'', or_MaxBlockChunkSize = n,
     or_isProcessing = False, or_currentProcessingHeight = 0\<rparr>"

definition sample_files :: state_files where
  "sample_files = \<lparr>sf_format = (\<lambda>t. []), sf_mkdir_ok = True, sf_write_ok = True, sf_files = []\<rparr>"

definition sample_input :: "u64 \<Rightarrow> LiveInput" where
  "sample_input h = \<lparr>li_cancelled = False, li_latest = Inr h, li_env = quiet_env, li_now = 0\<rparr>"

lemma HistoricProcess_covers_witness:
  "\<exists>chunks. chunk_heights chunks = [3, 4, 5] \<and> HistoricProcess 9 logging id (\<lambda>n. quiet_env) (\<lambda>n. False) 3 5 True (sample_or 2, [])
    = Some (bind_outcome (foldM_outcome (run_chunk logging id True) chunks [])
          (\<lambda>st'. Done ((sample_or 2)\<lparr>or_isProcessing := False, or_currentProcessingHeight := chunk_end_or 3 chunks\<rparr>, st')))"
proof -
  have "[3..<6] = [3, 4, 5 :: nat]" by (simp add: upt_conv_Cons)
  then show ?thesis
    using HistoricProcess_covers [of "sample_or 2" 5 3 9 "\<lambda>n. quiet_env" "\<lambda>n. False" logging id True "[]"]
    by (auto simp: sample_or_def)
qed

lemma HistoricProcess_zero_chunk_witness:
  "HistoricProcess 1000 logging id (\<lambda>n. quiet_env) (\<lambda>n. False) 1 9 True (sample_or 0, []) = None"
  unfolding quiet_env_def by (rule HistoricProcess_zero_chunk) (simp_all add: sample_or_def)

lemma empty_store_ok: "store_ok (sample_processor [], sample_store)"
  using sample_db_inv by (simp add: store_ok_def sample_processor_def sample_store_def)

text \<open>Blocks the node does not have are nil: the block row of height 8 panics, so these instances
  use a processor that only logs.\<close>

abbreviation sample_live :: "LiveInput list \<Rightarrow> task list LiveState outcome" where
  "sample_live iters \<equiv> LiveProcess logging id (\<lambda>c. Inr 7) (Inr 0) False True iters (sample_or 2) sample_files []"

lemma quiet_chunk:
  assumes "b = a + 1 \<or> b = a" and "a < 100"
  shows "\<exists>s'. processChunk logging id quiet_env a b True s = Done (None, s')"
proof -
  have n: "b - a + 1 = 1 \<or> b - a + 1 = 2" using assms(1) by auto
  have get: "fetch_slot default_query (\<lambda>(h :: u64) i. Inr None) k = Done (None :: 't option)" for k
    by (simp add: fetch_slot_def)
  have upd: "(replicate 2 None)[0 := None, Suc 0 := None] = [None, None :: 't option]"
    by (simp add: numeral_2_eq_2)
  obtain bs where bs: "fetch_range default_query [0..<unat (b - a + 1)] (\<lambda>h i. Inr (None :: BlockResponse option)) a b = Done bs"
    "set bs \<subseteq> {None}"
    using n by (auto simp: fetch_range_def run_slots_def get upt_conv_Cons upd)
  obtain cs where cs: "fetch_range default_query [0..<unat (b - a + 1)] (\<lambda>h i. Inr (None :: CommitResponse option)) a b = Done cs"
    using n by (auto simp: fetch_range_def run_slots_def get upt_conv_Cons)
  have "concat (map (block_tx_entries id) bs) = []" using bs(2) by (auto simp: block_tx_entries_def)
  then have "collectTransactionsFromBlocks id g bs = Done []" for g
    by (simp only: collectTransactionsFromBlocks_def Let_def) simp
  then show ?thesis
    using bs(1) cs by (simp add: processChunk_def quiet_env_def query_env_def GetFromToBlocks_def
        GetFromToCommits_def processAll_def logging_def)
qed

lemma sample_live_runs: "\<exists>st. sample_live [sample_input 10] = Done st"
proof -
  have e: "live_chunk_end 2 7 10 = 9" by (simp add: live_chunk_end_def Let_def min_def)
  obtain s' where "processChunk logging id quiet_env 8 9 True [] = Done (None, s')"
    using quiet_chunk [of 9 8 "[]"] by auto
  then show ?thesis
    by (simp add: LiveProcess_def live_iteration_def sample_or_def sample_input_def e)
qed

lemma LiveProcess_contiguous_witness:
  "\<exists>st chunks. sample_live [sample_input 10] = Done st
    \<and> chunk_heights chunks = [8..<Suc (unat (lv_lastProcessedHeight st))]
    \<and> foldM_outcome (run_chunk logging id True) chunks [] = Done (lv_state st)"
proof -
  obtain st where st: "sample_live [sample_input 10] = Done st" using sample_live_runs by blast
  from LiveProcess_contiguous [OF st, of 7] st show ?thesis by (auto simp: sample_input_def)
qed

lemma LiveProcess_catches_up_witness:
  "\<exists>st. sample_live [sample_input 10] = Done st \<and> unat (lv_lastProcessedHeight st) = 9"
proof -
  obtain st where st: "sample_live [sample_input 10] = Done st" using sample_live_runs by blast
  from LiveProcess_catches_up [OF st, of 7 10] st show ?thesis by (auto simp: sample_input_def sample_or_def)
qed

lemma live_node_behind_panics_witness:
  "live_iteration logging id True (sample_input 6)
     \<lparr>lv_or = sample_or 100, lv_lastProcessedHeight = 7, lv_running = True, lv_files = sample_files, lv_state = []\<rparr>
   = Panic ''makeslice: len out of range''"
  unfolding quiet_env_def sample_input_def
  by (rule live_node_behind_panics [where h = 6]) (simp_all add: sample_or_def word_less_nat_alt)

text \<open>A chunk of which only a commit could be fetched.\<close>

definition commit_env :: ChunkEnv where
  "commit_env = \<lparr>ce_GetFromToBlocks = (\<lambda>a b. Done []), ce_GetFromToCommits = (\<lambda>a b. Done [Some sample_commit]),
     ce_GetTransactions = (\<lambda>txs. Done []), ce_order1 = [T_ValidatorAddresses], ce_order2 = [T_ValidatorSignings, T_Blocks]\<rparr>"

abbreviation sample_indexer :: "indexer_db dp_state Processor" where
  "sample_indexer \<equiv> ix_processor (\<lambda>h t c db. (Inr [], db)) sample_codecs plain_orders (\<lambda>n. [0..<n])"

lemma commit_chunk: "\<exists>s'. processChunk sample_indexer id commit_env 8 9 True s = Done (None, s')"
proof -
  obtain d db where s: "s = (d, db)" by (cases s)
  have va: "\<exists>s'. ProcessValidatorAddresses ops plain_orders [] [] (d, db) = Done s'" for ops :: "indexer_db DbOps" and d db
    by (simp add: ProcessValidatorAddresses_def Let_def split: prod.splits)
  have bl: "\<exists>s'. ProcessBlocks ops [] [] (d, db) = Done s'" for ops :: "indexer_db DbOps" and d db
    by (simp add: ProcessBlocks_def blocks_rows_def run_slots_def)
  obtain d1 db1 where p1: "ProcessValidatorAddresses (ix_ops (ix_query (\<lambda>h t c db. (Inr [], db)))) plain_orders [] [] (d, db) = Done (d1, db1)"
    using va by (metis surj_pair)
  obtain d2 db2 where p2: "ProcessValidatorSignings (ix_ops (ix_query (\<lambda>h t c db. (Inr [], db)))) [0] [Some sample_commit] (d1, db1) = (d2, db2)"
    by force
  obtain s3 where "ProcessBlocks (ix_ops (ix_query (\<lambda>h t c db. (Inr [], db)))) [] [] (d2, db2) = Done s3"
    using bl by metis
  then show ?thesis
    by (simp add: s processChunk_def commit_env_def collectTransactionsFromBlocks_def processAll_def ix_processor_def p1 p2)
qed

lemma runs_keep_caches_witness:
  "\<exists>st. LiveProcess sample_indexer id (\<lambda>c. Inr 7) (Inr 0) False True [(sample_input 10)\<lparr>li_env := commit_env\<rparr>] (sample_or 2)
      sample_files (sample_processor [], sample_store) = Done st
    \<and> lv_lastProcessedHeight st = 9 \<and> store_ok (lv_state st)"
proof -
  have e: "live_chunk_end 2 7 10 = 9" by (simp add: live_chunk_end_def Let_def min_def)
  obtain s' where "processChunk sample_indexer id commit_env 8 9 True (sample_processor [], sample_store) = Done (None, s')"
    using commit_chunk by blast
  then obtain st where st: "LiveProcess sample_indexer id (\<lambda>c. Inr 7) (Inr 0) False True
      [(sample_input 10)\<lparr>li_env := commit_env\<rparr>] (sample_or 2) sample_files (sample_processor [], sample_store) = Done st"
    "lv_lastProcessedHeight st = 9"
    by (simp add: LiveProcess_def live_iteration_def sample_or_def sample_input_def e)
  moreover have "store_ok (lv_state st)"
    using conjunct2 [OF runs_keep_caches [OF empty_store_ok]] st(1) by blast
  ultimately show ?thesis by blast
qed

text \<open>A block with two transactions, of which the node knows the second.\<close>

definition two_tx_block :: BlockResponse where
  "two_tx_block = (sample_block [])\<lparr>br_Result := (br_Result (sample_block []))
     \<lparr>brs_Block := (brs_Block (br_Result (sample_block [])))
        \<lparr>bi_Data := \<lparr>bd_Txs = Some [encode_base64 StdEncoding [1], encode_base64 StdEncoding [2]]\<rparr>\<rparr>\<rparr>\<rparr>"

definition second_tx :: TxResponse where
  "second_tx = sample_response\<lparr>tx_Result := (tx_Result sample_response)\<lparr>td_Hash := encode_base64 StdEncoding [2]\<rparr>\<rparr>"

definition knows_second :: "string \<Rightarrow> nat \<Rightarrow> goerror + TxResponse option" where
  "knows_second h i = (if h = encode_base64 StdEncoding [2] then Inr (Some second_tx) else Inl ErrNotFound)"

lemma two_tx_entries:
  "block_tx_entries id (Some two_tx_block) =
     [\<lparr>btx_txHash = encode_base64 StdEncoding [1], btx_blockHeight = 9, btx_timestamp = 5\<rparr>,
      \<lparr>btx_txHash = encode_base64 StdEncoding [2], btx_blockHeight = 9, btx_timestamp = 5\<rparr>]"
  by (simp add: block_tx_entries_def block_tx_entry_def block_GetTxHashes_def block_GetHeight_def
      block_GetTimestamp_def two_tx_block_def sample_block_def sample_header_def ParseUint_9)

lemma collectTransactions_spec_witness:
  "collectTransactionsFromBlocks id (GetTransactions default_query [1, 0] knows_second) [None, Some two_tx_block] =
    Done [\<lparr>tdt_Response = Some second_tx, tdt_Timestamp = 5, tdt_BlockHeight = 9\<rparr>]"
proof -
  let ?e1 = "encode_base64 StdEncoding [1]" and ?e2 = "encode_base64 StdEncoding [2]"
  let ?entries = "concat (map (block_tx_entries id) [None, Some two_tx_block])"
  have ne: "?e1 \<noteq> ?e2" using encode_base64_inj [of StdEncoding "[1]" "[2]"] by auto
  have none: "block_tx_entries id None = []" by (simp add: block_tx_entries_def)
  have d: "distinct (map btx_txHash ?entries)" using ne by (simp add: two_tx_entries none)
  have sched: "schedule [1, 0] (length ?entries)"
    by (simp add: two_tx_entries none schedule_def add_mset_commute)
  have pause: "qo_pause default_query \<noteq> 0" by (simp add: default_query_def)
  have names: "\<forall>h i r. knows_second h i = Inr (Some r) \<longrightarrow> tx_GetHash (Some r) = h"
    by (simp add: knows_second_def tx_GetHash_def second_tx_def)
  have got: "fetched n knows_second ?e2 = Some second_tx" for n
    by (simp add: fetched_def first_success_Suc knows_second_def)
  have not: "fetched n knows_second ?e1 = None" for n
  proof -
    have "first_success (knows_second ?e1) (Suc (nat n)) = None"
      using ne by (simp add: first_success_None_iff knows_second_def)
    then show ?thesis by (simp add: fetched_def)
  qed
  from collectTransactions_spec [OF refl d sched pause names]
  show ?thesis by (simp add: two_tx_entries none map_filter_simps collected_def got not)
qed

end
