(* ===== verification/Schema_Setup.thy ===== *)
theory Schema_Setup
  imports Schema
begin

text \<open>
  The canonical lists of the schema (\<open>pkgs/schema/table.go\<close>, \<open>materialize.go\<close>): regular tables,
  hypertables with their parameters, and the continuous aggregates, whose columns, functions
  and grouping are read from the tags \<open>mt\<close>, \<open>fn\<close> and \<open>gb\<close>.
\<close>

section \<open>Tables\<close>

definition RegularTables :: "table_def list" where
  "RegularTables = [table_GnoAddress, table_GnoValidatorAddress, table_ApiKey, table_SchemaMigration]"

definition by_chain :: "string \<Rightarrow> HypertableParams" where
  "by_chain orderBy =
     \<lparr>hp_ChunkInterval = ''1 week'', hp_PartitionColumn = ''timestamp'', hp_OrderBy = orderBy,
      hp_SegmentBy = [''chain_name'']\<rparr>"

definition msgParams :: HypertableParams where
  "msgParams =
     \<lparr>hp_ChunkInterval = ''1 week'', hp_PartitionColumn = ''timestamp'',
      hp_OrderBy = ''timestamp DESC'', hp_SegmentBy = [''chain_name'', ''message_counter'']\<rparr>"

definition Hypertables :: "(table_def \<times> HypertableParams) list" where
  "Hypertables =
     [(table_Blocks, by_chain ''height DESC, timestamp DESC''),
      (table_ValidatorBlockSigning, by_chain ''block_height DESC, timestamp DESC''),
      (table_AddressTx, by_chain ''timestamp DESC''),
      (table_TransactionGeneral, by_chain ''timestamp DESC''),
      (table_MsgSend, msgParams),
      (table_MsgMultiSend, msgParams),
      (table_MsgCall, msgParams),
      (table_MsgAddPackage, msgParams),
      (table_MsgRun, msgParams),
      (table_TxHashId, by_chain ''timestamp DESC''),
      (table_MsgAuthCrSession, msgParams),
      (table_MsgAuthRvSession, msgParams),
      (table_MsgAuthRvAllSessions, msgParams)]"

definition AllTables :: "table_def list" where
  "AllTables = RegularTables @ map fst Hypertables"

definition AllTableNames :: "string list" where
  "AllTableNames = map td_Name AllTables"

definition table_info :: "table_def \<Rightarrow> (goerror + TableInfo) outcome" where
  "table_info t = GetTableInfo (td_Fields t) (td_Name t)"

definition CustomTypeNames :: "string list" where
  "CustomTypeNames =
     [td_Name special_Amount, ''_'' @ td_Name special_Amount,
      td_Name special_Attribute, ''_'' @ td_Name special_Attribute,
      td_Name special_Event, ''_'' @ td_Name special_Event, ''chain_name'']"

section \<open>Continuous aggregates\<close>

definition fields_TxCounter :: "struct_field list" where
  "fields_TxCounter =
     [fld ''TimeBucket'' [(''mt'', ''time_bucket''), (''fn'', (''time_bucket('' @ [CHR 0x27] @ ''1 hour'' @ [CHR 0x27] @ '', timestamp)'')), (''gb'', ''0'')],
      fld ''ChainName'' [(''mt'', ''chain_name''), (''gb'', ''1'')],
      fld ''Count'' [(''mt'', ''transaction_count''), (''fn'', ''count(*)'')]]"

definition fields_FeeVolume :: "struct_field list" where
  "fields_FeeVolume =
     [fld ''TimeBucket'' [(''mt'', ''time_bucket''), (''fn'', (''time_bucket('' @ [CHR 0x27] @ ''1 hour'' @ [CHR 0x27] @ '', timestamp)'')), (''gb'', ''0'')],
      fld ''ChainName'' [(''mt'', ''chain_name''), (''gb'', ''2'')],
      fld ''FeeDenom'' [(''mt'', ''denom''), (''fn'', ''fee_denom''), (''gb'', ''1'')],
      fld ''FeeVolume'' [(''mt'', ''volume''), (''fn'', ''sum(fee_amount)'')]]"

definition fields_DailyActiveAccounts :: "struct_field list" where
  "fields_DailyActiveAccounts =
     [fld ''TimeBucket'' [(''mt'', ''time_bucket''), (''fn'', (''time_bucket('' @ [CHR 0x27] @ ''1 day'' @ [CHR 0x27] @ '', timestamp)'')), (''gb'', ''0'')],
      fld ''ChainName'' [(''mt'', ''chain_name''), (''gb'', ''1'')],
      fld ''AccCount'' [(''mt'', ''active_account_count''), (''fn'', ''count(DISTINCT address)'')]]"

definition fields_ValidatorSigningCounter :: "struct_field list" where
  "fields_ValidatorSigningCounter =
     [fld ''TimeBucket'' [(''mt'', ''time_bucket''), (''fn'', (''time_bucket('' @ [CHR 0x27] @ ''1 hour'' @ [CHR 0x27] @ '', vbs.timestamp)'')), (''gb'', ''0'')],
      fld ''ChainName'' [(''mt'', ''chain_name''), (''gb'', ''1'')],
      fld ''ValidatorId'' [(''mt'', ''validator_id''), (''gb'', ''2'')],
      fld ''BlockSigned'' [(''mt'', ''blocks_signed''), (''fn'', ''count(*)'')]]"

definition fields_BlockCounter :: "struct_field list" where
  "fields_BlockCounter =
     [fld ''TimeBucket'' [(''mt'', ''time_bucket''), (''fn'', (''time_bucket('' @ [CHR 0x27] @ ''1 hour'' @ [CHR 0x27] @ '', timestamp)'')), (''gb'', ''0'')],
      fld ''ChainName'' [(''mt'', ''chain_name''), (''gb'', ''1'')],
      fld ''BlockCount'' [(''mt'', ''block_count''), (''fn'', ''count(*)'')]]"

definition aggColumns :: "struct_field list \<Rightarrow> string list" where
  "aggColumns v = map (\<lambda>f. tag_get f ''mt'') v"

definition aggFunctions :: "struct_field list \<Rightarrow> string list" where
  "aggFunctions v = map (\<lambda>f. if tag_get f ''fn'' = [] then ''noop'' else tag_get f ''fn'') v"

text \<open>The entries: position and column name of each field with a \<open>gb\<close> tag. A position that is
  not a number reads as 0, as the code ignores the error of \<open>Atoi\<close>.\<close>

definition gb_entries :: "struct_field list \<Rightarrow> (int \<times> string) list" where
  "gb_entries v =
     concat (map (\<lambda>f. if tag_get f ''gb'' = [] then []
                      else [(case Atoi (tag_get f ''gb'') of Inl e \<Rightarrow> 0 | Inr i \<Rightarrow> sint i, tag_get f ''mt'')]) v)"

text \<open>\<open>gb[e.idx] = e.name\<close> for each entry; a negative position is out of range.\<close>

definition aggGroupBy :: "struct_field list \<Rightarrow> string list outcome" where
  "aggGroupBy v =
     (let entries = gb_entries v; maxIdx = fold (\<lambda>(i, n) m. max i m) entries (-1) in
      if maxIdx < 0 then Done []
      else if \<exists>(i, n)\<in>set entries. i < 0 then Panic ''index out of range''
      else Done (fold (\<lambda>(i, n) gb. gb[nat i := n]) entries (replicate (nat (maxIdx + 1)) [])))"

definition group_by :: "struct_field list \<Rightarrow> string list" where
  "group_by v = (case aggGroupBy v of Done g \<Rightarrow> g | Panic m \<Rightarrow> [] | Exit c \<Rightarrow> [])"

definition aggregate :: "string \<Rightarrow> string \<Rightarrow> struct_field list \<Rightarrow> (string \<times> LateralJoinDef list) option
  \<Rightarrow> ContinuousAggregate" where
  "aggregate name source v lateral =
     \<lparr>ca_TableName = name, ca_FromTable = source, ca_TableColumns = aggColumns v,
      ca_TableFunctions = aggFunctions v, ca_GroupBy = group_by v, ca_Lateral = lateral\<rparr>"

definition TxCounter :: ContinuousAggregate where
  "TxCounter = aggregate ''tx_counter'' ''transaction_general'' fields_TxCounter None"

definition FeeVolume :: ContinuousAggregate where
  "FeeVolume = aggregate ''fee_volume'' ''transaction_general'' fields_FeeVolume None"

definition DailyActiveAccounts :: ContinuousAggregate where
  "DailyActiveAccounts = aggregate ''daily_active_accounts'' ''address_tx'' fields_DailyActiveAccounts None"

definition ValidatorSigningCounter :: ContinuousAggregate where
  "ValidatorSigningCounter =
     aggregate ''validator_signing_counter'' ''validator_block_signing'' fields_ValidatorSigningCounter
       (Some (''vbs'',
         [\<lparr>lj_Kind = ''CROSS JOIN LATERAL'', lj_Expression = ''unnest(vbs.signed_vals)'',
           lj_Alias = ''v_id'', lj_Columns = [''validator_id'']\<rparr>]))"

definition BlockCounter :: ContinuousAggregate where
  "BlockCounter = aggregate ''block_counter'' ''blocks'' fields_BlockCounter None"

definition AllAggregates :: "ContinuousAggregate list" where
  "AllAggregates = [TxCounter, FeeVolume, DailyActiveAccounts, ValidatorSigningCounter, BlockCounter]"

definition AllAggrTableNames :: "string list" where
  "AllAggrTableNames = map ca_TableName AllAggregates"

text \<open>\<open>strconv.FormatInt(int64(d.Seconds()), 10)\<close> followed by a unit: whole seconds, rounded
  towards zero. (The code goes through a float, exact for the offsets in use.)\<close>

definition format_seconds :: "duration \<Rightarrow> string" where
  "format_seconds d =
     (if d < 0 \<and> - d \<ge> second then ''-'' else []) @ show_nat (nat (\<bar>d\<bar> div second)) @ '' seconds''"

definition agg_policy ::
  "string \<Rightarrow> duration \<Rightarrow> duration \<Rightarrow> duration option \<Rightarrow> duration option \<Rightarrow> duration option
   \<Rightarrow> string \<times> string \<times> string \<times> string" where
  "agg_policy name defEnd defInterval startOffset endOffset interval =
     (name,
      (case startOffset of None \<Rightarrow> [] | Some d \<Rightarrow> format_seconds d),
      format_seconds (case endOffset of None \<Rightarrow> defEnd | Some d \<Rightarrow> d),
      format_seconds (case interval of None \<Rightarrow> defInterval | Some d \<Rightarrow> d))"

definition TxCounter_AggregatePolicy where
  "TxCounter_AggregatePolicy = agg_policy ''tx_counter'' (15 * second) (15 * second)"

definition FeeVolume_AggregatePolicy where
  "FeeVolume_AggregatePolicy = agg_policy ''fee_volume'' (15 * second) (15 * second)"

definition DailyActiveAccounts_AggregatePolicy where
  "DailyActiveAccounts_AggregatePolicy =
     agg_policy ''daily_active_accounts'' (3600 * second) (30 * 60 * second)"

definition ValidatorSigningCounter_AggregatePolicy where
  "ValidatorSigningCounter_AggregatePolicy =
     agg_policy ''validator_signing_counter'' (15 * second) (15 * second)"

definition BlockCounter_AggregatePolicy where
  "BlockCounter_AggregatePolicy = agg_policy ''block_counter'' (15 * second) (15 * second)"

section \<open>The schema is sound\<close>

text \<open>What a hypertable needs: tagged fields, no column twice, a primary key, and every unique
  constraint (the primary key among them) contains the partition column. The columns that the
  parameters name exist.\<close>

definition column_names :: "table_def \<Rightarrow> string list" where
  "column_names t = map (\<lambda>f. tag_get f ''db'') (td_Fields t)"

definition tagged_columns :: "string \<Rightarrow> table_def \<Rightarrow> string list" where
  "tagged_columns k t = map (\<lambda>f. tag_get f ''db'') (filter (\<lambda>f. tag_get f k = ''true'') (td_Fields t))"

definition table_sound :: "table_def \<Rightarrow> bool" where
  "table_sound t \<longleftrightarrow>
     list_all (\<lambda>f. sf_Exported f \<and> tagged f) (td_Fields t)
     \<and> distinct (column_names t) \<and> tagged_columns ''primary'' t \<noteq> []
     \<and> list_all (\<lambda>f. tag_get f ''primary'' = ''true'' \<longrightarrow> tag_get f ''nullable'' = ''false'') (td_Fields t)"

definition hypertable_sound :: "table_def \<times> HypertableParams \<Rightarrow> bool" where
  "hypertable_sound h \<longleftrightarrow>
     (let (t, p) = h in
      table_sound t \<and> hp_PartitionColumn p \<in> set (tagged_columns ''primary'' t)
      \<and> (tagged_columns ''unique'' t = [] \<or> hp_PartitionColumn p \<in> set (tagged_columns ''unique'' t))
      \<and> set (hp_SegmentBy p) \<subseteq> set (column_names t))"

text \<open>What a continuous aggregate needs: grouping reads no negative position, groups only output
  columns, and its grouped columns are exactly those that are not computed by an aggregate
  function (a name ending in a call of count or sum).\<close>

definition aggregating :: "string \<Rightarrow> bool" where
  "aggregating fn \<longleftrightarrow> has_prefix fn ''count('' \<or> has_prefix fn ''sum(''"

definition aggregate_sound :: "struct_field list \<Rightarrow> bool" where
  "aggregate_sound v \<longleftrightarrow>
     returns (aggGroupBy v) \<and> distinct (aggColumns v)
     \<and> mset (group_by v) = mset (map (\<lambda>f. tag_get f ''mt'') (filter (\<lambda>f. \<not> aggregating (tag_get f ''fn'')) v))"

lemmas schema_eval = table_defs column_names_def tagged_columns_def tagged_def tag_get_def fld_def

lemma regular_sound: "list_all table_sound RegularTables"
  by (simp add: RegularTables_def table_sound_def schema_eval)

lemma msg_tables_sound: "list_all (\<lambda>t. hypertable_sound (t, msgParams))
  [table_MsgSend, table_MsgMultiSend, table_MsgCall, table_MsgAddPackage, table_MsgRun,
   table_MsgAuthCrSession, table_MsgAuthRvSession, table_MsgAuthRvAllSessions]"
  by (simp add: hypertable_sound_def table_sound_def msgParams_def schema_eval del: set_filter set_map)

lemma chain_tables_sound: "list_all (\<lambda>t. hypertable_sound (t, by_chain o1))
  [table_Blocks, table_ValidatorBlockSigning, table_AddressTx, table_TransactionGeneral, table_TxHashId]"
  by (simp add: hypertable_sound_def table_sound_def by_chain_def schema_eval del: set_filter set_map)

lemma hypertables_sound: "list_all hypertable_sound Hypertables"
  using msg_tables_sound chain_tables_sound by (simp add: Hypertables_def)

section \<open>Properties\<close>

text \<open>The schema of the program is sound. All 17 table names differ; set-up reads the columns
  of every table; in every hypertable the primary key and the unique key contain the partition
  column and the segment columns exist.\<close>
theorem schema_sound:
  "distinct AllTableNames \<and> list_all hypertable_sound Hypertables \<and> list_all table_sound AllTables"
proof -
  have "distinct AllTableNames"
    by (simp add: AllTableNames_def AllTables_def RegularTables_def Hypertables_def)
  moreover have "list_all table_sound (map fst Hypertables)"
    using hypertables_sound by (auto simp: list_all_iff hypertable_sound_def Let_def)
  ultimately show ?thesis
    using hypertables_sound regular_sound by (simp add: AllTables_def)
qed

lemma digit_chars:
  "char_of (48::nat) = CHR ''0''" "char_of (49::nat) = CHR ''1''" "char_of (50::nat) = CHR ''2''"
  by (simp_all add: char_of_def bit_iff_odd)

lemma atoi_digits: "Atoi ''0'' = Inr 0" "Atoi ''1'' = Inr 1" "Atoi ''2'' = Inr 2"
  using FormatInt_nat [of 0] FormatInt_nat [of 1] FormatInt_nat [of 2]
  by (simp_all add: show_nat.simps digit_char_def digit_chars)

lemmas aggregate_eval = aggregate_sound_def group_by_def aggGroupBy_def gb_entries_def aggColumns_def
  tag_get_def fld_def atoi_digits aggregating_def has_prefix_def

lemma group_by_values:
  "aggGroupBy fields_TxCounter = Done [''time_bucket'', ''chain_name'']"
  "aggGroupBy fields_FeeVolume = Done [''time_bucket'', ''denom'', ''chain_name'']"
  "aggGroupBy fields_DailyActiveAccounts = Done [''time_bucket'', ''chain_name'']"
  "aggGroupBy fields_ValidatorSigningCounter = Done [''time_bucket'', ''chain_name'', ''validator_id'']"
  "aggGroupBy fields_BlockCounter = Done [''time_bucket'', ''chain_name'']"
  by (simp_all add: aggregate_eval fields_TxCounter_def fields_FeeVolume_def fields_DailyActiveAccounts_def
      fields_ValidatorSigningCounter_def fields_BlockCounter_def numeral_2_eq_2 numeral_3_eq_3)

text \<open>The continuous aggregates are sound: their grouping positions are read without a panic,
  no output column repeats, and the grouped columns are exactly the columns that are not computed
  by count or sum.\<close>
theorem aggregates_sound:
  "list_all aggregate_sound [fields_TxCounter, fields_FeeVolume, fields_DailyActiveAccounts,
     fields_ValidatorSigningCounter, fields_BlockCounter] \<and> distinct AllAggrTableNames"
proof -
  have "distinct AllAggrTableNames"
    by (simp add: AllAggrTableNames_def AllAggregates_def aggregate_def TxCounter_def FeeVolume_def
        DailyActiveAccounts_def ValidatorSigningCounter_def BlockCounter_def)
  then show ?thesis
    by (simp add: group_by_values aggregate_sound_def group_by_def)
       (simp add: aggregate_eval fields_TxCounter_def fields_FeeVolume_def fields_DailyActiveAccounts_def
      fields_ValidatorSigningCounter_def fields_BlockCounter_def add_mset_commute del: mset_filter mset_map)
qed

end
