(* ===== verification/Connection.thy ===== *)
theory Connection
  imports Schema_Setup
begin

text \<open>
  Connecting to the database: the connection string and the pools of
  \<open>pkgs/database/timescaledb/pool.go\<close>, the flags and environment variables of the set-up
  commands (\<open>indexer/cli/func.go\<close>) and of the key commands (\<open>api/key_cmd.go\<close>). The environment
  is a function (a variable that is not set reads as the empty string); opening a pool from a
  connection string is the library's and an argument.
\<close>

section \<open>Printing integers and durations\<close>

text \<open>The verb \<open>%d\<close>.\<close>

definition show_int :: "int \<Rightarrow> string" where
  "show_int i = (if i < 0 then ''-'' @ show_nat (nat (- i)) else show_nat (nat i))"

text \<open>\<open>time.Duration.String\<close>: a fraction without its trailing zeros, then the whole units.\<close>

fun fmt_frac :: "nat \<Rightarrow> nat \<Rightarrow> bool \<Rightarrow> string \<Rightarrow> string \<times> nat" where
  "fmt_frac 0 v printing buf = (if printing then CHR ''.'' # buf else buf, v)"
| "fmt_frac (Suc prec) v printing buf =
     (let printing' = (printing \<or> v mod 10 \<noteq> 0)
      in fmt_frac prec (v div 10) printing' (if printing' then digit_char (v mod 10) # buf else buf))"

definition small_duration :: "nat \<Rightarrow> string" where
  "small_duration u =
     (let (buf, v) = (if u < 1000 then fmt_frac 0 u False ''ns''
                      else if u < 1000000 then fmt_frac 3 u False [CHR 0xC2, CHR 0xB5, CHR ''s'']
                      else fmt_frac 6 u False ''ms'')
      in show_nat v @ buf)"

definition large_duration :: "nat \<Rightarrow> string" where
  "large_duration u =
     (let (buf, v) = fmt_frac 9 u False ''s'';
          secs = show_nat (v mod 60) @ buf;
          mins = show_nat (v div 60 mod 60) @ ''m'' @ secs
      in if v div 60 = 0 then secs
         else if v div 60 div 60 = 0 then mins
         else show_nat (v div 60 div 60) @ ''h'' @ mins)"

definition show_duration :: "duration \<Rightarrow> string" where
  "show_duration d =
     (let u = nat \<bar>d\<bar>
      in if u = 0 then ''0s''
         else (if d < 0 then ''-'' else []) @ (if u < 1000000000 then small_duration u else large_duration u))"

section \<open>The connection string\<close>

record DatabasePoolConfig =
  dpc_User :: string
  dpc_Password :: string
  dpc_Host :: string
  dpc_Port :: int
  dpc_Dbname :: string
  dpc_Sslmode :: string
  dpc_SslRootCert :: string
  dpc_SslCert :: string
  dpc_SslKey :: string
  dpc_PoolMaxConns :: int
  dpc_PoolMinConns :: int
  dpc_PoolMaxConnLifetime :: duration
  dpc_PoolMaxConnIdleTime :: duration
  dpc_PoolHealthCheckPeriod :: duration
  dpc_PoolMaxConnLifetimeJitter :: duration

definition backslash :: char where
  "backslash = CHR 0x5C"

definition squote :: char where
  "squote = CHR 0x27"

declare backslash_def [char_class] squote_def [char_class]

text \<open>\<open>strings.ReplaceAll\<close> of one byte by a string.\<close>

definition replace_char :: "char \<Rightarrow> string \<Rightarrow> string \<Rightarrow> string" where
  "replace_char c by s = concat (map (\<lambda>x. if x = c then by else [x]) s)"

definition quoteDSNValue :: "string \<Rightarrow> string" where
  "quoteDSNValue val =
     (let escaped = replace_char squote [backslash, squote] (replace_char backslash [backslash, backslash] val)
      in squote # escaped @ [squote])"

definition buildDSN :: "DatabasePoolConfig \<Rightarrow> string" where
  "buildDSN c =
     ''host='' @ quoteDSNValue (dpc_Host c) @ '' port='' @ show_int (dpc_Port c)
     @ '' user='' @ quoteDSNValue (dpc_User c) @ '' password='' @ quoteDSNValue (dpc_Password c)
     @ '' dbname='' @ quoteDSNValue (dpc_Dbname c) @ '' sslmode='' @ quoteDSNValue (dpc_Sslmode c)
     @ '' pool_max_conns='' @ show_int (dpc_PoolMaxConns c)
     @ '' pool_min_conns='' @ show_int (dpc_PoolMinConns c)
     @ '' pool_max_conn_lifetime='' @ show_duration (dpc_PoolMaxConnLifetime c)
     @ '' pool_max_conn_idle_time='' @ show_duration (dpc_PoolMaxConnIdleTime c)
     @ '' pool_health_check_period='' @ show_duration (dpc_PoolHealthCheckPeriod c)
     @ '' pool_max_conn_lifetime_jitter='' @ show_duration (dpc_PoolMaxConnLifetimeJitter c)
     @ (if dpc_SslRootCert c \<noteq> [] then '' sslrootcert='' @ quoteDSNValue (dpc_SslRootCert c) else [])
     @ (if dpc_SslCert c \<noteq> [] then '' sslcert='' @ quoteDSNValue (dpc_SslCert c) else [])
     @ (if dpc_SslKey c \<noteq> [] then '' sslkey='' @ quoteDSNValue (dpc_SslKey c) else [])"

section \<open>Pools\<close>

text \<open>Opening a pool: \<open>pgxpool.ParseConfig\<close> and \<open>NewWithConfig\<close> on a connection string. Both
  constructors end the process when it fails.\<close>

type_synonym 'p opener = "string \<Rightarrow> goerror + 'p"

definition connectToDb :: "'p opener \<Rightarrow> DatabasePoolConfig \<Rightarrow> goerror + 'p" where
  "connectToDb connect config = connect (buildDSN config)"

definition setupConnection :: "'p opener \<Rightarrow> DatabasePoolConfig \<Rightarrow> goerror + 'p" where
  "setupConnection connect config = connect (buildDSN config)"

definition NewTimescaleDb :: "'p opener \<Rightarrow> DatabasePoolConfig \<Rightarrow> 'p outcome" where
  "NewTimescaleDb connect config =
     (case connectToDb connect config of Inl e \<Rightarrow> Exit 1 | Inr pool \<Rightarrow> Done pool)"

definition NewTimescaleDbSetup :: "'p opener \<Rightarrow> DatabasePoolConfig \<Rightarrow> 'p outcome" where
  "NewTimescaleDbSetup connect config =
     (case setupConnection connect config of Inl e \<Rightarrow> Exit 1 | Inr pool \<Rightarrow> Done pool)"

text \<open>What every connection of the indexer's pool runs first: the session's time zone, then each
  custom type is loaded and registered; the first error closes the connection.\<close>

primrec register_types ::
  "(string \<Rightarrow> 'c \<Rightarrow> goerror option \<times> 'c) \<Rightarrow> string list \<Rightarrow> 'c \<Rightarrow> goerror option \<times> 'c" where
  "register_types loadType [] conn = (None, conn)"
| "register_types loadType (typeName # names) conn =
     (case loadType typeName conn of
        (Some e, conn') \<Rightarrow> (Some e, conn')
      | (None, conn') \<Rightarrow> register_types loadType names conn')"

definition AfterConnect ::
  "'c exec \<Rightarrow> (string \<Rightarrow> 'c \<Rightarrow> goerror option \<times> 'c) \<Rightarrow> 'c \<Rightarrow> goerror option \<times> 'c" where
  "AfterConnect ex loadType conn =
     (case ex (''SET timezone TO '' @ quoted ''UTC'') conn of
        (Some e, conn') \<Rightarrow> (Some (ErrWrap ''failed to set session timezone to UTC'' e), conn')
      | (None, conn') \<Rightarrow> register_types loadType CustomTypeNames conn')"

definition CreateDatabase :: "'s exec \<Rightarrow> string \<Rightarrow> 's \<Rightarrow> goerror option \<times> 's" where
  "CreateDatabase ex dbname s =
     (case ex (''CREATE DATABASE '' @ dbname) s of
        (None, s') \<Rightarrow> (None, s')
      | (Some e, s') \<Rightarrow>
          if contains (error_text e) (''database '' @ dbname @ '' already exists'') then (None, s')
          else (Some e, s'))"

definition SwitchDatabase :: "'p opener \<Rightarrow> DatabasePoolConfig \<Rightarrow> string \<Rightarrow> goerror + 'p" where
  "SwitchDatabase connect config dbname =
     (case setupConnection connect (config\<lparr>dpc_Dbname := dbname\<rparr>) of
        Inl e \<Rightarrow> Inl (ErrWrap (''failed to connect to '' @ dbname @ '' database'') e)
      | Inr pool \<Rightarrow> Inr pool)"

section \<open>Flags and environment\<close>

text \<open>\<open>fmt.Sscanf(s, "%d", &i)\<close>: leading white space (of Unicode, in UTF-8) is skipped, a newline
  there is an error, then an optional sign and digits are read. What follows is not looked at.\<close>

definition space_width :: "string \<Rightarrow> nat" where
  "space_width s =
     (let b = (\<lambda>i. if i < length s then char_code (s ! i) else 0) in
      if b 0 \<in> {9, 10, 11, 12, 13, 32} then 1
      else if b 0 = 194 \<and> b 1 \<in> {133, 160} then 2
      else if b 0 = 225 \<and> b 1 = 154 \<and> b 2 = 128 then 3
      else if b 0 = 226 \<and> b 1 = 128 \<and> (128 \<le> b 2 \<and> b 2 \<le> 138 \<or> b 2 \<in> {168, 169, 175}) then 3
      else if b 0 = 226 \<and> b 1 = 129 \<and> b 2 = 159 then 3
      else if b 0 = 227 \<and> b 1 = 128 \<and> b 2 = 128 then 3
      else 0)"

function skip_space :: "string \<Rightarrow> goerror + string" where
  "skip_space s =
     (if s = [] then Inr []
      else if hd s = CHR 0x0A \<or> has_prefix s [CHR 0x0D, CHR 0x0A] then Inl (ErrMsg ''unexpected newline'')
      else if space_width s = 0 then Inr s
      else skip_space (drop (space_width s) s))"
  by pat_completeness auto
termination
  by (relation "measure length") auto

definition sscanf_d :: "string \<Rightarrow> goerror + i64" where
  "sscanf_d s =
     bind_result (skip_space s) (\<lambda>t.
       let (neg, u) = parse_sign t; digits = takeWhile is_digit u in
       if t = [] then Inl (ErrMsg ''EOF'')
       else if digits = [] then Inl (ErrMsg ''expected integer'')
       else ParseInt ((if neg then ''-'' else []) @ digits))"

text \<open>The values of the flags: the empty string and 0 when a flag is not given.\<close>

record DbFlags =
  fl_host :: string
  fl_port :: int
  fl_user :: string
  fl_sslMode :: string
  fl_name :: string
  fl_sslRootCert :: string
  fl_sslCert :: string
  fl_sslKey :: string

record dbParams =
  dbp_host :: string
  dbp_port :: int
  dbp_user :: string
  dbp_name :: string
  dbp_password :: string
  dbp_sslMode :: string
  dbp_sslRootCert :: string
  dbp_sslCert :: string
  dbp_sslKey :: string

definition allowedSslModes :: "string list" where
  "allowedSslModes = [''disable'', ''require'', ''verify-ca'', ''verify-full'', ''allow'', ''prefer'']"

definition defaultDBUser :: string where
  "defaultDBUser = ''postgres''"

text \<open>A value that is still empty is replaced.\<close>

definition or_else :: "string \<Rightarrow> string \<Rightarrow> string" where
  "or_else a b = (if a = [] then b else a)"

text \<open>The port of the environment, read when the flag is not given.\<close>

definition env_port :: "(goerror \<Rightarrow> goerror) \<Rightarrow> string \<Rightarrow> int \<Rightarrow> goerror + int" where
  "env_port wrap envPort port =
     (if port = 0 \<and> envPort \<noteq> []
      then (case sscanf_d envPort of Inl e \<Rightarrow> Inl (wrap e) | Inr i \<Rightarrow> Inr (sint i))
      else Inr port)"

text \<open>The checks that both commands end with.\<close>

definition validate_params :: "dbParams \<Rightarrow> goerror + dbParams" where
  "validate_params p =
     (if dbp_sslMode p \<notin> set allowedSslModes then Inl (ErrMsg (''invalid ssl mode: '' @ dbp_sslMode p))
      else if dbp_port p < 1 \<or> dbp_port p > 65535 then Inl (ErrMsg (''invalid port: '' @ show_int (dbp_port p)))
      else Inr p)"

definition parseCommonFlags :: "(string \<Rightarrow> string) \<Rightarrow> DbFlags \<Rightarrow> string \<Rightarrow> goerror + dbParams" where
  "parseCommonFlags getenv f defaultDbName =
     bind_result (env_port (\<lambda>e. ErrMsg (''failed to scan port: '' @ error_text e)) (getenv ''DB_PORT'') (fl_port f))
       (\<lambda>port. validate_params
          \<lparr>dbp_host = or_else (or_else (fl_host f) (getenv ''DB_HOST'')) ''localhost'',
           dbp_port = (if port = 0 then 5432 else port),
           dbp_user = or_else (or_else (fl_user f) (getenv ''DB_USER'')) defaultDBUser,
           dbp_name = or_else (or_else (fl_name f) (getenv ''DB_NAME'')) defaultDbName,
           dbp_password = [],
           dbp_sslMode = or_else (fl_sslMode f) ''disable'',
           dbp_sslRootCert = or_else (fl_sslRootCert f) (getenv ''DB_SSLROOTCERT''),
           dbp_sslCert = or_else (fl_sslCert f) (getenv ''DB_SSLCERT''),
           dbp_sslKey = or_else (fl_sslKey f) (getenv ''DB_SSLKEY'')\<rparr>)"

text \<open>The password: the environment, then what the terminal returns.\<close>

definition promptPassword :: "(string \<Rightarrow> string) \<Rightarrow> goerror + string \<Rightarrow> goerror + string" where
  "promptPassword getenv terminal =
     (if getenv ''DB_PASSWORD'' \<noteq> [] then Inr (getenv ''DB_PASSWORD'')
      else (case terminal of
              Inl e \<Rightarrow> Inl (ErrMsg (''failed to read password: '' @ error_text e))
            | Inr pw \<Rightarrow> Inr pw))"

abbreviation minute :: duration where
  "minute \<equiv> 60 * second"

definition createDatabaseConfig :: "dbParams \<Rightarrow> DatabasePoolConfig" where
  "createDatabaseConfig p =
     \<lparr>dpc_User = dbp_user p, dpc_Password = dbp_password p, dpc_Host = dbp_host p, dpc_Port = dbp_port p,
      dpc_Dbname = dbp_name p, dpc_Sslmode = dbp_sslMode p, dpc_SslRootCert = dbp_sslRootCert p,
      dpc_SslCert = dbp_sslCert p, dpc_SslKey = dbp_sslKey p, dpc_PoolMaxConns = 10, dpc_PoolMinConns = 1,
      dpc_PoolMaxConnLifetime = 10 * minute, dpc_PoolMaxConnIdleTime = 5 * minute,
      dpc_PoolHealthCheckPeriod = minute, dpc_PoolMaxConnLifetimeJitter = minute\<rparr>"

subsection \<open>The key commands\<close>

text \<open>The same parameters without certificates, other variables and other defaults.\<close>

definition parseKeyDbFlags :: "(string \<Rightarrow> string) \<Rightarrow> DbFlags \<Rightarrow> goerror + dbParams" where
  "parseKeyDbFlags getenv f =
     bind_result (env_port (ErrWrap ''failed to scan port'') (getenv ''KEY_DB_PORT'') (fl_port f))
       (\<lambda>port. validate_params
          \<lparr>dbp_host = or_else (or_else (fl_host f) (getenv ''KEY_DB_HOST'')) ''localhost'',
           dbp_port = (if port = 0 then 5432 else port),
           dbp_user = or_else (or_else (fl_user f) (getenv ''KEY_DB_USER'')) ''keymgr'',
           dbp_name = or_else (or_else (fl_name f) (getenv ''KEY_DB_NAME'')) ''gnoland'',
           dbp_password = [],
           dbp_sslMode = or_else (fl_sslMode f) ''disable'',
           dbp_sslRootCert = [], dbp_sslCert = [], dbp_sslKey = []\<rparr>)"

definition keyPromptPassword :: "(string \<Rightarrow> string) \<Rightarrow> goerror + string \<Rightarrow> goerror + string" where
  "keyPromptPassword getenv terminal =
     (if getenv ''KEY_DB_PASSWORD'' \<noteq> [] then Inr (getenv ''KEY_DB_PASSWORD'')
      else (case terminal of
              Inl e \<Rightarrow> Inl (ErrWrap ''failed to read password'' e)
            | Inr pw \<Rightarrow> Inr pw))"

definition key_createDatabaseConfig :: "dbParams \<Rightarrow> DatabasePoolConfig" where
  "key_createDatabaseConfig p =
     \<lparr>dpc_User = dbp_user p, dpc_Password = dbp_password p, dpc_Host = dbp_host p, dpc_Port = dbp_port p,
      dpc_Dbname = dbp_name p, dpc_Sslmode = dbp_sslMode p, dpc_SslRootCert = [], dpc_SslCert = [], dpc_SslKey = [],
      dpc_PoolMaxConns = 5, dpc_PoolMinConns = 1,
      dpc_PoolMaxConnLifetime = 5 * minute, dpc_PoolMaxConnIdleTime = 2 * minute,
      dpc_PoolHealthCheckPeriod = minute, dpc_PoolMaxConnLifetimeJitter = 30 * second\<rparr>"

definition connectKeyDb ::
  "'p opener \<Rightarrow> (string \<Rightarrow> string) \<Rightarrow> goerror + string \<Rightarrow> DbFlags \<Rightarrow> (goerror + 'p) outcome" where
  "connectKeyDb connect getenv terminal f =
     (case parseKeyDbFlags getenv f of
        Inl e \<Rightarrow> Done (Inl e)
      | Inr params \<Rightarrow>
          (case keyPromptPassword getenv terminal of
             Inl e \<Rightarrow> Done (Inl e)
           | Inr password \<Rightarrow>
               bind_outcome (NewTimescaleDbSetup connect (key_createDatabaseConfig (params\<lparr>dbp_password := password\<rparr>)))
                 (\<lambda>pool. Done (Inr pool))))"

section \<open>Reading a connection string\<close>

text \<open>The keyword/value format the comment of \<open>quoteDSNValue\<close> refers to, as a reader: settings
  separated by white space; a value in single quotes ends at the next quote, any other at white
  space; a backslash takes the next byte literally. It is the reference the connection strings are
  compared with.\<close>

fun read_quoted :: "string \<Rightarrow> (string \<times> string) option" where
  "read_quoted [] = None"
| "read_quoted (c # s) =
     (if c = squote then Some ([], s)
      else if c = backslash then
        (case s of [] \<Rightarrow> None | d # s' \<Rightarrow> map_option (\<lambda>(v, r). (d # v, r)) (read_quoted s'))
      else map_option (\<lambda>(v, r). (c # v, r)) (read_quoted s))"

fun read_plain :: "string \<Rightarrow> string \<times> string" where
  "read_plain [] = ([], [])"
| "read_plain (c # s) =
     (if is_space c then ([], c # s)
      else if c = backslash then
        (case s of [] \<Rightarrow> ([], []) | d # s' \<Rightarrow> (let (v, r) = read_plain s' in (d # v, r)))
      else (let (v, r) = read_plain s in (c # v, r)))"

definition read_value :: "string \<Rightarrow> (string \<times> string) option" where
  "read_value s = (if s \<noteq> [] \<and> hd s = squote then read_quoted (tl s) else Some (read_plain s))"

lemma read_quoted_shorter: "read_quoted s = Some (v, r) \<Longrightarrow> length r \<le> length s"
  by (induction s arbitrary: v r rule: read_quoted.induct) (fastforce split: if_splits list.splits)+

lemma read_plain_shorter: "read_plain s = (v, r) \<Longrightarrow> length r \<le> length s"
  by (induction s arbitrary: v r rule: read_plain.induct)
     (fastforce split: if_splits list.splits prod.splits simp: Let_def)+

lemma read_value_shorter: "read_value s = Some (v, r) \<Longrightarrow> length r \<le> length s"
  using read_quoted_shorter [of "tl s"] read_plain_shorter [of s]
  by (fastforce simp: read_value_def split: if_splits)

function read_settings :: "string \<Rightarrow> (string \<times> string) list option" where
  "read_settings s =
     (let t = dropWhile is_space s in
      if t = [] then Some []
      else (case dropWhile (\<lambda>c. c \<noteq> CHR ''='') t of
              [] \<Rightarrow> None
            | e # r \<Rightarrow>
                (case read_value r of
                   None \<Rightarrow> None
                 | Some (v, rest) \<Rightarrow>
                     map_option ((#) (takeWhile (\<lambda>c. c \<noteq> CHR ''='') t, v)) (read_settings rest))))"
  by pat_completeness auto
termination
proof (relation "measure length", goal_cases)
  case (2 s t e r p v rest)
  have "length (dropWhile (\<lambda>c. c \<noteq> CHR ''='') t) \<le> length t" "length t \<le> length s"
    using 2(1) by (simp_all add: length_dropWhile_le)
  with 2 read_value_shorter [of r v rest] show ?case by auto
qed simp

declare read_settings.simps [simp del]

text \<open>The settings a configuration stands for.\<close>

definition dsn_settings :: "DatabasePoolConfig \<Rightarrow> (string \<times> string) list" where
  "dsn_settings c =
     [(''host'', dpc_Host c), (''port'', show_int (dpc_Port c)), (''user'', dpc_User c),
      (''password'', dpc_Password c), (''dbname'', dpc_Dbname c), (''sslmode'', dpc_Sslmode c),
      (''pool_max_conns'', show_int (dpc_PoolMaxConns c)), (''pool_min_conns'', show_int (dpc_PoolMinConns c)),
      (''pool_max_conn_lifetime'', show_duration (dpc_PoolMaxConnLifetime c)),
      (''pool_max_conn_idle_time'', show_duration (dpc_PoolMaxConnIdleTime c)),
      (''pool_health_check_period'', show_duration (dpc_PoolHealthCheckPeriod c)),
      (''pool_max_conn_lifetime_jitter'', show_duration (dpc_PoolMaxConnLifetimeJitter c))]
     @ filter (\<lambda>(k, v). v \<noteq> [])
         [(''sslrootcert'', dpc_SslRootCert c), (''sslcert'', dpc_SslCert c), (''sslkey'', dpc_SslKey c)]"

text \<open>Text that is read without quotes: no white space, backslash or quote.\<close>

definition plain_char :: "char \<Rightarrow> bool" where
  "plain_char c \<longleftrightarrow> \<not> is_space c \<and> c \<noteq> backslash \<and> c \<noteq> squote"

declare plain_char_def [char_class]

lemma digit_plain: "is_digit c \<Longrightarrow> plain_char c"
  by (auto simp: char_class)

lemma digits_plain_char: "list_all is_digit s \<Longrightarrow> list_all plain_char s"
  by (auto simp: list_all_iff digit_plain)

lemma show_nat_plain [simp]: "list_all plain_char (show_nat n)"
  by (rule digits_plain_char) simp

lemma show_int_plain [simp]: "list_all plain_char (show_int i)" "show_int i \<noteq> []"
  by (simp_all add: show_int_def char_class)

lemma fmt_frac_plain:
  "fmt_frac prec v printing buf = (buf', v') \<Longrightarrow> list_all plain_char buf \<Longrightarrow> list_all plain_char buf'"
proof (induction prec v printing buf arbitrary: buf' v' rule: fmt_frac.induct)
  case (1 v printing buf)
  then show ?case by (auto simp: char_class)
next
  case (2 prec v printing buf)
  have "plain_char (digit_char (v mod 10))" by (simp add: digit_plain is_digit_digit_char)
  with 2 show ?case by (fastforce simp: Let_def split: if_splits)
qed

lemma unit_plain [simp]:
  "list_all plain_char ''ns''" "list_all plain_char ''ms''" "list_all plain_char [CHR 0xC2, CHR 0xB5, CHR ''s'']"
  "list_all plain_char ''s''" "plain_char CHR ''m''" "plain_char CHR ''h''" "plain_char CHR ''-''" "list_all plain_char ''0s''"
  by (simp_all add: char_class)

lemma small_duration_plain: "list_all plain_char (small_duration u)" "small_duration u \<noteq> []"
  by (auto simp: small_duration_def simp del: fmt_frac.simps split: prod.splits if_splits
      dest!: fmt_frac_plain [OF _ unit_plain(1)] fmt_frac_plain [OF _ unit_plain(2)] fmt_frac_plain [OF _ unit_plain(3)])

lemma large_duration_plain: "list_all plain_char (large_duration u)" "large_duration u \<noteq> []"
  by (auto simp: large_duration_def Let_def simp del: fmt_frac.simps split: prod.splits
      dest!: fmt_frac_plain [OF _ unit_plain(4)])

lemma show_duration_plain [simp]: "list_all plain_char (show_duration d)" "show_duration d \<noteq> []"
  using unit_plain(8)
  by (auto simp: show_duration_def Let_def small_duration_plain large_duration_plain simp del: unit_plain(8))

lemma read_quoted_escaped:
  "read_quoted (replace_char squote [backslash, squote] (replace_char backslash [backslash, backslash] v) @ squote # rest)
     = Some (v, rest)"
proof (induction v)
  case Nil
  show ?case by (simp add: replace_char_def)
next
  case (Cons c v)
  have ne: "backslash \<noteq> squote" by (simp add: char_class)
  show ?case using Cons ne by (cases "c = backslash"; cases "c = squote") (simp_all add: replace_char_def)
qed

lemma read_plain_text:
  "list_all plain_char t \<Longrightarrow> rest = [] \<or> is_space (hd rest) \<Longrightarrow> read_plain (t @ rest) = (t, rest)"
proof (induction t)
  case Nil
  then show ?case by (cases rest) auto
next
  case (Cons c t)
  then show ?case by (simp add: plain_char_def)
qed

text \<open>One setting: a key, the text of its value and the value it reads as.\<close>

definition reads_as :: "string \<Rightarrow> string \<Rightarrow> bool" where
  "reads_as e v \<longleftrightarrow> (\<forall>rest. rest = [] \<or> is_space (hd rest) \<longrightarrow> read_value (e @ rest) = Some (v, rest))"

lemma quoted_reads [simp]: "reads_as (quoteDSNValue v) v"
  using read_quoted_escaped [of v] by (simp add: reads_as_def read_value_def quoteDSNValue_def Let_def)

lemma plain_reads: "list_all plain_char t \<Longrightarrow> t \<noteq> [] \<Longrightarrow> reads_as t t"
  by (cases t) (auto simp: reads_as_def read_value_def read_plain_text plain_char_def)

definition key_ok :: "string \<Rightarrow> bool" where
  "key_ok k \<longleftrightarrow> k \<noteq> [] \<and> list_all (\<lambda>c. \<not> is_space c \<and> c \<noteq> CHR ''='') k"

definition dsn_text :: "(string \<times> string \<times> string) list \<Rightarrow> string" where
  "dsn_text = concat \<circ> map (\<lambda>(k, e, v). '' '' @ k @ ''='' @ e)"

lemma space_char [simp]: "is_space CHR '' ''"
  by (simp add: char_class)

lemma read_setting:
  assumes "key_ok k" "reads_as e v" "rest = [] \<or> is_space (hd rest)"
  shows "read_settings (CHR '' '' # k @ CHR ''='' # e @ rest) = map_option ((#) (k, v)) (read_settings rest)"
proof -
  obtain c k' where k: "k = c # k'" and c: "\<not> is_space c" using assms(1) by (cases k) (auto simp: key_ok_def)
  have key: "takeWhile (\<lambda>c. c \<noteq> CHR ''='') (k @ CHR ''='' # e @ rest) = k"
    "dropWhile (\<lambda>c. c \<noteq> CHR ''='') (k @ CHR ''='' # e @ rest) = CHR ''='' # e @ rest"
    using assms(1) by (auto simp: key_ok_def list_all_iff takeWhile_append2 dropWhile_append2)
  have start: "dropWhile is_space (CHR '' '' # k @ CHR ''='' # e @ rest) = k @ CHR ''='' # e @ rest"
    using c by (simp add: k)
  have "read_value (e @ rest) = Some (v, rest)" using assms(2,3) unfolding reads_as_def by blast
  then show ?thesis
    by (subst read_settings.simps) (simp only: Let_def start key, simp add: k)
qed

lemma read_dsn_text:
  "list_all (\<lambda>(k, e, v). key_ok k \<and> reads_as e v) items
   \<Longrightarrow> read_settings (dsn_text items) = Some (map (\<lambda>(k, e, v). (k, v)) items)"
proof (induction items)
  case Nil
  show ?case by (simp add: dsn_text_def read_settings.simps [of "[]"])
next
  case (Cons i items)
  obtain k e v where i: "i = (k, e, v)" by (cases i)
  have "dsn_text items = [] \<or> is_space (hd (dsn_text items))"
    by (cases items) (auto simp: dsn_text_def)
  from read_setting [OF _ _ this, of k e v] Cons show ?case
    by (simp add: i dsn_text_def)
qed

definition dsn_items :: "DatabasePoolConfig \<Rightarrow> (string \<times> string \<times> string) list" where
  "dsn_items c =
     (let q = (\<lambda>k v. (k, quoteDSNValue v, v)); p = (\<lambda>k v. (k, v, v)) in
      [q ''host'' (dpc_Host c), p ''port'' (show_int (dpc_Port c)), q ''user'' (dpc_User c),
       q ''password'' (dpc_Password c), q ''dbname'' (dpc_Dbname c), q ''sslmode'' (dpc_Sslmode c),
       p ''pool_max_conns'' (show_int (dpc_PoolMaxConns c)), p ''pool_min_conns'' (show_int (dpc_PoolMinConns c)),
       p ''pool_max_conn_lifetime'' (show_duration (dpc_PoolMaxConnLifetime c)),
       p ''pool_max_conn_idle_time'' (show_duration (dpc_PoolMaxConnIdleTime c)),
       p ''pool_health_check_period'' (show_duration (dpc_PoolHealthCheckPeriod c)),
       p ''pool_max_conn_lifetime_jitter'' (show_duration (dpc_PoolMaxConnLifetimeJitter c))]
      @ map (\<lambda>(k, v). q k v) (filter (\<lambda>(k, v). v \<noteq> [])
         [(''sslrootcert'', dpc_SslRootCert c), (''sslcert'', dpc_SslCert c), (''sslkey'', dpc_SslKey c)]))"

lemma buildDSN_text: "CHR '' '' # buildDSN c = dsn_text (dsn_items c)"
  by (simp add: buildDSN_def dsn_text_def dsn_items_def Let_def)

lemma dsn_items_read: "list_all (\<lambda>(k, e, v). key_ok k \<and> reads_as e v) (dsn_items c)"
  by (simp add: dsn_items_def Let_def plain_reads key_ok_def char_class)

lemma dsn_items_settings: "map (\<lambda>(k, e, v). (k, v)) (dsn_items c) = dsn_settings c"
  by (simp add: dsn_items_def dsn_settings_def Let_def)

lemma read_leading_space: "read_settings (CHR '' '' # s) = read_settings s"
  by (subst (1 2) read_settings.simps) simp

lemma dsn_read: "read_settings (buildDSN c) = Some (dsn_settings c)"
  using read_dsn_text [OF dsn_items_read] by (metis buildDSN_text dsn_items_settings read_leading_space)

section \<open>Properties\<close>

text \<open>C17: the connection string of every configuration reads back, in the keyword/value format, as
  exactly the settings of the configuration: a host, user, password, database name or certificate
  path with spaces, quotes or backslashes stays one value and adds no setting.\<close>
theorem connection_string: "read_settings (buildDSN c) = Some (dsn_settings c)"
  by (rule dsn_read)

lemma or_else_empty [simp]: "or_else a b = [] \<longleftrightarrow> a = [] \<and> b = []"
  by (simp add: or_else_def)

lemma or_else_given: "a \<noteq> [] \<Longrightarrow> or_else a b = a"
  by (simp add: or_else_def)

text \<open>What the parsed flags satisfy: the port and the SSL mode are valid, a flag wins over the
  environment and nothing is left empty.\<close>

lemma parsed_flags:
  assumes "parseCommonFlags getenv f defaultDbName = Inr p"
  shows "1 \<le> dbp_port p" "dbp_port p \<le> 65535" "dbp_sslMode p \<in> set allowedSslModes"
    and "fl_port f \<noteq> 0 \<Longrightarrow> dbp_port p = fl_port f" "fl_host f \<noteq> [] \<Longrightarrow> dbp_host p = fl_host f"
    and "dbp_host p \<noteq> []" "dbp_user p \<noteq> []" "defaultDbName \<noteq> [] \<Longrightarrow> dbp_name p \<noteq> []"
proof -
  from assms obtain port where e: "env_port (\<lambda>e. ErrMsg (''failed to scan port: '' @ error_text e)) (getenv ''DB_PORT'') (fl_port f) = Inr port"
    and v: "validate_params
          \<lparr>dbp_host = or_else (or_else (fl_host f) (getenv ''DB_HOST'')) ''localhost'',
           dbp_port = (if port = 0 then 5432 else port),
           dbp_user = or_else (or_else (fl_user f) (getenv ''DB_USER'')) defaultDBUser,
           dbp_name = or_else (or_else (fl_name f) (getenv ''DB_NAME'')) defaultDbName,
           dbp_password = [],
           dbp_sslMode = or_else (fl_sslMode f) ''disable'',
           dbp_sslRootCert = or_else (fl_sslRootCert f) (getenv ''DB_SSLROOTCERT''),
           dbp_sslCert = or_else (fl_sslCert f) (getenv ''DB_SSLCERT''),
           dbp_sslKey = or_else (fl_sslKey f) (getenv ''DB_SSLKEY'')\<rparr> = Inr p"
    unfolding parseCommonFlags_def bind_result_Inr_iff by blast
  have valid: "validate_params q = Inr p \<longleftrightarrow> q = p \<and> dbp_sslMode q \<in> set allowedSslModes \<and> 1 \<le> dbp_port q \<and> dbp_port q \<le> 65535" for q
    by (auto simp: validate_params_def)
  note p = v [unfolded valid]
  then show "1 \<le> dbp_port p" "dbp_port p \<le> 65535" "dbp_sslMode p \<in> set allowedSslModes"
    "dbp_host p \<noteq> []" "dbp_user p \<noteq> []" "defaultDbName \<noteq> [] \<Longrightarrow> dbp_name p \<noteq> []"
    by (auto simp: defaultDBUser_def)
  show "fl_port f \<noteq> 0 \<Longrightarrow> dbp_port p = fl_port f" using p e by (auto simp: env_port_def)
  show "fl_host f \<noteq> [] \<Longrightarrow> dbp_host p = fl_host f" using p by (auto simp: or_else_given)
qed

lemma digits_not_space: "is_digit c \<Longrightarrow> space_width (c # s) = 0 \<and> c \<noteq> CHR 0x0A \<and> c \<noteq> CHR 0x0D"
  by (auto simp: space_width_def char_class Let_def)

lemma sscanf_prefix:
  assumes "n < 2 ^ 63" "\<not> is_digit c"
  shows "sscanf_d (show_nat n @ c # rest) = Inr (of_nat n)"
proof -
  let ?s = "show_nat n @ c # rest"
  obtain d ds where d: "show_nat n = d # ds" "is_digit d" using hd_show_nat [of n] by (cases "show_nat n") auto
  have skip: "skip_space ?s = Inr ?s"
    using digits_not_space [OF d(2)] by (subst skip_space.simps) (simp add: d(1) has_prefix_def)
  have sign: "parse_sign ?s = (False, ?s)" using digit_not_sign [OF d(2)] by (simp add: d(1) parse_sign_def)
  have digits: "takeWhile is_digit ?s = show_nat n"
    using show_nat_digits [of n] assms(2) by (simp add: list_all_iff takeWhile_append2)
  have u: "unat (of_nat n :: 64 word) = n" using assms(1) by (simp add: unat_of_nat take_bit_nat_eq_self)
  have "ParseInt (show_nat n) = Inr (of_nat n)"
    using assms(1) u by (simp add: ParseInt_def parse_sign_digits ParseUint_def)
  with skip sign digits show ?thesis by (simp add: sscanf_d_def)
qed

text \<open>The port of the environment is taken from the digits it starts with: whatever follows them is
  ignored, so a value that is no port number is accepted as one.\<close>
theorem env_port_trailing:
  assumes "fl_port f = 0" "getenv ''DB_PORT'' = show_nat n @ c # rest" "\<not> is_digit c"
    and "1 \<le> n" "n \<le> 65535" "fl_sslMode f = []"
  shows "\<exists>p. parseCommonFlags getenv f defaultDbName = Inr p \<and> dbp_port p = int n"
proof -
  have "n < 2 ^ 63" using assms(5) by simp
  then have "sscanf_d (getenv ''DB_PORT'') = Inr (of_nat n)"
    unfolding assms(2) using assms(3) by (rule sscanf_prefix)
  moreover have "sint (of_nat n :: 64 word) = int n"
    using assms(5) by (simp add: sint_uint unsigned_of_nat take_bit_nat_eq_self signed_take_bit_int_eq_self)
  ultimately show ?thesis
    using assms by (simp add: parseCommonFlags_def env_port_def validate_params_def or_else_def allowedSslModes_def)
qed

end
