(* ===== verification/Setup.thy ===== *)
theory Setup
  imports Connection
begin

text \<open>
  The set-up commands (\<open>indexer/cli/setup.go\<close>): creating the database with its types, tables,
  hypertables and continuous aggregates, refreshing the aggregates, creating a user. A pool \<open>p\<close>
  runs a statement with \<open>ex p\<close> on the state of the server; \<open>version\<close> is the server's answer to
  the version query. Every step stops at the first error.
\<close>

section \<open>Steps\<close>

definition and_then ::
  "(goerror option \<times> 's) outcome \<Rightarrow> ('s \<Rightarrow> (goerror option \<times> 's) outcome) \<Rightarrow> (goerror option \<times> 's) outcome" where
  "and_then r k =
     bind_outcome r (\<lambda>(err, s). case err of Some e \<Rightarrow> Done (Some e, s) | None \<Rightarrow> k s)"

primrec each_step ::
  "('a \<Rightarrow> 's \<Rightarrow> (goerror option \<times> 's) outcome) \<Rightarrow> 'a list \<Rightarrow> 's \<Rightarrow> (goerror option \<times> 's) outcome" where
  "each_step f [] s = Done (None, s)"
| "each_step f (x # xs) s = and_then (f x s) (each_step f xs)"

section \<open>Creating the database\<close>

definition oneMonth :: string where
  "oneMonth = ''1 month''"

definition createDatabaseTypes :: "'s exec \<Rightarrow> string \<Rightarrow> 's \<Rightarrow> (goerror option \<times> 's) outcome" where
  "createDatabaseTypes ex chainName s =
     and_then
       (each_step (\<lambda>t s. Done (CreateSpecialTypeFromStruct ex (td_Fields t) (td_Name t) s))
          [special_Amount, special_Attribute, special_Event] s)
       (\<lambda>s. Done (CreateChainTypeEnum ex [chainName] s))"

definition createRegularTables :: "'s exec \<Rightarrow> 's \<Rightarrow> (goerror option \<times> 's) outcome" where
  "createRegularTables ex = each_step (\<lambda>t. CreateTableFromStruct ex (td_Fields t) (td_Name t)) RegularTables"

definition createHypertables :: "'s exec \<Rightarrow> ('s \<Rightarrow> goerror + string) \<Rightarrow> 's \<Rightarrow> (goerror option \<times> 's) outcome" where
  "createHypertables ex version =
     each_step (\<lambda>(t, params) s. CreateHypertableFromStruct ex (version s) (td_Fields t) (td_Name t) params s) Hypertables"

text \<open>A view of the list: the aggregate, the columns its chunks are segmented by, the interval after
  which chunks are compressed, its refresh policy.\<close>

record aggregate_view =
  av_agg :: ContinuousAggregate
  av_segmentByCols :: "string list"
  av_chunkInterval :: string
  av_AggregatePolicy :: "duration option \<Rightarrow> duration option \<Rightarrow> duration option \<Rightarrow> string \<times> string \<times> string \<times> string"

definition aggregate_views :: "aggregate_view list" where
  "aggregate_views =
     [\<lparr>av_agg = TxCounter, av_segmentByCols = [''chain_name''], av_chunkInterval = oneMonth,
       av_AggregatePolicy = TxCounter_AggregatePolicy\<rparr>,
      \<lparr>av_agg = FeeVolume, av_segmentByCols = [''chain_name'', ''denom''], av_chunkInterval = oneMonth,
       av_AggregatePolicy = FeeVolume_AggregatePolicy\<rparr>,
      \<lparr>av_agg = DailyActiveAccounts, av_segmentByCols = [''chain_name''], av_chunkInterval = oneMonth,
       av_AggregatePolicy = DailyActiveAccounts_AggregatePolicy\<rparr>,
      \<lparr>av_agg = ValidatorSigningCounter, av_segmentByCols = [''chain_name'', ''validator_id''],
       av_chunkInterval = oneMonth, av_AggregatePolicy = ValidatorSigningCounter_AggregatePolicy\<rparr>,
      \<lparr>av_agg = BlockCounter, av_segmentByCols = [''chain_name''], av_chunkInterval = oneMonth,
       av_AggregatePolicy = BlockCounter_AggregatePolicy\<rparr>]"

definition create_view :: "'s exec \<Rightarrow> aggregate_view \<Rightarrow> 's \<Rightarrow> (goerror option \<times> 's) outcome" where
  "create_view ex v s =
     (let viewName = ca_TableName (av_agg v);
          (_, startOffset, endOffset, scheduleInterval) = av_AggregatePolicy v None None None
      in and_then (Done (CreateContinuousAggregate ex (av_agg v) s)) (\<lambda>s.
         and_then (Done (AlterContinuousAggregateColumnstore ex viewName (av_segmentByCols v) s)) (\<lambda>s.
         and_then (Done (AddContinuousAggregatePolicy ex viewName startOffset endOffset scheduleInterval s)) (\<lambda>s.
         and_then (Done (AddColumnstoreInterval ex viewName (av_chunkInterval v) s)) (\<lambda>s.
         Done (EnableRealTimeAggregation ex viewName s))))))"

definition createContinuousAggregates :: "'s exec \<Rightarrow> 's \<Rightarrow> (goerror option \<times> 's) outcome" where
  "createContinuousAggregates ex = each_step (create_view ex) aggregate_views"

definition initializeNewDatabase ::
  "'p opener \<Rightarrow> ('p \<Rightarrow> 's exec) \<Rightarrow> ('s \<Rightarrow> goerror + string) \<Rightarrow> 'p \<Rightarrow> DatabasePoolConfig \<Rightarrow> string \<Rightarrow> string \<Rightarrow> 's
   \<Rightarrow> (goerror option \<times> 's) outcome" where
  "initializeNewDatabase connect ex version pool dbConfig newDbName chainName s =
     and_then (Done (CreateDatabase (ex pool) newDbName s)) (\<lambda>s.
       case SwitchDatabase connect dbConfig newDbName of
         Inl e \<Rightarrow> Done (Some e, s)
       | Inr newPool \<Rightarrow>
           and_then (createDatabaseTypes (ex newPool) chainName s) (\<lambda>s.
           and_then (createRegularTables (ex newPool) s) (\<lambda>s.
           and_then (createHypertables (ex newPool) version s) (\<lambda>s.
           createContinuousAggregates (ex newPool) s))))"

text \<open>The command. \<open>currentDb\<close> answers the query for the name of the database the pool is logged
  into; when it is the one to create, nothing is done.\<close>

definition createDatabaseSetup ::
  "'p opener \<Rightarrow> ('p \<Rightarrow> 's exec) \<Rightarrow> ('s \<Rightarrow> goerror + string) \<Rightarrow> ('p \<Rightarrow> goerror + string) \<Rightarrow> (string \<Rightarrow> string)
   \<Rightarrow> goerror + string \<Rightarrow> DbFlags \<Rightarrow> string \<Rightarrow> string \<Rightarrow> 's \<Rightarrow> (goerror option \<times> 's) outcome" where
  "createDatabaseSetup connect ex version currentDb getenv terminal f newDbNameFlag chainNameFlag s =
     (case parseCommonFlags getenv f ''postgres'' of
        Inl e \<Rightarrow> Done (Some e, s)
      | Inr params \<Rightarrow>
          (let newDbName = or_else newDbNameFlag ''gnoland'';
               chainName = or_else chainNameFlag ''gnoland'' in
           case promptPassword getenv terminal of
             Inl e \<Rightarrow> Done (Some e, s)
           | Inr password \<Rightarrow>
               (let dbConfig = createDatabaseConfig (params\<lparr>dbp_password := password\<rparr>) in
                bind_outcome (NewTimescaleDbSetup connect dbConfig) (\<lambda>pool.
                  case currentDb pool of
                    Inl e \<Rightarrow> Done (Some e, s)
                  | Inr name \<Rightarrow>
                      if name \<noteq> newDbName
                      then initializeNewDatabase connect ex version pool dbConfig newDbName chainName s
                      else Done (None, s)))))"

section \<open>Refreshing the aggregates\<close>

definition refreshAggregates ::
  "'p opener \<Rightarrow> ('p \<Rightarrow> 's exec) \<Rightarrow> (string \<Rightarrow> string) \<Rightarrow> goerror + string \<Rightarrow> DbFlags \<Rightarrow> 's
   \<Rightarrow> (goerror option \<times> 's) outcome" where
  "refreshAggregates connect ex getenv terminal f s =
     (case parseCommonFlags getenv f ''gnoland'' of
        Inl e \<Rightarrow> Done (Some e, s)
      | Inr params \<Rightarrow>
          (case promptPassword getenv terminal of
             Inl e \<Rightarrow> Done (Some e, s)
           | Inr password \<Rightarrow>
               bind_outcome (NewTimescaleDbSetup connect (createDatabaseConfig (params\<lparr>dbp_password := password\<rparr>))) (\<lambda>pool.
                 each_step (\<lambda>v s. Done (RefreshContinuousAggregate (ex pool) (ca_TableName v) s)) AllAggregates s)))"

section \<open>Creating a user\<close>

definition allowedUserPrivileges :: "string list" where
  "allowedUserPrivileges = [''reader'', ''writer'', ''keymgr'']"

text \<open>Every failure of this command ends the process. \<open>newPassword\<close> is what the terminal returns
  when the new user's password is asked for.\<close>

definition createUser ::
  "'p opener \<Rightarrow> ('p \<Rightarrow> 's exec) \<Rightarrow> (string \<Rightarrow> string) \<Rightarrow> goerror + string \<Rightarrow> goerror + string \<Rightarrow> DbFlags
   \<Rightarrow> string \<Rightarrow> string \<Rightarrow> 's \<Rightarrow> 's outcome" where
  "createUser connect ex getenv terminal newPassword f privilege userName s =
     (case parseCommonFlags getenv f ''gnoland'' of
        Inl e \<Rightarrow> Exit 1
      | Inr params \<Rightarrow>
          if privilege = [] then Exit 1
          else if privilege \<notin> set allowedUserPrivileges then Exit 1
          else (case promptPassword getenv terminal of
             Inl e \<Rightarrow> Exit 1
           | Inr password \<Rightarrow>
               bind_outcome (NewTimescaleDbSetup connect (createDatabaseConfig (params\<lparr>dbp_password := password\<rparr>))) (\<lambda>pool.
                 case CreateUser (ex pool) newPassword userName s of
                   (Some e, s) \<Rightarrow> Exit 1
                 | (None, s) \<Rightarrow>
                     (let tableNames = AllTableNames @ (if privilege = ''reader'' then AllAggrTableNames else []) in
                      case AppointPrivileges (ex pool) userName privilege tableNames s of
                        (Some e, s) \<Rightarrow> Exit 1
                      | (None, s) \<Rightarrow> Done s))))"

section \<open>The plan of the set-up\<close>

text \<open>What set-up is to do, one statement after the other, and what each statement needs and
  makes: names of types, tables and views.\<close>

datatype setup_statement =
    MakeType table_def
  | MakeEnum
  | AddEnumValue string
  | MakeTable table_def
  | MakeHypertable table_def HypertableParams
  | MakeView ContinuousAggregate
  | EnableColumnstore string "string list"
  | AddRefreshPolicy string string string string
  | AddColumnstoreAge string string
  | EnableRealTime string

definition type_columns :: "table_def \<Rightarrow> ColumnInfo list" where
  "type_columns t =
     map (\<lambda>f. \<lparr>ci_Name = tag_get f ''db'', ci_DBType = tag_get f ''dbtype'', ci_Nullable = None,
              ci_Primary = None, ci_Unique = None, ci_Default = None\<rparr>) (td_Fields t)"

definition table_columns_info :: "table_def \<Rightarrow> TableInfo" where
  "table_columns_info t = \<lparr>ti_TableName = td_Name t, ti_Columns = map field_column (td_Fields t)\<rparr>"

text \<open>The statement, as the calls of \<open>db_init\<close> send it.\<close>

definition run_statement :: "'s exec \<Rightarrow> setup_statement \<Rightarrow> 's \<Rightarrow> goerror option \<times> 's" where
  "run_statement ex st s =
     (case st of
        MakeType t \<Rightarrow> ex (GenerateSpecialTypeSQL \<lparr>sp_TypeName = td_Name t, sp_Columns = type_columns t\<rparr>) s
      | MakeEnum \<Rightarrow> ex (''CREATE TYPE chain_name AS ENUM ()'' @ nl) s
      | AddEnumValue v \<Rightarrow> ex (''ALTER TYPE chain_name ADD VALUE '' @ quoted v) s
      | MakeTable t \<Rightarrow> ex (GenerateCreateTableSQL (table_columns_info t)) s
      | MakeHypertable t p \<Rightarrow> ex (GenerateCreateHypertableSQL (table_columns_info t) p) s
      | MakeView a \<Rightarrow> CreateContinuousAggregate ex a s
      | EnableColumnstore v cols \<Rightarrow> AlterContinuousAggregateColumnstore ex v cols s
      | AddRefreshPolicy v a b i \<Rightarrow> AddContinuousAggregatePolicy ex v a b i s
      | AddColumnstoreAge v i \<Rightarrow> AddColumnstoreInterval ex v i s
      | EnableRealTime v \<Rightarrow> EnableRealTimeAggregation ex v s)"

primrec run_statements :: "'s exec \<Rightarrow> setup_statement list \<Rightarrow> 's \<Rightarrow> bool \<times> 's" where
  "run_statements ex [] s = (True, s)"
| "run_statements ex (st # sts) s =
     (case run_statement ex st s of (Some e, s') \<Rightarrow> (False, s') | (None, s') \<Rightarrow> run_statements ex sts s')"

definition type_plan :: "string \<Rightarrow> setup_statement list" where
  "type_plan chainName =
     [MakeType special_Amount, MakeType special_Attribute, MakeType special_Event, MakeEnum, AddEnumValue chainName]"

definition view_plan :: "aggregate_view \<Rightarrow> setup_statement list" where
  "view_plan v =
     (let name = ca_TableName (av_agg v); (_, a, b, i) = av_AggregatePolicy v None None None
      in [MakeView (av_agg v), EnableColumnstore name (av_segmentByCols v), AddRefreshPolicy name a b i,
          AddColumnstoreAge name (av_chunkInterval v), EnableRealTime name])"

definition setup_plan :: "string \<Rightarrow> setup_statement list" where
  "setup_plan chainName =
     type_plan chainName @ map MakeTable RegularTables @ map (\<lambda>(t, p). MakeHypertable t p) Hypertables
     @ concat (map view_plan aggregate_views)"

section \<open>Set-up follows its plan\<close>

text \<open>A call follows a list of statements: it returns with the state they leave, and without an
  error exactly when all of them succeed.\<close>

definition follows :: "'s exec \<Rightarrow> ('s \<Rightarrow> (goerror option \<times> 's) outcome) \<Rightarrow> setup_statement list \<Rightarrow> bool" where
  "follows ex call sts \<longleftrightarrow>
     (\<forall>s. \<exists>err. call s = Done (err, snd (run_statements ex sts s)) \<and> (err = None \<longleftrightarrow> fst (run_statements ex sts s)))"

lemma run_statements_append:
  "run_statements ex (as @ bs) s =
     (case run_statements ex as s of (True, s') \<Rightarrow> run_statements ex bs s' | (False, s') \<Rightarrow> (False, s'))"
  by (induction as arbitrary: s) (auto split: prod.split option.split)

lemma follows_then:
  assumes "follows ex c as" "follows ex d bs"
  shows "follows ex (\<lambda>s. and_then (c s) d) (as @ bs)"
  unfolding follows_def
proof
  fix s
  obtain err where c: "c s = Done (err, snd (run_statements ex as s))" "err = None \<longleftrightarrow> fst (run_statements ex as s)"
    using assms(1) unfolding follows_def by blast
  obtain err' where d: "d (snd (run_statements ex as s)) = Done (err', snd (run_statements ex bs (snd (run_statements ex as s))))"
    "err' = None \<longleftrightarrow> fst (run_statements ex bs (snd (run_statements ex as s)))"
    using assms(2) unfolding follows_def by blast
  show "\<exists>err. and_then (c s) d = Done (err, snd (run_statements ex (as @ bs) s))
      \<and> (err = None \<longleftrightarrow> fst (run_statements ex (as @ bs) s))"
    using c d by (cases err; cases "run_statements ex as s") (auto simp: and_then_def run_statements_append)
qed

lemma follows_each:
  assumes "\<And>x. x \<in> set xs \<Longrightarrow> follows ex (f x) (plan x)"
  shows "follows ex (each_step f xs) (concat (map plan xs))"
  using assms
proof (induction xs)
  case (Cons x xs)
  then show ?case using follows_then [of ex "f x" "plan x" "each_step f xs"] by simp
qed (simp add: follows_def)

text \<open>A call that sends one statement, and may wrap its error.\<close>

lemma follows_one:
  assumes "\<And>s. \<exists>err. c s = Done (err, snd (run_statement ex st s)) \<and> (err = None \<longleftrightarrow> fst (run_statement ex st s) = None)"
  shows "follows ex c [st]"
  unfolding follows_def
proof
  fix s
  obtain err where "c s = Done (err, snd (run_statement ex st s))" "err = None \<longleftrightarrow> fst (run_statement ex st s) = None"
    using assms by blast
  then show "\<exists>err. c s = Done (err, snd (run_statements ex [st] s)) \<and> (err = None \<longleftrightarrow> fst (run_statements ex [st] s))"
    by (auto split: prod.split option.split)
qed

lemma follows_plain: "follows ex (\<lambda>s. Done (run_statement ex st s)) [st]"
proof (rule follows_one)
  fix s
  show "\<exists>err. Done (run_statement ex st s) = Done (err, snd (run_statement ex st s))
      \<and> (err = None \<longleftrightarrow> fst (run_statement ex st s) = None)"
    by (rule exI [of _ "fst (run_statement ex st s)"]) simp
qed

lemma follows_wrapped:
  assumes "\<And>s. c s = Done (exec_wrapped ex msg sql s)" "\<And>s. run_statement ex st s = ex sql s"
  shows "follows ex c [st]"
  by (rule follows_one) (simp add: assms exec_wrapped_def split: prod.split)

lemma follows_type:
  assumes "t \<in> {special_Amount, special_Attribute, special_Event}"
  shows "follows ex (\<lambda>s. Done (CreateSpecialTypeFromStruct ex (td_Fields t) (td_Name t) s)) [MakeType t]"
proof -
  have "GetSpecialTypeInfo (td_Fields t) (td_Name t) = Inr \<lparr>sp_TypeName = td_Name t, sp_Columns = type_columns t\<rparr>"
    using assms by (auto simp: GetSpecialTypeInfo_def special_Amount_def special_Attribute_def special_Event_def
        type_columns_def fld_def tag_get_def Let_def)
  then show ?thesis by (intro follows_wrapped) (simp_all add: CreateSpecialTypeFromStruct_def run_statement_def)
qed

lemma follows_enum: "follows ex (\<lambda>s. Done (CreateChainTypeEnum ex [chainName] s)) [MakeEnum, AddEnumValue chainName]"
proof -
  have e: "follows ex (\<lambda>s. Done (exec_wrapped ex ''failed to create type enum chain_name''
        (''CREATE TYPE chain_name AS ENUM ()'' @ nl) s)) [MakeEnum]"
    by (rule follows_wrapped) (simp_all add: run_statement_def)
  have v: "follows ex (\<lambda>s. Done (add_enum_values ex [chainName] s)) [AddEnumValue chainName]"
    by (rule follows_wrapped [where msg = "''failed to add value '' @ chainName @ '' to type enum chain_name''"
          and sql = "''ALTER TYPE chain_name ADD VALUE '' @ quoted chainName"])
       (simp_all add: run_statement_def split: prod.split option.split)
  have "(\<lambda>s. Done (CreateChainTypeEnum ex [chainName] s)) =
      (\<lambda>s. and_then (Done (exec_wrapped ex ''failed to create type enum chain_name''
        (''CREATE TYPE chain_name AS ENUM ()'' @ nl) s)) (\<lambda>s. Done (add_enum_values ex [chainName] s)))"
    by (rule ext) (simp add: CreateChainTypeEnum_def and_then_def split: prod.split option.split)
  with follows_then [OF e v] show ?thesis by simp
qed

lemma follows_types: "follows ex (createDatabaseTypes ex chainName) (type_plan chainName)"
proof -
  have "follows ex (each_step (\<lambda>t s. Done (CreateSpecialTypeFromStruct ex (td_Fields t) (td_Name t) s))
      [special_Amount, special_Attribute, special_Event])
      (concat (map (\<lambda>t. [MakeType t]) [special_Amount, special_Attribute, special_Event]))"
    by (rule follows_each) (rule follows_type, simp)
  from follows_then [OF this follows_enum, of chainName] show ?thesis
    by (simp add: createDatabaseTypes_def [abs_def] type_plan_def)
qed

lemma sound_table_info:
  "table_sound t \<Longrightarrow> GetTableInfo (td_Fields t) (td_Name t) = Done (Inr (table_columns_info t))"
  by (subst GetTableInfo_Inr_iff) (auto simp: table_sound_def list_all_iff table_columns_info_def intro!: filter_True)

lemma follows_tables: "follows ex (createRegularTables ex) (map MakeTable RegularTables)"
proof -
  have "follows ex (each_step (\<lambda>t. CreateTableFromStruct ex (td_Fields t) (td_Name t)) RegularTables)
      (concat (map (\<lambda>t. [MakeTable t]) RegularTables))"
  proof (rule follows_each)
    fix t assume "t \<in> set RegularTables"
    then have "table_sound t" using regular_sound by (simp add: list_all_iff)
    from sound_table_info [OF this]
    show "follows ex (CreateTableFromStruct ex (td_Fields t) (td_Name t)) [MakeTable t]"
      by (intro follows_wrapped) (simp_all add: CreateTableFromStruct_def run_statement_def)
  qed
  then show ?thesis by (simp add: createRegularTables_def concat_map_singleton)
qed

definition modern_server :: "('s \<Rightarrow> goerror + string) \<Rightarrow> bool" where
  "modern_server version \<longleftrightarrow> (\<forall>s. \<exists>v. GetTimescaleDBVersion (version s) = Inr v \<and> IsModernVersion v)"

lemma follows_hypertables:
  assumes "modern_server version"
  shows "follows ex (createHypertables ex version) (map (\<lambda>(t, p). MakeHypertable t p) Hypertables)"
proof -
  have "follows ex (each_step (\<lambda>(t, params) s.
        CreateHypertableFromStruct ex (version s) (td_Fields t) (td_Name t) params s) Hypertables)
      (concat (map (\<lambda>h. [MakeHypertable (fst h) (snd h)]) Hypertables))"
  proof (rule follows_each)
    fix h assume h: "h \<in> set Hypertables"
    obtain t p where tp: "h = (t, p)" by (cases h)
    have "table_sound t" using hypertables_sound h by (auto simp: list_all_iff hypertable_sound_def tp)
    note info = sound_table_info [OF this]
    have "CreateHypertableFromStruct ex (version s) (td_Fields t) (td_Name t) p s
        = Done (createHypertableModern ex (table_columns_info t) p s)" for s
    proof -
      obtain v where "GetTimescaleDBVersion (version s) = Inr v" "IsModernVersion v"
        using assms unfolding modern_server_def by blast
      then show ?thesis by (simp add: CreateHypertableFromStruct_def info)
    qed
    then show "follows ex ((\<lambda>(t, params) s. CreateHypertableFromStruct ex (version s) (td_Fields t) (td_Name t) params s) h)
        [MakeHypertable (fst h) (snd h)]"
      by (intro follows_wrapped) (simp_all add: tp createHypertableModern_def run_statement_def)
  qed
  then show ?thesis by (simp add: createHypertables_def concat_map_singleton case_prod_beta')
qed

lemma follows_view: "follows ex (create_view ex v) (view_plan v)"
proof -
  obtain n a b i where pol: "av_AggregatePolicy v None None None = (n, a, b, i)" by (cases "av_AggregatePolicy v None None None")
  let ?name = "ca_TableName (av_agg v)"
  note steps = follows_then [OF follows_plain follows_then [OF follows_plain follows_then [OF follows_plain
      follows_then [OF follows_plain follows_plain]]]]
  show ?thesis
    using steps [of ex "MakeView (av_agg v)" "EnableColumnstore ?name (av_segmentByCols v)"
        "AddRefreshPolicy ?name a b i" "AddColumnstoreAge ?name (av_chunkInterval v)" "EnableRealTime ?name"]
    by (simp add: create_view_def [abs_def] view_plan_def pol run_statement_def Let_def)
qed

lemma follows_views: "follows ex (createContinuousAggregates ex) (concat (map view_plan aggregate_views))"
  unfolding createContinuousAggregates_def by (rule follows_each) (rule follows_view)

lemma follows_plan:
  assumes "modern_server version"
  shows "follows ex (\<lambda>s. and_then (createDatabaseTypes ex chainName s) (\<lambda>s. and_then (createRegularTables ex s) (\<lambda>s.
      and_then (createHypertables ex version s) (createContinuousAggregates ex)))) (setup_plan chainName)"
  unfolding setup_plan_def
  by (rule follows_then [OF follows_types follows_then [OF follows_tables
        follows_then [OF follows_hypertables [OF assms] follows_views]]])

section \<open>The plan is in order\<close>

text \<open>The custom types that the columns of a table use, the relations a view reads, the relation a
  statement changes; and what each statement makes.\<close>

definition custom_types :: "string list" where
  "custom_types = [''amount'', ''attribute'', ''event'', ''chain_name'']"

definition uses_types :: "table_def \<Rightarrow> string list" where
  "uses_types t =
     filter (\<lambda>n. n \<in> set custom_types) (map (\<lambda>f. trim_suffix (tag_get f ''dbtype'') ''[]'') (td_Fields t))"

fun needs :: "setup_statement \<Rightarrow> string list" where
  "needs (MakeType t) = uses_types t"
| "needs MakeEnum = []"
| "needs (AddEnumValue v) = [''chain_name'']"
| "needs (MakeTable t) = uses_types t"
| "needs (MakeHypertable t p) = uses_types t"
| "needs (MakeView a) = [ca_FromTable a]"
| "needs (EnableColumnstore v cols) = [v]"
| "needs (AddRefreshPolicy v a b i) = [v]"
| "needs (AddColumnstoreAge v i) = [v]"
| "needs (EnableRealTime v) = [v]"

fun makes :: "setup_statement \<Rightarrow> string option" where
  "makes (MakeType t) = Some (td_Name t)"
| "makes MakeEnum = Some ''chain_name''"
| "makes (MakeTable t) = Some (td_Name t)"
| "makes (MakeHypertable t p) = Some (td_Name t)"
| "makes (MakeView a) = Some (ca_TableName a)"
| "makes _ = None"

fun in_order :: "string list \<Rightarrow> setup_statement list \<Rightarrow> bool" where
  "in_order made [] = True"
| "in_order made (st # sts) =
     (set (needs st) \<subseteq> set made
      \<and> (case makes st of None \<Rightarrow> in_order made sts | Some n \<Rightarrow> n \<notin> set made \<and> in_order (n # made) sts))"

lemmas uses_eval = uses_types_def custom_types_def tag_get_def fld_def trim_suffix_def has_suffix_def has_prefix_def

lemma uses_special: "uses_types special_Amount = []" "uses_types special_Attribute = []" "uses_types special_Event = [''attribute'']"
  by (simp_all add: uses_eval special_Amount_def special_Attribute_def special_Event_def)

lemma uses_regular: "t \<in> set RegularTables \<Longrightarrow> set (uses_types t) \<subseteq> {''chain_name''}"
  by (auto simp: uses_eval table_defs RegularTables_def simp del: set_filter set_map)

lemma uses_hyper: "(t, p) \<in> set Hypertables \<Longrightarrow> set (uses_types t) \<subseteq> {''amount'', ''event'', ''chain_name''}"
  by (auto simp: uses_eval table_defs Hypertables_def simp del: set_filter set_map)

lemma in_order_relations:
  assumes "\<And>x. x \<in> set xs \<Longrightarrow> set (needs (f x)) \<subseteq> set made \<and> makes (f x) = Some (n x)"
    and "distinct (map n xs)" "set (map n xs) \<inter> set made = {}"
    and "in_order (rev (map n xs) @ made) rest"
  shows "in_order made (map f xs @ rest)"
  using assms
proof (induction xs arbitrary: made)
  case (Cons x xs)
  have "in_order (n x # made) (map f xs @ rest)"
    by (rule Cons.IH) (use Cons.prems in auto)
  with Cons.prems(1) [of x] Cons.prems(3) show ?case by auto
qed simp

lemma view_names:
  "map (\<lambda>v. ca_TableName (av_agg v)) aggregate_views =
     [''tx_counter'', ''fee_volume'', ''daily_active_accounts'', ''validator_signing_counter'', ''block_counter'']"
  "map (\<lambda>v. ca_FromTable (av_agg v)) aggregate_views =
     [''transaction_general'', ''transaction_general'', ''address_tx'', ''validator_block_signing'', ''blocks'']"
  by (simp_all add: aggregate_views_def aggregate_def TxCounter_def FeeVolume_def DailyActiveAccounts_def
      ValidatorSigningCounter_def BlockCounter_def)

lemma in_order_views:
  assumes "\<forall>v\<in>set vs. ca_FromTable (av_agg v) \<in> set made"
    and "distinct (map (\<lambda>v. ca_TableName (av_agg v)) vs)" "set (map (\<lambda>v. ca_TableName (av_agg v)) vs) \<inter> set made = {}"
  shows "in_order made (concat (map view_plan vs))"
  using assms
proof (induction vs arbitrary: made)
  case (Cons v vs)
  obtain n a b i where pol: "av_AggregatePolicy v None None None = (n, a, b, i)" by (cases "av_AggregatePolicy v None None None")
  have plan: "view_plan v =
      [MakeView (av_agg v), EnableColumnstore (ca_TableName (av_agg v)) (av_segmentByCols v),
       AddRefreshPolicy (ca_TableName (av_agg v)) a b i, AddColumnstoreAge (ca_TableName (av_agg v)) (av_chunkInterval v),
       EnableRealTime (ca_TableName (av_agg v))]"
    by (simp add: view_plan_def pol Let_def)
  have "in_order (ca_TableName (av_agg v) # made) (concat (map view_plan vs))"
    by (rule Cons.IH) (use Cons.prems in auto)
  with Cons.prems show ?case by (simp add: plan)
qed simp

lemma table_names:
  "map td_Name RegularTables = [''gno_addresses'', ''gno_validators'', ''api_keys'', ''schema_migrations'']"
  by (simp add: RegularTables_def table_defs)

lemma hyper_names:
  "map (td_Name \<circ> fst) Hypertables =
     [''blocks'', ''validator_block_signing'', ''address_tx'', ''transaction_general'', ''bank_msg_send'', ''bank_msg_multi_send'',
      ''vm_msg_call'', ''vm_msg_add_package'', ''vm_msg_run'', ''tx_hash_id'', ''auth_msg_create_session'', ''auth_msg_revoke_session'',
      ''auth_msg_revoke_all_sessions'']"
  by (simp add: Hypertables_def table_defs)

lemma fresh_names:
  "distinct (map td_Name RegularTables)" "distinct (map (td_Name \<circ> fst) Hypertables)"
  "set (map td_Name RegularTables) \<inter> {''amount'', ''attribute'', ''event'', ''chain_name''} = {}"
  "set (map (td_Name \<circ> fst) Hypertables) \<inter> (set (map td_Name RegularTables) \<union> {''amount'', ''attribute'', ''event'', ''chain_name''}) = {}"
  "set (map (\<lambda>v. ca_TableName (av_agg v)) aggregate_views) \<inter>
     (set (map (td_Name \<circ> fst) Hypertables) \<union> set (map td_Name RegularTables) \<union> {''amount'', ''attribute'', ''event'', ''chain_name''}) = {}"
  unfolding view_names hyper_names table_names by simp_all

lemma plan_in_order: "in_order [] (setup_plan chainName)"
proof -
  let ?types = "[''chain_name'', ''event'', ''attribute'', ''amount'']"
  let ?hyper = "rev (map (td_Name \<circ> fst) Hypertables) @ rev (map td_Name RegularTables) @ ?types"
  have from_tables: "\<forall>v\<in>set aggregate_views. ca_FromTable (av_agg v) \<in> set ?hyper"
    using arg_cong [OF view_names(2), of set] by (auto simp: hyper_names)
  have "in_order ?hyper (concat (map view_plan aggregate_views))"
    by (rule in_order_views [OF from_tables]) (use fresh_names(5) in \<open>auto simp: view_names\<close>)
  then have "in_order (rev (map td_Name RegularTables) @ ?types)
      (map (\<lambda>(t, p). MakeHypertable t p) Hypertables @ concat (map view_plan aggregate_views))"
    by (intro in_order_relations [where n = "td_Name \<circ> fst"])
       (use fresh_names(2,4) in \<open>auto dest!: uses_hyper\<close>)
  then have "in_order ?types (map MakeTable RegularTables @ map (\<lambda>(t, p). MakeHypertable t p) Hypertables
      @ concat (map view_plan aggregate_views))"
    by (intro in_order_relations [where n = td_Name]) (use fresh_names(1,3) in \<open>auto dest!: uses_regular\<close>)
  then show ?thesis
    by (simp add: setup_plan_def type_plan_def uses_special, simp add: special_Amount_def special_Attribute_def special_Event_def)
qed
section \<open>Properties\<close>

lemma run_statements_succeed:
  assumes "\<And>sql s. fst (ex sql s) = None"
  shows "fst (run_statements ex sts s)"
proof (induction sts arbitrary: s)
  case (Cons st sts)
  have "fst (run_statement ex st s) = None"
    using assms by (cases st) (simp_all add: run_statement_def CreateContinuousAggregate_def
        AlterContinuousAggregateColumnstore_def AddContinuousAggregatePolicy_def AddColumnstoreInterval_def
        EnableRealTimeAggregation_def Let_def)
  with Cons show ?case by (auto split: prod.split)
qed simp

text \<open>C16: on a server with a supported version, set-up of a new database runs exactly the statements
  of its plan, in order, on the new database, and stops at the first that fails: it returns without
  an error exactly when every statement succeeds. The plan is in order: no statement uses a type, a
  table or a view that an earlier one has not made, and none makes a name twice.\<close>
theorem setup_runs_plan:
  assumes "modern_server version"
    and "CreateDatabase (ex pool) newDbName s = (None, s')"
    and "SwitchDatabase connect dbConfig newDbName = Inr newPool"
  shows "(\<exists>err. initializeNewDatabase connect ex version pool dbConfig newDbName chainName s
        = Done (err, snd (run_statements (ex newPool) (setup_plan chainName) s'))
      \<and> (err = None \<longleftrightarrow> fst (run_statements (ex newPool) (setup_plan chainName) s')))
    \<and> in_order [] (setup_plan chainName)"
proof
  have "initializeNewDatabase connect ex version pool dbConfig newDbName chainName s =
      and_then (createDatabaseTypes (ex newPool) chainName s') (\<lambda>s. and_then (createRegularTables (ex newPool) s) (\<lambda>s.
        and_then (createHypertables (ex newPool) version s) (createContinuousAggregates (ex newPool))))"
    by (simp add: initializeNewDatabase_def assms(2,3) and_then_def)
  with follows_plan [OF assms(1), of "ex newPool" chainName]
  show "\<exists>err. initializeNewDatabase connect ex version pool dbConfig newDbName chainName s
        = Done (err, snd (run_statements (ex newPool) (setup_plan chainName) s'))
      \<and> (err = None \<longleftrightarrow> fst (run_statements (ex newPool) (setup_plan chainName) s'))"
    unfolding follows_def by metis
qed (rule plan_in_order)

lemma modern_example: "modern_server (\<lambda>s. Inr (show_nat 2 @ ''.'' @ show_nat 19 @ ''.'' @ show_nat 3))"
proof -
  have "GetTimescaleDBVersion (Inr (show_nat 2 @ ''.'' @ show_nat 19 @ ''.'' @ show_nat 3))
      = Inr \<lparr>tv_Major = 2, tv_Minor = 19, tv_Patch = 3\<rparr>"
    unfolding GetTimescaleDBVersion_def sum.case split_dotted Let_def by (simp add: FormatInt_nat sint_of_nat)
  then show ?thesis by (simp add: modern_server_def IsModernVersion_def)
qed

lemma setup_runs_plan_witness:
  "\<exists>log. initializeNewDatabase (\<lambda>dsn. Inr dsn) (\<lambda>p sql log. (None, (p, sql) # log))
      (\<lambda>s. Inr (show_nat 2 @ ''.'' @ show_nat 19 @ ''.'' @ show_nat 3)) ''admin''
      \<lparr>dpc_User = ''postgres'', dpc_Password = ''x'', dpc_Host = ''localhost'', dpc_Port = 5432, dpc_Dbname = ''postgres'',
       dpc_Sslmode = ''disable'', dpc_SslRootCert = [], dpc_SslCert = [], dpc_SslKey = [], dpc_PoolMaxConns = 10,
       dpc_PoolMinConns = 1, dpc_PoolMaxConnLifetime = 600000000000, dpc_PoolMaxConnIdleTime = 300000000000,
       dpc_PoolHealthCheckPeriod = 60000000000, dpc_PoolMaxConnLifetimeJitter = 60000000000\<rparr> ''gnoland'' ''gnoland'' []
    = Done (None, log)"
proof -
  let ?ex = "\<lambda>p sql (log :: (string \<times> string) list). (None :: goerror option, (p, sql) # log)"
  let ?cfg = "\<lparr>dpc_User = ''postgres'', dpc_Password = ''x'', dpc_Host = ''localhost'', dpc_Port = 5432, dpc_Dbname = ''postgres'',
       dpc_Sslmode = ''disable'', dpc_SslRootCert = [], dpc_SslCert = [], dpc_SslKey = [], dpc_PoolMaxConns = 10,
       dpc_PoolMinConns = 1, dpc_PoolMaxConnLifetime = 600000000000, dpc_PoolMaxConnIdleTime = 300000000000,
       dpc_PoolHealthCheckPeriod = 60000000000, dpc_PoolMaxConnLifetimeJitter = 60000000000\<rparr>"
  have c: "CreateDatabase (?ex ''admin'') ''gnoland'' [] = (None, [(''admin'', ''CREATE DATABASE gnoland'')])"
    by (simp add: CreateDatabase_def)
  have sw: "SwitchDatabase (\<lambda>dsn. Inr dsn) ?cfg ''gnoland'' = Inr (buildDSN (?cfg\<lparr>dpc_Dbname := ''gnoland''\<rparr>))"
    by (simp add: SwitchDatabase_def setupConnection_def)
  have ok: "fst (run_statements (?ex p) sts s)" for p sts s
    by (rule run_statements_succeed) simp
  show ?thesis
    using setup_runs_plan [where ex = ?ex and chainName = "''gnoland''", OF modern_example c sw] ok by blast
qed

end
