(* ===== verification/Indexer_Config.thy ===== *)
theory Indexer_Config
  imports Connection
begin

text \<open>
  The indexer's configuration (\<open>indexer/config\<close>), the file that \<open>setup create-config\<close> writes
  (\<open>indexer/cli/func.go\<close>, \<open>setup.go\<close>) and the pool the configuration asks for
  (\<open>initializeDatabase\<close> in \<open>indexer/main_operator/operator.go\<close>). The files, the YAML library and the
  library that reads the environment are arguments.
\<close>

section \<open>Configuration\<close>

record Environment =
  en_Host :: string
  en_Port :: int
  en_User :: string
  en_Sslmode :: string
  en_SslRootCert :: string
  en_SslCert :: string
  en_SslKey :: string
  en_Password :: string
  en_Dbname :: string

record Config =
  cf_RpcUrl :: string
  cf_UserAgent :: "string option"
  cf_PoolMaxConns :: int
  cf_PoolMinConns :: int
  cf_PoolMaxConnLifetime :: duration
  cf_PoolMaxConnIdleTime :: duration
  cf_PoolHealthCheckPeriod :: duration
  cf_PoolMaxConnLifetimeJitter :: duration
  cf_LivePooling :: duration
  cf_MaxBlockChunkSize :: u64
  cf_MaxTransactionChunkSize :: u64
  cf_ChainName :: string
  cf_RetryAmount :: "int option"
  cf_Pause :: "int option"
  cf_PauseTime :: "duration option"
  cf_ExponentialBackoff :: "duration option"

text \<open>The YAML decoder fills the structure and may fail as well; its error is looked at last.\<close>

definition LoadConfig ::
  "(string \<Rightarrow> goerror + string) \<Rightarrow> (string \<Rightarrow> Config \<times> goerror option) \<Rightarrow> string \<Rightarrow> goerror + Config" where
  "LoadConfig readFile unmarshal path =
     (case readFile path of
        Inl e \<Rightarrow> Inl e
      | Inr yamlFile \<Rightarrow>
          (let (config, err) = unmarshal yamlFile in
           if cf_RpcUrl config = [] then Inl (ErrMsg ''rpc url is required'')
           else if \<not> has_prefix (cf_RpcUrl config) ''http://'' \<and> \<not> has_prefix (cf_RpcUrl config) ''https://''
           then Inl (ErrMsg ''rpc url must start with http:// or https://'')
           else if cf_ChainName config = [] then Inl (ErrMsg ''chain name is required'')
           else (case err of Some e \<Rightarrow> Inl e | None \<Rightarrow> Inr config)))"

text \<open>The environment file: whether it exists, its absolute path, loading it; and what the library
  then reads from the variables.\<close>

record env_files =
  ef_exists :: "string \<Rightarrow> bool"
  ef_join :: "string \<Rightarrow> string \<Rightarrow> string"
  ef_abs :: "string \<Rightarrow> goerror + string"
  ef_load :: "string \<Rightarrow> goerror option"
  ef_parse :: "goerror + Environment"

definition LoadEnvironment :: "env_files \<Rightarrow> string \<Rightarrow> goerror + Environment" where
  "LoadEnvironment e path =
     (let existingFiles = filter (ef_exists e) (map (ef_join e path) [''.env'']);
          parsed = (case ef_parse e of
                      Inl err \<Rightarrow> Inl (ErrWrap ''failed to parse environment variables'' err)
                    | Inr environment \<Rightarrow> Inr environment)
      in case existingFiles of
           [file] \<Rightarrow>
             (case ef_abs e file of
                Inl err \<Rightarrow> Inl err
              | Inr absPath \<Rightarrow>
                  (case ef_load e absPath of
                     Some err \<Rightarrow> Inl (ErrWrap ''error loading .env file'' err)
                   | None \<Rightarrow> parsed))
         | _ \<Rightarrow> parsed)"

section \<open>Writing a configuration\<close>

datatype file_stat = Present | Absent | StatFails goerror

text \<open>The file system: \<open>os.Stat\<close>, \<open>filepath.Abs\<close> and \<open>os.WriteFile\<close> on a state.\<close>

record 's filesystem =
  fsy_abs :: "string \<Rightarrow> goerror + string"
  fsy_stat :: "string \<Rightarrow> 's \<Rightarrow> file_stat"
  fsy_write :: "string \<Rightarrow> string \<Rightarrow> 's \<Rightarrow> goerror option \<times> 's"

definition default_config :: Config where
  "default_config =
     \<lparr>cf_RpcUrl = ''http://localhost:26657'', cf_UserAgent = None, cf_PoolMaxConns = 50, cf_PoolMinConns = 10,
      cf_PoolMaxConnLifetime = 5 * minute, cf_PoolMaxConnIdleTime = 5 * minute,
      cf_PoolHealthCheckPeriod = minute, cf_PoolMaxConnLifetimeJitter = minute, cf_LivePooling = 5 * second,
      cf_MaxBlockChunkSize = 50, cf_MaxTransactionChunkSize = 100, cf_ChainName = ''gnoland'',
      cf_RetryAmount = Some 6, cf_Pause = Some 3, cf_PauseTime = Some (15 * second),
      cf_ExponentialBackoff = Some (2 * second)\<rparr>"

definition createConfig ::
  "'s filesystem \<Rightarrow> (Config \<Rightarrow> goerror + string) \<Rightarrow> bool \<Rightarrow> string \<Rightarrow> 's \<Rightarrow> goerror option \<times> 's" where
  "createConfig fs marshal overwrite fileName s =
     (let fileName = or_else fileName ''config.yml'' in
      case fsy_abs fs fileName of
        Inl e \<Rightarrow> (Some (ErrWrap ''failed to get absolute path'' e), s)
      | Inr absolutePath \<Rightarrow>
          (case marshal default_config of
             Inl e \<Rightarrow> (Some (ErrWrap ''failed to marshal config'' e), s)
           | Inr yamlFile \<Rightarrow>
               (let write = (\<lambda>msg. let (err, s') = fsy_write fs absolutePath yamlFile s in (map_option (ErrWrap msg) err, s')) in
                case fsy_stat fs absolutePath s of
                  Present \<Rightarrow>
                    if overwrite then write ''failed to overwrite config file''
                    else (Some (ErrMsg ''config file already exists, use --overwrite to overwrite it''), s)
                | Absent \<Rightarrow> write ''failed to create config file''
                | StatFails e \<Rightarrow> (Some (ErrWrap ''failed to stat config file'' e), s))))"

text \<open>The command: the flag's default is another file name than the one \<open>createConfig\<close> has.\<close>

definition createConfigCmd ::
  "'s filesystem \<Rightarrow> (Config \<Rightarrow> goerror + string) \<Rightarrow> string \<Rightarrow> bool \<Rightarrow> 's \<Rightarrow> goerror option \<times> 's" where
  "createConfigCmd fs marshal configFileName overwrite s =
     createConfig fs marshal overwrite (or_else configFileName ''config.yaml'') s"

section \<open>The indexer's pool\<close>

definition non_zero :: "int \<Rightarrow> int \<Rightarrow> int" where
  "non_zero v d = (if v = 0 then d else v)"

definition indexer_dbConfig :: "Config \<Rightarrow> Environment \<Rightarrow> DatabasePoolConfig" where
  "indexer_dbConfig conf env =
     \<lparr>dpc_User = en_User env, dpc_Password = en_Password env, dpc_Host = en_Host env, dpc_Port = en_Port env,
      dpc_Dbname = en_Dbname env, dpc_Sslmode = en_Sslmode env, dpc_SslRootCert = en_SslRootCert env,
      dpc_SslCert = en_SslCert env, dpc_SslKey = en_SslKey env,
      dpc_PoolMaxConns = non_zero (cf_PoolMaxConns conf) 100,
      dpc_PoolMinConns = non_zero (cf_PoolMinConns conf) 10,
      dpc_PoolMaxConnLifetime = non_zero (cf_PoolMaxConnLifetime conf) (10 * minute),
      dpc_PoolMaxConnIdleTime = non_zero (cf_PoolMaxConnIdleTime conf) (5 * minute),
      dpc_PoolHealthCheckPeriod = non_zero (cf_PoolHealthCheckPeriod conf) minute,
      dpc_PoolMaxConnLifetimeJitter = non_zero (cf_PoolMaxConnLifetimeJitter conf) minute\<rparr>"

definition initializeDatabase :: "'p opener \<Rightarrow> Config \<Rightarrow> Environment \<Rightarrow> 'p outcome" where
  "initializeDatabase connect conf env =
     (if cf_RpcUrl conf = [] then Exit 1 else NewTimescaleDb connect (indexer_dbConfig conf env))"

section \<open>What is written and read\<close>

text \<open>A configuration that loads is complete.\<close>

lemma LoadConfig_valid:
  assumes "LoadConfig readFile unmarshal path = Inr conf"
  shows "has_prefix (cf_RpcUrl conf) ''http://'' \<or> has_prefix (cf_RpcUrl conf) ''https://''" "cf_ChainName conf \<noteq> []"
  using assms by (auto simp: LoadConfig_def split: sum.splits prod.splits if_splits option.splits)

text \<open>The file that create-config writes is one the indexer starts with: after a successful run
  the configuration loads and is the written one. An existing file is replaced only with the flag;
  otherwise the state of the files does not change.\<close>
theorem created_config_loads:
  assumes created: "createConfig fs marshal overwrite fileName s = (err, s')"
    and abs: "fsy_abs fs (or_else fileName ''config.yml'') = Inr path"
    and yaml: "\<forall>y. marshal default_config = Inr y \<longrightarrow> unmarshal y = (default_config, None)"
    and written: "\<forall>y t t'. fsy_write fs path y t = (None, t') \<longrightarrow> readFile t' path = Inr y"
  shows "(err = None \<longrightarrow> LoadConfig (readFile s') unmarshal path = Inr default_config)
    \<and> (fsy_stat fs path s = Present \<and> \<not> overwrite \<longrightarrow> err \<noteq> None \<and> s' = s)"
proof (cases "marshal default_config")
  case (Inl e)
  then show ?thesis using created abs by (auto simp: createConfig_def Let_def)
next
  case (Inr y)
  have load: "LoadConfig (readFile t') unmarshal path = Inr default_config" if "fsy_write fs path y s = (None, t')" for t'
  proof -
    have "readFile t' path = Inr y" using written that by blast
    moreover have "unmarshal y = (default_config, None)" using yaml Inr by blast
    ultimately show ?thesis by (simp add: LoadConfig_def default_config_def has_prefix_def)
  qed
  show ?thesis
    using created abs Inr load
    by (cases "fsy_stat fs path s"; cases "fsy_write fs path y s") (auto simp: createConfig_def Let_def split: if_splits)
qed

lemma created_config_loads_witness:
  "LoadConfig (\<lambda>p. case map_of [(''/config.yml'', ''Y'')] p of None \<Rightarrow> Inl ErrNotFound | Some y \<Rightarrow> Inr y)
     (\<lambda>y. (default_config, None)) ''/config.yml'' = Inr default_config"
proof -
  let ?fs = "\<lparr>fsy_abs = (\<lambda>p. Inr (''/'' @ p)), fsy_stat = (\<lambda>p s. if p \<in> fst ` set s then Present else Absent),
      fsy_write = (\<lambda>p y (s :: (string \<times> string) list). (None, (p, y) # s))\<rparr> :: (string \<times> string) list filesystem"
  let ?read = "\<lambda>s p. (case map_of s p of None \<Rightarrow> Inl ErrNotFound | Some y \<Rightarrow> Inr y) :: goerror + string"
  have c: "createConfig ?fs (\<lambda>c. Inr ''Y'') False [] [] = (None, [(''/config.yml'', ''Y'')])"
    by (simp add: createConfig_def or_else_def Let_def)
  have a: "fsy_abs ?fs (or_else [] ''config.yml'') = Inr ''/config.yml''" by (simp add: or_else_def)
  show ?thesis
    using created_config_loads [OF c a, of "\<lambda>y. (default_config, None)" ?read] by simp
qed

end
