(* ===== verification/Rpc_Limiter.thy ===== *)
theory Rpc_Limiter
  imports Prelude
begin

text \<open>
  The token bucket in front of the RPC client (\<open>indexer/rpc_client/rate_limit/rate_limit.go\<close>):
  a buffered channel of tokens, a ticker with its one-place channel, the goroutine that moves
  ticks into tokens, and the callers that take them. Times are nanoseconds since the creation.
\<close>

named_theorems bucket_ops \<open>what the operations and the passing of time do to the bucket\<close>

section \<open>State and operations\<close>

record ChannelRateLimiter =
  rl_tokens :: nat
  rl_capacity :: nat
  rl_interval :: nat
  rl_now :: nat
  rl_due :: nat
  rl_tick :: bool
  rl_done :: bool
  rl_running :: bool

text \<open>A negative channel size, a division by zero and a ticker of no interval panic.\<close>

definition NewChannelRateLimiter :: "int \<Rightarrow> int \<Rightarrow> goerror + ChannelRateLimiter" where
  "NewChannelRateLimiter requestsAllowed timeWindow =
     (if requestsAllowed < 0 then Inl (ErrMsg ''makechan: size out of range'')
      else if requestsAllowed = 0 then Inl (ErrMsg ''integer divide by zero'')
      else if timeWindow < requestsAllowed then Inl (ErrMsg ''non-positive interval for NewTicker'')
      else
        let intervalPerToken = nat (timeWindow div requestsAllowed) in
        Inr \<lparr>rl_tokens = nat requestsAllowed, rl_capacity = nat requestsAllowed,
             rl_interval = intervalPerToken, rl_now = 0, rl_due = intervalPerToken, rl_tick = False,
             rl_done = False, rl_running = True\<rparr>)"

definition Allow :: "ChannelRateLimiter \<Rightarrow> bool \<times> ChannelRateLimiter" where
  "Allow r = (if rl_tokens r > 0 then (True, r\<lparr>rl_tokens := rl_tokens r - 1\<rparr>) else (False, r))"

text \<open>\<open>Wait\<close> blocks on an empty bucket.\<close>

definition Wait :: "ChannelRateLimiter \<Rightarrow> ChannelRateLimiter option" where
  "Wait r = (if rl_tokens r > 0 then Some (r\<lparr>rl_tokens := rl_tokens r - 1\<rparr>) else None)"

text \<open>One round of the refill goroutine on a tick; a full bucket skips it.\<close>

definition refill :: "ChannelRateLimiter \<Rightarrow> ChannelRateLimiter" where
  "refill r = r\<lparr>rl_tick := False,
     rl_tokens := (if rl_tokens r < rl_capacity r then rl_tokens r + 1 else rl_tokens r)\<rparr>"

text \<open>Closing twice panics.\<close>

definition Close :: "ChannelRateLimiter \<Rightarrow> goerror + ChannelRateLimiter" where
  "Close r = (if rl_done r then Inl (ErrMsg ''close of closed channel'') else Inr (r\<lparr>rl_done := True\<rparr>))"

record ChannelRateLimiterStatus =
  rs_TokensAvailable :: nat
  rs_Capacity :: nat
  rs_IsEmpty :: bool
  rs_IsFull :: bool

definition GetStatus :: "ChannelRateLimiter \<Rightarrow> ChannelRateLimiterStatus" where
  "GetStatus r =
     (let tokensAvailable = rl_tokens r in
      \<lparr>rs_TokensAvailable = tokensAvailable, rs_Capacity = rl_capacity r,
       rs_IsEmpty = (tokensAvailable = 0), rs_IsFull = (tokensAvailable = rl_capacity r)\<rparr>)"

text \<open>The first tick after a time \<open>t\<close>, when one is due at \<open>d\<close> and they come every \<open>i\<close>.\<close>

definition next_tick :: "nat \<Rightarrow> nat \<Rightarrow> nat \<Rightarrow> nat" where
  "next_tick i d t = d + i * ((t - d) div i + 1)"

text \<open>Time passes: a ticker sends at every multiple of its interval and drops the tick when its
  channel holds one; a stopped ticker sends nothing.\<close>

definition elapse :: "nat \<Rightarrow> ChannelRateLimiter \<Rightarrow> ChannelRateLimiter" where
  "elapse d r =
     (let t = rl_now r + d in
      if \<not> rl_done r \<and> rl_due r \<le> t
      then r\<lparr>rl_now := t, rl_tick := True,
             rl_due := next_tick (rl_interval r) (rl_due r) t\<rparr>
      else r\<lparr>rl_now := t\<rparr>)"

declare Allow_def [bucket_ops] Wait_def [bucket_ops] refill_def [bucket_ops] Close_def [bucket_ops]
  elapse_def [bucket_ops]

section \<open>Runs\<close>

text \<open>What can happen next: a caller takes a token (\<open>Wait\<close> returns, or \<open>Allow\<close> says yes), \<open>Allow\<close>
  says no, time passes, the goroutine refills or ends, the limiter is closed.\<close>

datatype limiter_event = Taken | Refused | Elapsed nat | Refilled | Closed | Ended

inductive limiter_step :: "ChannelRateLimiter \<Rightarrow> limiter_event \<Rightarrow> ChannelRateLimiter \<Rightarrow> bool" where
  wait: "Wait r = Some r' \<Longrightarrow> limiter_step r Taken r'"
| allow: "Allow r = (True, r') \<Longrightarrow> limiter_step r Taken r'"
| refuse: "Allow r = (False, r') \<Longrightarrow> limiter_step r Refused r'"
| time: "limiter_step r (Elapsed d) (elapse d r)"
| refill: "rl_running r \<Longrightarrow> rl_tick r \<Longrightarrow> limiter_step r Refilled (refill r)"
| close: "Close r = Inr r' \<Longrightarrow> limiter_step r Closed r'"
| stop: "rl_running r \<Longrightarrow> rl_done r \<Longrightarrow> limiter_step r Ended (r\<lparr>rl_running := False\<rparr>)"

inductive_simps limiter_step_simps:
  "limiter_step r Taken r'" "limiter_step r Refused r'" "limiter_step r (Elapsed d) r'"
  "limiter_step r Refilled r'" "limiter_step r Closed r'" "limiter_step r Ended r'"

inductive limiter_run :: "ChannelRateLimiter \<Rightarrow> limiter_event list \<Rightarrow> ChannelRateLimiter \<Rightarrow> bool" where
  halt: "limiter_run r [] r"
| step: "limiter_step r e r' \<Longrightarrow> limiter_run r' es r'' \<Longrightarrow> limiter_run r (e # es) r''"

definition requests :: "limiter_event list \<Rightarrow> nat" where
  "requests es = length (filter (\<lambda>e. e = Taken) es)"

definition duration :: "limiter_event list \<Rightarrow> nat" where
  "duration es = sum_list (map (\<lambda>e. case e of Elapsed d \<Rightarrow> d | _ \<Rightarrow> 0) es)"

lemma requests_simps [simp]:
  "requests [] = 0" "requests (e # es) = (if e = Taken then 1 else 0) + requests es"
  by (simp_all add: requests_def)

lemma duration_simps [simp]:
  "duration [] = 0" "duration (e # es) = (case e of Elapsed d \<Rightarrow> d | _ \<Rightarrow> 0) + duration es"
  by (simp_all add: duration_def)

lemma requests_append [simp]: "requests (xs @ ys) = requests xs + requests ys"
  by (simp add: requests_def)

lemma duration_append [simp]: "duration (xs @ ys) = duration xs + duration ys"
  by (simp add: duration_def)

section \<open>The bound\<close>

text \<open>The tokens a limiter can hand out until a time: those it holds, a pending tick, and the
  ticks that are due.\<close>

definition potential :: "nat \<Rightarrow> ChannelRateLimiter \<Rightarrow> nat" where
  "potential t r = rl_tokens r + (if rl_tick r then 1 else 0)
     + (if rl_due r \<le> t then (t - rl_due r) div rl_interval r + 1 else 0)"

definition limiter_ok :: "ChannelRateLimiter \<Rightarrow> bool" where
  "limiter_ok r \<longleftrightarrow> rl_tokens r \<le> rl_capacity r \<and> 0 < rl_interval r \<and> (\<not> rl_done r \<longrightarrow> rl_now r < rl_due r)"

lemma due_after: "0 < i \<Longrightarrow> d \<le> t \<Longrightarrow> t < next_tick i d t"
  using dividend_less_div_times [of i "t - d"] by (simp add: next_tick_def algebra_simps)

lemma ticks_left:
  assumes "0 < i" and "next_tick i d t \<le> u"
  shows "(u - next_tick i d t) div i + 1 \<le> (u - d) div i"
proof -
  define m where "m = (t - d) div i + 1"
  have nt: "next_tick i d t = d + i * m" by (simp add: next_tick_def m_def)
  then have "u - d = (u - next_tick i d t) + i * m" using assms(2) by simp
  then have "(u - d) div i = (u - next_tick i d t + i * m) div i" by (rule arg_cong)
  also have "\<dots> = m + (u - next_tick i d t) div i" using assms(1) by (intro div_mult_self2) simp
  finally show ?thesis by (simp add: m_def)
qed

lemma elapse_fields:
  "rl_tokens (elapse d r) = rl_tokens r" "rl_interval (elapse d r) = rl_interval r"
  "\<not> rl_done r \<Longrightarrow> rl_due r \<le> rl_now r + d \<Longrightarrow> rl_tick (elapse d r)"
  "\<not> rl_done r \<Longrightarrow> rl_due r \<le> rl_now r + d \<Longrightarrow>
    rl_due (elapse d r) = next_tick (rl_interval r) (rl_due r) (rl_now r + d)"
  by (simp_all add: elapse_def Let_def)

lemma elapse_potential:
  assumes "limiter_ok r" and "rl_now r + d \<le> t"
  shows "potential t (elapse d r) \<le> potential t r"
proof (cases "\<not> rl_done r \<and> rl_due r \<le> rl_now r + d")
  case True
  then have due: "rl_due r \<le> t" using assms(2) by simp
  have "0 < rl_interval r" using assms(1) by (simp add: limiter_ok_def)
  note left = ticks_left [OF this, of "rl_due r" "rl_now r + d" t]
  from True have "rl_tick (elapse d r) = True"
    "rl_due (elapse d r) = next_tick (rl_interval r) (rl_due r) (rl_now r + d)"
    by (simp_all add: elapse_fields)
  with left due show ?thesis
    unfolding potential_def elapse_fields(1,2)
    by (cases "next_tick (rl_interval r) (rl_due r) (rl_now r + d) \<le> t") simp_all
qed (auto simp: potential_def elapse_def Let_def)

lemma step_ok: "limiter_step r e r' \<Longrightarrow> limiter_ok r \<Longrightarrow> limiter_ok r'"
  by (induction rule: limiter_step.induct)
     (auto simp: limiter_ok_def bucket_ops Let_def due_after
       split: if_splits)

lemma step_potential:
  assumes "limiter_step r e r'" and "limiter_ok r" and "rl_now r + duration [e] \<le> t"
  shows "potential t r' + requests [e] \<le> potential t r"
  using assms
proof (induction rule: limiter_step.induct)
  case (time r d)
  then show ?case using elapse_potential [of r d t] by simp
qed (auto simp: potential_def bucket_ops split: if_splits)

lemma step_now: "limiter_step r e r' \<Longrightarrow> rl_now r' = rl_now r + duration [e]"
  by (induction rule: limiter_step.induct)
     (auto simp: bucket_ops Let_def split: if_splits)

lemma run_bound:
  assumes "limiter_run r es r'" and "limiter_ok r" and "rl_now r + duration es \<le> t"
  shows "potential t r' + requests es \<le> potential t r \<and> limiter_ok r'"
  using assms
proof (induction rule: limiter_run.induct)
  case (step r e r' es r'')
  have "rl_now r' + duration es \<le> t" "rl_now r + duration [e] \<le> t"
    using step.prems(2) step_now [OF step.hyps(1)] by simp_all
  with step.IH step_ok [OF step.hyps(1) step.prems(1)] step_potential [OF step.hyps(1) step.prems(1)]
  show ?case by fastforce
qed simp

lemma new_limiter:
  assumes "NewChannelRateLimiter (int n) (int w) = Inr r"
  shows "0 < n" and "rl_interval r = w div n" and "0 < w div n" and "rl_tokens r = n" and "rl_capacity r = n"
    and "rl_now r = 0" and "rl_due r = w div n" and "\<not> rl_tick r" and "\<not> rl_done r" and "rl_running r"
  using assms
  by (auto simp: NewChannelRateLimiter_def Let_def nat_div_distrib div_greater_zero_iff split: if_splits)

lemma new_ok: "NewChannelRateLimiter (int n) (int w) = Inr r \<Longrightarrow> limiter_ok r"
  by (simp add: limiter_ok_def new_limiter)

lemma new_potential:
  assumes "NewChannelRateLimiter (int n) (int w) = Inr r"
  shows "potential t r = n + t div (w div n)"
proof -
  note new = new_limiter [OF assms]
  have "(t - w div n) div (w div n) + 1 = t div (w div n)" if "w div n \<le> t"
    using that new(3) by (simp add: le_div_geq)
  with new show ?thesis by (simp add: potential_def)
qed

section \<open>The bound is reached\<close>

fun drain :: "nat \<Rightarrow> limiter_event list" where
  "drain n = replicate n Taken"

fun paced :: "nat \<Rightarrow> nat \<Rightarrow> limiter_event list" where
  "paced i 0 = []"
| "paced i (Suc n) = [Elapsed i, Refilled, Taken] @ paced i n"

lemma run_append: "limiter_run r xs r' \<Longrightarrow> limiter_run r' ys r'' \<Longrightarrow> limiter_run r (xs @ ys) r''"
  by (induction rule: limiter_run.induct) (auto intro: limiter_run.intros)

lemma run_drain:
  "rl_tokens r = n \<Longrightarrow> limiter_run r (drain n) (r\<lparr>rl_tokens := 0\<rparr>)"
proof (induction n arbitrary: r)
  case 0
  then have "r\<lparr>rl_tokens := 0\<rparr> = r" by simp
  then show ?case by (metis drain.simps limiter_run.halt replicate_0)
next
  case (Suc n)
  have "limiter_step r Taken (r\<lparr>rl_tokens := n\<rparr>)" by (simp add: limiter_step_simps Wait_def Suc.prems)
  moreover have "limiter_run (r\<lparr>rl_tokens := n\<rparr>) (drain n) (r\<lparr>rl_tokens := 0\<rparr>)"
    using Suc.IH [of "r\<lparr>rl_tokens := n\<rparr>"] by simp
  ultimately show ?case by (auto intro: limiter_run.step)
qed

lemma run_paced:
  assumes "rl_tokens r = 0" and "0 < rl_capacity r" and "0 < rl_interval r" and "rl_due r = rl_now r + rl_interval r"
    and "\<not> rl_done r" and "rl_running r"
  shows "\<exists>r'. limiter_run r (paced (rl_interval r) n) r'"
  using assms
proof (induction n arbitrary: r)
  case (Suc n)
  let ?i = "rl_interval r"
  define a where "a = elapse ?i r"
  have a: "rl_tokens a = 0" "rl_capacity a = rl_capacity r" "rl_interval a = ?i" "rl_now a = rl_now r + ?i"
    "rl_due a = rl_now r + ?i + ?i" "rl_tick a" "\<not> rl_done a" "rl_running a"
    using Suc.prems by (simp_all add: a_def elapse_def Let_def next_tick_def)
  define b where "b = (refill a)\<lparr>rl_tokens := 0\<rparr>"
  have "limiter_step r (Elapsed ?i) a" "limiter_step a Refilled (refill a)" "limiter_step (refill a) Taken b"
    using a Suc.prems(2) by (simp_all add: limiter_step_simps a_def [symmetric] b_def Wait_def refill_def)
  moreover obtain r' where "limiter_run b (paced (rl_interval b) n) r'"
    using Suc.IH [of b] Suc.prems(2,3) a by (auto simp: b_def refill_def)
  moreover have "rl_interval b = ?i" using a by (simp add: b_def refill_def)
  ultimately show ?case by (auto intro!: limiter_run.step exI)
qed (auto intro: limiter_run.halt)

lemma paced_counts [simp]: "requests (paced i n) = n" "duration (paced i n) = n * i"
  by (induction n) simp_all

lemma drain_counts [simp]: "requests (replicate n Taken) = n" "duration (replicate n Taken) = 0"
  by (induction n) simp_all

section \<open>Properties\<close>

text \<open>C30: a limiter for \<open>n\<close> requests per window never holds more than \<open>n\<close> tokens, and in a time
  \<open>t\<close> from its creation it lets through at most \<open>n\<close> requests and one for every interval that has
  passed; a caller that drains it first and then paces itself does get twice \<open>n\<close> requests through
  in one window.\<close>

theorem rpc_requests_bounded:
  assumes "NewChannelRateLimiter (int n) (int w) = Inr r"
  shows "(\<forall>es r'. limiter_run r es r' \<longrightarrow>
      rl_tokens r' \<le> n \<and> requests es \<le> n + duration es div (w div n))
    \<and> (\<exists>es r'. limiter_run r es r' \<and> duration es \<le> w \<and> requests es = 2 * n)"
proof (rule conjI)
  note new = new_limiter [OF assms]
  show "\<forall>es r'. limiter_run r es r' \<longrightarrow> rl_tokens r' \<le> n \<and> requests es \<le> n + duration es div (w div n)"
  proof (intro allI impI)
    fix es r' assume run: "limiter_run r es r'"
    have cap: "limiter_run r es r' \<Longrightarrow> rl_capacity r' = rl_capacity r" for r es r'
      by (induction rule: limiter_run.induct)
         (auto elim!: limiter_step.cases simp: bucket_ops Let_def split: if_splits)
    have "rl_now r + duration es \<le> duration es" by (simp add: new)
    from run_bound [OF run new_ok [OF assms] this] new_potential [OF assms] cap [OF run] new(5)
    show "rl_tokens r' \<le> n \<and> requests es \<le> n + duration es div (w div n)"
      by (auto simp: limiter_ok_def)
  qed
next
  note new = new_limiter [OF assms]
  let ?r = "r\<lparr>rl_tokens := 0\<rparr>"
  obtain r' where "limiter_run ?r (paced (rl_interval ?r) n) r'"
    using run_paced [of ?r n] new by auto
  with run_drain [OF new(4)] have "limiter_run r (drain n @ paced (w div n) n) r'"
    by (auto intro: run_append simp: new(2))
  moreover have "duration (drain n @ paced (w div n) n) \<le> w" "requests (drain n @ paced (w div n) n) = 2 * n"
    by (simp_all add: times_div_less_eq_dividend)
  ultimately show "\<exists>es r'. limiter_run r es r' \<and> duration es \<le> w \<and> requests es = 2 * n" by blast
qed

lemma rpc_requests_bounded_witness:
  "\<exists>r. NewChannelRateLimiter (int 3) (int 60) = Inr r
    \<and> (\<exists>es r'. limiter_run r es r' \<and> duration es \<le> 60 \<and> requests es = 2 * 3)"
proof -
  obtain r where "NewChannelRateLimiter (int 3) (int 60) = Inr r"
    by (simp add: NewChannelRateLimiter_def Let_def)
  with rpc_requests_bounded [OF this] show ?thesis by blast
qed

end
