(* ===== verification/Rpc_Client.thy ===== *)
theory Rpc_Client
  imports Query_Operator Rpc_Limiter Utf8 "HOL-Library.List_Lexorder" "HOL-Library.Char_ord"
begin

text \<open>
  The RPC client (\<open>indexer/rpc_client/client.go\<close>, \<open>types.go\<close>, \<open>errors.go\<close>) and its rate-limited
  wrapper (\<open>rate_limited_client.go\<close>). The request is written out down to its JSON text; the HTTP
  exchange, the parsing of the URL and the decoding of a body into an answer are arguments.
\<close>

section \<open>JSON requests\<close>

definition hex_digit :: "nat \<Rightarrow> char" where
  "hex_digit n = ''0123456789abcdef'' ! n"

text \<open>A byte below 128 inside a string: quotes and backslashes, the short escapes, other control
  characters and the characters HTML cares for; everything else as it is.\<close>

definition json_char :: "char \<Rightarrow> string" where
  "json_char c =
     (let b = char_code c in
      if c = CHR 0x22 \<or> c = CHR 0x5C then [CHR 0x5C, c]
      else if b = 8 then [CHR 0x5C, CHR ''b'']
      else if b = 9 then [CHR 0x5C, CHR ''t'']
      else if b = 10 then [CHR 0x5C, CHR ''n'']
      else if b = 12 then [CHR 0x5C, CHR ''f'']
      else if b = 13 then [CHR 0x5C, CHR ''r'']
      else if b < 32 \<or> c = CHR ''<'' \<or> c = CHR ''>'' \<or> c = CHR ''&''
      then [CHR 0x5C, CHR ''u'', CHR ''0'', CHR ''0'', hex_digit (b div 16), hex_digit (b mod 16)]
      else [c])"

text \<open>Longer runes stay, but for U+2028 and U+2029; a byte that starts no rune becomes \<open>\ufffd\<close>.\<close>

function json_runes :: "string \<Rightarrow> string" where
  "json_runes s =
     (if s = [] then []
      else if rune_width s = 0 then CHR 0x5C # ''ufffd'' @ json_runes (tl s)
      else if rune_width s = 1 then json_char (hd s) @ json_runes (tl s)
      else
        let rune = take (rune_width s) s in
        (if map char_code rune = [226, 128, 168] then CHR 0x5C # ''u2028''
         else if map char_code rune = [226, 128, 169] then CHR 0x5C # ''u2029''
         else rune) @ json_runes (drop (rune_width s) s))"
  by pat_completeness auto
termination by (relation "measure length") auto

declare json_runes.simps [simp del]

definition json_string :: "string \<Rightarrow> string" where
  "json_string s = CHR 0x22 # json_runes s @ [CHR 0x22]"

text \<open>The values of the parameters; \<open>json.Marshal\<close> writes the keys of a map in order, and a nil
  map as null. It cannot fail on these.\<close>

datatype rpc_param = ParamText string | ParamFlag bool

definition json_param :: "rpc_param \<Rightarrow> string" where
  "json_param p = (case p of ParamText s \<Rightarrow> json_string s | ParamFlag b \<Rightarrow> FormatBool b)"

definition json_object :: "(string \<times> string) list \<Rightarrow> string" where
  "json_object kvs = ''{'' @ join '','' (map (\<lambda>(k, v). json_string k @ '':'' @ v) (sort_key fst kvs)) @ ''}''"

definition json_params :: "(string \<times> rpc_param) list option \<Rightarrow> string" where
  "json_params params =
     (case params of None \<Rightarrow> ''null'' | Some ps \<Rightarrow> json_object (map (\<lambda>(k, p). (k, json_param p)) ps))"

definition request_body :: "string \<Rightarrow> (string \<times> rpc_param) list option \<Rightarrow> string" where
  "request_body rpc params = json_object
     [(''jsonrpc'', json_string ''2.0''), (''id'', ''1''), (''method'', json_string rpc),
      (''params'', json_params params)]"

section \<open>The client\<close>

record RpcGnoland =
  rg_rpcURL :: string
  rg_Timeout :: duration
  rg_userAgent :: "string option"

definition NewRpcClient :: "string \<Rightarrow> duration option \<Rightarrow> string option \<Rightarrow> goerror + RpcGnoland" where
  "NewRpcClient rpcURL timeout userAgent =
     (if rpcURL = [] then Inl (ErrMsg ''rpcURL is required'')
      else if \<not> has_prefix rpcURL ''http://'' \<and> \<not> has_prefix rpcURL ''https://''
      then Inl (ErrMsg ''rpcURL must start with http:// or https://'')
      else Inr \<lparr>rg_rpcURL = trim_suffix rpcURL ''/'',
                rg_Timeout = (case timeout of None \<Rightarrow> 10 * second | Some t \<Rightarrow> t),
                rg_userAgent = userAgent\<rparr>)"

record HttpRequest =
  hq_Method :: string
  hq_URL :: string
  hq_Header :: "(string \<times> string) list"
  hq_Body :: string

record HttpResponse =
  hs_StatusCode :: int
  hs_Status :: string
  hs_Body :: "goerror + string"

text \<open>One exchange: the error of a malformed URL, and what the node answers.\<close>

record HttpExchange =
  hx_badURL :: "string \<Rightarrow> goerror option"
  hx_Do :: "HttpRequest \<Rightarrow> goerror + HttpResponse"

definition rpc_request :: "RpcGnoland \<Rightarrow> string \<Rightarrow> (string \<times> rpc_param) list option \<Rightarrow> HttpRequest" where
  "rpc_request r rpc params =
     \<lparr>hq_Method = ''POST'', hq_URL = rg_rpcURL r,
      hq_Header = (''Content-Type'', ''application/json'')
        # (case rg_userAgent r of None \<Rightarrow> [] | Some ua \<Rightarrow> [(''User-Agent'', ua)]),
      hq_Body = request_body rpc params\<rparr>"

definition performRequest ::
  "HttpExchange \<Rightarrow> (string \<Rightarrow> goerror + 't) \<Rightarrow> RpcGnoland \<Rightarrow> string \<Rightarrow> (string \<times> rpc_param) list option
   \<Rightarrow> goerror + 't" where
  "performRequest x unmarshal r rpc params =
     (case hx_badURL x (rg_rpcURL r) of
        Some e \<Rightarrow> Inl (ErrWrap ''failed to create request'' e)
      | None \<Rightarrow>
          (case hx_Do x (rpc_request r rpc params) of
             Inl e \<Rightarrow> Inl (ErrWrap ''failed to perform request'' e)
           | Inr resp \<Rightarrow>
               (case hs_Body resp of
                  Inl e \<Rightarrow> Inl (ErrWrap ''failed to read response body'' e)
                | Inr body \<Rightarrow>
                    if hs_StatusCode resp \<noteq> 200
                    then Inl (ErrMsg (''http error '' @ hs_Status resp @ '': '' @ body))
                    else (case unmarshal body of
                        Inl e \<Rightarrow> Inl (ErrWrap ''failed to decode response'' e)
                      | Inr result \<Rightarrow> Inr result))))"

section \<open>Errors\<close>

record RpcHeightError =
  rhe_Height :: u64
  rhe_HasHeight :: bool
  rhe_Err :: goerror

record RpcStringError =
  rse_Value :: string
  rse_HasValue :: bool
  rse_Err :: goerror

record RpcCommitError =
  rce_Height :: u64
  rce_HasHeight :: bool
  rce_Err :: goerror

text \<open>\<open>fmt.Errorf("rpc error: %v, %s", ...)\<close>.\<close>

definition rpc_error :: "JsonRpcError \<Rightarrow> goerror" where
  "rpc_error e = ErrMsg (''rpc error: '' @ FormatInt (je_Code e) @ '', '' @ je_Message e)"

text \<open>A call that is checked for the error field of its answer.\<close>

definition checked_call ::
  "('t \<Rightarrow> JsonRpcError option) \<Rightarrow> goerror + 't \<Rightarrow> goerror + 't" where
  "checked_call error_of result =
     (case result of
        Inl e \<Rightarrow> Inl e
      | Inr response \<Rightarrow> (case error_of response of Some e \<Rightarrow> Inl (rpc_error e) | None \<Rightarrow> Inr response))"

definition height_error :: "u64 \<Rightarrow> goerror + 't \<Rightarrow> RpcHeightError + 't" where
  "height_error height result =
     (case result of Inl e \<Rightarrow> Inl \<lparr>rhe_Height = height, rhe_HasHeight = True, rhe_Err = e\<rparr> | Inr v \<Rightarrow> Inr v)"

section \<open>Methods\<close>

record HealthResponse =
  hr_Jsonrpc :: string
  hr_ID :: i64
  hr_Error :: "JsonRpcError option"

abbreviation height_params :: "u64 \<Rightarrow> (string \<times> rpc_param) list option" where
  "height_params height \<equiv> Some [(''height'', ParamText (FormatUint height))]"

definition rpc_Health :: "HttpExchange \<Rightarrow> (string \<Rightarrow> goerror + HealthResponse) \<Rightarrow> RpcGnoland \<Rightarrow> goerror option" where
  "rpc_Health x unmarshal r =
     (case checked_call hr_Error (performRequest x unmarshal r ''health'' None) of Inl e \<Rightarrow> Some e | Inr _ \<Rightarrow> None)"

definition rpc_GetValidators ::
  "HttpExchange \<Rightarrow> (string \<Rightarrow> goerror + ValidatorsResponse) \<Rightarrow> RpcGnoland \<Rightarrow> u64 \<Rightarrow> RpcHeightError + ValidatorsResponse" where
  "rpc_GetValidators x unmarshal r height =
     height_error height (checked_call vrs_Error (performRequest x unmarshal r ''validators'' (height_params height)))"

definition rpc_GetBlock ::
  "HttpExchange \<Rightarrow> (string \<Rightarrow> goerror + BlockResponse) \<Rightarrow> RpcGnoland \<Rightarrow> u64 \<Rightarrow> RpcHeightError + BlockResponse" where
  "rpc_GetBlock x unmarshal r height =
     height_error height (checked_call br_Error (performRequest x unmarshal r ''block'' (height_params height)))"

definition rpc_GetLatestBlockHeight ::
  "HttpExchange \<Rightarrow> (string \<Rightarrow> goerror + BlockResponse) \<Rightarrow> RpcGnoland \<Rightarrow> RpcHeightError + u64" where
  "rpc_GetLatestBlockHeight x unmarshal r =
     height_error 0 (bind_result (checked_call br_Error (performRequest x unmarshal r ''block'' None))
       (\<lambda>response. block_GetHeight (Some response)))"

definition rpc_GetTx ::
  "HttpExchange \<Rightarrow> (string \<Rightarrow> goerror + TxResponse) \<Rightarrow> RpcGnoland \<Rightarrow> string \<Rightarrow> RpcStringError + TxResponse" where
  "rpc_GetTx x unmarshal r txHash =
     (case checked_call tx_Error (performRequest x unmarshal r ''tx'' (Some [(''hash'', ParamText txHash)])) of
        Inl e \<Rightarrow> Inl \<lparr>rse_Value = txHash, rse_HasValue = True, rse_Err = e\<rparr>
      | Inr response \<Rightarrow> Inr response)"

definition rpc_GetCommit ::
  "HttpExchange \<Rightarrow> (string \<Rightarrow> goerror + CommitResponse) \<Rightarrow> RpcGnoland \<Rightarrow> u64 \<Rightarrow> RpcCommitError + CommitResponse" where
  "rpc_GetCommit x unmarshal r height =
     (case checked_call cr_Error (performRequest x unmarshal r ''commit'' (height_params height)) of
        Inl e \<Rightarrow> Inl \<lparr>rce_Height = height, rce_HasHeight = True, rce_Err = e\<rparr>
      | Inr response \<Rightarrow> Inr response)"

text \<open>An ABCI query decodes into a map and looks for the key \<open>error\<close>: here a null counts as an
  error, as the key is there. Values are texts.\<close>

definition rpc_GetAbciQuery ::
  "HttpExchange \<Rightarrow> (string \<Rightarrow> goerror + (string \<Rightarrow> string option)) \<Rightarrow> RpcGnoland \<Rightarrow> string \<Rightarrow> string
   \<Rightarrow> u64 option \<Rightarrow> bool option \<Rightarrow> goerror + string option" where
  "rpc_GetAbciQuery x unmarshal r path data height prove =
     (let params = [(''path'', ParamText path), (''data'', ParamText data)]
        @ (case height of None \<Rightarrow> [] | Some h \<Rightarrow> [(''height'', ParamText (FormatUint h))])
        @ (case prove of None \<Rightarrow> [] | Some p \<Rightarrow> [(''prove'', ParamFlag p)])
      in case performRequest x unmarshal r ''abci_query'' (Some params) of
           Inl e \<Rightarrow> Inl e
         | Inr response \<Rightarrow>
             (case response ''error'' of
                Some err \<Rightarrow> Inl (ErrMsg (''rpc error: '' @ err))
              | None \<Rightarrow> Inr (response ''result'')))"

section \<open>The rate-limited client\<close>

record RateLimitedRpcClient =
  rc_client :: RpcGnoland
  rc_rateLimiter :: ChannelRateLimiter

definition NewRateLimitedRpcClient ::
  "string \<Rightarrow> duration option \<Rightarrow> int \<Rightarrow> duration \<Rightarrow> string option \<Rightarrow> (goerror + RateLimitedRpcClient) outcome" where
  "NewRateLimitedRpcClient rpcURL timeout requestsPerWindow timeWindow userAgent =
     (case NewRpcClient rpcURL timeout userAgent of
        Inl e \<Rightarrow> Done (Inl e)
      | Inr client \<Rightarrow>
          (case NewChannelRateLimiter requestsPerWindow timeWindow of
             Inl e \<Rightarrow> Panic ''NewChannelRateLimiter''
           | Inr rateLimiter \<Rightarrow> Done (Inr \<lparr>rc_client = client, rc_rateLimiter = rateLimiter\<rparr>)))"

text \<open>A call waits for a token; it is \<open>None\<close> while there is none. A try asks for one and gives up.\<close>

definition waited :: "(RpcGnoland \<Rightarrow> 'a) \<Rightarrow> RateLimitedRpcClient \<Rightarrow> ('a \<times> RateLimitedRpcClient) option" where
  "waited call r = map_option (\<lambda>limiter. (call (rc_client r), r\<lparr>rc_rateLimiter := limiter\<rparr>)) (Wait (rc_rateLimiter r))"

definition tried :: "(RpcGnoland \<Rightarrow> 'a) \<Rightarrow> RateLimitedRpcClient \<Rightarrow> 'a option \<times> RateLimitedRpcClient" where
  "tried call r =
     (case Allow (rc_rateLimiter r) of
        (False, limiter) \<Rightarrow> (None, r\<lparr>rc_rateLimiter := limiter\<rparr>)
      | (True, limiter) \<Rightarrow> (Some (call (rc_client r)), r\<lparr>rc_rateLimiter := limiter\<rparr>))"

definition limited_Health ::
  "HttpExchange \<Rightarrow> (string \<Rightarrow> goerror + HealthResponse) \<Rightarrow> RateLimitedRpcClient
   \<Rightarrow> ((goerror option) \<times> RateLimitedRpcClient) option" where
  "limited_Health x unmarshal r = waited (\<lambda>c. rpc_Health x unmarshal c) r"

definition limited_GetValidators ::
  "HttpExchange \<Rightarrow> (string \<Rightarrow> goerror + ValidatorsResponse) \<Rightarrow> RateLimitedRpcClient \<Rightarrow> u64
   \<Rightarrow> ((RpcHeightError + ValidatorsResponse) \<times> RateLimitedRpcClient) option" where
  "limited_GetValidators x unmarshal r height = waited (\<lambda>c. rpc_GetValidators x unmarshal c height) r"

definition limited_GetBlock ::
  "HttpExchange \<Rightarrow> (string \<Rightarrow> goerror + BlockResponse) \<Rightarrow> RateLimitedRpcClient \<Rightarrow> u64
   \<Rightarrow> ((RpcHeightError + BlockResponse) \<times> RateLimitedRpcClient) option" where
  "limited_GetBlock x unmarshal r height = waited (\<lambda>c. rpc_GetBlock x unmarshal c height) r"

definition limited_GetLatestBlockHeight ::
  "HttpExchange \<Rightarrow> (string \<Rightarrow> goerror + BlockResponse) \<Rightarrow> RateLimitedRpcClient
   \<Rightarrow> ((RpcHeightError + u64) \<times> RateLimitedRpcClient) option" where
  "limited_GetLatestBlockHeight x unmarshal r = waited (\<lambda>c. rpc_GetLatestBlockHeight x unmarshal c) r"

definition limited_GetTx ::
  "HttpExchange \<Rightarrow> (string \<Rightarrow> goerror + TxResponse) \<Rightarrow> RateLimitedRpcClient \<Rightarrow> string
   \<Rightarrow> ((RpcStringError + TxResponse) \<times> RateLimitedRpcClient) option" where
  "limited_GetTx x unmarshal r txHash = waited (\<lambda>c. rpc_GetTx x unmarshal c txHash) r"

definition limited_GetCommit ::
  "HttpExchange \<Rightarrow> (string \<Rightarrow> goerror + CommitResponse) \<Rightarrow> RateLimitedRpcClient \<Rightarrow> u64
   \<Rightarrow> ((RpcCommitError + CommitResponse) \<times> RateLimitedRpcClient) option" where
  "limited_GetCommit x unmarshal r height = waited (\<lambda>c. rpc_GetCommit x unmarshal c height) r"

definition limited_GetAbciQuery ::
  "HttpExchange \<Rightarrow> (string \<Rightarrow> goerror + (string \<Rightarrow> string option)) \<Rightarrow> RateLimitedRpcClient \<Rightarrow> string \<Rightarrow> string
   \<Rightarrow> u64 option \<Rightarrow> bool option \<Rightarrow> ((goerror + string option) \<times> RateLimitedRpcClient) option" where
  "limited_GetAbciQuery x unmarshal r path data height prove =
     waited (\<lambda>c. rpc_GetAbciQuery x unmarshal c path data height prove) r"

definition TryHealth ::
  "HttpExchange \<Rightarrow> (string \<Rightarrow> goerror + HealthResponse) \<Rightarrow> RateLimitedRpcClient
   \<Rightarrow> (goerror option) option \<times> RateLimitedRpcClient" where
  "TryHealth x unmarshal r = tried (\<lambda>c. rpc_Health x unmarshal c) r"

definition TryGetValidators ::
  "HttpExchange \<Rightarrow> (string \<Rightarrow> goerror + ValidatorsResponse) \<Rightarrow> RateLimitedRpcClient \<Rightarrow> u64
   \<Rightarrow> (RpcHeightError + ValidatorsResponse) option \<times> RateLimitedRpcClient" where
  "TryGetValidators x unmarshal r height = tried (\<lambda>c. rpc_GetValidators x unmarshal c height) r"

definition TryGetBlock ::
  "HttpExchange \<Rightarrow> (string \<Rightarrow> goerror + BlockResponse) \<Rightarrow> RateLimitedRpcClient \<Rightarrow> u64
   \<Rightarrow> (RpcHeightError + BlockResponse) option \<times> RateLimitedRpcClient" where
  "TryGetBlock x unmarshal r height = tried (\<lambda>c. rpc_GetBlock x unmarshal c height) r"

definition TryGetLatestBlockHeight ::
  "HttpExchange \<Rightarrow> (string \<Rightarrow> goerror + BlockResponse) \<Rightarrow> RateLimitedRpcClient
   \<Rightarrow> (RpcHeightError + u64) option \<times> RateLimitedRpcClient" where
  "TryGetLatestBlockHeight x unmarshal r = tried (\<lambda>c. rpc_GetLatestBlockHeight x unmarshal c) r"

definition TryGetTx ::
  "HttpExchange \<Rightarrow> (string \<Rightarrow> goerror + TxResponse) \<Rightarrow> RateLimitedRpcClient \<Rightarrow> string
   \<Rightarrow> (RpcStringError + TxResponse) option \<times> RateLimitedRpcClient" where
  "TryGetTx x unmarshal r txHash = tried (\<lambda>c. rpc_GetTx x unmarshal c txHash) r"

definition TryGetCommit ::
  "HttpExchange \<Rightarrow> (string \<Rightarrow> goerror + CommitResponse) \<Rightarrow> RateLimitedRpcClient \<Rightarrow> u64
   \<Rightarrow> (RpcCommitError + CommitResponse) option \<times> RateLimitedRpcClient" where
  "TryGetCommit x unmarshal r height = tried (\<lambda>c. rpc_GetCommit x unmarshal c height) r"

definition TryGetAbciQuery ::
  "HttpExchange \<Rightarrow> (string \<Rightarrow> goerror + (string \<Rightarrow> string option)) \<Rightarrow> RateLimitedRpcClient \<Rightarrow> string \<Rightarrow> string
   \<Rightarrow> u64 option \<Rightarrow> bool option \<Rightarrow> (goerror + string option) option \<times> RateLimitedRpcClient" where
  "TryGetAbciQuery x unmarshal r path data height prove =
     tried (\<lambda>c. rpc_GetAbciQuery x unmarshal c path data height prove) r"

text \<open>Closing an open limiter cannot panic.\<close>

definition client_Close :: "RateLimitedRpcClient \<Rightarrow> RateLimitedRpcClient outcome" where
  "client_Close r =
     (case Close (rc_rateLimiter r) of
        Inl e \<Rightarrow> Panic ''close of closed channel''
      | Inr limiter \<Rightarrow> Done (r\<lparr>rc_rateLimiter := limiter\<rparr>))"

definition GetRateLimiterStatus :: "RateLimitedRpcClient \<Rightarrow> ChannelRateLimiterStatus" where
  "GetRateLimiterStatus r = GetStatus (rc_rateLimiter r)"

section \<open>What the node was asked and answered\<close>

text \<open>The exchange of a call: a request went out, and a 200 answer came back that decodes.\<close>

definition answered ::
  "HttpExchange \<Rightarrow> (string \<Rightarrow> goerror + 't) \<Rightarrow> RpcGnoland \<Rightarrow> string \<Rightarrow> (string \<times> rpc_param) list option \<Rightarrow> 't \<Rightarrow> bool" where
  "answered x unmarshal r rpc params v \<longleftrightarrow>
     hx_badURL x (rg_rpcURL r) = None
     \<and> (case hx_Do x (rpc_request r rpc params) of
          Inl e \<Rightarrow> False
        | Inr resp \<Rightarrow> hs_StatusCode resp = 200
            \<and> (case hs_Body resp of Inl e \<Rightarrow> False | Inr body \<Rightarrow> unmarshal body = Inr v))"

lemma performRequest_answered:
  "performRequest x unmarshal r rpc params = Inr v \<longleftrightarrow> answered x unmarshal r rpc params v"
  by (auto simp: performRequest_def answered_def split: option.splits sum.splits)

lemma checked_call_Inr [simp]:
  "checked_call error_of result = Inr v \<longleftrightarrow> result = Inr v \<and> error_of v = None"
  by (auto simp: checked_call_def split: sum.splits option.splits)

lemma height_error_Inr [simp]: "height_error h result = Inr v \<longleftrightarrow> result = Inr v"
  by (simp add: height_error_def split: sum.split)

lemma rpc_GetBlock_Inr:
  "rpc_GetBlock x unmarshal r h = Inr b \<longleftrightarrow> answered x unmarshal r ''block'' (height_params h) b \<and> br_Error b = None"
  by (simp add: rpc_GetBlock_def performRequest_answered)

text \<open>Text that JSON does not escape.\<close>

definition json_plain :: "char \<Rightarrow> bool" where
  "json_plain c \<longleftrightarrow> 32 \<le> char_code c \<and> char_code c < 128 \<and> c \<notin> set ''<>&'' \<and> c \<noteq> CHR 0x22 \<and> c \<noteq> CHR 0x5C"

lemma json_runes_plain: "list_all json_plain s \<Longrightarrow> json_runes s = s"
proof (induction s)
  case (Cons c s)
  then have "rune_start c = Some (1, 0, 255)" by (simp add: rune_start_def json_plain_def)
  moreover have "json_char c = [c]" using Cons.prems by (auto simp: json_char_def json_plain_def Let_def)
  ultimately show ?case using Cons by (simp add: json_runes.simps [of "c # s"])
qed (simp add: json_runes.simps)

lemma digits_plain: "list_all json_plain (FormatUint h)"
proof -
  have "is_digit c \<Longrightarrow> json_plain c" for c
    by (auto simp: char_class json_plain_def)
  then show ?thesis using show_nat_digits by (auto simp: FormatUint_def list_all_iff)
qed

lemma string_plain [simp]: "list_all json_plain s \<Longrightarrow> json_string s = CHR 0x22 # s @ [CHR 0x22]"
  by (simp add: json_string_def json_runes_plain)

lemma key_texts:
  "json_string ''jsonrpc'' = ''\"jsonrpc\"''" "json_string ''2.0'' = ''\"2.0\"''" "json_string ''id'' = ''\"id\"''"
  "json_string ''method'' = ''\"method\"''" "json_string ''params'' = ''\"params\"''"
  "json_string ''block'' = ''\"block\"''" "json_string ''height'' = ''\"height\"''"
  by (simp_all add: json_plain_def char_code_def)

lemma height_body:
  "request_body ''block'' (height_params h) =
     ''{\"id\":1,\"jsonrpc\":\"2.0\",\"method\":\"block\",\"params\":{\"height\":\"'' @ FormatUint h @ ''\"}}''"
proof -
  have "sort_key fst [(''jsonrpc'', a), (''id'', b), (''method'', c), (''params'', d)] =
      [(''id'', b), (''jsonrpc'', a), (''method'', c), (''params'', d)]" for a b c d :: string
    by simp
  then show ?thesis
    by (simp add: request_body_def json_object_def json_params_def json_param_def digits_plain key_texts)
qed

section \<open>Fetching over the client\<close>

text \<open>The client as the query operator sees it: each attempt for a height is an exchange of its own.\<close>

definition client_GetBlock ::
  "(u64 \<Rightarrow> nat \<Rightarrow> HttpExchange) \<Rightarrow> (string \<Rightarrow> goerror + BlockResponse) \<Rightarrow> RpcGnoland
   \<Rightarrow> u64 \<Rightarrow> nat \<Rightarrow> goerror + BlockResponse option" where
  "client_GetBlock xs unmarshal r height i =
     (case rpc_GetBlock (xs height i) unmarshal r height of Inl e \<Rightarrow> Inl (rhe_Err e) | Inr b \<Rightarrow> Inr (Some b))"

definition block_answer ::
  "HttpExchange \<Rightarrow> (string \<Rightarrow> goerror + BlockResponse) \<Rightarrow> RpcGnoland \<Rightarrow> u64 \<Rightarrow> BlockResponse \<Rightarrow> bool" where
  "block_answer x unmarshal r h b \<longleftrightarrow> answered x unmarshal r ''block'' (height_params h) b \<and> br_Error b = None"

lemma client_GetBlock_Inr:
  "client_GetBlock xs unmarshal r h i = Inr v \<longleftrightarrow> (\<exists>b. v = Some b \<and> block_answer (xs h i) unmarshal r h b)"
  by (auto simp: client_GetBlock_def block_answer_def split: sum.split simp flip: rpc_GetBlock_Inr)

lemma client_GetBlock_isl:
  "isl (client_GetBlock xs unmarshal r h i) \<longleftrightarrow> (\<forall>b. \<not> block_answer (xs h i) unmarshal r h b)"
  using client_GetBlock_Inr [of xs unmarshal r h i]
  by (cases "client_GetBlock xs unmarshal r h i") auto

lemma fetched_client:
  "case fetched retries (client_GetBlock xs unmarshal r) h of
     Some b \<Rightarrow> \<exists>k\<le>nat retries. block_answer (xs h k) unmarshal r h b
                \<and> (\<forall>j<k. \<forall>b'. \<not> block_answer (xs h j) unmarshal r h b')
   | None \<Rightarrow> \<forall>k\<le>nat retries. \<forall>b. \<not> block_answer (xs h k) unmarshal r h b"
proof (cases "first_success (client_GetBlock xs unmarshal r h) (Suc (nat retries))")
  case None
  then have "\<forall>k\<le>nat retries. isl (client_GetBlock xs unmarshal r h k)"
    by (simp only: first_success_None_iff less_Suc_eq_le)
  then show ?thesis by (simp add: fetched_def None client_GetBlock_isl)
next
  case (Some v)
  let ?get = "client_GetBlock xs unmarshal r h"
  from Some obtain k where k: "k < Suc (nat retries)" "\<not> isl (?get k)" "\<forall>j<k. isl (?get j)" "v = projr (?get k)"
    by (auto simp: first_success_def find_Some_iff simp del: upt_Suc)
  then have "?get k = Inr v" by (cases "?get k") simp_all
  then obtain b where b: "v = Some b" "block_answer (xs h k) unmarshal r h b"
    unfolding client_GetBlock_Inr by blast
  have "\<forall>j<k. \<forall>b'. \<not> block_answer (xs h j) unmarshal r h b'" using k(3) by (simp only: client_GetBlock_isl)
  then have "\<exists>k\<le>nat retries. block_answer (xs h k) unmarshal r h b
      \<and> (\<forall>j<k. \<forall>b'. \<not> block_answer (xs h j) unmarshal r h b')"
    using k(1) b(2) by (metis less_Suc_eq_le)
  then show ?thesis by (simp only: fetched_def Some b(1) option.case)
qed

section \<open>Property\<close>

text \<open>C12: fetching a range over the RPC client returns one slot per height; a slot holds a block
  exactly when an attempt for its height got a 200 answer that decodes and carries no RPC error,
  and then the block of the first such attempt; each attempt is a POST whose body names the height.\<close>

theorem blocks_from_node:
  assumes "fromH \<le> toH" and "unat toH - unat fromH < 2 ^ 63 - 1"
    and "schedule sched (unat toH - unat fromH + 1)"
  shows "\<exists>slots. GetFromToBlocks (NewQueryOperator ra p pt eb) sched (client_GetBlock xs unmarshal r) fromH toH = Done slots
    \<and> length slots = unat toH - unat fromH + 1
    \<and> (\<forall>i<length slots. let h = fromH + of_nat i in
        hq_Body (rpc_request r ''block'' (height_params h))
          = ''{\"id\":1,\"jsonrpc\":\"2.0\",\"method\":\"block\",\"params\":{\"height\":\"'' @ FormatUint h @ ''\"}}''
        \<and> (case slots ! i of
             Some b \<Rightarrow> \<exists>k\<le>nat (or_default ra 6). block_answer (xs h k) unmarshal r h b
                        \<and> (\<forall>j<k. \<forall>b'. \<not> block_answer (xs h j) unmarshal r h b')
           | None \<Rightarrow> \<forall>k\<le>nat (or_default ra 6). \<forall>b. \<not> block_answer (xs h k) unmarshal r h b))"
proof -
  have "GetFromToBlocks (NewQueryOperator ra p pt eb) sched (client_GetBlock xs unmarshal r) fromH toH =
    Done (map (\<lambda>i. fetched (or_default ra 6) (client_GetBlock xs unmarshal r) (fromH + of_nat i))
      [0..<unat toH - unat fromH + 1])"
    unfolding GetFromToBlocks_def
    using fetch_range_Done [OF NewQueryOperator_pause assms, of ra p pt eb]
    by (simp add: NewQueryOperator_def)
  then show ?thesis
    by (simp add: Let_def rpc_request_def height_body fetched_client nth_append del: upt_Suc)
qed

text \<open>A node that is down at the first attempt, knows one block, and answers an RPC error otherwise.\<close>

definition sample_header :: BlockHeader where
  "sample_header = \<lparr>bh_Version = [], bh_ChainID = ''c'', bh_Height = ''8'', bh_Time = 0, bh_NumTxs = ''0'',
     bh_TotalTxs = ''0'', bh_AppVersion = [], bh_LastBlockID = \<lparr>bid_Hash = [], bid_Parts = \<lparr>pt_Total = ''1'', pt_Hash = []\<rparr>\<rparr>,
     bh_LastCommitHash = [], bh_DataHash = [], bh_ValidatorsHash = [], bh_NextValidatorsHash = [],
     bh_ConsensusHash = [], bh_AppHash = [], bh_LastResultsHash = None, bh_ProposerAddress = []\<rparr>"

definition sample_answer :: "JsonRpcError option \<Rightarrow> BlockResponse" where
  "sample_answer err = \<lparr>br_Jsonrpc = ''2.0'', br_ID = 1, br_Error = err,
     br_Result = \<lparr>brs_BlockMeta = \<lparr>bm_BlockID = bh_LastBlockID sample_header, bm_Header = sample_header\<rparr>,
       brs_Block = \<lparr>bi_Header = sample_header, bi_Data = \<lparr>bd_Txs = None\<rparr>,
         bi_LastCommit = \<lparr>lc_BlockID = bh_LastBlockID sample_header, lc_Precommits = []\<rparr>\<rparr>\<rparr>\<rparr>"

definition sample_node :: "u64 \<Rightarrow> nat \<Rightarrow> HttpExchange" where
  "sample_node h i = \<lparr>hx_badURL = (\<lambda>u. None),
     hx_Do = (\<lambda>q. if i = 0 then Inl (ErrMsg ''connection refused'')
                 else Inr \<lparr>hs_StatusCode = 200, hs_Status = ''200 OK'', hs_Body = Inr (if h = 8 then ''known'' else [])\<rparr>)\<rparr>"

definition sample_unmarshal :: "string \<Rightarrow> goerror + BlockResponse" where
  "sample_unmarshal body = Inr (sample_answer (if body = ''known'' then None else Some \<lparr>je_Code = 5, je_Message = []\<rparr>))"

definition sample_client :: RpcGnoland where
  "sample_client = \<lparr>rg_rpcURL = ''http://n'', rg_Timeout = 1, rg_userAgent = None\<rparr>"

lemma sample_block_answer:
  "block_answer (sample_node h k) sample_unmarshal sample_client h b \<longleftrightarrow> k \<noteq> 0 \<and> h = 8 \<and> b = sample_answer None"
  by (auto simp: block_answer_def answered_def sample_node_def sample_unmarshal_def) (auto simp: sample_answer_def)

lemma blocks_from_node_witness:
  "GetFromToBlocks (NewQueryOperator None None None None) [1, 0]
      (client_GetBlock sample_node sample_unmarshal sample_client) 8 9 = Done [Some (sample_answer None), None]"
proof -
  have le: "(8 :: u64) \<le> 9" and small: "unat (9 :: u64) - unat (8 :: u64) < 2 ^ 63 - 1" by simp_all
  have sched: "schedule [1, 0] (unat (9 :: u64) - unat (8 :: u64) + 1)"
    by (simp add: schedule_def add_mset_commute upt_conv_Cons)
  obtain slots where slots: "GetFromToBlocks (NewQueryOperator None None None None) [1, 0]
      (client_GetBlock sample_node sample_unmarshal sample_client) 8 9 = Done slots"
    and n: "length slots = unat (9 :: u64) - unat (8 :: u64) + 1"
    and at: "\<And>i. i < length slots \<Longrightarrow> case slots ! i of
        Some b \<Rightarrow> \<exists>k\<le>nat (or_default None 6). block_answer (sample_node (8 + of_nat i) k) sample_unmarshal sample_client (8 + of_nat i) b
            \<and> (\<forall>j<k. \<forall>b'. \<not> block_answer (sample_node (8 + of_nat i) j) sample_unmarshal sample_client (8 + of_nat i) b')
      | None \<Rightarrow> \<forall>k\<le>nat (or_default None 6). \<forall>b.
          \<not> block_answer (sample_node (8 + of_nat i) k) sample_unmarshal sample_client (8 + of_nat i) b"
    using blocks_from_node [OF le small sched, of None None None None sample_node sample_unmarshal sample_client]
    unfolding Let_def by blast
  have len: "length slots = 2" using n by simp
  have "slots ! 0 = Some (sample_answer None)" using at [of 0]
    by (auto simp: len sample_block_answer or_default_def split: option.splits)
  moreover have "slots ! 1 = None" using at [of 1]
    by (auto simp: len sample_block_answer split: option.splits)
  ultimately have "slots = [Some (sample_answer None), None]"
    using len by (intro nth_equalityI) (auto simp: less_2_cases_iff)
  with slots show ?thesis by simp
qed

end
