(* ===== verification/Main_Operator.thy ===== *)
theory Main_Operator
  imports Indexer_Config Orchestrator_Store Processor_Witness Rpc_Client
begin

text \<open>
  Starting the indexer: the run commands (\<open>indexer/cli/run.go\<close>, \<open>live.go\<close>, \<open>historic.go\<close>,
  \<open>root.go\<close>), the flags (\<open>indexer/main_types\<close>) and the main operator (\<open>indexer/main_operator\<close>), which
  puts the components together and runs the orchestrator. What the outside world supplies (files,
  environment, node, scheduler) is one record.
\<close>

section \<open>Flags\<close>

record RpcFlags =
  rpf_RequestsPerWindow :: int
  rpf_Timeout :: duration
  rpf_TimeWindow :: duration

record RunningFlags =
  rnf_RunningMode :: string
  rnf_SkipInitialDbCheck :: bool
  rnf_CompressEvents :: bool
  rnf_FromHeight :: u64
  rnf_ToHeight :: u64

definition allowedLogLevels :: "string list" where
  "allowedLogLevels = [''debug'', ''info'', ''warn'', ''error'', ''fatal'']"

text \<open>The check every command starts with.\<close>

definition check_log_level :: "string \<Rightarrow> goerror option" where
  "check_log_level logLevelStr =
     (if logLevelStr \<in> set allowedLogLevels then None else Some (ErrMsg (''invalid log level '' @ logLevelStr)))"

definition live_flags :: "bool \<Rightarrow> bool \<Rightarrow> RunningFlags" where
  "live_flags skipDbCheck compressEvents =
     \<lparr>rnf_RunningMode = ''live'', rnf_SkipInitialDbCheck = skipDbCheck, rnf_CompressEvents = compressEvents,
      rnf_FromHeight = 0, rnf_ToHeight = 0\<rparr>"

definition historic_flags :: "u64 \<Rightarrow> u64 \<Rightarrow> bool \<Rightarrow> RunningFlags" where
  "historic_flags fromHeight toHeight compressEvents =
     \<lparr>rnf_RunningMode = ''historic'', rnf_SkipInitialDbCheck = False, rnf_CompressEvents = compressEvents,
      rnf_FromHeight = fromHeight, rnf_ToHeight = toHeight\<rparr>"

section \<open>The components\<close>

text \<open>The world: configuration files, the opener of pools, the query behind the transaction hashes,
  codecs, iteration orders and schedules of the data processor, the hash function; and what a run
  meets, which depends on the client and the query operator it uses.\<close>

record ('p, 'f) indexer_world =
  wd_readFile :: "string \<Rightarrow> goerror + string"
  wd_unmarshal :: "string \<Rightarrow> Config \<times> goerror option"
  wd_env :: env_files
  wd_connect :: "'p opener"
  wd_query :: "table_store returning_op"
  wd_codecs :: "'f Codecs"
  wd_orders :: Orders
  wd_sched :: "nat \<Rightarrow> nat list"
  wd_sha256 :: "byte list \<Rightarrow> byte list"
  wd_chunk :: "QueryOperator \<Rightarrow> RateLimitedRpcClient \<Rightarrow> nat \<Rightarrow> ChunkEnv"
  wd_live :: "QueryOperator \<Rightarrow> RateLimitedRpcClient \<Rightarrow> LiveInput list"
  wd_cancelled :: "nat \<Rightarrow> bool"
  wd_lastHeight :: "indexer_db \<Rightarrow> string \<Rightarrow> goerror + u64"
  wd_latest :: "RateLimitedRpcClient \<Rightarrow> goerror + u64"
  wd_files :: state_files

record 'p MajorConstructors =
  mc_db :: 'p
  mc_gnoRpcClient :: RateLimitedRpcClient
  mc_validatorCache :: AddressCache
  mc_addressCache :: AddressCache
  mc_dataProcessor :: DataProcessor
  mc_queryOperator :: QueryOperator

text \<open>The limits of the rate limiter: zero means the default, a negative window ends the process.\<close>

definition rpc_limits :: "RpcFlags \<Rightarrow> (int \<times> duration) outcome" where
  "rpc_limits f =
     (let requests = (if rpf_RequestsPerWindow f = 0 then 10000000 else rpf_RequestsPerWindow f) in
      if rpf_TimeWindow f = 0 then Done (requests, minute)
      else if rpf_TimeWindow f \<le> 0 then Exit 1
      else Done (requests, rpf_TimeWindow f))"

definition initializeMajorConstructors ::
  "('p, 'f) indexer_world \<Rightarrow> Config \<Rightarrow> Environment \<Rightarrow> string \<Rightarrow> RpcFlags \<Rightarrow> indexer_db
   \<Rightarrow> ('p MajorConstructors \<times> indexer_db) outcome" where
  "initializeMajorConstructors w conf env chainName rpcFlags db =
     bind_outcome (rpc_limits rpcFlags) (\<lambda>(requestsPerWindow, timeWindow).
     bind_outcome (initializeDatabase (wd_connect w) conf env) (\<lambda>pool.
     bind_outcome (NewRateLimitedRpcClient (cf_RpcUrl conf) None requestsPerWindow timeWindow (cf_UserAgent conf)) (\<lambda>r.
       case r of
         Inl e \<Rightarrow> Exit 1
       | Inr gnoRpcClient \<Rightarrow>
           bind_outcome (NewAddressCache ix_load chainName True db) (\<lambda>(validatorCache, db).
           bind_outcome (NewAddressCache ix_load chainName False db) (\<lambda>(addressCache, db).
             Done (\<lparr>mc_db = pool, mc_gnoRpcClient = gnoRpcClient, mc_validatorCache = validatorCache,
                    mc_addressCache = addressCache,
                    mc_dataProcessor = NewDataProcessor addressCache validatorCache chainName,
                    mc_queryOperator = NewQueryOperator (cf_RetryAmount conf) (cf_Pause conf) (cf_PauseTime conf)
                      (cf_ExponentialBackoff conf)\<rparr>, db))))))"

text \<open>Closing down: the pool (with the closing function of the library), then the client.\<close>

definition mc_cleanup :: "('p \<Rightarrow> 'p) \<Rightarrow> 'p MajorConstructors \<Rightarrow> 'p MajorConstructors outcome" where
  "mc_cleanup close mc =
     bind_outcome (client_Close (mc_gnoRpcClient mc)) (\<lambda>client.
       Done (mc\<lparr>mc_db := close (mc_db mc), mc_gnoRpcClient := client\<rparr>))"

section \<open>The main operator\<close>

text \<open>How a run ends; the run itself has fuel, as the historic loop has.\<close>

datatype run_result =
    LiveEnd (live_end: "indexer_db dp_state LiveState")
  | HistoricEnd (historic_end: "Orchestrator \<times> indexer_db dp_state")

primrec result_store :: "run_result \<Rightarrow> indexer_db dp_state" where
  "result_store (LiveEnd st) = lv_state st"
| "result_store (HistoricEnd r) = snd r"

definition run_mode ::
  "nat \<Rightarrow> ('p, 'f) indexer_world \<Rightarrow> RunningFlags \<Rightarrow> Orchestrator \<Rightarrow> 'p MajorConstructors \<Rightarrow> indexer_db
   \<Rightarrow> run_result outcome option" where
  "run_mode fuel w flags orch mc db =
     (let processor = ix_processor (wd_query w) (wd_codecs w) (wd_orders w) (wd_sched w);
          state = (mc_dataProcessor mc, db) in
      if rnf_RunningMode flags = ''live'' then
        Some (bind_outcome
          (LiveProcess processor (wd_sha256 w) (wd_lastHeight w db) (wd_latest w (mc_gnoRpcClient mc))
             (rnf_SkipInitialDbCheck flags) (rnf_CompressEvents flags)
             (wd_live w (mc_queryOperator mc) (mc_gnoRpcClient mc)) orch (wd_files w) state)
          (\<lambda>st. Done (LiveEnd st)))
      else if rnf_RunningMode flags = ''historic'' then
        (if rnf_FromHeight flags = 0 \<or> rnf_ToHeight flags = 0 then Some (Exit 1)
         else if rnf_FromHeight flags > rnf_ToHeight flags then Some (Exit 1)
         else map_option (\<lambda>r. bind_outcome r (\<lambda>x. Done (HistoricEnd x)))
           (HistoricProcess fuel processor (wd_sha256 w) (wd_chunk w (mc_queryOperator mc) (mc_gnoRpcClient mc))
              (wd_cancelled w) (rnf_FromHeight flags) (rnf_ToHeight flags) (rnf_CompressEvents flags) (orch, state)))
      else Some (Exit 1))"

definition InitMainOperator ::
  "nat \<Rightarrow> ('p, 'f) indexer_world \<Rightarrow> string \<Rightarrow> string \<Rightarrow> RpcFlags \<Rightarrow> RunningFlags \<Rightarrow> indexer_db
   \<Rightarrow> run_result outcome option" where
  "InitMainOperator fuel w configPath envPath rpcFlags runningFlags db =
     (case LoadConfig (wd_readFile w) (wd_unmarshal w) configPath of
        Inl e \<Rightarrow> Some (Exit 1)
      | Inr conf \<Rightarrow>
          (case LoadEnvironment (wd_env w) envPath of
             Inl e \<Rightarrow> Some (Exit 1)
           | Inr env \<Rightarrow>
               (let chainName = cf_ChainName conf in
                case initializeMajorConstructors w conf env chainName rpcFlags db of
                  Panic m \<Rightarrow> Some (Panic m)
                | Exit c \<Rightarrow> Some (Exit c)
                | Done (mc, db) \<Rightarrow>
                    (case NewOrchestrator (rnf_RunningMode runningFlags) (cf_MaxBlockChunkSize conf) chainName of
                       Panic m \<Rightarrow> Some (Panic m)
                     | Exit c \<Rightarrow> Some (Exit c)
                     | Done orch \<Rightarrow> run_mode fuel w runningFlags orch mc db))))"

text \<open>The run commands, with the values of their flags.\<close>

definition launchIndexer ::
  "nat \<Rightarrow> ('p, 'f) indexer_world \<Rightarrow> string \<Rightarrow> RpcFlags \<Rightarrow> RunningFlags \<Rightarrow> indexer_db \<Rightarrow> run_result outcome option" where
  "launchIndexer fuel w configPath rpcFlags runningFlags db =
     InitMainOperator fuel w configPath ''.'' rpcFlags runningFlags db"

definition runLive ::
  "nat \<Rightarrow> ('p, 'f) indexer_world \<Rightarrow> string \<Rightarrow> RpcFlags \<Rightarrow> bool \<Rightarrow> bool \<Rightarrow> indexer_db \<Rightarrow> run_result outcome option" where
  "runLive fuel w configPath rpcFlags skipDbCheck compressEvents db =
     launchIndexer fuel w configPath rpcFlags (live_flags skipDbCheck compressEvents) db"

definition runHistoric ::
  "nat \<Rightarrow> ('p, 'f) indexer_world \<Rightarrow> string \<Rightarrow> RpcFlags \<Rightarrow> u64 \<Rightarrow> u64 \<Rightarrow> bool \<Rightarrow> indexer_db \<Rightarrow> run_result outcome option" where
  "runHistoric fuel w configPath rpcFlags fromHeight toHeight compressEvents db =
     launchIndexer fuel w configPath rpcFlags (historic_flags fromHeight toHeight compressEvents) db"

section \<open>What a run starts from\<close>

lemma rpc_limits_Done_iff:
  "rpc_limits f = Done (r, t) \<longleftrightarrow>
     0 \<le> rpf_TimeWindow f \<and> t = (if rpf_TimeWindow f = 0 then minute else rpf_TimeWindow f)
     \<and> r = (if rpf_RequestsPerWindow f = 0 then 10000000 else rpf_RequestsPerWindow f)"
  by (auto simp: rpc_limits_def Let_def)

lemma NewChannelRateLimiter_Inr: "NewChannelRateLimiter r t = Inr l \<Longrightarrow> 0 < r \<and> r \<le> t"
  by (auto simp: NewChannelRateLimiter_def split: if_splits)

lemma NewRateLimitedRpcClient_Inr:
  assumes "NewRateLimitedRpcClient url timeout r t agent = Done (Inr client)"
  shows "NewRpcClient url timeout agent = Inr (rc_client client)" "0 < r" "r \<le> t"
  using assms by (auto simp: NewRateLimitedRpcClient_def split: sum.splits dest: NewChannelRateLimiter_Inr)

lemma client_timeout: "NewRpcClient url None agent = Inr c \<Longrightarrow> rg_Timeout c = 10 * second"
  by (auto simp: NewRpcClient_def split: if_splits)

text \<open>The components of a start that succeeds.\<close>

lemma major_constructors:
  assumes "initializeMajorConstructors w conf env chainName rpcFlags db = Done (mc, db')"
  obtains vdb pool where
    "NewAddressCache ix_load chainName True db = Done (mc_validatorCache mc, vdb)"
    "NewAddressCache ix_load chainName False vdb = Done (mc_addressCache mc, db')"
    "mc_dataProcessor mc = NewDataProcessor (mc_addressCache mc) (mc_validatorCache mc) chainName"
    "rpc_limits rpcFlags = Done pool"
    "NewRateLimitedRpcClient (cf_RpcUrl conf) None (fst pool) (snd pool) (cf_UserAgent conf) = Done (Inr (mc_gnoRpcClient mc))"
    "wd_connect w (buildDSN (indexer_dbConfig conf env)) = Inr (mc_db mc)"
    "mc_queryOperator mc = NewQueryOperator (cf_RetryAmount conf) (cf_Pause conf) (cf_PauseTime conf) (cf_ExponentialBackoff conf)"
  using assms
  apply (auto simp: initializeMajorConstructors_def initializeDatabase_def NewTimescaleDb_def connectToDb_def
      split: sum.split_asm if_split_asm)
  subgoal for a b x r by (cases r) auto
  done

text \<open>The caches of a fresh start hold what the tables hold.\<close>

lemma start_store_ok:
  assumes "initializeMajorConstructors w conf env chainName rpcFlags db = Done (mc, db')" and "db_inv (ix_addr db)"
  shows "store_ok (mc_dataProcessor mc, db')"
  using assms(1) by (rule major_constructors) (simp add: loaded_caches_ok [OF _ _ assms(2)])

lemma InitMainOperator_Done:
  assumes "InitMainOperator fuel w configPath envPath rpcFlags flags db = Some (Done r)"
  obtains conf env mc db' orch where
    "LoadConfig (wd_readFile w) (wd_unmarshal w) configPath = Inr conf"
    "initializeMajorConstructors w conf env (cf_ChainName conf) rpcFlags db = Done (mc, db')"
    "NewOrchestrator (rnf_RunningMode flags) (cf_MaxBlockChunkSize conf) (cf_ChainName conf) = Done orch"
    "run_mode fuel w flags orch mc db' = Some (Done r)"
  using assms by (auto simp: InitMainOperator_def Let_def split: sum.splits outcome.splits)

lemma run_mode_store:
  assumes "run_mode fuel w flags orch mc db = Some (Done r)" and "store_ok (mc_dataProcessor mc, db)"
  shows "store_ok (result_store r)"
  using assms(1)
  by (auto simp: run_mode_def Let_def split: if_splits
      intro: ixp.LiveProcess_ok [OF assms(2)] ixp.HistoricProcess_ok [OF assms(2)])

section \<open>Properties\<close>

text \<open>C7: from a database whose address tables are sound, a whole run of the indexer in either mode,
  from reading the configuration to the end of the orchestrator, ends with sound tables and with
  both address caches holding only identities the tables record.\<close>
theorem indexer_keeps_caches:
  assumes "InitMainOperator fuel w configPath envPath rpcFlags flags db = Some (Done r)"
    and "db_inv (ix_addr db)"
  shows "store_ok (result_store r)"
  using assms(1) by (rule InitMainOperator_Done) (rule run_mode_store, assumption, rule start_store_ok [OF _ assms(2)])

text \<open>C40: a run that ends normally had a configuration with an http or https address of the node and
  the name of a chain, limits with which the rate limiter works (at least one request and at least a
  nanosecond for each), one of the two modes, and in historic mode a range of positive heights.\<close>
theorem indexer_start_conditions:
  assumes "InitMainOperator fuel w configPath envPath rpcFlags flags db = Some (Done r)"
  shows "\<exists>conf limits. LoadConfig (wd_readFile w) (wd_unmarshal w) configPath = Inr conf
      \<and> (has_prefix (cf_RpcUrl conf) ''http://'' \<or> has_prefix (cf_RpcUrl conf) ''https://'') \<and> cf_ChainName conf \<noteq> []
      \<and> rpc_limits rpcFlags = Done limits \<and> 0 < fst limits \<and> fst limits \<le> snd limits
      \<and> (rnf_RunningMode flags = ''live'' \<and> (\<exists>st. r = LiveEnd st)
         \<or> rnf_RunningMode flags = ''historic'' \<and> 0 < rnf_FromHeight flags \<and> rnf_FromHeight flags \<le> rnf_ToHeight flags
           \<and> (\<exists>x. r = HistoricEnd x))"
  using assms
proof (rule InitMainOperator_Done)
  fix conf env mc db' orch
  assume conf: "LoadConfig (wd_readFile w) (wd_unmarshal w) configPath = Inr conf"
    and mc: "initializeMajorConstructors w conf env (cf_ChainName conf) rpcFlags db = Done (mc, db')"
    and run: "run_mode fuel w flags orch mc db' = Some (Done r)"
  have mode: "rnf_RunningMode flags = ''live'' \<and> (\<exists>st. r = LiveEnd st)
      \<or> rnf_RunningMode flags = ''historic'' \<and> 0 < rnf_FromHeight flags \<and> rnf_FromHeight flags \<le> rnf_ToHeight flags
           \<and> (\<exists>x. r = HistoricEnd x)"
    using run by (auto simp: run_mode_def Let_def word_gt_0 split: if_splits)
  show ?thesis
    using mc
  proof (rule major_constructors)
    fix limits
    assume "rpc_limits rpcFlags = Done limits"
      and "NewRateLimitedRpcClient (cf_RpcUrl conf) None (fst limits) (snd limits) (cf_UserAgent conf) = Done (Inr (mc_gnoRpcClient mc))"
    then show ?thesis
      using conf mode LoadConfig_valid [OF conf] NewRateLimitedRpcClient_Inr(2,3) by blast
  qed
qed

text \<open>The timeout of the command line has no effect: runs that differ only in it are the same, and
  the client of every run waits ten seconds for the node.\<close>
theorem timeout_flag_ignored:
  "InitMainOperator fuel w configPath envPath (rpcFlags\<lparr>rpf_Timeout := t\<rparr>) flags db
     = InitMainOperator fuel w configPath envPath rpcFlags flags db
   \<and> (initializeMajorConstructors w conf env chainName rpcFlags db = Done (mc, db')
      \<longrightarrow> rg_Timeout (rc_client (mc_gnoRpcClient mc)) = 10 * second)"
proof
  have "initializeMajorConstructors w c e n (rpcFlags\<lparr>rpf_Timeout := t\<rparr>) db = initializeMajorConstructors w c e n rpcFlags db" for c e n
    by (simp add: initializeMajorConstructors_def rpc_limits_def Let_def)
  then show "InitMainOperator fuel w configPath envPath (rpcFlags\<lparr>rpf_Timeout := t\<rparr>) flags db
     = InitMainOperator fuel w configPath envPath rpcFlags flags db"
    unfolding InitMainOperator_def Let_def by (simp only:)
  show "initializeMajorConstructors w conf env chainName rpcFlags db = Done (mc, db')
      \<longrightarrow> rg_Timeout (rc_client (mc_gnoRpcClient mc)) = 10 * second"
    by (blast elim: major_constructors dest: NewRateLimitedRpcClient_Inr(1) client_timeout)
qed

section \<open>The properties at a concrete start\<close>

definition sample_environment :: Environment where
  "sample_environment =
     \<lparr>en_Host = ''localhost'', en_Port = 5432, en_User = ''writer'', en_Sslmode = ''disable'', en_SslRootCert = [],
      en_SslCert = [], en_SslKey = [], en_Password = ''secret'', en_Dbname = ''gnoland''\<rparr>"

text \<open>A world with the default configuration, no environment file and a node at height 5.\<close>

definition sample_world :: "(string, unit) indexer_world" where
  "sample_world =
     \<lparr>wd_readFile = (\<lambda>p. Inr ''yaml''), wd_unmarshal = (\<lambda>y. (default_config, None)),
      wd_env = \<lparr>ef_exists = (\<lambda>p. False), ef_join = (\<lambda>a b. a @ ''/'' @ b), ef_abs = Inr, ef_load = (\<lambda>p. None),
        ef_parse = Inr sample_environment\<rparr>,
      wd_connect = Inr, wd_query = (\<lambda>h t c db. (Inr [], db)), wd_codecs = sample_codecs, wd_orders = plain_orders,
      wd_sched = (\<lambda>n. [0..<n]), wd_sha256 = id,
      wd_chunk = (\<lambda>q c n. query_env q (\<lambda>n. [0..<n]) (\<lambda>h i. Inr None) (\<lambda>h i. Inr None) (\<lambda>h i. Inr None) [] []),
      wd_live = (\<lambda>q c. []), wd_cancelled = (\<lambda>n. True), wd_lastHeight = (\<lambda>db c. Inr 0), wd_latest = (\<lambda>c. Inr 5),
      wd_files = \<lparr>sf_format = (\<lambda>t. []), sf_mkdir_ok = True, sf_write_ok = True, sf_files = []\<rparr>\<rparr>"

definition sample_flags :: RpcFlags where
  "sample_flags = \<lparr>rpf_RequestsPerWindow = 0, rpf_Timeout = 0, rpf_TimeWindow = 0\<rparr>"

lemma sample_config: "LoadConfig (wd_readFile sample_world) (wd_unmarshal sample_world) p = Inr default_config"
  by (simp add: LoadConfig_def sample_world_def default_config_def has_prefix_def)

lemma sample_load: "\<exists>a. NewAddressCache ix_load c v sample_store = Done (a, sample_store)"
  by (simp add: NewAddressCache_def loadAddresses_def ix_load_def GetAllAddresses_def next_fault_def sample_store_def
      sample_db_def Let_def)

lemma sample_environment_read: "LoadEnvironment (wd_env sample_world) p = Inr sample_environment"
  by (simp add: LoadEnvironment_def sample_world_def)

lemma sample_components:
  "\<exists>mc. initializeMajorConstructors sample_world default_config sample_environment ''gnoland'' sample_flags sample_store
     = Done (mc, sample_store)"
proof -
  obtain va aa where "NewAddressCache ix_load ''gnoland'' True sample_store = Done (va, sample_store)"
    "NewAddressCache ix_load ''gnoland'' False sample_store = Done (aa, sample_store)"
    using sample_load by blast
  then show ?thesis
    by (simp add: initializeMajorConstructors_def rpc_limits_def sample_flags_def initializeDatabase_def NewTimescaleDb_def
      connectToDb_def sample_world_def default_config_def NewRateLimitedRpcClient_def NewRpcClient_def
      NewChannelRateLimiter_def has_prefix_def)
qed

lemma sample_start:
  assumes "NewOrchestrator (rnf_RunningMode flags) 50 ''gnoland'' = Done orch"
  shows "\<exists>mc. InitMainOperator fuel sample_world p e sample_flags flags sample_store
    = run_mode fuel sample_world flags orch mc sample_store"
proof -
  obtain mc where "initializeMajorConstructors sample_world default_config sample_environment ''gnoland'' sample_flags sample_store
     = Done (mc, sample_store)"
    using sample_components by blast
  with assms show ?thesis
    by (auto simp: InitMainOperator_def sample_config sample_environment_read Let_def default_config_def)
qed

lemma sample_live_run: "\<exists>st. runLive fuel sample_world p sample_flags True True sample_store = Some (Done (LiveEnd st))"
proof -
  let ?orch = "\<lparr>or_chainName = ''gnoland'', or_runningMode = ''live'', or_MaxBlockChunkSize = 50,
    or_isProcessing = False, or_currentProcessingHeight = 0\<rparr>"
  obtain mc where "runLive fuel sample_world p sample_flags True True sample_store
    = run_mode fuel sample_world (live_flags True True) ?orch mc sample_store"
  proof -
    have "NewOrchestrator (rnf_RunningMode (live_flags True True)) 50 ''gnoland'' = Done ?orch"
      by (simp add: NewOrchestrator_def live_flags_def)
    from sample_start [OF this] that show ?thesis unfolding runLive_def launchIndexer_def by blast
  qed
  then show ?thesis by (simp add: run_mode_def live_flags_def LiveProcess_def sample_world_def Let_def)
qed

lemma indexer_keeps_caches_witness:
  "\<exists>st. runLive 0 sample_world ''config.yml'' sample_flags True True sample_store = Some (Done (LiveEnd st))
     \<and> store_ok (lv_state st)"
proof -
  obtain st where r: "runLive 0 sample_world ''config.yml'' sample_flags True True sample_store = Some (Done (LiveEnd st))"
    using sample_live_run by blast
  have "db_inv (ix_addr sample_store)" using sample_db_inv by (simp add: sample_store_def)
  from indexer_keeps_caches [OF r [unfolded runLive_def launchIndexer_def] this] r show ?thesis by auto
qed

lemma indexer_start_conditions_witness:
  "\<exists>x limits. runHistoric 1 sample_world ''config.yml'' sample_flags 3 5 True sample_store = Some (Done (HistoricEnd x))
     \<and> rpc_limits sample_flags = Done limits \<and> 0 < fst limits \<and> fst limits \<le> snd limits"
proof -
  let ?flags = "historic_flags 3 5 True"
  let ?orch = "\<lparr>or_chainName = ''gnoland'', or_runningMode = ''historic'', or_MaxBlockChunkSize = 50,
    or_isProcessing = False, or_currentProcessingHeight = 0\<rparr>"
  obtain mc where h: "runHistoric 1 sample_world ''config.yml'' sample_flags 3 5 True sample_store
    = run_mode 1 sample_world ?flags ?orch mc sample_store"
  proof -
    have "NewOrchestrator (rnf_RunningMode ?flags) 50 ''gnoland'' = Done ?orch"
      by (simp add: NewOrchestrator_def historic_flags_def)
    from sample_start [OF this] that show ?thesis unfolding runHistoric_def launchIndexer_def by blast
  qed
  have "\<exists>x. runHistoric 1 sample_world ''config.yml'' sample_flags 3 5 True sample_store = Some (Done (HistoricEnd x))"
    unfolding h by (simp add: run_mode_def historic_flags_def HistoricProcess_def sample_world_def Let_def)
  then obtain x where r: "runHistoric 1 sample_world ''config.yml'' sample_flags 3 5 True sample_store = Some (Done (HistoricEnd x))" ..
  from indexer_start_conditions [OF r [unfolded runHistoric_def launchIndexer_def]] r show ?thesis by auto
qed

lemma timeout_flag_ignored_witness:
  "\<exists>mc db'. initializeMajorConstructors sample_world default_config sample_environment ''gnoland'' sample_flags sample_store
       = Done (mc, db')
     \<and> rg_Timeout (rc_client (mc_gnoRpcClient mc)) = 10 * second"
proof -
  obtain mc db' where c: "initializeMajorConstructors sample_world default_config sample_environment ''gnoland'' sample_flags
      sample_store = Done (mc, db')"
    using sample_components by blast
  with timeout_flag_ignored [where w = sample_world and conf = default_config and env = sample_environment
      and chainName = "''gnoland''" and rpcFlags = sample_flags and db = sample_store and mc = mc and db' = db']
  show ?thesis by blast
qed

end
