(* ===== verification/Dumps.thy ===== *)
theory Dumps
  imports Main_Operator
begin

text \<open>
  The files a shutdown leaves: \<open>DumpState\<close> (\<open>indexer/orchestrator/operator.go\<close>), \<open>dumpState\<close> and the two
  functions handed to the signal handler (\<open>indexer/main_operator/operator.go\<close>). The files are a record of what
  was written; the texts of the clock come from the record, and a JSON text is the record it stands for.
\<close>

record orchestrator_diagnostics =
  od_chain_name :: string
  od_running_mode :: string
  od_is_processing :: bool
  od_current_processing_height :: u64
  od_max_block_chunk_size :: u64
  od_live_pooling :: duration
  od_rpc_url :: string
  od_timestamp :: time
  od_dump_reason :: string

record components_diagnostics =
  cd_timestamp :: time
  cd_components :: "(string \<times> bool) list"

datatype diagnostics = OrchestratorDump orchestrator_diagnostics | ComponentsDump components_diagnostics

text \<open>The directories \<open>state_dumps\<close> and \<open>diagnostics\<close>.\<close>

record dump_files =
  df_states :: state_files
  df_mkdir_ok :: bool
  df_write_ok :: bool
  df_diagnostics :: "(string \<times> diagnostics) list"

definition write_diagnostics :: "string \<Rightarrow> string \<Rightarrow> diagnostics \<Rightarrow> dump_files \<Rightarrow> goerror option \<times> dump_files" where
  "write_diagnostics what filename d fs =
     (if \<not> df_mkdir_ok fs then (Some (ErrMsg ''failed to create diagnostics directory''), fs)
      else if \<not> df_write_ok fs then (Some (ErrMsg (''failed to write '' @ what)), fs)
      else (None, fs\<lparr>df_diagnostics := (''diagnostics/'' @ filename, d) # df_diagnostics fs\<rparr>))"

text \<open>The clock is read for the state, for the diagnostics and for the file name.\<close>

definition DumpState :: "Orchestrator \<Rightarrow> Config \<Rightarrow> time \<times> time \<times> time \<Rightarrow> dump_files \<Rightarrow> goerror option \<times> dump_files" where
  "DumpState ork conf clock fs =
     (let (t1, t2, t3) = clock;
          fs1 = fs\<lparr>df_states := saveProcessingState ork t1 (or_currentProcessingHeight ork) ''emergency_dump'' (df_states fs)\<rparr>
      in write_diagnostics ''diagnostics'' (''emergency_dump_'' @ sf_format (df_states fs) t3 @ ''.json'')
           (OrchestratorDump
             \<lparr>od_chain_name = or_chainName ork, od_running_mode = or_runningMode ork, od_is_processing = or_isProcessing ork,
              od_current_processing_height = or_currentProcessingHeight ork,
              od_max_block_chunk_size = cf_MaxBlockChunkSize conf, od_live_pooling = cf_LivePooling conf,
              od_rpc_url = cf_RpcUrl conf, od_timestamp = t2, od_dump_reason = ''emergency_shutdown''\<rparr>) fs1)"

text \<open>Every component is there once the start has come this far; the client has no state to show.\<close>

definition mc_dumpState :: "'p MajorConstructors \<Rightarrow> time \<times> time \<Rightarrow> dump_files \<Rightarrow> goerror option \<times> dump_files" where
  "mc_dumpState mc clock fs =
     write_diagnostics ''major constructors state'' (''major_constructors_dump_'' @ sf_format (df_states fs) (snd clock) @ ''.json'')
       (ComponentsDump
         \<lparr>cd_timestamp = fst clock,
          cd_components = map (\<lambda>c. (c, True))
            [''database'', ''gno_rpc_client'', ''validator_cache'', ''address_cache'', ''data_processor'', ''query_operator'']\<rparr>) fs"

text \<open>The two functions of the signal handler; their errors are logged.\<close>

definition handler_cleanup ::
  "('p \<Rightarrow> 'p) \<Rightarrow> Orchestrator \<Rightarrow> 'p MajorConstructors \<Rightarrow> time \<Rightarrow> dump_files
   \<Rightarrow> (goerror option \<times> 'p MajorConstructors \<times> dump_files) outcome" where
  "handler_cleanup close ork mc now fs =
     (let (_, states) = Cleanup ork now (df_states fs) in
      bind_outcome (mc_cleanup close mc) (\<lambda>mc'. Done (None, mc', fs\<lparr>df_states := states\<rparr>)))"

definition handler_dump ::
  "Orchestrator \<Rightarrow> Config \<Rightarrow> 'p MajorConstructors \<Rightarrow> (time \<times> time \<times> time) \<times> (time \<times> time) \<Rightarrow> dump_files
   \<Rightarrow> goerror option \<times> dump_files" where
  "handler_dump ork conf mc clocks fs =
     (let (_, fs1) = DumpState ork conf (fst clocks) fs;
          (_, fs2) = mc_dumpState mc (snd clocks) fs1
      in (None, fs2))"

text \<open>Closing the components happens whether or not the state could be saved, and the saved state is the
  height the orchestrator is at.\<close>

lemma handler_cleanup_saves:
  assumes "handler_cleanup close ork mc now fs = Done (err, mc', fs')"
  shows "err = None \<and> mc_cleanup close mc = Done mc'
    \<and> (sf_mkdir_ok (df_states fs) \<and> sf_write_ok (df_states fs)
        \<longrightarrow> map (ps_CurrentProcessingHeight \<circ> snd) (sf_files (df_states fs')) =
              or_currentProcessingHeight ork # map (ps_CurrentProcessingHeight \<circ> snd) (sf_files (df_states fs)))"
  using assms by (auto simp: handler_cleanup_def Cleanup_def saveProcessingState_def Let_def)

text \<open>An emergency dump never fails, keeps every file there is, and writes the state and both
  diagnostics as far as their directories allow: one that fails does not stop the others.\<close>

lemma handler_dump_writes:
  assumes "handler_dump ork conf mc clocks fs = (err, fs')"
  shows "err = None
    \<and> length (sf_files (df_states fs')) = length (sf_files (df_states fs)) +
        (if sf_mkdir_ok (df_states fs) \<and> sf_write_ok (df_states fs) then 1 else 0)
    \<and> length (df_diagnostics fs') = length (df_diagnostics fs) + (if df_mkdir_ok fs \<and> df_write_ok fs then 2 else 0)"
  using assms
  by (auto simp: handler_dump_def DumpState_def mc_dumpState_def write_diagnostics_def saveProcessingState_def Let_def
      split: prod.splits if_splits)

end
