(* ===== verification/Signals.thy ===== *)
theory Signals
  imports Prelude
begin

text \<open>
  Signals and shutdown (\<open>indexer/context_hook\<close>) around the run of the main operator
  (\<open>InitMainOperator\<close> in \<open>indexer/main_operator/operator.go\<close>, \<open>main\<close> in \<open>indexer/cmd/indexer.go\<close>): the
  process as a step relation of the main goroutine, the goroutine that listens for a signal and
  the one that waits for the registered operations.
\<close>

section \<open>The process\<close>

datatype signal = SIGINT | SIGTERM | SIGQUIT

text \<open>Where the main goroutine is: before it registers the operation, inside the orchestrator's
  process, after it has returned, after \<open>OperationComplete\<close>.\<close>

datatype main_point = Starting | Running | Returned | Completed

text \<open>Where the listening goroutine is: waiting for a signal; at the start of either shutdown; in the
  wait of the graceful one; at the two parts of the cleanup, at the two parts of the dump; about to
  exit.\<close>

datatype handler_point =
    Listening | GracefulStart | GracefulWait | CleanupOrchestrator | CleanupComponents
  | EmergencyStart | DumpOrchestrator | DumpComponents | Exiting int

record process =
  sg_cancelled :: bool
  sg_shutdownWg :: nat
  sg_signalChan :: "signal option"
  sg_done :: bool
  sg_deadline :: nat
  sg_clock :: nat
  sg_main :: main_point
  sg_handler :: handler_point
  sg_saved :: nat
  sg_closed :: nat
  sg_dumped :: nat
  sg_exit :: "int option"

text \<open>A new handler that listens; the channel holds one signal.\<close>

definition NewSignalHandler :: process where
  "NewSignalHandler =
     \<lparr>sg_cancelled = False, sg_shutdownWg = 0, sg_signalChan = None, sg_done = False, sg_deadline = 0,
      sg_clock = 0, sg_main = Starting, sg_handler = Listening, sg_saved = 0, sg_closed = 0, sg_dumped = 0,
      sg_exit = None\<rparr>"

text \<open>\<open>signal.Notify\<close> does not block: a signal is dropped while another is in the channel.\<close>

definition notify :: "signal \<Rightarrow> process \<Rightarrow> process" where
  "notify s p = (case sg_signalChan p of None \<Rightarrow> p\<lparr>sg_signalChan := Some s\<rparr> | Some _ \<Rightarrow> p)"

definition RegisterOperation :: "process \<Rightarrow> process" where
  "RegisterOperation p = p\<lparr>sg_shutdownWg := sg_shutdownWg p + 1\<rparr>"

definition OperationComplete :: "process \<Rightarrow> process" where
  "OperationComplete p = p\<lparr>sg_shutdownWg := sg_shutdownWg p - 1\<rparr>"

definition receive :: "signal \<Rightarrow> process \<Rightarrow> process" where
  "receive s p =
     p\<lparr>sg_signalChan := None,
       sg_handler := (case s of SIGQUIT \<Rightarrow> EmergencyStart | _ \<Rightarrow> GracefulStart)\<rparr>"

definition shutdownTimeout :: nat where
  "shutdownTimeout = 30000000000"

section \<open>Its steps\<close>

text \<open>What happens outside the program, and who moves inside it.\<close>

datatype process_event = Arrives signal | Elapses nat | MainMoves | HandlerMoves

definition outside :: "process_event \<Rightarrow> bool" where
  "outside e \<longleftrightarrow> e \<noteq> MainMoves \<and> e \<noteq> HandlerMoves"

text \<open>The flags may be refused before the operation is registered, with exit code 1; the operation may
  also end the process itself, with 1 (a fatal log) or 2 (a panic). The process ends with 0 when the
  main goroutine returns.\<close>

inductive process_step :: "process \<Rightarrow> process_event \<Rightarrow> process \<Rightarrow> bool" where
  arrives: "sg_exit p = None \<Longrightarrow> process_step p (Arrives s) (notify s p)"
| elapses: "sg_exit p = None \<Longrightarrow> process_step p (Elapses d) (p\<lparr>sg_clock := sg_clock p + d\<rparr>)"
| registers: "sg_exit p = None \<Longrightarrow> sg_main p = Starting
    \<Longrightarrow> process_step p MainMoves ((RegisterOperation p)\<lparr>sg_main := Running\<rparr>)"
| refuses: "sg_exit p = None \<Longrightarrow> sg_main p = Starting \<Longrightarrow> process_step p MainMoves (p\<lparr>sg_exit := Some 1\<rparr>)"
| returned: "sg_exit p = None \<Longrightarrow> sg_main p = Running \<Longrightarrow> process_step p MainMoves (p\<lparr>sg_main := Returned\<rparr>)"
| dies: "sg_exit p = None \<Longrightarrow> sg_main p = Running \<Longrightarrow> c \<in> {1, 2} \<Longrightarrow> process_step p MainMoves (p\<lparr>sg_exit := Some c\<rparr>)"
| completes: "sg_exit p = None \<Longrightarrow> sg_main p = Returned
    \<Longrightarrow> process_step p MainMoves ((OperationComplete p)\<lparr>sg_main := Completed\<rparr>)"
| main_ends: "sg_exit p = None \<Longrightarrow> sg_main p = Completed \<Longrightarrow> process_step p MainMoves (p\<lparr>sg_exit := Some 0\<rparr>)"
| receives: "sg_exit p = None \<Longrightarrow> sg_handler p = Listening \<Longrightarrow> sg_signalChan p = Some s
    \<Longrightarrow> process_step p HandlerMoves (receive s p)"
| cancels: "sg_exit p = None \<Longrightarrow> sg_handler p = GracefulStart
    \<Longrightarrow> process_step p HandlerMoves
          (p\<lparr>sg_cancelled := True, sg_deadline := sg_clock p + shutdownTimeout, sg_handler := GracefulWait\<rparr>)"
| all_done: "sg_exit p = None \<Longrightarrow> sg_handler p = GracefulWait \<Longrightarrow> sg_shutdownWg p = 0 \<Longrightarrow> \<not> sg_done p
    \<Longrightarrow> process_step p HandlerMoves (p\<lparr>sg_done := True\<rparr>)"
| wakes: "sg_exit p = None \<Longrightarrow> sg_handler p = GracefulWait \<Longrightarrow> sg_done p
    \<Longrightarrow> process_step p HandlerMoves (p\<lparr>sg_handler := CleanupOrchestrator\<rparr>)"
| times_out: "sg_exit p = None \<Longrightarrow> sg_handler p = GracefulWait \<Longrightarrow> sg_deadline p \<le> sg_clock p
    \<Longrightarrow> process_step p HandlerMoves (p\<lparr>sg_handler := CleanupOrchestrator\<rparr>)"
| cleans_orchestrator: "sg_exit p = None \<Longrightarrow> sg_handler p = CleanupOrchestrator
    \<Longrightarrow> process_step p HandlerMoves (p\<lparr>sg_saved := sg_saved p + 1, sg_handler := CleanupComponents\<rparr>)"
| cleans_components: "sg_exit p = None \<Longrightarrow> sg_handler p = CleanupComponents
    \<Longrightarrow> process_step p HandlerMoves (p\<lparr>sg_closed := sg_closed p + 1, sg_handler := Exiting 0\<rparr>)"
| emergency: "sg_exit p = None \<Longrightarrow> sg_handler p = EmergencyStart
    \<Longrightarrow> process_step p HandlerMoves (p\<lparr>sg_cancelled := True, sg_handler := DumpOrchestrator\<rparr>)"
| dumps_orchestrator: "sg_exit p = None \<Longrightarrow> sg_handler p = DumpOrchestrator
    \<Longrightarrow> process_step p HandlerMoves (p\<lparr>sg_dumped := sg_dumped p + 1, sg_handler := DumpComponents\<rparr>)"
| dumps_components: "sg_exit p = None \<Longrightarrow> sg_handler p = DumpComponents
    \<Longrightarrow> process_step p HandlerMoves (p\<lparr>sg_dumped := sg_dumped p + 1, sg_handler := Exiting 1\<rparr>)"
| exits: "sg_exit p = None \<Longrightarrow> sg_handler p = Exiting c \<Longrightarrow> process_step p HandlerMoves (p\<lparr>sg_exit := Some c\<rparr>)"

inductive process_run :: "process \<Rightarrow> process_event list \<Rightarrow> process \<Rightarrow> bool" where
  stays: "process_run p [] p"
| moves: "process_run p es q \<Longrightarrow> process_step q e r \<Longrightarrow> process_run p (es @ [e]) r"

inductive_cases step_cases: "process_step p e q"

inductive_simps run_nil: "process_run p [] q"

section \<open>Invariant\<close>

definition handler_ok :: "process \<Rightarrow> bool" where
  "handler_ok p \<longleftrightarrow>
     sg_shutdownWg p = (if sg_main p \<in> {Running, Returned} then 1 else 0)
   \<and> sg_deadline p \<le> sg_clock p + shutdownTimeout
   \<and> (case sg_handler p of
        Listening \<Rightarrow> \<not> sg_cancelled p \<and> sg_saved p = 0 \<and> sg_closed p = 0 \<and> sg_dumped p = 0 \<and> \<not> sg_done p
      | GracefulStart \<Rightarrow> \<not> sg_cancelled p \<and> sg_saved p = 0 \<and> sg_closed p = 0 \<and> sg_dumped p = 0 \<and> \<not> sg_done p
      | GracefulWait \<Rightarrow> sg_cancelled p \<and> sg_saved p = 0 \<and> sg_closed p = 0 \<and> sg_dumped p = 0
      | CleanupOrchestrator \<Rightarrow> sg_cancelled p \<and> sg_saved p = 0 \<and> sg_closed p = 0 \<and> sg_dumped p = 0
          \<and> (sg_done p \<or> sg_deadline p \<le> sg_clock p)
      | CleanupComponents \<Rightarrow> sg_cancelled p \<and> sg_saved p = 1 \<and> sg_closed p = 0 \<and> sg_dumped p = 0
          \<and> (sg_done p \<or> sg_deadline p \<le> sg_clock p)
      | EmergencyStart \<Rightarrow> \<not> sg_cancelled p \<and> sg_saved p = 0 \<and> sg_closed p = 0 \<and> sg_dumped p = 0
      | DumpOrchestrator \<Rightarrow> sg_cancelled p \<and> sg_saved p = 0 \<and> sg_closed p = 0 \<and> sg_dumped p = 0
      | DumpComponents \<Rightarrow> sg_cancelled p \<and> sg_saved p = 0 \<and> sg_closed p = 0 \<and> sg_dumped p = 1
      | Exiting c \<Rightarrow> sg_cancelled p
          \<and> (c = 0 \<and> sg_saved p = 1 \<and> sg_closed p = 1 \<and> sg_dumped p = 0 \<and> (sg_done p \<or> sg_deadline p \<le> sg_clock p)
             \<or> c = 1 \<and> sg_saved p = 0 \<and> sg_closed p = 0 \<and> sg_dumped p = 2))
   \<and> (case sg_exit p of None \<Rightarrow> True
      | Some c \<Rightarrow> sg_handler p = Exiting c \<or> c = 0 \<and> sg_main p = Completed
          \<or> c \<in> {1, 2} \<and> sg_main p = Running \<or> c = 1 \<and> sg_main p = Starting)"

lemma start_ok: "handler_ok NewSignalHandler"
  by (simp add: handler_ok_def NewSignalHandler_def)

lemma signal_step_ok: "process_step p e q \<Longrightarrow> handler_ok p \<Longrightarrow> handler_ok q"
  by (induction rule: process_step.induct)
     (auto simp: handler_ok_def notify_def RegisterOperation_def OperationComplete_def receive_def
       split: handler_point.splits option.splits signal.splits)

lemma run_ok: "process_run p es q \<Longrightarrow> handler_ok p \<Longrightarrow> handler_ok q"
  by (induction rule: process_run.induct) (auto intro: signal_step_ok)

section \<open>Progress\<close>

text \<open>How many moves of the program are left at most.\<close>

fun main_budget :: "main_point \<Rightarrow> nat" where
  "main_budget Starting = 4"
| "main_budget Running = 3"
| "main_budget Returned = 2"
| "main_budget Completed = 1"

fun handler_budget :: "bool \<Rightarrow> handler_point \<Rightarrow> nat" where
  "handler_budget finished Listening = 7"
| "handler_budget finished GracefulStart = 6"
| "handler_budget finished GracefulWait = (if finished then 4 else 5)"
| "handler_budget finished CleanupOrchestrator = 3"
| "handler_budget finished CleanupComponents = 2"
| "handler_budget finished EmergencyStart = 4"
| "handler_budget finished DumpOrchestrator = 3"
| "handler_budget finished DumpComponents = 2"
| "handler_budget finished (Exiting c) = 1"

definition budget :: "process \<Rightarrow> nat" where
  "budget p = (if sg_exit p = None then main_budget (sg_main p) + handler_budget (sg_done p) (sg_handler p) else 0)"

lemma step_budget:
  "process_step p e q \<Longrightarrow> budget q + (if outside e then 0 else 1) \<le> budget p"
  by (induction rule: process_step.induct)
     (auto simp: budget_def outside_def notify_def RegisterOperation_def OperationComplete_def receive_def
       split: option.splits signal.splits main_point.splits handler_point.splits)

lemma run_budget: "process_run p es q \<Longrightarrow> budget q + length (filter (\<lambda>e. \<not> outside e) es) \<le> budget p"
  by (induction rule: process_run.induct) (auto dest: step_budget)

lemma handler_progress:
  assumes "handler_ok p" and "sg_exit p = None" and "sg_handler p \<noteq> Listening \<or> sg_signalChan p \<noteq> None"
  shows "\<exists>d q r. d \<le> shutdownTimeout \<and> process_step p (Elapses d) q \<and> process_step q HandlerMoves r"
proof -
  let ?q = "\<lambda>d. p\<lparr>sg_clock := sg_clock p + d\<rparr>"
  have wait: "process_step p (Elapses d) (?q d)" for d by (rule elapses [OF assms(2)])
  have "\<exists>d \<le> shutdownTimeout. \<exists>r. process_step (?q d) HandlerMoves r"
  proof (cases "sg_handler p")
    case Listening
    then obtain s where "sg_signalChan p = Some s" using assms(3) by auto
    then show ?thesis using receives [of "?q 0" s] assms(2) Listening by (intro exI [of _ 0]) auto
  next
    case GracefulWait
    moreover have "sg_deadline p \<le> sg_clock p + shutdownTimeout" using assms(1) by (simp add: handler_ok_def)
    ultimately show ?thesis using times_out [of "?q shutdownTimeout"] assms(2) by (intro exI [of _ shutdownTimeout]) auto
  next
    case GracefulStart
    then show ?thesis using cancels [of "?q 0"] assms(2) by (intro exI [of _ 0]) auto
  next
    case CleanupOrchestrator
    then show ?thesis using cleans_orchestrator [of "?q 0"] assms(2) by (intro exI [of _ 0]) auto
  next
    case CleanupComponents
    then show ?thesis using cleans_components [of "?q 0"] assms(2) by (intro exI [of _ 0]) auto
  next
    case EmergencyStart
    then show ?thesis using emergency [of "?q 0"] assms(2) by (intro exI [of _ 0]) auto
  next
    case DumpOrchestrator
    then show ?thesis using dumps_orchestrator [of "?q 0"] assms(2) by (intro exI [of _ 0]) auto
  next
    case DumpComponents
    then show ?thesis using dumps_components [of "?q 0"] assms(2) by (intro exI [of _ 0]) auto
  next
    case (Exiting c)
    then show ?thesis using exits [of "?q 0" c] assms(2) by (intro exI [of _ 0]) auto
  qed
  with wait show ?thesis by blast
qed

section \<open>Replaying events\<close>

text \<open>An executable scheduler of the relation: the operation returns, and a wait that can end because
  all operations are done does.\<close>

definition main_move :: "process \<Rightarrow> process" where
  "main_move p =
     (case sg_main p of
        Starting \<Rightarrow> (RegisterOperation p)\<lparr>sg_main := Running\<rparr>
      | Running \<Rightarrow> p\<lparr>sg_main := Returned\<rparr>
      | Returned \<Rightarrow> (OperationComplete p)\<lparr>sg_main := Completed\<rparr>
      | Completed \<Rightarrow> p\<lparr>sg_exit := Some 0\<rparr>)"

definition handler_move :: "process \<Rightarrow> process option" where
  "handler_move p =
     (case sg_handler p of
        Listening \<Rightarrow> map_option (\<lambda>s. receive s p) (sg_signalChan p)
      | GracefulStart \<Rightarrow> Some (p\<lparr>sg_cancelled := True, sg_deadline := sg_clock p + shutdownTimeout, sg_handler := GracefulWait\<rparr>)
      | GracefulWait \<Rightarrow>
          if sg_done p then Some (p\<lparr>sg_handler := CleanupOrchestrator\<rparr>)
          else if sg_shutdownWg p = 0 then Some (p\<lparr>sg_done := True\<rparr>)
          else if sg_deadline p \<le> sg_clock p then Some (p\<lparr>sg_handler := CleanupOrchestrator\<rparr>)
          else None
      | CleanupOrchestrator \<Rightarrow> Some (p\<lparr>sg_saved := sg_saved p + 1, sg_handler := CleanupComponents\<rparr>)
      | CleanupComponents \<Rightarrow> Some (p\<lparr>sg_closed := sg_closed p + 1, sg_handler := Exiting 0\<rparr>)
      | EmergencyStart \<Rightarrow> Some (p\<lparr>sg_cancelled := True, sg_handler := DumpOrchestrator\<rparr>)
      | DumpOrchestrator \<Rightarrow> Some (p\<lparr>sg_dumped := sg_dumped p + 1, sg_handler := DumpComponents\<rparr>)
      | DumpComponents \<Rightarrow> Some (p\<lparr>sg_dumped := sg_dumped p + 1, sg_handler := Exiting 1\<rparr>)
      | Exiting c \<Rightarrow> Some (p\<lparr>sg_exit := Some c\<rparr>))"

fun replay_step :: "process \<Rightarrow> process_event \<Rightarrow> process option" where
  "replay_step p (Arrives s) = (if sg_exit p = None then Some (notify s p) else None)"
| "replay_step p (Elapses d) = (if sg_exit p = None then Some (p\<lparr>sg_clock := sg_clock p + d\<rparr>) else None)"
| "replay_step p MainMoves = (if sg_exit p = None then Some (main_move p) else None)"
| "replay_step p HandlerMoves = (if sg_exit p = None then handler_move p else None)"

fun replay :: "process \<Rightarrow> process_event list \<Rightarrow> process option" where
  "replay p [] = Some p"
| "replay p (e # es) = Option.bind (replay_step p e) (\<lambda>q. replay q es)"

lemma replay_step_sound: "replay_step p e = Some q \<Longrightarrow> process_step p e q"
  by (cases e) (auto simp: main_move_def handler_move_def simp del: One_nat_def intro: process_step.intros
      split: if_splits main_point.splits handler_point.splits)

lemma run_prepend: "process_step p e q \<Longrightarrow> process_run q es r \<Longrightarrow> process_run p (e # es) r"
proof (rotate_tac, induction rule: process_run.induct)
  case (stays q)
  then show ?case using moves [OF process_run.stays] by fastforce
next
  case (moves q es r e' t)
  then show ?case using process_run.moves [of p "e # es" r e' t] by simp
qed

lemma replay_sound: "replay p es = Some q \<Longrightarrow> process_run p es q"
  by (induction es arbitrary: p)
     (auto simp: bind_eq_Some_conv intro: process_run.stays run_prepend replay_step_sound)

section \<open>Properties\<close>



text \<open>The orders in which the goroutines can meet that the code does not expect.\<close>

definition lost_cleanup :: "process_event list" where
  "lost_cleanup = [MainMoves, Arrives SIGTERM, HandlerMoves, HandlerMoves, MainMoves, MainMoves, HandlerMoves, MainMoves]"

definition early_cleanup :: "process_event list" where
  "early_cleanup =
     [Arrives SIGINT, HandlerMoves, HandlerMoves, HandlerMoves, HandlerMoves, MainMoves, HandlerMoves, HandlerMoves]"

definition second_signal :: "process_event list" where
  "second_signal = [MainMoves, Arrives SIGINT, HandlerMoves, HandlerMoves, Arrives SIGQUIT, Arrives SIGQUIT]"

lemmas signal_eval = NewSignalHandler_def notify_def receive_def main_move_def handler_move_def RegisterOperation_def
  OperationComplete_def shutdownTimeout_def





end
