(* ===== verification/Messages.thy ===== *)
theory Messages
  imports Row_Db Address_Db
begin

text \<open>
  The message queries of the API (\<open>pkgs/database/timescaledb/query_msg.go\<close>) over the stored rows,
  and the records they answer with (\<open>pkgs/database/types.go\<close>).
\<close>

section \<open>The tables\<close>

text \<open>The rows of the chain's tables, each list in the order a scan returns it; the order a
  subselect returns its rows in; and the statements that fail, by table.\<close>

record chain_tables =
  ct_hashes :: "TxHashId list"
  ct_addresses :: "address_row list"
  ct_general :: "TransactionGeneral list"
  ct_sends :: "MsgSend list"
  ct_multi_sends :: "MsgMultiSend list"
  ct_calls :: "MsgCall list"
  ct_packages :: "MsgAddPackage list"
  ct_runs :: "MsgRun list"
  ct_creates :: "MsgAuthCrSession list"
  ct_revokes :: "MsgAuthRvSession list"
  ct_revoke_alls :: "MsgAuthRvAllSessions list"
  ct_order :: "string list \<Rightarrow> string list"
  ct_fault :: "string \<Rightarrow> goerror option"

text \<open>\<open>LEFT JOIN gno_addresses\<close>: no row is NULL.\<close>

definition address_of :: "chain_tables \<Rightarrow> i32 \<Rightarrow> string option" where
  "address_of t i = map_option ar_address (find (\<lambda>r. ar_id r = i) (ct_addresses t))"

text \<open>Scanning NULL into a string is an error.\<close>

definition scan_address :: "chain_tables \<Rightarrow> i32 \<Rightarrow> goerror + string" where
  "scan_address t i =
     (case address_of t i of None \<Rightarrow> Inl (ErrMsg ''cannot scan NULL into *string'') | Some a \<Rightarrow> Inr a)"

text \<open>The array of the signers: an inner join, identities without an address are left out.\<close>

definition signers_of :: "chain_tables \<Rightarrow> i32 list \<Rightarrow> string list" where
  "signers_of t ids = ct_order t (concat (map (\<lambda>i. case address_of t i of None \<Rightarrow> [] | Some a \<Rightarrow> [a]) ids))"

text \<open>The rows of a table joined with the identities of a transaction hash.\<close>

definition hash_rows :: "chain_tables \<Rightarrow> ('r \<Rightarrow> i64) \<Rightarrow> ('r \<Rightarrow> string) \<Rightarrow> 'r list \<Rightarrow> byte list \<Rightarrow> string \<Rightarrow> (string \<times> 'r) list" where
  "hash_rows t txid chain rows wanted chainName =
     concat (map (\<lambda>r. map (\<lambda>h. (encode_base64 StdEncoding (thi_TxHash h), r))
         (filter (\<lambda>h. thi_TxId h = txid r \<and> thi_ChainName h = chain r \<and> thi_TxHash h = wanted) (ct_hashes t)))
       (filter (\<lambda>r. chain r = chainName) rows))"

definition query_rows ::
  "chain_tables \<Rightarrow> string \<Rightarrow> ('r \<Rightarrow> i64) \<Rightarrow> ('r \<Rightarrow> string) \<Rightarrow> 'r list \<Rightarrow> string \<Rightarrow> string \<Rightarrow> goerror + (string \<times> 'r) list" where
  "query_rows t table txid chain rows txHash chainName =
     (case ct_fault t table of
        Some e \<Rightarrow> Inl e
      | None \<Rightarrow>
          (case decode_base64 StdEncoding False txHash of
             None \<Rightarrow> Inl (ErrMsg ''invalid base64 end sequence'')
           | Some wanted \<Rightarrow> Inr (hash_rows t txid chain rows wanted chainName)))"

text \<open>Coins are answered with the text of their number.\<close>

record coin_text =
  co_Amount :: string
  co_Denom :: string

definition coin_texts :: "Amount list \<Rightarrow> coin_text list" where
  "coin_texts = map (\<lambda>a. \<lparr>co_Amount = (if am_Amount a < 0 then CHR ''-'' # show_nat (nat (- am_Amount a))
       else show_nat (nat (am_Amount a))), co_Denom = am_Denom a\<rparr>)"

section \<open>The answers\<close>

record BankSend =
  bks_MessageCounter :: i16
  bks_TxHash :: string
  bks_Timestamp :: time
  bks_FromAddress :: string
  bks_ToAddress :: string
  bks_Amount :: "coin_text list"
  bks_Signers :: "string list"

record CallMsg =
  cal_MessageCounter :: i16
  cal_TxHash :: string
  cal_Timestamp :: time
  cal_Caller :: string
  cal_Send :: "coin_text list"
  cal_PkgPath :: string
  cal_FuncName :: string
  cal_Args :: string
  cal_MaxDeposit :: "coin_text list"
  cal_Signers :: "string list"

record AddPackageMsg =
  pkg_MessageCounter :: i16
  pkg_TxHash :: string
  pkg_Timestamp :: time
  pkg_Creator :: string
  pkg_PkgPath :: string
  pkg_PkgName :: string
  pkg_PkgFileNames :: "string list"
  pkg_Send :: "coin_text list"
  pkg_MaxDeposit :: "coin_text list"
  pkg_Signers :: "string list"

record RunMsg =
  run_MessageCounter :: i16
  run_TxHash :: string
  run_Timestamp :: time
  run_Caller :: string
  run_PkgPath :: string
  run_PkgName :: string
  run_PkgFileNames :: "string list"
  run_Send :: "coin_text list"
  run_MaxDeposit :: "coin_text list"
  run_Signers :: "string list"

record BankMultiSendRow =
  bmr_MessageCounter :: i16
  bmr_TxHash :: string
  bmr_Timestamp :: time
  bmr_Direction :: bool
  bmr_Address :: string
  bmr_Coins :: "coin_text list"
  bmr_Signers :: "string list"

record CrSessionMsg =
  crs_MessageCounter :: i16
  crs_TxHash :: string
  crs_Timestamp :: time
  crs_Creator :: string
  crs_SessionKey :: string
  crs_ExpiresAt :: time
  crs_AllowPaths :: "string list"
  crs_SpendLimit :: "coin_text list"
  crs_SpendPeriod :: i64
  crs_Signers :: "string list"

record RvSessionMsg =
  rvs_MessageCounter :: i16
  rvs_TxHash :: string
  rvs_Timestamp :: time
  rvs_Creator :: string
  rvs_SessionKey :: string
  rvs_Signers :: "string list"

record RvAllSessionsMsg =
  rva_MessageCounter :: i16
  rva_TxHash :: string
  rva_Timestamp :: time
  rva_Creator :: string
  rva_Signers :: "string list"

section \<open>The queries\<close>

text \<open>The statement does not select the counter: it keeps Go's zero value.\<close>

definition GetBankSend :: "chain_tables \<Rightarrow> string \<Rightarrow> string \<Rightarrow> goerror + BankSend list" where
  "GetBankSend t txHash chainName =
     bind_result (query_rows t ''bank_msg_send'' ms_TxId ms_ChainName (ct_sends t) txHash chainName)
       (mapM_result (\<lambda>(hash, r).
         bind_result (scan_address t (ms_FromAddress r)) (\<lambda>aFromAddress.
         bind_result (scan_address t (ms_ToAddress r)) (\<lambda>aToAddress.
           Inr \<lparr>bks_MessageCounter = 0, bks_TxHash = hash, bks_Timestamp = ms_Timestamp r,
             bks_FromAddress = aFromAddress, bks_ToAddress = aToAddress,
             bks_Amount = coin_texts (ms_Amount r), bks_Signers = signers_of t (ms_Signers r)\<rparr>))))"

definition GetMsgCall :: "chain_tables \<Rightarrow> string \<Rightarrow> string \<Rightarrow> goerror + CallMsg list" where
  "GetMsgCall t txHash chainName =
     bind_result (query_rows t ''vm_msg_call'' mc_TxId mc_ChainName (ct_calls t) txHash chainName)
       (mapM_result (\<lambda>(hash, r).
         bind_result (scan_address t (mc_Caller r)) (\<lambda>aCaller.
           Inr \<lparr>cal_MessageCounter = mc_MessageCounter r, cal_TxHash = hash, cal_Timestamp = mc_Timestamp r,
             cal_Caller = aCaller, cal_Send = coin_texts (mc_Send r), cal_PkgPath = mc_PkgPath r,
             cal_FuncName = mc_FuncName r, cal_Args = mc_Args r,
             cal_MaxDeposit = coin_texts (mc_MaxDeposit r), cal_Signers = signers_of t (mc_Signers r)\<rparr>)))"

definition GetMsgAddPackage :: "chain_tables \<Rightarrow> string \<Rightarrow> string \<Rightarrow> goerror + AddPackageMsg list" where
  "GetMsgAddPackage t txHash chainName =
     bind_result (query_rows t ''vm_msg_add_package'' map_TxId map_ChainName (ct_packages t) txHash chainName)
       (mapM_result (\<lambda>(hash, r).
         bind_result (scan_address t (map_Creator r)) (\<lambda>aCreator.
           Inr \<lparr>pkg_MessageCounter = map_MessageCounter r, pkg_TxHash = hash,
             pkg_Timestamp = map_Timestamp r, pkg_Creator = aCreator, pkg_PkgPath = map_PkgPath r,
             pkg_PkgName = map_PkgName r, pkg_PkgFileNames = map_PkgFileNames r,
             pkg_Send = coin_texts (map_Send r), pkg_MaxDeposit = coin_texts (map_MaxDeposit r),
             pkg_Signers = signers_of t (map_Signers r)\<rparr>)))"

definition GetMsgRun :: "chain_tables \<Rightarrow> string \<Rightarrow> string \<Rightarrow> goerror + RunMsg list" where
  "GetMsgRun t txHash chainName =
     bind_result (query_rows t ''vm_msg_run'' mr_TxId mr_ChainName (ct_runs t) txHash chainName)
       (mapM_result (\<lambda>(hash, r).
         bind_result (scan_address t (mr_Caller r)) (\<lambda>aCaller.
           Inr \<lparr>run_MessageCounter = mr_MessageCounter r, run_TxHash = hash, run_Timestamp = mr_Timestamp r,
             run_Caller = aCaller, run_PkgPath = mr_PkgPath r, run_PkgName = mr_PkgName r,
             run_PkgFileNames = mr_PkgFileNames r, run_Send = coin_texts (mr_Send r),
             run_MaxDeposit = coin_texts (mr_MaxDeposit r), run_Signers = signers_of t (mr_Signers r)\<rparr>)))"

definition GetBankMultiSend :: "chain_tables \<Rightarrow> string \<Rightarrow> string \<Rightarrow> goerror + BankMultiSendRow list" where
  "GetBankMultiSend t txHash chainName =
     bind_result (query_rows t ''bank_msg_multi_send'' mms_TxId mms_ChainName (ct_multi_sends t) txHash chainName)
       (mapM_result (\<lambda>(hash, r).
         bind_result (scan_address t (mms_AddressId r)) (\<lambda>aAddress.
           Inr \<lparr>bmr_MessageCounter = mms_MessageCounter r, bmr_TxHash = hash,
             bmr_Timestamp = mms_Timestamp r, bmr_Direction = mms_Direction r, bmr_Address = aAddress,
             bmr_Coins = coin_texts (mms_Coins r), bmr_Signers = signers_of t (mms_Signers r)\<rparr>)))"

definition GetMsgAuthCrSession :: "chain_tables \<Rightarrow> string \<Rightarrow> string \<Rightarrow> goerror + CrSessionMsg list" where
  "GetMsgAuthCrSession t txHash chainName =
     bind_result (query_rows t ''auth_msg_create_session'' cs_TxId cs_ChainName (ct_creates t) txHash chainName)
       (mapM_result (\<lambda>(hash, r).
         bind_result (scan_address t (cs_Creator r)) (\<lambda>aCreator.
         bind_result (scan_address t (cs_SessionKey r)) (\<lambda>aSessionKey.
           Inr \<lparr>crs_MessageCounter = cs_MessageCounter r, crs_TxHash = hash, crs_Timestamp = cs_Timestamp r,
             crs_Creator = aCreator, crs_SessionKey = aSessionKey, crs_ExpiresAt = cs_ExpiresAt r,
             crs_AllowPaths = (case cs_AllowPaths r of None \<Rightarrow> [] | Some paths \<Rightarrow> paths),
             crs_SpendLimit = coin_texts (cs_SpendLimit r), crs_SpendPeriod = cs_SpendPeriod r,
             crs_Signers = signers_of t (cs_Signers r)\<rparr>))))"

definition GetMsgAuthRvSession :: "chain_tables \<Rightarrow> string \<Rightarrow> string \<Rightarrow> goerror + RvSessionMsg list" where
  "GetMsgAuthRvSession t txHash chainName =
     bind_result (query_rows t ''auth_msg_revoke_session'' rs_TxId rs_ChainName (ct_revokes t) txHash chainName)
       (mapM_result (\<lambda>(hash, r).
         bind_result (scan_address t (rs_Creator r)) (\<lambda>aCreator.
         bind_result (scan_address t (rs_SessionKey r)) (\<lambda>aSessionKey.
           Inr \<lparr>rvs_MessageCounter = rs_MessageCounter r, rvs_TxHash = hash, rvs_Timestamp = rs_Timestamp r,
             rvs_Creator = aCreator, rvs_SessionKey = aSessionKey,
             rvs_Signers = signers_of t (rs_Signers r)\<rparr>))))"

definition GetMsgAuthRvAllSessions :: "chain_tables \<Rightarrow> string \<Rightarrow> string \<Rightarrow> goerror + RvAllSessionsMsg list" where
  "GetMsgAuthRvAllSessions t txHash chainName =
     bind_result (query_rows t ''auth_msg_revoke_all_sessions'' ras_TxId ras_ChainName (ct_revoke_alls t) txHash chainName)
       (mapM_result (\<lambda>(hash, r).
         bind_result (scan_address t (ras_Creator r)) (\<lambda>aCreator.
           Inr \<lparr>rva_MessageCounter = ras_MessageCounter r, rva_TxHash = hash,
             rva_Timestamp = ras_Timestamp r, rva_Creator = aCreator,
             rva_Signers = signers_of t (ras_Signers r)\<rparr>)))"

definition GetMsgTypes_of :: "chain_tables \<Rightarrow> string \<Rightarrow> string \<Rightarrow> goerror + string list" where
  "GetMsgTypes_of t txHash chainName =
     bind_result (query_rows t ''transaction_general'' tg_TxId tg_ChainName (ct_general t) txHash chainName)
       (\<lambda>rows. case rows of
          [] \<Rightarrow> Inl (ErrWrap (''msg types for tx '' @ txHash) ErrNotFound)
        | (hash, r) # _ \<Rightarrow> Inr (tg_MsgTypes r))"

end
