(* ===== verification/Pagination.thy ===== *)
theory Pagination
  imports Events Base64 "HOL-Library.List_Lexorder" "HOL-Library.Product_Lexorder"
begin

text \<open>
  Keyset pagination (\<open>pkgs/database/timescaledb/queries_tx.go\<close>, \<open>queries_address.go\<close>): the cursor
  texts, the two queries that seek by (block height, transaction hash), and the trimming of the
  probe row. What a page query answers is an argument; the tables answer it by filtering, sorting
  and limiting.
\<close>

section \<open>Cursors\<close>

definition unmarshalCursorParam :: "string \<Rightarrow> goerror + u64 \<times> string" where
  "unmarshalCursorParam cursor =
     (case split_on CHR ''|'' cursor of
        [height, txHash] \<Rightarrow>
          (case ParseUint height of
             Inl e \<Rightarrow> Inl (ErrWrap ''error parsing block height'' e)
           | Inr blockHeight \<Rightarrow> Inr (blockHeight, txHash))
      | parts \<Rightarrow> Inl (ErrMsg ''invalid cursor: expected 2 parts''))"

text \<open>A missing or empty cursor is no cursor.\<close>

definition decodeCursor :: "string option \<Rightarrow> goerror + (u64 \<times> byte list) option" where
  "decodeCursor cursor =
     (case cursor of
        None \<Rightarrow> Inr None
      | Some c \<Rightarrow>
          if c = [] then Inr None
          else
            (case unmarshalCursorParam c of
               Inl e \<Rightarrow> Inl e
             | Inr (blockHeight, txHash) \<Rightarrow>
                 (case decode_base64 URLEncoding True txHash of
                    None \<Rightarrow> Inl (ErrMsg ''error decoding cursor tx hash'')
                  | Some decodedTxHash \<Rightarrow> Inr (Some (blockHeight, decodedTxHash)))))"

text \<open>\<open>makeTxCursor\<close> of the handlers (\<open>api/handlers/transactions.go\<close>).\<close>

definition makeTxCursor :: "u64 \<Rightarrow> string \<Rightarrow> goerror + string" where
  "makeTxCursor blockHeight txHashB64 =
     (case decode_base64 StdEncoding False txHashB64 of
        None \<Rightarrow> Inl (ErrMsg ''error decoding tx hash'')
      | Some raw \<Rightarrow> Inr (FormatUint blockHeight @ ''|'' @ encode_base64 URLEncoding raw))"

lemma digits_no_bar: "CHR ''|'' \<notin> set (FormatUint h)"
proof
  assume "CHR ''|'' \<in> set (FormatUint h)"
  then have "is_digit CHR ''|''" using show_nat_digits by (auto simp: FormatUint_def list_all_iff)
  then show False by (simp add: char_class)
qed

lemma decodeCursor_make:
  assumes "makeTxCursor h t = Inr c" and "decode_base64 StdEncoding False t = Some raw"
  shows "c \<noteq> [] \<and> decodeCursor (Some c) = Inr (Some (h, raw))"
proof -
  have c: "c = FormatUint h @ CHR ''|'' # encode_base64 URLEncoding raw"
    using assms by (simp add: makeTxCursor_def)
  have "split_on CHR ''|'' c = [FormatUint h, encode_base64 URLEncoding raw]"
    by (simp add: c split_on_append [OF digits_no_bar] split_on_no_sep [OF encode_base64_no_bar])
  then show ?thesis by (simp add: c decodeCursor_def unmarshalCursorParam_def)
qed

section \<open>Reversing in place\<close>

text \<open>The loop swaps from both ends; \<open>j\<close> starts at the last index, and an empty slice is not touched.\<close>

function reverse_loop :: "nat \<Rightarrow> nat \<Rightarrow> 'a list \<Rightarrow> 'a list" where
  "reverse_loop i j s =
     (if i < j then reverse_loop (i + 1) (j - 1) (s[i := s ! j, j := s ! i]) else s)"
  by pat_completeness auto
termination by (relation "measure (\<lambda>(i, j, s). j - i)") auto

declare reverse_loop.simps [simp del]

definition reverseSlice :: "'a list \<Rightarrow> 'a list" where
  "reverseSlice s = reverse_loop 0 (length s - 1) s"

lemma reverse_loop_nth:
  "j < length s \<Longrightarrow> length (reverse_loop i j s) = length s
   \<and> (\<forall>k<length s. reverse_loop i j s ! k = (if i \<le> k \<and> k \<le> j then s ! (i + j - k) else s ! k))"
proof (induction i j s rule: reverse_loop.induct)
  case (1 i j s)
  show ?case
  proof (cases "i < j")
    case False
    then have "i \<le> k \<Longrightarrow> k \<le> j \<Longrightarrow> i + j - k = k" for k by linarith
    with False show ?thesis by (auto simp: reverse_loop.simps [of i j])
  next
    case True
    let ?s = "s[i := s ! j, j := s ! i]"
    have IH: "length (reverse_loop (i + 1) (j - 1) ?s) = length s"
      "\<And>k. k < length s \<Longrightarrow> reverse_loop (i + 1) (j - 1) ?s ! k =
        (if i + 1 \<le> k \<and> k \<le> j - 1 then ?s ! (i + 1 + (j - 1) - k) else ?s ! k)"
      using "1.IH" [OF True] "1.prems" by auto
    have "reverse_loop i j s ! k = (if i \<le> k \<and> k \<le> j then s ! (i + j - k) else s ! k)" if "k < length s" for k
      using that True "1.prems" IH(2) [OF that]
      by (simp add: reverse_loop.simps [of i j]) (auto simp: nth_list_update)
    then show ?thesis using IH(1) True by (simp add: reverse_loop.simps [of i j])
  qed
qed

lemma reverseSlice_rev [simp]: "reverseSlice s = rev s"
proof (cases "s = []")
  case False
  then have "length s - 1 < length s" by simp
  from reverse_loop_nth [OF this, of 0] show ?thesis
    by (intro nth_equalityI) (auto simp: reverseSlice_def rev_nth)
qed (simp add: reverseSlice_def reverse_loop.simps)

section \<open>Page queries\<close>

text \<open>\<open>bigint\<close> takes an unsigned argument below \<open>2^63\<close> only.\<close>

definition int8_arg :: "u64 \<Rightarrow> goerror option" where
  "int8_arg w = (if unat w < 2 ^ 63 then None else Some (ErrMsg ''greater than maximum value for int8''))"

text \<open>What a page query asks for, and the limit: the newest rows, the rows before a key (newest
  first), the rows after a key (oldest first).\<close>

datatype 'k seek = Newest | Before 'k | After 'k

type_synonym tx_key = "u64 \<times> byte list"

type_synonym 'r page_query = "tx_key seek \<Rightarrow> u64 \<Rightarrow> goerror + 'r list"

abbreviation "dir_next \<equiv> ''next''"
abbreviation "dir_prev \<equiv> ''prev''"

definition GetTransactionsByRange ::
  "(byte list \<Rightarrow> goerror + Event list) \<Rightarrow> FullTxData page_query \<Rightarrow> string \<Rightarrow> u64 \<Rightarrow> string
   \<Rightarrow> goerror + Transaction list \<times> bool" where
  "GetTransactionsByRange decode query cursor limit direction =
     (if limit = 0 \<or> limit > 100 then Inl (ErrMsg ''limit must be between 1 and 100'')
      else
        bind_result (decodeCursor (Some cursor)) (\<lambda>seekKey.
          let fetchLimit = limit + 1;
              finish = (\<lambda>rows reverse.
                bind_result rows (\<lambda>rs. bind_result (mapM_result (ToTransaction decode) rs) (\<lambda>transactions.
                  let hasMore = of_nat (length transactions) > limit;
                      page = (if hasMore then take (unat limit) transactions else transactions)
                  in Inr (if reverse then reverseSlice page else page, hasMore))))
          in if direction = dir_next then
               finish (query (case seekKey of Some k \<Rightarrow> Before k | None \<Rightarrow> Newest) fetchLimit) False
             else if direction = dir_prev then
               (case seekKey of
                  None \<Rightarrow> Inl (ErrMsg ''prev direction requires a cursor'')
                | Some k \<Rightarrow> finish (query (After k) fetchLimit) True)
             else Inl (ErrMsg ''invalid direction'')))"

text \<open>The probe row: one more row than the limit tells that there is another page.\<close>

lemma probe_row:
  assumes "unat limit < 2 ^ 64 - 1" and "rows = map f (take (unat (limit + 1)) all)"
  shows "of_nat (length rows) > (limit :: u64) \<longleftrightarrow> unat limit < length all"
    and "(if unat limit < length all then take (unat limit) rows else rows) = map f (take (unat limit) all)"
proof -
  have s: "unat (limit + 1) = Suc (unat limit)" using assms(1) unat_plus [of limit 1] by simp
  then have len: "length rows = min (length all) (Suc (unat limit))" by (simp add: assms(2))
  then have "unat (of_nat (length rows) :: u64) = length rows"
    using assms(1) by (simp add: unat_of_nat take_bit_nat_eq_self)
  then show "of_nat (length rows) > limit \<longleftrightarrow> unat limit < length all"
    using len by (auto simp: word_less_nat_alt)
  show "(if unat limit < length all then take (unat limit) rows else rows) = map f (take (unat limit) all)"
    using len by (auto simp: assms(2) s take_map)
qed

text \<open>A client that follows the next cursors, with fuel. When every page holds the first \<open>n\<close> of the
  rows its cursor leaves, and its next cursor leaves the others, the pages are those rows.\<close>

primrec follow_pages :: "nat \<Rightarrow> (string \<Rightarrow> 'e + 'r list \<times> string option) \<Rightarrow> string \<Rightarrow> 'r list list option" where
  "follow_pages 0 get cursor = None"
| "follow_pages (Suc fuel) get cursor =
     (case get cursor of
        Inl e \<Rightarrow> None
      | Inr (rows, c) \<Rightarrow>
          (case c of None \<Rightarrow> Some [rows] | Some c \<Rightarrow> map_option ((#) rows) (follow_pages fuel get c)))"

lemma follow_pages_complete:
  assumes "\<And>c s. leaves c s \<Longrightarrow>
      \<exists>c'. get c = Inr (take n s, c') \<and> (if n < length s then \<exists>d. c' = Some d \<and> leaves d (drop n s) else c' = None)"
    and "0 < n"
  shows "leaves c s \<Longrightarrow> length s < fuel \<Longrightarrow> \<exists>pages. follow_pages fuel get c = Some pages \<and> concat pages = s
    \<and> list_all (\<lambda>p. length p = n) (butlast pages) \<and> pages \<noteq> [] \<and> length (last pages) \<le> n"
proof (induction fuel arbitrary: c s)
  case (Suc fuel)
  obtain c' where c': "get c = Inr (take n s, c')"
    "if n < length s then \<exists>d. c' = Some d \<and> leaves d (drop n s) else c' = None"
    using assms(1) [OF Suc.prems(1)] by blast
  show ?case
  proof (cases "n < length s")
    case True
    with c'(2) obtain d where d: "c' = Some d" "leaves d (drop n s)" by auto
    from True assms(2) Suc.prems(2) have "length (drop n s) < fuel" by simp
    from Suc.IH [OF d(2) this] obtain pages where "follow_pages fuel get d = Some pages" "concat pages = drop n s"
      "list_all (\<lambda>p. length p = n) (butlast pages)" "pages \<noteq> []" "length (last pages) \<le> n" by blast
    with True show ?thesis by (simp add: c'(1) d(1))
  qed (use c' in simp)
qed simp

section \<open>What the tables answer\<close>

text \<open>Rows with distinct keys; SQL filters, orders by the key and limits.\<close>

definition table_page :: "('r \<Rightarrow> 'k :: linorder) \<Rightarrow> 'r list \<Rightarrow> 'k seek \<Rightarrow> u64 \<Rightarrow> 'r list" where
  "table_page key rows what limit = take (unat limit)
     (case what of
        Newest \<Rightarrow> rev (sort_key key rows)
      | Before k \<Rightarrow> rev (sort_key key (filter (\<lambda>r. key r < k) rows))
      | After k \<Rightarrow> sort_key key (filter (\<lambda>r. k < key r) rows))"

text \<open>The rows that a cursor leaves to walk, and the query for them.\<close>

definition after_key :: "('r \<Rightarrow> 'k :: linorder) \<Rightarrow> 'r list \<Rightarrow> 'k option \<Rightarrow> 'r list" where
  "after_key key rows k = (case k of None \<Rightarrow> rows | Some k \<Rightarrow> filter (\<lambda>r. key r < k) rows)"

definition seek_of :: "'k option \<Rightarrow> 'k seek" where
  "seek_of k = (case k of None \<Rightarrow> Newest | Some k \<Rightarrow> Before k)"

lemma descending_suffix:
  "sorted_wrt (\<lambda>x y. key y < (key x :: 'k :: linorder)) xs \<Longrightarrow>
   \<exists>ys. xs = ys @ filter (\<lambda>x. key x < k) xs"
proof (induction xs)
  case (Cons x xs)
  show ?case
  proof (cases "key x < k")
    case True
    with Cons.prems have "\<forall>y\<in>set xs. key y < k" by auto
    then have "filter (\<lambda>x. key x < k) xs = xs" by (simp add: filter_id_conv)
    with True show ?thesis by simp
  next
    case False
    from Cons obtain ys where "xs = ys @ filter (\<lambda>x. key x < k) xs" by auto
    with False show ?thesis by (intro exI [of _ "x # ys"]) simp
  qed
qed simp

text \<open>The interface of a source of pages: \<open>newest\<close> lists the rows of a table newest first, by
  distinct keys.\<close>

locale keyset_source =
  fixes page :: "'db \<Rightarrow> 'k :: linorder seek \<Rightarrow> u64 \<Rightarrow> 'r list"
    and key :: "'r \<Rightarrow> 'k" and newest :: "'db \<Rightarrow> 'r list" and ok :: "'db \<Rightarrow> bool"
  assumes descending: "ok db \<Longrightarrow> sorted_wrt (\<lambda>x y. key y < key x) (newest db)"
    and page_Newest: "ok db \<Longrightarrow> page db Newest n = take (unat n) (newest db)"
    and page_Before: "ok db \<Longrightarrow> page db (Before k) n = take (unat n) (filter (\<lambda>r. key r < k) (newest db))"
    and page_After: "ok db \<Longrightarrow> page db (After k) n = take (unat n) (rev (filter (\<lambda>r. k < key r) (newest db)))"
begin

lemma after_row:
  assumes "ok db" and "newest db = xs @ r # ys"
  shows "page db (Before (key r)) n = take (unat n) ys"
  using filter_key_sorted_suffix(1) [OF descending [OF assms(1), unfolded assms(2)]]
  by (simp only: page_Before [OF assms(1)] assms(2))

lemma before_row:
  assumes "ok db" and "newest db = xs @ r # ys"
  shows "page db (After (key r)) n = take (unat n) (rev xs)"
  using filter_key_sorted_suffix(2) [OF descending [OF assms(1), unfolded assms(2)]]
  by (simp only: page_After [OF assms(1)] assms(2))

lemma page_seek: "ok db \<Longrightarrow> page db (seek_of k) n = take (unat n) (after_key key (newest db) k)"
  by (simp add: seek_of_def after_key_def page_Newest page_Before split: option.split)

lemma after_suffix:
  assumes "ok db" shows "\<exists>xs. newest db = xs @ after_key key (newest db) k"
  using descending_suffix [OF descending [OF assms]] by (auto simp: after_key_def split: option.split)

lemma after_row_key:
  assumes "ok db" and "newest db = xs @ r # ys"
  shows "after_key key (newest db) (Some (key r)) = ys"
  using filter_key_sorted_suffix(1) [OF descending [OF assms(1), unfolded assms(2)]]
  by (simp only: after_key_def option.case assms(2))

lemma after_nth:
  assumes "ok db" and "n < length (after_key key (newest db) k)"
  shows "after_key key (newest db) (Some (key (after_key key (newest db) k ! n))) = drop (Suc n) (after_key key (newest db) k)"
proof -
  let ?all = "after_key key (newest db) k"
  obtain xs where "newest db = xs @ ?all" using after_suffix [OF assms(1)] by blast
  with id_take_nth_drop [OF assms(2)] have "newest db = (xs @ take n ?all) @ ?all ! n # drop (Suc n) ?all" by simp
  from after_row_key [OF assms(1) this] show ?thesis .
qed

end

lemma sort_key_descending:
  assumes "distinct (map key rows)"
  shows "sorted_wrt (\<lambda>x y. key y < key x) (rev (sort_key key rows))"
proof -
  have "sorted (map key (sort_key key rows))" by simp
  moreover have "mset (map key (sort_key key rows)) = mset (map key rows)" by simp
  then have "distinct (map key (sort_key key rows))" using assms by (metis mset_eq_imp_distinct_iff)
  ultimately have "sorted_wrt (<) (map key (sort_key key rows))" by (simp add: strict_sorted_iff)
  then show ?thesis by (simp add: sorted_wrt_rev sorted_wrt_map)
qed

text \<open>The joined rows of one chain: \<open>encode(tx_hash, 'base64')\<close> prints hashes of at most 57 bytes as
  standard base64 on one line.\<close>

record tx_join =
  tj_hash :: "byte list"
  tj_data :: FullTxData

definition tj_key :: "tx_join \<Rightarrow> tx_key" where
  "tj_key r = (ft_BlockHeight (tj_data r), tj_hash r)"

definition joined :: "tx_join list \<Rightarrow> bool" where
  "joined rows \<longleftrightarrow> distinct (map tj_key rows)
     \<and> list_all (\<lambda>r. ft_TxHash (tj_data r) = encode_base64 StdEncoding (tj_hash r)) rows"

definition newest_first :: "tx_join list \<Rightarrow> tx_join list" where
  "newest_first rows = rev (sort_key tj_key rows)"

interpretation txs: keyset_source "table_page tj_key" tj_key newest_first joined
  by unfold_locales
     (auto simp: joined_def newest_first_def table_page_def sort_key_descending filter_sort rev_filter [symmetric])

definition tx_pages :: "tx_join list \<Rightarrow> FullTxData page_query" where
  "tx_pages rows what limit = Inr (map tj_data (table_page tj_key rows what limit))"

end
