(* ===== verification/Api_Transactions.thy ===== *)
theory Api_Transactions
  imports Pagination
begin

text \<open>
  The transaction pages of the API (\<open>api/handlers/transactions.go\<close>, \<open>errors.go\<close>): the handler over
  the page query, the cursors it hands out, and what a client sees that follows them.
\<close>

section \<open>Errors\<close>

text \<open>An HTTP error with its user-facing message; an internal error carries none of the cause.\<close>

datatype api_error = BadRequest string | NotFound string | InternalServerError

definition mapDbError :: "string \<Rightarrow> goerror \<Rightarrow> api_error" where
  "mapDbError notFoundMsg err = (if is_not_found err then NotFound notFoundMsg else InternalServerError)"

text \<open>What a handler makes of a query's result.\<close>

definition found :: "string \<Rightarrow> goerror + 'a \<Rightarrow> api_error + 'a" where
  "found notFoundMsg result = (case result of Inl e \<Rightarrow> Inl (mapDbError notFoundMsg e) | Inr x \<Rightarrow> Inr x)"

section \<open>The handler\<close>

record TransactionsRangeBody =
  trb_Transactions :: "Transaction list"
  trb_HasNext :: bool
  trb_HasPrev :: bool
  trb_NextCursor :: "string option"
  trb_PrevCursor :: "string option"

definition cursor_of :: "Transaction \<Rightarrow> api_error + string" where
  "cursor_of t =
     (case makeTxCursor (t_BlockHeight t) (t_TxHash t) of Inl e \<Rightarrow> Inl InternalServerError | Inr c \<Rightarrow> Inr c)"

definition buildTransactionsRangeBody ::
  "Transaction list \<Rightarrow> bool \<Rightarrow> string \<Rightarrow> string \<Rightarrow> api_error + TransactionsRangeBody" where
  "buildTransactionsRangeBody rows hasMore direction cursor =
     (let body = \<lparr>trb_Transactions = rows, trb_HasNext = False, trb_HasPrev = False,
                  trb_NextCursor = None, trb_PrevCursor = None\<rparr> in
      if length rows = 0 then Inr body
      else
        bind_result (cursor_of (rows ! 0)) (\<lambda>newestCur.
        bind_result (cursor_of (rows ! (length rows - 1))) (\<lambda>oldestCur.
          Inr (if direction = dir_next then
                 body\<lparr>trb_HasNext := hasMore,
                      trb_NextCursor := (if hasMore then Some oldestCur else None),
                      trb_HasPrev := (cursor \<noteq> []),
                      trb_PrevCursor := (if cursor \<noteq> [] then Some newestCur else None)\<rparr>
               else if direction = dir_prev then
                 body\<lparr>trb_HasPrev := hasMore,
                      trb_PrevCursor := (if hasMore then Some newestCur else None),
                      trb_HasNext := True, trb_NextCursor := Some oldestCur\<rparr>
               else body))))"

definition GetTransactionsByCursor ::
  "(byte list \<Rightarrow> goerror + Event list) \<Rightarrow> FullTxData page_query \<Rightarrow> string \<Rightarrow> u64 \<Rightarrow> string
   \<Rightarrow> api_error + TransactionsRangeBody" where
  "GetTransactionsByCursor decode query cursor inputLimit inputDirection =
     (let limit = (if inputLimit = 0 then 25 else inputLimit);
          direction = (if inputDirection = [] then dir_next else inputDirection) in
      if limit > 100 then Inl (BadRequest ''invalid limit (1..100)'')
      else if direction \<noteq> dir_next \<and> direction \<noteq> dir_prev
      then Inl (BadRequest ''invalid direction (must be 'next' or 'prev')'')
      else if direction = dir_prev \<and> cursor = []
      then Inl (BadRequest ''direction=prev requires a cursor'')
      else
        (case GetTransactionsByRange decode query cursor limit direction of
           Inl e \<Rightarrow> Inl (mapDbError ''transactions not found'' e)
         | Inr (transactions, hasMore) \<Rightarrow> buildTransactionsRangeBody transactions hasMore direction cursor))"

section \<open>Pages over the tables\<close>

text \<open>The rows can be decoded, and their transactions.\<close>

definition decodable :: "(byte list \<Rightarrow> goerror + Event list) \<Rightarrow> tx_join list \<Rightarrow> bool" where
  "decodable decode rows \<longleftrightarrow> list_all (\<lambda>r. isl (ToTransaction decode (tj_data r)) = False) rows"

definition tx_of :: "(byte list \<Rightarrow> goerror + Event list) \<Rightarrow> tx_join \<Rightarrow> Transaction" where
  "tx_of decode r = projr (ToTransaction decode (tj_data r))"

lemma scan_rows:
  assumes "list_all (\<lambda>r. isl (ToTransaction decode (tj_data r)) = False) rows"
  shows "mapM_result (ToTransaction decode) (map tj_data rows) = Inr (map (tx_of decode) rows)"
proof -
  have "ToTransaction decode f = Inr (projr (ToTransaction decode f))" if "f \<in> set (map tj_data rows)" for f
    using that assms by (auto simp: list_all_iff isl_def split: sum.splits)
  then have "mapM_result (ToTransaction decode) (map tj_data rows)
      = Inr (map (\<lambda>f. projr (ToTransaction decode f)) (map tj_data rows))" by (rule mapM_result_total)
  then show ?thesis by (simp add: tx_of_def comp_def)
qed

lemma tx_of_simps:
  assumes "isl (ToTransaction decode (tj_data r)) = False"
  shows "t_TxHash (tx_of decode r) = ft_TxHash (tj_data r)"
    and "t_BlockHeight (tx_of decode r) = ft_BlockHeight (tj_data r)"
  using assms by (auto simp: tx_of_def ToTransaction_def Let_def split: if_splits sum.splits)
    (cases "decode (ft_TxEventsCompressed (tj_data r))"; simp)+

lemma set_newest [simp]: "set (newest_first rows) = set rows"
  by (simp add: newest_first_def)

lemma length_newest [simp]: "length (newest_first rows) = length rows"
  by (simp add: newest_first_def)

lemma cursor_of_row:
  assumes "joined rows" and "decodable decode rows" and "r \<in> set rows"
  obtains c where "cursor_of (tx_of decode r) = Inr c" and "c \<noteq> []"
    and "decodeCursor (Some c) = Inr (Some (tj_key r))"
proof -
  have dec: "isl (ToTransaction decode (tj_data r)) = False"
    using assms(2,3) by (simp add: decodable_def list_all_iff)
  have hash: "ft_TxHash (tj_data r) = encode_base64 StdEncoding (tj_hash r)"
    using assms(1,3) by (simp add: joined_def list_all_iff)
  obtain c where c: "makeTxCursor (ft_BlockHeight (tj_data r)) (ft_TxHash (tj_data r)) = Inr c"
    by (simp add: makeTxCursor_def hash)
  from decodeCursor_make [OF this] hash have "c \<noteq> [] \<and> decodeCursor (Some c) = Inr (Some (tj_key r))"
    by (simp add: tj_key_def)
  with c that show ?thesis by (simp add: cursor_of_def tx_of_simps [OF dec])
qed

text \<open>What the page query yields, for a list of rows in page order.\<close>

lemma trim_probe:
  assumes "0 < limit" and "limit \<le> (100 :: u64)"
    and "rows = map f (take (unat (limit + 1)) all)"
  shows "of_nat (length rows) > limit \<longleftrightarrow> unat limit < length all"
    and "(if unat limit < length all then take (unat limit) rows else rows) = map f (take (unat limit) all)"
proof -
  have "unat limit \<le> 100" using assms(2) by (simp add: word_le_nat_alt)
  then have "unat limit < 2 ^ 64 - 1" by simp
  from probe_row [OF this assms(3)] show "of_nat (length rows) > limit \<longleftrightarrow> unat limit < length all"
    and "(if unat limit < length all then take (unat limit) rows else rows) = map f (take (unat limit) all)" .
qed

lemma range_next:
  assumes "joined rows" and "decodable decode rows" and "0 < limit" and "limit \<le> 100"
    and "decodeCursor (Some cursor) = Inr k"
    and "all = (case k of None \<Rightarrow> newest_first rows | Some key \<Rightarrow> filter (\<lambda>r. tj_key r < key) (newest_first rows))"
  shows "GetTransactionsByRange decode (tx_pages rows) cursor limit dir_next =
    Inr (map (tx_of decode) (take (unat limit) all), unat limit < length all)"
proof -
  let ?what = "case k of Some k \<Rightarrow> Before k | None \<Rightarrow> Newest"
  have page: "table_page tj_key rows ?what (limit + 1) = take (unat (limit + 1)) all"
    using txs.page_Newest [OF assms(1)] txs.page_Before [OF assms(1)] assms(6) by (cases k) simp_all
  have "set all \<subseteq> set rows" using assms(6) by (cases k) auto
  then have "list_all (\<lambda>r. isl (ToTransaction decode (tj_data r)) = False) (take (unat (limit + 1)) all)"
    using assms(2) by (auto simp: decodable_def list_all_iff dest!: in_set_takeD)
  note scan = scan_rows [OF this]
  note trim = trim_probe [OF assms(3,4) refl, where f = "tx_of decode" and all = all]
  have "limit \<noteq> 0" "\<not> limit > 100" using assms(3,4) by auto
  then show ?thesis
    by (simp only: GetTransactionsByRange_def assms(5) tx_pages_def page scan Let_def bind_result.simps
        if_False if_True simp_thms trim)
qed

lemma range_prev:
  assumes "joined rows" and "decodable decode rows" and "0 < limit" and "limit \<le> 100"
    and "decodeCursor (Some cursor) = Inr (Some key)"
    and "all = filter (\<lambda>r. key < tj_key r) (newest_first rows)"
  shows "GetTransactionsByRange decode (tx_pages rows) cursor limit dir_prev =
    Inr (map (tx_of decode) (rev (take (unat limit) (rev all))), unat limit < length all)"
proof -
  have page: "table_page tj_key rows (After key) (limit + 1) = take (unat (limit + 1)) (rev all)"
    using txs.page_After [OF assms(1)] assms(6) by simp
  have "set all \<subseteq> set rows" using assms(6) by auto
  then have "list_all (\<lambda>r. isl (ToTransaction decode (tj_data r)) = False) (take (unat (limit + 1)) (rev all))"
    using assms(2) by (auto simp: decodable_def list_all_iff dest!: in_set_takeD)
  note scan = scan_rows [OF this]
  note trim = trim_probe [OF assms(3,4) refl, where f = "tx_of decode" and all = "rev all"]
  note guards = trim(1) [unfolded length_rev] trim(2) [unfolded length_rev]
  have "limit \<noteq> 0" "\<not> limit > 100" "dir_prev \<noteq> dir_next" using assms(3,4) by auto
  then have "GetTransactionsByRange decode (tx_pages rows) cursor limit dir_prev =
      Inr (rev (map (tx_of decode) (take (unat limit) (rev all))), unat limit < length all)"
    by (simp only: GetTransactionsByRange_def assms(5) tx_pages_def page scan Let_def bind_result.simps
        option.simps if_False if_True simp_thms guards reverseSlice_rev)
  then show ?thesis by (simp only: rev_map)
qed

text \<open>The body of a page, with the cursors of its first and last row.\<close>

lemma page_cursors:
  assumes "joined rows" and "decodable decode rows" and "set page \<subseteq> set rows" and "page \<noteq> []"
  obtains c1 c2 where "cursor_of (tx_of decode (hd page)) = Inr c1" and "cursor_of (tx_of decode (last page)) = Inr c2"
    and "c1 \<noteq> []" and "c2 \<noteq> []"
    and "decodeCursor (Some c1) = Inr (Some (tj_key (hd page)))"
    and "decodeCursor (Some c2) = Inr (Some (tj_key (last page)))"
proof -
  have "hd page \<in> set rows" "last page \<in> set rows" using assms(3,4) by auto
  with cursor_of_row [OF assms(1,2)] that show ?thesis by metis
qed

lemma body_of_rows:
  assumes "cursor_of (tx_of decode (hd page)) = Inr c1" and "cursor_of (tx_of decode (last page)) = Inr c2"
    and "page \<noteq> []"
  shows "buildTransactionsRangeBody (map (tx_of decode) page) hasMore dir_next cursor =
      Inr \<lparr>trb_Transactions = map (tx_of decode) page, trb_HasNext = hasMore, trb_HasPrev = (cursor \<noteq> []),
           trb_NextCursor = (if hasMore then Some c2 else None), trb_PrevCursor = (if cursor \<noteq> [] then Some c1 else None)\<rparr>"
    and "buildTransactionsRangeBody (map (tx_of decode) page) hasMore dir_prev cursor =
      Inr \<lparr>trb_Transactions = map (tx_of decode) page, trb_HasNext = True, trb_HasPrev = hasMore,
           trb_NextCursor = Some c2, trb_PrevCursor = (if hasMore then Some c1 else None)\<rparr>"
proof -
  have ends: "map (tx_of decode) page ! 0 = tx_of decode (hd page)"
    "map (tx_of decode) page ! (length (map (tx_of decode) page) - 1) = tx_of decode (last page)"
    "length (map (tx_of decode) page) \<noteq> 0"
    using assms(3) by (simp_all add: hd_conv_nth last_conv_nth)
  show "buildTransactionsRangeBody (map (tx_of decode) page) hasMore dir_next cursor =
      Inr \<lparr>trb_Transactions = map (tx_of decode) page, trb_HasNext = hasMore, trb_HasPrev = (cursor \<noteq> []),
           trb_NextCursor = (if hasMore then Some c2 else None), trb_PrevCursor = (if cursor \<noteq> [] then Some c1 else None)\<rparr>"
    using ends(3) unfolding buildTransactionsRangeBody_def ends(1,2) Let_def assms(1,2) by simp
  show "buildTransactionsRangeBody (map (tx_of decode) page) hasMore dir_prev cursor =
      Inr \<lparr>trb_Transactions = map (tx_of decode) page, trb_HasNext = True, trb_HasPrev = hasMore,
           trb_NextCursor = Some c2, trb_PrevCursor = (if hasMore then Some c1 else None)\<rparr>"
    using ends(3) unfolding buildTransactionsRangeBody_def ends(1,2) Let_def assms(1,2) by simp
qed

section \<open>Walking the pages\<close>

text \<open>A client that follows the next cursors, with fuel.\<close>

definition walk_next ::
  "nat \<Rightarrow> (byte list \<Rightarrow> goerror + Event list) \<Rightarrow> FullTxData page_query \<Rightarrow> u64 \<Rightarrow> string \<Rightarrow> Transaction list list option" where
  "walk_next fuel decode query limit =
     follow_pages fuel (\<lambda>cursor. bind_result (GetTransactionsByCursor decode query cursor limit dir_next)
       (\<lambda>body. Inr (trb_Transactions body, trb_NextCursor body)))"

text \<open>The rows a cursor leaves to walk.\<close>

definition rows_after :: "tx_join list \<Rightarrow> tx_key option \<Rightarrow> tx_join list" where
  "rows_after rows = after_key tj_key (newest_first rows)"

lemma rows_after_simps: "rows_after rows None = newest_first rows"
  "rows_after rows (Some key) = filter (\<lambda>r. tj_key r < key) (newest_first rows)"
  by (simp_all add: rows_after_def after_key_def)

lemmas rows_after_suffix = txs.after_suffix [folded rows_after_def]
lemmas rows_after_nth = txs.after_nth [folded rows_after_def]

lemma handler_page:
  assumes "0 < limit" and "limit \<le> 100" and "direction = dir_next \<or> direction = dir_prev \<and> cursor \<noteq> []"
    and "GetTransactionsByRange decode query cursor limit direction = Inr (transactions, hasMore)"
  shows "GetTransactionsByCursor decode query cursor limit direction =
    buildTransactionsRangeBody transactions hasMore direction cursor"
proof -
  have "limit \<noteq> 0" "\<not> limit > 100" using assms(1,2) by auto
  moreover have "direction \<noteq> []" "direction = dir_next \<or> direction = dir_prev" "\<not> (direction = dir_prev \<and> cursor = [])"
    using assms(3) by auto
  ultimately show ?thesis
    unfolding GetTransactionsByCursor_def Let_def using assms(4) by auto
qed

lemma last_take: "0 < n \<Longrightarrow> n \<le> length xs \<Longrightarrow> last (take n xs) = xs ! (n - 1)"
  by (simp add: last_conv_nth flip: length_greater_0_conv)

text \<open>One page of the walk.\<close>

lemma next_page:
  assumes J: "joined rows" and D: "decodable decode rows" and L: "0 < limit" "limit \<le> 100"
    and C: "decodeCursor (Some cursor) = Inr k"
  shows "\<exists>body. GetTransactionsByCursor decode (tx_pages rows) cursor limit dir_next = Inr body
    \<and> trb_Transactions body = map (tx_of decode) (take (unat limit) (rows_after rows k))
    \<and> (if unat limit < length (rows_after rows k)
       then \<exists>c. trb_NextCursor body = Some c \<and> cursor_of (tx_of decode (rows_after rows k ! (unat limit - 1))) = Inr c
          \<and> decodeCursor (Some c) = Inr (Some (tj_key (rows_after rows k ! (unat limit - 1))))
       else trb_NextCursor body = None)
    \<and> (if cursor \<noteq> [] \<and> rows_after rows k \<noteq> []
       then \<exists>c. trb_PrevCursor body = Some c \<and> c \<noteq> [] \<and> decodeCursor (Some c) = Inr (Some (tj_key (hd (rows_after rows k))))
       else trb_PrevCursor body = None)"
proof -
  let ?all = "rows_after rows k" and ?page = "take (unat limit) (rows_after rows k)"
  have pos: "0 < unat limit" using L(1) by (simp add: word_less_nat_alt)
  have sub: "set ?page \<subseteq> set rows"
    by (cases k) (auto simp: rows_after_simps dest!: in_set_takeD)
  have R: "GetTransactionsByRange decode (tx_pages rows) cursor limit dir_next =
      Inr (map (tx_of decode) ?page, unat limit < length ?all)"
    using range_next [OF J D L C refl] by (simp add: rows_after_def after_key_def)
  have H: "GetTransactionsByCursor decode (tx_pages rows) cursor limit dir_next =
      buildTransactionsRangeBody (map (tx_of decode) ?page) (unat limit < length ?all) dir_next cursor"
    by (rule handler_page [OF L _ R]) simp
  show ?thesis
  proof (cases "?all = []")
    case True
    then show ?thesis by (simp add: H buildTransactionsRangeBody_def)
  next
    case False
    then have ne: "?page \<noteq> []" using pos by simp
    obtain c1 c2 where c: "cursor_of (tx_of decode (hd ?page)) = Inr c1" "cursor_of (tx_of decode (last ?page)) = Inr c2"
      and b: "c1 \<noteq> []" "decodeCursor (Some c1) = Inr (Some (tj_key (hd ?page)))"
        "decodeCursor (Some c2) = Inr (Some (tj_key (last ?page)))"
      by (rule page_cursors [OF J D sub ne])
    note body = body_of_rows(1) [OF c ne]
    have "hd ?page = hd ?all" using pos by simp
    with b c(2) False last_take [OF pos, of ?all] show ?thesis
      unfolding H body by (cases "unat limit < length ?all") simp_all
  qed
qed

text \<open>Rows around a position of the page order.\<close>

lemma rows_split:
  assumes "joined rows" and "n < length (rows_after rows k)"
  obtains xs where "newest_first rows = xs @ rows_after rows k"
    and "rows_after rows (Some (tj_key (rows_after rows k ! n))) = drop (Suc n) (rows_after rows k)"
    and "filter (\<lambda>r. tj_key (rows_after rows k ! n) < tj_key r) (newest_first rows) = xs @ take n (rows_after rows k)"
proof -
  let ?all = "rows_after rows k"
  obtain xs where xs: "newest_first rows = xs @ ?all" using rows_after_suffix [OF assms(1)] by blast
  with id_take_nth_drop [OF assms(2)]
  have split: "newest_first rows = (xs @ take n ?all) @ ?all ! n # drop (Suc n) ?all" by simp
  have "sorted_wrt (\<lambda>x y. tj_key y < tj_key x) ((xs @ take n ?all) @ ?all ! n # drop (Suc n) ?all)"
    using txs.descending [OF assms(1)] by (simp only: split)
  from filter_key_sorted_suffix(2) [OF this] that [OF xs txs.after_row_key [OF assms(1) split, folded rows_after_def]] show ?thesis
    by (simp only: split)
qed

lemma walk_next_from:
  assumes J: "joined rows" and D: "decodable decode rows" and L: "0 < limit" "limit \<le> 100"
    and C: "decodeCursor (Some cursor) = Inr k" and F: "length (rows_after rows k) < fuel"
  shows "\<exists>pages. walk_next fuel decode (tx_pages rows) limit cursor = Some pages
      \<and> concat pages = map (tx_of decode) (rows_after rows k)
      \<and> list_all (\<lambda>p. length p = unat limit) (butlast pages) \<and> pages \<noteq> [] \<and> length (last pages) \<le> unat limit"
proof -
  let ?leaves = "\<lambda>c s. \<exists>k. decodeCursor (Some c) = Inr k \<and> s = map (tx_of decode) (rows_after rows k)"
  have pos: "0 < unat limit" using L(1) by (simp add: word_less_nat_alt)
  show ?thesis unfolding walk_next_def
  proof (rule follow_pages_complete [where leaves = ?leaves, OF _ pos])
    fix c s assume "?leaves c s"
    then obtain k where k: "decodeCursor (Some c) = Inr k" and s: "s = map (tx_of decode) (rows_after rows k)" by blast
    have "rows_after rows (Some (tj_key (rows_after rows k ! (unat limit - 1)))) = drop (unat limit) (rows_after rows k)"
      if "unat limit < length (rows_after rows k)"
      using rows_after_nth [OF J, of "unat limit - 1" k] that pos by simp
    with next_page [OF J D L k] show "\<exists>c'. bind_result (GetTransactionsByCursor decode (tx_pages rows) c limit dir_next)
         (\<lambda>body. Inr (trb_Transactions body, trb_NextCursor body)) = Inr (take (unat limit) s, c') \<and>
       (if unat limit < length s then \<exists>d. c' = Some d \<and> ?leaves d (drop (unat limit) s) else c' = None)"
      by (auto simp: s take_map drop_map split: if_splits)
  qed (use C F in auto)
qed

lemma empty_cursor: "decodeCursor (Some []) = Inr None"
  by (simp add: decodeCursor_def)

lemma handler_cursor:
  assumes "0 < limit" and "limit \<le> 100" and "GetTransactionsByCursor decode query cursor limit dir_next = Inr body"
  obtains k where "decodeCursor (Some cursor) = Inr k"
proof (cases "decodeCursor (Some cursor)")
  case (Inl e)
  have "\<not> limit > 100" "limit \<noteq> 0" using assms(1,2) by auto
  then have "GetTransactionsByRange decode query cursor limit dir_next = Inl e"
    by (simp add: GetTransactionsByRange_def Inl)
  with \<open>\<not> limit > 100\<close> \<open>limit \<noteq> 0\<close> have "isl (GetTransactionsByCursor decode query cursor limit dir_next)"
    unfolding GetTransactionsByCursor_def Let_def by simp
  with assms(3) show ?thesis by simp
qed (use that in blast)

text \<open>One page backwards, from the cursor of a row.\<close>

lemma prev_page:
  assumes J: "joined rows" and D: "decodable decode rows" and L: "0 < limit" "limit \<le> 100"
    and C: "decodeCursor (Some cursor) = Inr (Some key)" "cursor \<noteq> []"
    and newer: "filter (\<lambda>r. key < tj_key r) (newest_first rows) = xs @ page"
    and P: "length page = unat limit"
  shows "\<exists>body. GetTransactionsByCursor decode (tx_pages rows) cursor limit dir_prev = Inr body
    \<and> trb_Transactions body = map (tx_of decode) page \<and> trb_HasNext body
    \<and> (\<exists>c. trb_NextCursor body = Some c \<and> cursor_of (tx_of decode (last page)) = Inr c)
    \<and> trb_HasPrev body = (xs \<noteq> [])"
proof -
  have pos: "0 < unat limit" using L(1) by (simp add: word_less_nat_alt)
  have sub: "set page \<subseteq> set rows" using arg_cong [OF newer, of set] by auto
  have ne: "page \<noteq> []" using P pos by auto
  have "rev (take (unat limit) (rev (xs @ page))) = page" by (simp add: P [symmetric])
  moreover have "unat limit < length (xs @ page) \<longleftrightarrow> xs \<noteq> []" by (simp add: P)
  ultimately have R: "GetTransactionsByRange decode (tx_pages rows) cursor limit dir_prev =
      Inr (map (tx_of decode) page, xs \<noteq> [])"
    using range_prev [OF J D L C(1) newer [symmetric]] by simp
  obtain c1 c2 where c: "cursor_of (tx_of decode (hd page)) = Inr c1" "cursor_of (tx_of decode (last page)) = Inr c2"
    by (rule page_cursors [OF J D sub ne])
  have "dir_prev = dir_next \<or> dir_prev = dir_prev \<and> cursor \<noteq> []" using C(2) by simp
  from handler_page [OF L this R] body_of_rows(2) [OF c ne] c(2) show ?thesis by simp
qed

section \<open>Properties\<close>

text \<open>C9: a client that starts without a cursor and follows the next cursors receives every
  transaction exactly once, newest first, in full pages but for the last one, and reaches the end.\<close>

theorem transaction_pages_complete:
  assumes "joined rows" and "decodable decode rows" and "0 < limit" and "limit \<le> 100" and "length rows < fuel"
  shows "\<exists>pages. walk_next fuel decode (tx_pages rows) limit [] = Some pages
      \<and> concat pages = map (tx_of decode) (newest_first rows)
      \<and> list_all (\<lambda>p. length p = unat limit) (butlast pages) \<and> pages \<noteq> [] \<and> length (last pages) \<le> unat limit"
  using walk_next_from [OF assms(1-4) empty_cursor, of fuel] assms(5) by (simp add: rows_after_simps)

text \<open>C31: following a page's next cursor and then that page's previous cursor leads back to the
  same transactions, with the same next cursor.\<close>

theorem next_then_prev:
  assumes "joined rows" and "decodable decode rows" and "0 < limit" and "limit \<le> 100"
    and "GetTransactionsByCursor decode (tx_pages rows) cursor limit dir_next = Inr body1"
    and "trb_NextCursor body1 = Some c"
  shows "\<exists>body2 p body3. GetTransactionsByCursor decode (tx_pages rows) c limit dir_next = Inr body2
    \<and> trb_PrevCursor body2 = Some p
    \<and> GetTransactionsByCursor decode (tx_pages rows) p limit dir_prev = Inr body3
    \<and> trb_Transactions body3 = trb_Transactions body1 \<and> trb_HasNext body3 \<and> trb_NextCursor body3 = Some c"
proof -
  note page = next_page [OF assms(1-4)]
  obtain k where k: "decodeCursor (Some cursor) = Inr k" by (rule handler_cursor [OF assms(3-5)])
  let ?all = "rows_after rows k" and ?n = "unat limit - 1"
  have pos: "0 < unat limit" using assms(3) by (simp add: word_less_nat_alt)
  have b1: "trb_Transactions body1 = map (tx_of decode) (take (unat limit) ?all)" "unat limit < length ?all"
      "cursor_of (tx_of decode (?all ! ?n)) = Inr c" "decodeCursor (Some c) = Inr (Some (tj_key (?all ! ?n)))"
    using page [OF k] assms(5,6) by (auto split: if_splits)
  have "?n < length ?all" using b1(2) by simp
  then obtain xs where xs: "newest_first rows = xs @ ?all"
      "rows_after rows (Some (tj_key (?all ! ?n))) = drop (Suc ?n) ?all"
    by (rule rows_split [OF assms(1)])
  then have rest: "rows_after rows (Some (tj_key (?all ! ?n))) = drop (unat limit) ?all" using pos by simp
  have "c \<noteq> []" using b1(4) empty_cursor by auto
  moreover have "drop (unat limit) ?all \<noteq> []" "hd (drop (unat limit) ?all) = ?all ! unat limit"
    using b1(2) by (simp_all add: hd_drop_conv_nth)
  ultimately obtain body2 p where b2: "GetTransactionsByCursor decode (tx_pages rows) c limit dir_next = Inr body2"
      "trb_PrevCursor body2 = Some p" "p \<noteq> []" "decodeCursor (Some p) = Inr (Some (tj_key (?all ! unat limit)))"
    using page [OF b1(4)] unfolding rest by auto
  obtain ys where ys: "newest_first rows = ys @ ?all"
      "filter (\<lambda>r. tj_key (?all ! unat limit) < tj_key r) (newest_first rows) = ys @ take (unat limit) ?all"
    by (rule rows_split [OF assms(1) b1(2)])
  have "length (take (unat limit) ?all) = unat limit" "last (take (unat limit) ?all) = ?all ! ?n"
    using b1(2) last_take [OF pos, of ?all] by simp_all
  with prev_page [OF assms(1-4) b2(4,3) ys(2)] b1(1,3) b2(1,2) show ?thesis by auto
qed

section \<open>Concrete runs\<close>

definition sample_join :: "u64 \<Rightarrow> byte list \<Rightarrow> tx_join" where
  "sample_join h hash = \<lparr>tj_hash = hash, tj_data = \<lparr>ft_TxHash = encode_base64 StdEncoding hash,
     ft_Timestamp = 0, ft_BlockHeight = h, ft_TxEvents = [], ft_TxEventsCompressed = [],
     ft_CompressionOn = False, ft_GasUsed = 5, ft_GasWanted = 9, ft_FeeAmount = ''1'', ft_FeeDenom = ''ugnot'',
     ft_MsgTypes = [''send''], ft_Success = True, ft_ErrorLog = None\<rparr>\<rparr>"

definition sample_joins :: "tx_join list" where
  "sample_joins = [sample_join 1 [7, 9], sample_join 2 [3], sample_join 2 [200]]"

lemma sample_joined: "joined sample_joins"
  by (simp add: joined_def sample_joins_def sample_join_def tj_key_def)

lemma sample_decodable: "decodable (\<lambda>b. Inr []) sample_joins"
  by (simp add: decodable_def sample_joins_def sample_join_def ToTransaction_def)

lemma transaction_pages_complete_witness:
  "\<exists>pages. walk_next 4 (\<lambda>b. Inr []) (tx_pages sample_joins) 2 [] = Some pages
      \<and> concat pages = map (tx_of (\<lambda>b. Inr [])) (newest_first sample_joins)
      \<and> list_all (\<lambda>p. length p = unat (2 :: u64)) (butlast pages) \<and> pages \<noteq> [] \<and> length (last pages) \<le> unat (2 :: u64)"
proof -
  have "(0 :: u64) < 2" "(2 :: u64) \<le> 100" "length sample_joins < 4" by (simp_all add: sample_joins_def)
  then show ?thesis by (intro transaction_pages_complete [OF sample_joined sample_decodable])
qed

lemma next_then_prev_witness:
  "\<exists>body1 c body2 p body3. GetTransactionsByCursor (\<lambda>b. Inr []) (tx_pages sample_joins) [] 1 dir_next = Inr body1
    \<and> trb_NextCursor body1 = Some c \<and> length (trb_Transactions body1) = 1
    \<and> GetTransactionsByCursor (\<lambda>b. Inr []) (tx_pages sample_joins) c 1 dir_next = Inr body2
    \<and> trb_PrevCursor body2 = Some p
    \<and> GetTransactionsByCursor (\<lambda>b. Inr []) (tx_pages sample_joins) p 1 dir_prev = Inr body3
    \<and> trb_Transactions body3 = trb_Transactions body1 \<and> trb_HasNext body3 \<and> trb_NextCursor body3 = Some c"
proof -
  have L: "(0 :: u64) < 1" "(1 :: u64) \<le> 100" by simp_all
  have "length (rows_after sample_joins None) = 3" by (simp add: rows_after_simps sample_joins_def)
  with next_page [OF sample_joined sample_decodable L empty_cursor] obtain body1 c where
    "GetTransactionsByCursor (\<lambda>b. Inr []) (tx_pages sample_joins) [] 1 dir_next = Inr body1"
    "trb_NextCursor body1 = Some c" "length (trb_Transactions body1) = 1"
    by auto
  with next_then_prev [OF sample_joined sample_decodable L this(1,2)] show ?thesis by blast
qed

end
