(* ===== verification/Api_Messages.thy ===== *)
theory Api_Messages
  imports Messages Api_Transactions
begin

text \<open>
  The messages of a transaction (\<open>api/handlers/transactions.go\<close>, \<open>api/huma-types/transaction.go\<close>):
  the hash a client sends, the answer by message counter, one helper per message type.
\<close>

section \<open>Transaction hashes\<close>

text \<open>Both alphabets are accepted; the answer is standard base64.\<close>

definition to_standard :: "char \<Rightarrow> char" where
  "to_standard c = (if c = CHR ''-'' then CHR ''+'' else if c = CHR ''_'' then CHR ''/'' else c)"

definition parseTxHash :: "string \<Rightarrow> goerror + string" where
  "parseTxHash s =
     (case decode_base64 StdEncoding False (map to_standard s) of
        None \<Rightarrow> Inl (ErrMsg ''illegal base64 data'')
      | Some raw \<Rightarrow> Inr (encode_base64 StdEncoding raw))"

lemma to_standard_char:
  assumes "v < 64"
  shows "to_standard (b64_char al v) = b64_char StdEncoding v"
proof (cases "v < 62")
  case True
  have "char_code CHR ''-'' = 45" "char_code CHR ''_'' = 95" by (simp_all add: char_code_def)
  then have "b64_char al v \<noteq> CHR ''-''" "b64_char al v \<noteq> CHR ''_''"
    using True by (intro char_code_eqD; simp add: b64_code; arith)+
  with True show ?thesis by (simp add: to_standard_def b64_char_def)
next
  case False
  then have "v = 62 \<or> v = 63" using assms by auto
  then show ?thesis by (cases al) (auto simp: to_standard_def b64_char_def)
qed

lemma to_standard_pad: "to_standard pad = pad"
  by (simp add: to_standard_def)

lemma to_standard_nats:
  "\<forall>b\<in>set bs. b < 256 \<Longrightarrow> map to_standard (encode_nats al bs) = encode_nats StdEncoding bs"
proof (induction al bs rule: encode_nats.induct)
  case (4 al a b c r)
  then show ?case by (simp add: sextets_lt to_standard_char)
qed (simp_all add: sextets_lt to_standard_char to_standard_pad)

text \<open>A hash is understood in either alphabet.\<close>

lemma parseTxHash_encode: "parseTxHash (encode_base64 al bs) = Inr (encode_base64 StdEncoding bs)"
proof -
  have "map to_standard (encode_base64 al bs) = encode_base64 StdEncoding bs"
    unfolding encode_base64_def by (rule to_standard_nats) simp
  then show ?thesis by (simp add: parseTxHash_def)
qed

section \<open>The answer\<close>

record MultiSendEntry =
  mse_Address :: string
  mse_Coins :: "coin_text list"

record TransactionMessage =
  tm_MessageType :: string
  tm_TxHash :: string
  tm_Timestamp :: time
  tm_Signers :: "string list"
  tm_FromAddress :: string
  tm_ToAddress :: string
  tm_Amount :: "coin_text list"
  tm_Inputs :: "MultiSendEntry list"
  tm_Outputs :: "MultiSendEntry list"
  tm_Caller :: string
  tm_FuncName :: string
  tm_Args :: string
  tm_Creator :: string
  tm_PkgName :: string
  tm_PkgFileNames :: "string list"
  tm_PkgPath :: string
  tm_Send :: "coin_text list"
  tm_MaxDeposit :: "coin_text list"
  tm_SessionKey :: string
  tm_AllowPaths :: "string list"
  tm_ExpiresAt :: "time option"
  tm_SpendLimit :: "coin_text list"
  tm_SpendPeriod :: "i64 option"

text \<open>The common fields; the others keep their zero values.\<close>

definition base_message :: "string \<Rightarrow> string \<Rightarrow> time \<Rightarrow> string list \<Rightarrow> TransactionMessage" where
  "base_message msgType txHash timestamp signers =
     \<lparr>tm_MessageType = msgType, tm_TxHash = txHash, tm_Timestamp = timestamp, tm_Signers = signers,
      tm_FromAddress = [], tm_ToAddress = [], tm_Amount = [], tm_Inputs = [], tm_Outputs = [],
      tm_Caller = [], tm_FuncName = [], tm_Args = [], tm_Creator = [], tm_PkgName = [],
      tm_PkgFileNames = [], tm_PkgPath = [], tm_Send = [], tm_MaxDeposit = [], tm_SessionKey = [],
      tm_AllowPaths = [], tm_ExpiresAt = None, tm_SpendLimit = [], tm_SpendPeriod = None\<rparr>"

type_synonym response = "i16 \<Rightarrow> TransactionMessage option"

text \<open>The loop of a helper: one entry per row, a later row replaces an earlier one.\<close>

definition fill_response :: "('d \<Rightarrow> i16) \<Rightarrow> ('d \<Rightarrow> TransactionMessage) \<Rightarrow> 'd list \<Rightarrow> response \<Rightarrow> response" where
  "fill_response counter message rows response = fold (\<lambda>d resp. resp(counter d \<mapsto> message d)) rows response"

text \<open>Every error of a query is masked.\<close>

definition masked :: "goerror + 'a \<Rightarrow> api_error + 'a" where
  "masked answer = (case answer of Inl e \<Rightarrow> Inl InternalServerError | Inr x \<Rightarrow> Inr x)"

section \<open>One helper per message type\<close>

definition getMsgCallResponse :: "chain_tables \<Rightarrow> string \<Rightarrow> string \<Rightarrow> string \<Rightarrow> response \<Rightarrow> api_error + response" where
  "getMsgCallResponse t msgType txHash chainName response =
     bind_result (masked (GetMsgCall t txHash chainName)) (\<lambda>rows.
       Inr (fill_response cal_MessageCounter (\<lambda>d.
           (base_message msgType (cal_TxHash d) (cal_Timestamp d) (cal_Signers d))
             \<lparr>tm_Caller := cal_Caller d, tm_Send := cal_Send d, tm_PkgPath := cal_PkgPath d,
              tm_FuncName := cal_FuncName d, tm_Args := cal_Args d, tm_MaxDeposit := cal_MaxDeposit d\<rparr>) rows response))"

definition getMsgAddPackageResponse :: "chain_tables \<Rightarrow> string \<Rightarrow> string \<Rightarrow> string \<Rightarrow> response \<Rightarrow> api_error + response" where
  "getMsgAddPackageResponse t msgType txHash chainName response =
     bind_result (masked (GetMsgAddPackage t txHash chainName)) (\<lambda>rows.
       Inr (fill_response pkg_MessageCounter (\<lambda>d.
           (base_message msgType (pkg_TxHash d) (pkg_Timestamp d) (pkg_Signers d))
             \<lparr>tm_Creator := pkg_Creator d, tm_PkgPath := pkg_PkgPath d, tm_PkgName := pkg_PkgName d,
              tm_PkgFileNames := pkg_PkgFileNames d, tm_Send := pkg_Send d,
              tm_MaxDeposit := pkg_MaxDeposit d\<rparr>) rows response))"

definition getMsgRunResponse :: "chain_tables \<Rightarrow> string \<Rightarrow> string \<Rightarrow> string \<Rightarrow> response \<Rightarrow> api_error + response" where
  "getMsgRunResponse t msgType txHash chainName response =
     bind_result (masked (GetMsgRun t txHash chainName)) (\<lambda>rows.
       Inr (fill_response run_MessageCounter (\<lambda>d.
           (base_message msgType (run_TxHash d) (run_Timestamp d) (run_Signers d))
             \<lparr>tm_Caller := run_Caller d, tm_PkgPath := run_PkgPath d, tm_PkgName := run_PkgName d,
              tm_PkgFileNames := run_PkgFileNames d, tm_Send := run_Send d,
              tm_MaxDeposit := run_MaxDeposit d\<rparr>) rows response))"

definition getMsgAuthCrSessionResponse :: "chain_tables \<Rightarrow> string \<Rightarrow> string \<Rightarrow> string \<Rightarrow> response \<Rightarrow> api_error + response" where
  "getMsgAuthCrSessionResponse t msgType txHash chainName response =
     bind_result (masked (GetMsgAuthCrSession t txHash chainName)) (\<lambda>rows.
       Inr (fill_response crs_MessageCounter (\<lambda>d.
           (base_message msgType (crs_TxHash d) (crs_Timestamp d) (crs_Signers d))
             \<lparr>tm_Creator := crs_Creator d, tm_SessionKey := crs_SessionKey d,
              tm_ExpiresAt := Some (crs_ExpiresAt d), tm_AllowPaths := crs_AllowPaths d,
              tm_SpendLimit := crs_SpendLimit d, tm_SpendPeriod := Some (crs_SpendPeriod d)\<rparr>) rows response))"

definition getMsgAuthRvSessionResponse :: "chain_tables \<Rightarrow> string \<Rightarrow> string \<Rightarrow> string \<Rightarrow> response \<Rightarrow> api_error + response" where
  "getMsgAuthRvSessionResponse t msgType txHash chainName response =
     bind_result (masked (GetMsgAuthRvSession t txHash chainName)) (\<lambda>rows.
       Inr (fill_response rvs_MessageCounter (\<lambda>d.
           (base_message msgType (rvs_TxHash d) (rvs_Timestamp d) (rvs_Signers d))
             \<lparr>tm_Creator := rvs_Creator d, tm_SessionKey := rvs_SessionKey d\<rparr>) rows response))"

definition getMsgAuthRvAllSessionsResponse :: "chain_tables \<Rightarrow> string \<Rightarrow> string \<Rightarrow> string \<Rightarrow> response \<Rightarrow> api_error + response" where
  "getMsgAuthRvAllSessionsResponse t msgType txHash chainName response =
     bind_result (masked (GetMsgAuthRvAllSessions t txHash chainName)) (\<lambda>rows.
       Inr (fill_response rva_MessageCounter (\<lambda>d.
           (base_message msgType (rva_TxHash d) (rva_Timestamp d) (rva_Signers d))
             \<lparr>tm_Creator := rva_Creator d\<rparr>) rows response))"

definition getBankSendResponse :: "chain_tables \<Rightarrow> string \<Rightarrow> string \<Rightarrow> string \<Rightarrow> response \<Rightarrow> api_error + response" where
  "getBankSendResponse t msgType txHash chainName response =
     bind_result (masked (GetBankSend t txHash chainName)) (\<lambda>rows.
       Inr (fill_response bks_MessageCounter (\<lambda>d.
           (base_message msgType (bks_TxHash d) (bks_Timestamp d) (bks_Signers d))
             \<lparr>tm_FromAddress := bks_FromAddress d, tm_ToAddress := bks_ToAddress d,
              tm_Amount := bks_Amount d\<rparr>) rows response))"

text \<open>The rows of multi-sends are gathered by counter; the first row of a counter gives the common
  fields.\<close>

record agg =
  agg_base :: TransactionMessage
  agg_inputs :: "MultiSendEntry list"
  agg_outputs :: "MultiSendEntry list"

definition add_multi_row :: "string \<Rightarrow> BankMultiSendRow \<Rightarrow> (i16 \<Rightarrow> agg option) \<Rightarrow> (i16 \<Rightarrow> agg option)" where
  "add_multi_row msgType d byCounter =
     (let idx = bmr_MessageCounter d;
          a = (case byCounter idx of
                 Some a \<Rightarrow> a
               | None \<Rightarrow> \<lparr>agg_base = base_message msgType (bmr_TxHash d) (bmr_Timestamp d) (bmr_Signers d),
                          agg_inputs = [], agg_outputs = []\<rparr>);
          entry = \<lparr>mse_Address = bmr_Address d, mse_Coins = bmr_Coins d\<rparr>
      in byCounter(idx \<mapsto> (if bmr_Direction d then a\<lparr>agg_outputs := agg_outputs a @ [entry]\<rparr>
                           else a\<lparr>agg_inputs := agg_inputs a @ [entry]\<rparr>)))"

definition getBankMultiSendResponse :: "chain_tables \<Rightarrow> string \<Rightarrow> string \<Rightarrow> string \<Rightarrow> response \<Rightarrow> api_error + response" where
  "getBankMultiSendResponse t msgType txHash chainName response =
     bind_result (masked (GetBankMultiSend t txHash chainName)) (\<lambda>rows.
       let byCounter = fold (add_multi_row msgType) rows Map.empty in
       Inr (\<lambda>idx. case byCounter idx of
              None \<Rightarrow> response idx
            | Some a \<Rightarrow> Some ((agg_base a)\<lparr>tm_Inputs := agg_inputs a, tm_Outputs := agg_outputs a\<rparr>)))"

section \<open>The handler\<close>

definition dispatch :: "chain_tables \<Rightarrow> string \<Rightarrow> (string \<Rightarrow> string \<Rightarrow> string \<Rightarrow> response \<Rightarrow> api_error + response) option" where
  "dispatch t msgType =
     map_of
       [(''bank_msg_send'', getBankSendResponse t),
        (''bank_msg_multi_send'', getBankMultiSendResponse t),
        (''vm_msg_call'', getMsgCallResponse t),
        (''vm_msg_add_package'', getMsgAddPackageResponse t),
        (''vm_msg_run'', getMsgRunResponse t),
        (''auth_msg_create_session'', getMsgAuthCrSessionResponse t),
        (''auth_msg_revoke_session'', getMsgAuthRvSessionResponse t),
        (''auth_msg_revoke_all_sessions'', getMsgAuthRvAllSessionsResponse t)] msgType"

primrec answer_types :: "chain_tables \<Rightarrow> string \<Rightarrow> string \<Rightarrow> string list \<Rightarrow> response \<Rightarrow> api_error + response" where
  "answer_types t txHash chainName [] response = Inr response"
| "answer_types t txHash chainName (msgType # types) response =
     (case dispatch t msgType of
        None \<Rightarrow> Inl InternalServerError
      | Some handler \<Rightarrow>
          bind_result (handler msgType txHash chainName response) (answer_types t txHash chainName types))"

definition GetTransactionMessage :: "chain_tables \<Rightarrow> string \<Rightarrow> string \<Rightarrow> api_error + response" where
  "GetTransactionMessage t chainName input =
     (let hash = trim_char CHR '' '' input in
      case parseTxHash hash of
        Inl e \<Rightarrow> Inl (BadRequest ''transaction hash is not valid base64 encoded'')
      | Inr txHash \<Rightarrow>
          (case GetMsgTypes_of t txHash chainName of
             Inl e \<Rightarrow> Inl (mapDbError (''transaction with hash '' @ hash @ '' not found'') e)
           | Inr msgTypes \<Rightarrow> answer_types t txHash chainName msgTypes Map.empty))"

section \<open>What the helpers put into an answer\<close>

lemma fold_update_const:
  "fold (\<lambda>d m. m(k \<mapsto> f d)) xs m = (if xs = [] then m else m(k \<mapsto> f (last xs)))"
  by (induction xs rule: rev_induct) auto

text \<open>The rows a statement answers with, when every identity in them has an address.\<close>

lemma GetBankSend_rows:
  assumes "query_rows t ''bank_msg_send'' ms_TxId ms_ChainName (ct_sends t) txHash chainName = Inr rows"
    and "\<forall>p\<in>set rows. address_of t (ms_FromAddress (snd p)) \<noteq> None \<and> address_of t (ms_ToAddress (snd p)) \<noteq> None"
  shows "GetBankSend t txHash chainName = Inr (map (\<lambda>(hash, r).
      \<lparr>bks_MessageCounter = 0, bks_TxHash = hash, bks_Timestamp = ms_Timestamp r,
       bks_FromAddress = the (address_of t (ms_FromAddress r)), bks_ToAddress = the (address_of t (ms_ToAddress r)),
       bks_Amount = coin_texts (ms_Amount r), bks_Signers = signers_of t (ms_Signers r)\<rparr>) rows)"
  unfolding GetBankSend_def assms(1) bind_result.simps
  by (rule mapM_result_total) (use assms(2) in \<open>auto simp: scan_address_def split: option.split\<close>)

definition multi_send_row :: "chain_tables \<Rightarrow> string \<times> MsgMultiSend \<Rightarrow> BankMultiSendRow" where
  "multi_send_row t p = (case p of (hash, r) \<Rightarrow>
     \<lparr>bmr_MessageCounter = mms_MessageCounter r, bmr_TxHash = hash, bmr_Timestamp = mms_Timestamp r,
      bmr_Direction = mms_Direction r, bmr_Address = the (address_of t (mms_AddressId r)),
      bmr_Coins = coin_texts (mms_Coins r), bmr_Signers = signers_of t (mms_Signers r)\<rparr>)"

lemma GetBankMultiSend_rows:
  assumes "query_rows t ''bank_msg_multi_send'' mms_TxId mms_ChainName (ct_multi_sends t) txHash chainName = Inr rows"
    and "\<forall>p\<in>set rows. address_of t (mms_AddressId (snd p)) \<noteq> None"
  shows "GetBankMultiSend t txHash chainName = Inr (map (multi_send_row t) rows)"
  unfolding GetBankMultiSend_def assms(1) bind_result.simps
  by (rule mapM_result_total) (use assms(2) in \<open>auto simp: scan_address_def multi_send_row_def split: option.split\<close>)

text \<open>What is gathered under a counter: the entries of its rows, in order.\<close>

definition send_entry :: "BankMultiSendRow \<Rightarrow> MultiSendEntry" where
  "send_entry d = \<lparr>mse_Address = bmr_Address d, mse_Coins = bmr_Coins d\<rparr>"

lemma add_multi_other: "bmr_MessageCounter d \<noteq> idx \<Longrightarrow> add_multi_row msgType d f idx = f idx"
  by (simp add: add_multi_row_def Let_def)

lemma add_multi_same:
  "bmr_MessageCounter d = idx \<Longrightarrow> add_multi_row msgType d f idx =
    (let a = (case f idx of Some a \<Rightarrow> a
           | None \<Rightarrow> \<lparr>agg_base = base_message msgType (bmr_TxHash d) (bmr_Timestamp d) (bmr_Signers d),
                    agg_inputs = [], agg_outputs = []\<rparr>)
     in Some (if bmr_Direction d then a\<lparr>agg_outputs := agg_outputs a @ [send_entry d]\<rparr>
              else a\<lparr>agg_inputs := agg_inputs a @ [send_entry d]\<rparr>))"
  by (simp add: add_multi_row_def Let_def send_entry_def)

lemma gathered:
  "case fold (add_multi_row msgType) rows Map.empty idx of
     None \<Rightarrow> filter (\<lambda>d. bmr_MessageCounter d = idx) rows = []
   | Some a \<Rightarrow> filter (\<lambda>d. bmr_MessageCounter d = idx) rows \<noteq> []
      \<and> agg_inputs a = map send_entry (filter (\<lambda>d. bmr_MessageCounter d = idx \<and> \<not> bmr_Direction d) rows)
      \<and> agg_outputs a = map send_entry (filter (\<lambda>d. bmr_MessageCounter d = idx \<and> bmr_Direction d) rows)
      \<and> agg_base a = (let d = hd (filter (\<lambda>d. bmr_MessageCounter d = idx) rows)
          in base_message msgType (bmr_TxHash d) (bmr_Timestamp d) (bmr_Signers d))"
proof (induction rows rule: rev_induct)
  case (snoc d rows)
  let ?f = "fold (add_multi_row msgType) rows Map.empty"
  show ?case
  proof (cases "bmr_MessageCounter d = idx")
    case False
    then show ?thesis using snoc by (cases "?f idx") (auto simp: add_multi_other Let_def)
  next
    case True
    then show ?thesis using snoc by (cases "?f idx") (auto simp: add_multi_same Let_def filter_empty_conv)
  qed
qed simp

section \<open>Properties\<close>

text \<open>The messages of a transaction are answered by their counters, but the statement for bank
  sends does not select the counter: of a transaction of bank sends only the last row is in the
  answer, under 0, whatever the counters of the rows.\<close>

theorem bank_sends_collapse:
  assumes "parseTxHash (trim_char CHR '' '' input) = Inr txHash"
    and "GetMsgTypes_of t txHash chainName = Inr types" and "types \<noteq> []" and "set types = {''bank_msg_send''}"
    and "query_rows t ''bank_msg_send'' ms_TxId ms_ChainName (ct_sends t) txHash chainName = Inr rows"
    and "\<forall>p\<in>set rows. address_of t (ms_FromAddress (snd p)) \<noteq> None \<and> address_of t (ms_ToAddress (snd p)) \<noteq> None"
  shows "GetTransactionMessage t chainName input = Inr (if rows = [] then Map.empty
    else [0 \<mapsto> (case last rows of (hash, r) \<Rightarrow>
      (base_message ''bank_msg_send'' hash (ms_Timestamp r) (signers_of t (ms_Signers r)))
        \<lparr>tm_FromAddress := the (address_of t (ms_FromAddress r)), tm_ToAddress := the (address_of t (ms_ToAddress r)),
         tm_Amount := coin_texts (ms_Amount r)\<rparr>)])"
proof -
  let ?last = "\<lambda>resp. if rows = [] then resp else resp(0 \<mapsto> (case last rows of (hash, r) \<Rightarrow>
      (base_message ''bank_msg_send'' hash (ms_Timestamp r) (signers_of t (ms_Signers r)))
        \<lparr>tm_FromAddress := the (address_of t (ms_FromAddress r)), tm_ToAddress := the (address_of t (ms_ToAddress r)),
         tm_Amount := coin_texts (ms_Amount r)\<rparr>))"
  have one: "getBankSendResponse t ''bank_msg_send'' txHash chainName resp = Inr (?last resp)" for resp
    by (simp add: getBankSendResponse_def GetBankSend_rows [OF assms(5,6)] masked_def fill_response_def
        fold_map comp_def split_def fold_update_const)
  have "dispatch t ''bank_msg_send'' = Some (getBankSendResponse t)" by (simp add: dispatch_def)
  then have "answer_types t txHash chainName ts resp = Inr (if ts = [] then resp else ?last resp)"
    if "set ts \<subseteq> {''bank_msg_send''}" for ts resp
    using that by (induction ts arbitrary: resp) (simp_all add: one del: fun_upd_apply)
  from this [of types Map.empty] assms(3,4) show ?thesis
    by (simp add: GetTransactionMessage_def Let_def assms(1,2) del: fun_upd_apply)
qed

text \<open>C32: of a transaction of multi-sends the answer has one message per counter, with the inputs
  and the outputs of exactly the rows of that counter, in the order of the rows.\<close>

theorem multi_sends_gathered:
  assumes "parseTxHash (trim_char CHR '' '' input) = Inr txHash"
    and "GetMsgTypes_of t txHash chainName = Inr [''bank_msg_multi_send'']"
    and "query_rows t ''bank_msg_multi_send'' mms_TxId mms_ChainName (ct_multi_sends t) txHash chainName = Inr rows"
    and "\<forall>p\<in>set rows. address_of t (mms_AddressId (snd p)) \<noteq> None"
  shows "\<exists>resp. GetTransactionMessage t chainName input = Inr resp
    \<and> dom resp = mms_MessageCounter ` snd ` set rows
    \<and> (\<forall>c m. resp c = Some m \<longrightarrow>
        tm_Inputs m = map (send_entry \<circ> multi_send_row t) (filter (\<lambda>p. mms_MessageCounter (snd p) = c \<and> \<not> mms_Direction (snd p)) rows)
      \<and> tm_Outputs m = map (send_entry \<circ> multi_send_row t) (filter (\<lambda>p. mms_MessageCounter (snd p) = c \<and> mms_Direction (snd p)) rows))"
proof -
  let ?rows = "map (multi_send_row t) rows"
  let ?by = "fold (add_multi_row ''bank_msg_multi_send'') ?rows Map.empty"
  define resp where "resp = (\<lambda>idx. case ?by idx of None \<Rightarrow> None
    | Some a \<Rightarrow> Some ((agg_base a)\<lparr>tm_Inputs := agg_inputs a, tm_Outputs := agg_outputs a\<rparr>))"
  have "dispatch t ''bank_msg_multi_send'' = Some (getBankMultiSendResponse t)" by (simp add: dispatch_def)
  then have "GetTransactionMessage t chainName input = Inr resp"
    by (simp add: GetTransactionMessage_def Let_def assms(1,2) getBankMultiSendResponse_def masked_def
        GetBankMultiSend_rows [OF assms(3,4)] resp_def)
  moreover have row: "bmr_MessageCounter (multi_send_row t p) = mms_MessageCounter (snd p)"
    "bmr_Direction (multi_send_row t p) = mms_Direction (snd p)" for p
    by (simp_all add: multi_send_row_def split_def)
  have "dom resp = mms_MessageCounter ` snd ` set rows"
  proof (rule set_eqI)
    fix c show "c \<in> dom resp \<longleftrightarrow> c \<in> mms_MessageCounter ` snd ` set rows"
      using gathered [where msgType = "''bank_msg_multi_send''" and rows = ?rows and idx = c]
      by (cases "?by c") (auto simp: resp_def dom_def filter_map comp_def row filter_empty_conv)
  qed
  moreover have "tm_Inputs m = map (send_entry \<circ> multi_send_row t) (filter (\<lambda>p. mms_MessageCounter (snd p) = c \<and> \<not> mms_Direction (snd p)) rows)
      \<and> tm_Outputs m = map (send_entry \<circ> multi_send_row t) (filter (\<lambda>p. mms_MessageCounter (snd p) = c \<and> mms_Direction (snd p)) rows)"
    if "resp c = Some m" for c m
    using gathered [where msgType = "''bank_msg_multi_send''" and rows = ?rows and idx = c] that
    by (cases "?by c") (auto simp: resp_def filter_map comp_def row)
  ultimately show ?thesis by blast
qed

section \<open>Concrete answers\<close>

definition sample_general :: "i64 \<Rightarrow> string \<Rightarrow> TransactionGeneral" where
  "sample_general tx ty = \<lparr>tg_TxId = tx, tg_ChainName = ''c'', tg_Timestamp = 0, tg_BlockHeight = 1,
     tg_MsgTypes = [ty], tg_TxEvents = None, tg_TxEventsCompressed = None, tg_CompressionOn = False,
     tg_GasUsed = 1, tg_GasWanted = 2, tg_FeeAmount = 1, tg_FeeDenom = ''ugnot'', tg_Success = True, tg_ErrorLog = None\<rparr>"

definition sample_send :: "i16 \<Rightarrow> i32 \<Rightarrow> MsgSend" where
  "sample_send n to = \<lparr>ms_TxId = 1, ms_Timestamp = 0, ms_ChainName = ''c'', ms_FromAddress = 1, ms_ToAddress = to,
     ms_Amount = [], ms_Signers = [], ms_MessageCounter = n\<rparr>"

definition sample_multi :: "bool \<Rightarrow> i32 \<Rightarrow> MsgMultiSend" where
  "sample_multi dir a = \<lparr>mms_TxId = 2, mms_Timestamp = 0, mms_ChainName = ''c'', mms_Direction = dir,
     mms_AddressId = a, mms_Coins = [], mms_Signers = [], mms_MessageCounter = 0\<rparr>"

definition sample_tables :: chain_tables where
  "sample_tables = \<lparr>ct_hashes = [\<lparr>thi_TxId = 1, thi_TxHash = [7], thi_Timestamp = 0, thi_ChainName = ''c''\<rparr>,
       \<lparr>thi_TxId = 2, thi_TxHash = [8], thi_Timestamp = 0, thi_ChainName = ''c''\<rparr>],
     ct_addresses = [\<lparr>ar_address = ''g1a'', ar_id = 1, ar_chain = ''c''\<rparr>, \<lparr>ar_address = ''g1b'', ar_id = 2, ar_chain = ''c''\<rparr>],
     ct_general = [sample_general 1 ''bank_msg_send'', sample_general 2 ''bank_msg_multi_send''],
     ct_sends = [sample_send 0 2, sample_send 1 1], ct_multi_sends = [sample_multi False 1, sample_multi True 2],
     ct_calls = [], ct_packages = [], ct_runs = [], ct_creates = [], ct_revokes = [], ct_revoke_alls = [],
     ct_order = id, ct_fault = (\<lambda>_. None)\<rparr>"

lemma sample_hash:
  "encode_base64 StdEncoding [7] = ''Bw==''" "encode_base64 StdEncoding [8] = ''CA==''"
  by (simp_all add: encode_base64_def b64_char_def char_of_eq_iff)

lemma sample_input:
  "parseTxHash (trim_char CHR '' '' '' Bw=='') = Inr ''Bw==''" "parseTxHash (trim_char CHR '' '' ''CA=='') = Inr ''CA==''"
  using parseTxHash_encode [of StdEncoding "[7]"] parseTxHash_encode [of StdEncoding "[8]"]
  by (simp_all add: sample_hash trim_char_def)

lemma sample_decode:
  "decode_base64 StdEncoding False ''Bw=='' = Some [7]" "decode_base64 StdEncoding False ''CA=='' = Some [8]"
  using decode_encode_base64 [of StdEncoding False "[7]"] decode_encode_base64 [of StdEncoding False "[8]"]
  by (simp_all add: sample_hash)

lemmas sample_defs = sample_tables_def sample_general_def sample_send_def sample_multi_def query_rows_def
  hash_rows_def sample_decode sample_hash

lemma bank_sends_collapse_witness:
  "\<exists>m. GetTransactionMessage sample_tables ''c'' '' Bw=='' = Inr [0 \<mapsto> m]
    \<and> map ms_MessageCounter (ct_sends sample_tables) = [0, 1] \<and> tm_ToAddress m = ''g1a''"
proof -
  have types: "GetMsgTypes_of sample_tables ''Bw=='' ''c'' = Inr [''bank_msg_send'']"
    by (simp add: GetMsgTypes_of_def sample_defs)
  have rows: "query_rows sample_tables ''bank_msg_send'' ms_TxId ms_ChainName (ct_sends sample_tables) ''Bw=='' ''c''
      = Inr [(''Bw=='', sample_send 0 2), (''Bw=='', sample_send 1 1)]"
    by (simp add: sample_defs)
  have known: "\<forall>p\<in>set [(''Bw=='', sample_send 0 2), (''Bw=='', sample_send 1 1)].
      address_of sample_tables (ms_FromAddress (snd p)) \<noteq> None \<and> address_of sample_tables (ms_ToAddress (snd p)) \<noteq> None"
    by (simp add: address_of_def sample_tables_def sample_send_def)
  let ?r = "sample_send 1 1" and ?t = sample_tables
  let ?m = "(base_message ''bank_msg_send'' ''Bw=='' (ms_Timestamp ?r) (signers_of ?t (ms_Signers ?r)))
      \<lparr>tm_FromAddress := the (address_of ?t (ms_FromAddress ?r)), tm_ToAddress := the (address_of ?t (ms_ToAddress ?r)),
       tm_Amount := coin_texts (ms_Amount ?r)\<rparr>"
  have "GetTransactionMessage ?t ''c'' '' Bw=='' = Inr [0 \<mapsto> ?m]"
    using bank_sends_collapse [OF sample_input(1) types _ _ rows known] by simp
  moreover have "tm_ToAddress ?m = ''g1a''" by (simp add: address_of_def sample_tables_def sample_send_def)
  moreover have "map ms_MessageCounter (ct_sends ?t) = [0, 1]" by (simp add: sample_tables_def sample_send_def)
  ultimately show ?thesis by (intro exI [of _ ?m] conjI)
qed

lemma multi_sends_gathered_witness:
  "\<exists>resp m. GetTransactionMessage sample_tables ''c'' ''CA=='' = Inr resp \<and> dom resp = {0} \<and> resp 0 = Some m
    \<and> map mse_Address (tm_Inputs m) = [''g1a''] \<and> map mse_Address (tm_Outputs m) = [''g1b'']"
proof -
  have types: "GetMsgTypes_of sample_tables ''CA=='' ''c'' = Inr [''bank_msg_multi_send'']"
    by (simp add: GetMsgTypes_of_def sample_defs)
  have rows: "query_rows sample_tables ''bank_msg_multi_send'' mms_TxId mms_ChainName (ct_multi_sends sample_tables) ''CA=='' ''c''
      = Inr [(''CA=='', sample_multi False 1), (''CA=='', sample_multi True 2)]"
    by (simp add: sample_defs)
  have known: "\<forall>p\<in>set [(''CA=='', sample_multi False 1), (''CA=='', sample_multi True 2)].
      address_of sample_tables (mms_AddressId (snd p)) \<noteq> None"
    by (simp add: address_of_def sample_tables_def sample_multi_def)
  let ?p = "(''CA=='', sample_multi False 1)" and ?q = "(''CA=='', sample_multi True 2)"
  from multi_sends_gathered [OF sample_input(2) types rows known] obtain resp where
    resp: "GetTransactionMessage sample_tables ''c'' ''CA=='' = Inr resp"
      "dom resp = mms_MessageCounter ` snd ` set [?p, ?q]"
    and all: "\<forall>c m. resp c = Some m \<longrightarrow>
        tm_Inputs m = map (send_entry \<circ> multi_send_row sample_tables) (filter (\<lambda>p. mms_MessageCounter (snd p) = c \<and> \<not> mms_Direction (snd p)) [?p, ?q])
      \<and> tm_Outputs m = map (send_entry \<circ> multi_send_row sample_tables) (filter (\<lambda>p. mms_MessageCounter (snd p) = c \<and> mms_Direction (snd p)) [?p, ?q])"
    by (elim exE conjE)
  have dom: "dom resp = {0}" unfolding resp(2) by (simp add: sample_multi_def)
  then have "0 \<in> dom resp" by simp
  then obtain m where m: "resp 0 = Some m" unfolding dom_def by blast
  note m [THEN all [rule_format]]
  then have "map mse_Address (tm_Inputs m) = [''g1a'']" "map mse_Address (tm_Outputs m) = [''g1b'']"
    by (simp_all add: sample_multi_def send_entry_def multi_send_row_def address_of_def sample_tables_def)
  with resp(1) dom m show ?thesis by (intro exI conjI)
qed

end
