(* ===== verification/Api_Address.thy ===== *)
theory Api_Address
  imports Messages Api_Transactions
begin

text \<open>
  The transactions of an address (\<open>pkgs/database/timescaledb/queries_address.go\<close>,
  \<open>api/handlers/address.go\<close>): the join of three tables, paged by the same keyset as the
  transaction pages, with an optional time range.
\<close>

section \<open>The rows\<close>

text \<open>The tables, and the errors of the two statements, if any.\<close>

record account_tables =
  adt_accounts :: "address_row list"
  adt_address_tx :: "AddressTx list"
  adt_general :: "TransactionGeneral list"
  adt_hashes :: "TxHashId list"
  adt_accountFault :: "goerror option"
  adt_pageFault :: "goerror option"

record AddressTxData =
  adx_Hash :: string
  adx_Timestamp :: time
  adx_MsgTypes :: "string list"
  adx_BlockHeight :: u64
  adx_Success :: bool
  adx_ErrorLog :: "string option"

text \<open>A joined row with the hash it is ordered by.\<close>

type_synonym address_join = "byte list \<times> AddressTxData"

definition aj_key :: "address_join \<Rightarrow> tx_key" where
  "aj_key r = (adx_BlockHeight (snd r), fst r)"

definition join_row :: "AddressTx \<Rightarrow> TxHashId \<Rightarrow> TransactionGeneral \<Rightarrow> address_join" where
  "join_row at h tg = (thi_TxHash h,
     \<lparr>adx_Hash = encode_base64 StdEncoding (thi_TxHash h), adx_Timestamp = at_Timestamp at,
      adx_MsgTypes = tg_MsgTypes tg, adx_BlockHeight = tg_BlockHeight tg, adx_Success = tg_Success tg,
      adx_ErrorLog = tg_ErrorLog tg\<rparr>)"

definition selectCols :: "account_tables \<Rightarrow> AddressTx \<Rightarrow> address_join list" where
  "selectCols t at =
     concat (map (\<lambda>h. map (join_row at h)
         (filter (\<lambda>tg. tg_TxId tg = at_TxId at \<and> tg_ChainName tg = at_ChainName at) (adt_general t)))
       (filter (\<lambda>h. thi_TxId h = at_TxId at \<and> thi_ChainName h = at_ChainName at) (adt_hashes t)))"

definition in_range :: "(time \<times> time) option \<Rightarrow> AddressTx \<Rightarrow> bool" where
  "in_range span at = (case span of None \<Rightarrow> True | Some (a, b) \<Rightarrow> a \<le> at_Timestamp at \<and> at_Timestamp at \<le> b)"

definition address_rows ::
  "account_tables \<Rightarrow> i32 \<Rightarrow> string \<Rightarrow> (time \<times> time) option \<Rightarrow> address_join list" where
  "address_rows t accountId chainName span =
     concat (map (selectCols t)
       (filter (\<lambda>at. at_Address at = accountId \<and> at_ChainName at = chainName \<and> in_range span at) (adt_address_tx t)))"

section \<open>The queries\<close>

definition getAccountId :: "account_tables \<Rightarrow> string \<Rightarrow> string \<Rightarrow> goerror + i32" where
  "getAccountId t address chainName =
     (case adt_accountFault t of
        Some e \<Rightarrow> Inl e
      | None \<Rightarrow>
          (case find (\<lambda>r. ar_address r = address \<and> ar_chain r = chainName) (adt_accounts t) of
             None \<Rightarrow> Inl (ErrWrap (''address '' @ address) ErrNotFound)
           | Some r \<Rightarrow> Inr (ar_id r)))"

text \<open>The greatest identity of the chain, or the error of a row that is not there.\<close>

definition GetTotalAddressesCount :: "account_tables \<Rightarrow> string \<Rightarrow> goerror + i32" where
  "GetTotalAddressesCount t chainName =
     (case adt_accountFault t of
        Some e \<Rightarrow> Inl e
      | None \<Rightarrow>
          (case rev (sort_key (\<lambda>r. sint (ar_id r)) (filter (\<lambda>r. ar_chain r = chainName) (adt_accounts t))) of
             [] \<Rightarrow> Inl (ErrMsg ''no rows in result set'')
           | r # _ \<Rightarrow> Inr (ar_id r)))"

text \<open>The statement of a page fails on an argument that is no \<open>bigint\<close>.\<close>

definition execAccQuery :: "account_tables \<Rightarrow> address_join list \<Rightarrow> tx_key seek \<Rightarrow> u64 \<Rightarrow> goerror + AddressTxData list" where
  "execAccQuery t rows what fetchLimit =
     (let args = (case what of Newest \<Rightarrow> [fetchLimit] | Before k \<Rightarrow> [fst k, fetchLimit] | After k \<Rightarrow> [fst k, fetchLimit])
      in case find (\<lambda>e. e \<noteq> None) (map int8_arg args @ [adt_pageFault t]) of
           Some (Some e) \<Rightarrow> Inl e
         | _ \<Rightarrow> Inr (map snd (table_page aj_key rows what fetchLimit)))"

definition finalizeAddressTxs :: "AddressTxData list \<Rightarrow> u64 \<Rightarrow> bool \<Rightarrow> AddressTxData list \<times> bool" where
  "finalizeAddressTxs addressTxs limit reverse =
     (let hasMore = of_nat (length addressTxs) > limit;
          trimmed = (if hasMore then take (unat limit) addressTxs else addressTxs)
      in (if reverse then reverseSlice trimmed else trimmed, hasMore))"

definition queryAddressTxs ::
  "account_tables \<Rightarrow> i32 \<Rightarrow> string \<Rightarrow> (time \<times> time) option \<Rightarrow> string option \<Rightarrow> u64 option \<Rightarrow> string
   \<Rightarrow> goerror + AddressTxData list \<times> bool" where
  "queryAddressTxs t accountId chainName span cursor limitPtr direction =
     (let limit = (case limitPtr of None \<Rightarrow> 10 | Some l \<Rightarrow> l);
          fetchLimit = limit + 1;
          rows = address_rows t accountId chainName span
      in bind_result (decodeCursor cursor) (\<lambda>seekKey.
        if direction = dir_next then
          bind_result (execAccQuery t rows (seek_of seekKey) fetchLimit) (\<lambda>txs. Inr (finalizeAddressTxs txs limit False))
        else if direction = dir_prev then
          (case seekKey of
             None \<Rightarrow> Inl (ErrMsg ''prev direction requires a cursor'')
           | Some k \<Rightarrow>
               bind_result (execAccQuery t rows (After k) fetchLimit) (\<lambda>txs. Inr (finalizeAddressTxs txs limit True)))
        else Inl (ErrMsg ''invalid direction'')))"

definition db_GetAddressTxs ::
  "account_tables \<Rightarrow> string \<Rightarrow> string \<Rightarrow> time option \<Rightarrow> time option \<Rightarrow> u64 option \<Rightarrow> string option \<Rightarrow> string
   \<Rightarrow> goerror + AddressTxData list \<times> bool" where
  "db_GetAddressTxs t address chainName fromTimestamp toTimestamp limit cursor direction =
     (if (fromTimestamp = None) \<noteq> (toTimestamp = None)
      then Inl (ErrMsg ''invalid query parameters: from_timestamp and to_timestamp must both be set or both be unset'')
      else
        (case getAccountId t address chainName of
           Inl e \<Rightarrow> Inl (if is_not_found e then e else ErrWrap ''error getting account id'' e)
         | Inr accountId \<Rightarrow>
             queryAddressTxs t accountId chainName
               (case (fromTimestamp, toTimestamp) of (Some a, Some b) \<Rightarrow> Some (a, b) | _ \<Rightarrow> None)
               cursor limit direction))"

section \<open>The handler\<close>

record AddressGetInput =
  agi_Address :: string
  agi_FromTimestamp :: time
  agi_ToTimestamp :: time
  agi_Limit :: u64
  agi_Cursor :: string
  agi_Direction :: string

record AddressTxsBody =
  atb_AddressTxs :: "AddressTxData list"
  atb_HasNext :: bool
  atb_HasPrev :: bool
  atb_NextCursor :: "string option"
  atb_PrevCursor :: "string option"

text \<open>The zero time stands for a timestamp that was not given.\<close>

definition parseTimestampPair :: "time \<Rightarrow> time \<Rightarrow> api_error + time option \<times> time option" where
  "parseTimestampPair a b =
     (let fromPtr = (if a = zero_time then None else Some a); toPtr = (if b = zero_time then None else Some b) in
      if (fromPtr = None) \<noteq> (toPtr = None)
      then Inl (BadRequest ''from_timestamp and to_timestamp must both be set or both be unset'')
      else Inr (fromPtr, toPtr))"

definition address_cursor :: "AddressTxData \<Rightarrow> api_error + string" where
  "address_cursor r =
     (case makeTxCursor (adx_BlockHeight r) (adx_Hash r) of Inl e \<Rightarrow> Inl InternalServerError | Inr c \<Rightarrow> Inr c)"

definition buildAddressTxsBody ::
  "AddressTxData list \<Rightarrow> bool \<Rightarrow> string \<Rightarrow> string option \<Rightarrow> api_error + AddressTxsBody" where
  "buildAddressTxsBody rows hasMore direction cursor =
     (let body = \<lparr>atb_AddressTxs = rows, atb_HasNext = False, atb_HasPrev = False, atb_NextCursor = None,
                  atb_PrevCursor = None\<rparr> in
      if length rows = 0 then Inr body
      else
        bind_result (address_cursor (rows ! 0)) (\<lambda>newestCur.
        bind_result (address_cursor (rows ! (length rows - 1))) (\<lambda>oldestCur.
          Inr (if direction = dir_next then
                 body\<lparr>atb_HasNext := hasMore, atb_NextCursor := (if hasMore then Some oldestCur else None),
                      atb_HasPrev := (cursor \<noteq> None), atb_PrevCursor := (if cursor \<noteq> None then Some newestCur else None)\<rparr>
               else if direction = dir_prev then
                 body\<lparr>atb_HasPrev := hasMore, atb_PrevCursor := (if hasMore then Some newestCur else None),
                      atb_HasNext := True, atb_NextCursor := Some oldestCur\<rparr>
               else body))))"

definition GetAddressTxs :: "account_tables \<Rightarrow> string \<Rightarrow> AddressGetInput \<Rightarrow> api_error + AddressTxsBody" where
  "GetAddressTxs t chainName i =
     bind_result (parseTimestampPair (agi_FromTimestamp i) (agi_ToTimestamp i)) (\<lambda>(fromTs, toTs).
       let timestampMode = (fromTs \<noteq> None);
           limit = (if agi_Limit i \<noteq> 0 then Some (agi_Limit i) else None);
           cursor = (if agi_Cursor i \<noteq> [] then Some (agi_Cursor i) else None);
           direction = (if agi_Direction i = [] then dir_next else agi_Direction i)
       in if \<not> timestampMode \<and> direction \<noteq> dir_next \<and> direction \<noteq> dir_prev
          then Inl (BadRequest ''invalid direction (must be 'next' or 'prev')'')
          else if \<not> timestampMode \<and> direction = dir_prev \<and> cursor = None
          then Inl (BadRequest ''direction=prev requires a cursor'')
          else
            (case db_GetAddressTxs t (agi_Address i) chainName fromTs toTs limit cursor direction of
               Inl e \<Rightarrow> Inl (mapDbError ''address not found'' e)
             | Inr (addressTxs, hasMore) \<Rightarrow> buildAddressTxsBody addressTxs hasMore direction cursor))"

section \<open>The page source\<close>

definition address_newest :: "address_join list \<Rightarrow> address_join list" where
  "address_newest rows = rev (sort_key aj_key rows)"

definition address_joined :: "address_join list \<Rightarrow> bool" where
  "address_joined rows \<longleftrightarrow> distinct (map aj_key rows)
     \<and> list_all (\<lambda>r. adx_Hash (snd r) = encode_base64 StdEncoding (fst r) \<and> unat (adx_BlockHeight (snd r)) < 2 ^ 63) rows"

interpretation adds: keyset_source "table_page aj_key" aj_key address_newest address_joined
  by unfold_locales
     (auto simp: address_joined_def address_newest_def table_page_def sort_key_descending filter_sort rev_filter [symmetric])

text \<open>The keys of the tables: hashes and identities of a chain are unique, an address has a
  transaction once, and heights are bigints.\<close>

definition address_keys :: "account_tables \<Rightarrow> string \<Rightarrow> bool" where
  "address_keys t chainName \<longleftrightarrow>
     distinct (map thi_TxId (filter (\<lambda>h. thi_ChainName h = chainName) (adt_hashes t)))
     \<and> distinct (map thi_TxHash (filter (\<lambda>h. thi_ChainName h = chainName) (adt_hashes t)))
     \<and> distinct (map tg_TxId (filter (\<lambda>tg. tg_ChainName tg = chainName) (adt_general t)))
     \<and> distinct (map (\<lambda>at. (at_Address at, at_TxId at)) (filter (\<lambda>at. at_ChainName at = chainName) (adt_address_tx t)))
     \<and> list_all (\<lambda>tg. unat (tg_BlockHeight tg) < 2 ^ 63) (adt_general t)"

lemma set_selectCols:
  "r \<in> set (selectCols t at) \<longleftrightarrow>
     (\<exists>h\<in>set (adt_hashes t). \<exists>tg\<in>set (adt_general t). r = join_row at h tg
        \<and> thi_TxId h = at_TxId at \<and> thi_ChainName h = at_ChainName at
        \<and> tg_TxId tg = at_TxId at \<and> tg_ChainName tg = at_ChainName at)"
  by (auto simp: selectCols_def)

lemma distinct_filter_one:
  "distinct (map f (filter P xs)) \<Longrightarrow> (\<And>x. Q x \<Longrightarrow> P x \<and> f x = y) \<Longrightarrow> length (filter Q xs) \<le> 1"
proof (induction xs)
  case (Cons x xs)
  show ?case
  proof (cases "Q x")
    case True
    then have "filter Q xs = []" using Cons.prems by (force simp: filter_empty_conv image_iff)
    with True show ?thesis by simp
  qed (use Cons in \<open>auto split: if_splits\<close>)
qed simp

lemma selectCols_one:
  assumes "address_keys t (at_ChainName at)"
  shows "length (selectCols t at) \<le> 1"
proof -
  let ?hs = "filter (\<lambda>h. thi_TxId h = at_TxId at \<and> thi_ChainName h = at_ChainName at) (adt_hashes t)"
  let ?tgs = "filter (\<lambda>tg. tg_TxId tg = at_TxId at \<and> tg_ChainName tg = at_ChainName at) (adt_general t)"
  have "length ?hs \<le> 1"
    by (rule distinct_filter_one [of thi_TxId "\<lambda>h. thi_ChainName h = at_ChainName at" _ _ "at_TxId at"])
       (use assms in \<open>simp_all add: address_keys_def\<close>)
  moreover have "length ?tgs \<le> 1"
    by (rule distinct_filter_one [of tg_TxId "\<lambda>h. tg_ChainName h = at_ChainName at" _ _ "at_TxId at"])
       (use assms in \<open>simp_all add: address_keys_def\<close>)
  ultimately show ?thesis by (cases ?hs; cases ?tgs) (auto simp: selectCols_def)
qed

lemma address_rows_joined:
  assumes keys: "address_keys t chainName"
  shows "address_joined (address_rows t accountId chainName span)"
proof -
  let ?ats = "filter (\<lambda>at. at_Address at = accountId \<and> at_ChainName at = chainName \<and> in_range span at) (adt_address_tx t)"
  have inj: "thi_TxId h = thi_TxId h'" if "h \<in> set (adt_hashes t)" "h' \<in> set (adt_hashes t)"
      "thi_ChainName h = chainName" "thi_ChainName h' = chainName" "thi_TxHash h = thi_TxHash h'" for h h'
    using keys that by (auto simp: address_keys_def distinct_map dest: inj_onD)
  have "distinct (map fst (concat (map (selectCols t) ats)))"
    if "distinct (map at_TxId ats)" "\<forall>at\<in>set ats. at_ChainName at = chainName" for ats
    using that
  proof (induction ats)
    case (Cons at ats)
    have "length (selectCols t at) \<le> 1" using selectCols_one [of t at] keys Cons.prems(2) by simp
    then have "distinct (map fst (selectCols t at))" by (cases "selectCols t at") auto
    moreover have "fst ` set (selectCols t at) \<inter> fst ` set (concat (map (selectCols t) ats)) = {}"
      using Cons.prems by (fastforce simp: set_selectCols join_row_def dest: inj)
    ultimately show ?case using Cons by simp
  qed simp
  moreover have "distinct (map at_TxId ?ats)"
  proof -
    let ?base = "filter (\<lambda>at. at_ChainName at = chainName) (adt_address_tx t)"
    let ?Q = "\<lambda>at. at_Address at = accountId \<and> in_range span at"
    have base: "inj_on (\<lambda>at. (at_Address at, at_TxId at)) (set ?base)" "distinct ?base"
      using keys by (simp_all only: address_keys_def distinct_map)
    have "inj_on at_TxId (set (filter ?Q ?base))"
      using base(1) by (auto simp: inj_on_def)
    then have "distinct (map at_TxId (filter ?Q ?base))" by (simp only: distinct_map distinct_filter base(2))
    moreover have "filter ?Q ?base = ?ats" by (auto intro: filter_cong)
    ultimately show ?thesis by simp
  qed
  ultimately have "distinct (map fst (address_rows t accountId chainName span))" by (simp add: address_rows_def)
  then have "distinct (map aj_key (address_rows t accountId chainName span))"
    by (auto simp: distinct_map inj_on_def aj_key_def)
  moreover have "list_all (\<lambda>r. adx_Hash (snd r) = encode_base64 StdEncoding (fst r) \<and> unat (adx_BlockHeight (snd r)) < 2 ^ 63)
      (address_rows t accountId chainName span)"
    using keys by (auto simp: list_all_iff address_rows_def set_selectCols join_row_def address_keys_def)
  ultimately show ?thesis by (simp add: address_joined_def)
qed

lemma set_address_rows:
  "x \<in> snd ` set (address_rows t accountId chainName span) \<longleftrightarrow>
     (\<exists>at\<in>set (adt_address_tx t). \<exists>h\<in>set (adt_hashes t). \<exists>tg\<in>set (adt_general t).
        x = snd (join_row at h tg) \<and> at_Address at = accountId \<and> at_ChainName at = chainName
        \<and> in_range span at \<and> thi_TxId h = at_TxId at \<and> thi_ChainName h = chainName
        \<and> tg_TxId tg = at_TxId at \<and> tg_ChainName tg = chainName)"
proof -
  have cols: "x \<in> snd ` set (selectCols t at) \<longleftrightarrow>
      (\<exists>h\<in>set (adt_hashes t). \<exists>tg\<in>set (adt_general t). x = snd (join_row at h tg)
         \<and> thi_TxId h = at_TxId at \<and> thi_ChainName h = at_ChainName at
         \<and> tg_TxId tg = at_TxId at \<and> tg_ChainName tg = at_ChainName at)" for at
    unfolding image_iff Bex_def set_selectCols by blast
  have "x \<in> snd ` set (address_rows t accountId chainName span) \<longleftrightarrow>
      (\<exists>at\<in>set (adt_address_tx t). at_Address at = accountId \<and> at_ChainName at = chainName \<and> in_range span at
         \<and> x \<in> snd ` set (selectCols t at))"
    unfolding address_rows_def set_concat set_map image_UN set_filter by blast
  then show ?thesis unfolding cols by blast
qed

section \<open>One page\<close>

definition rows_left :: "address_join list \<Rightarrow> tx_key option \<Rightarrow> address_join list" where
  "rows_left rows = after_key aj_key (address_newest rows)"

lemma set_rows_left: "set (rows_left rows k) \<subseteq> set rows"
  by (auto simp: rows_left_def after_key_def address_newest_def split: option.splits)

lemma address_cursor_row:
  assumes "address_joined rows" and "r \<in> set rows"
  obtains c where "address_cursor (snd r) = Inr c" and "c \<noteq> []"
    and "decodeCursor (Some c) = Inr (Some (aj_key r))" and "unat (fst (aj_key r)) < 2 ^ 63"
proof -
  have hash: "adx_Hash (snd r) = encode_base64 StdEncoding (fst r)" and small: "unat (adx_BlockHeight (snd r)) < 2 ^ 63"
    using assms by (auto simp: address_joined_def list_all_iff)
  obtain c where c: "makeTxCursor (adx_BlockHeight (snd r)) (adx_Hash (snd r)) = Inr c"
    by (simp add: makeTxCursor_def hash)
  from decodeCursor_make [OF this] hash have "c \<noteq> [] \<and> decodeCursor (Some c) = Inr (Some (aj_key r))"
    by (simp add: aj_key_def)
  with c that small show ?thesis by (simp add: address_cursor_def aj_key_def)
qed

lemma exec_page:
  assumes "address_joined rows" and "adt_pageFault t = None" and "unat fetchLimit < 2 ^ 63"
    and "\<forall>key. k = Some key \<longrightarrow> unat (fst key) < 2 ^ 63"
  shows "execAccQuery t rows (seek_of k) fetchLimit = Inr (map snd (take (unat fetchLimit) (rows_left rows k)))"
proof -
  have "find (\<lambda>e. e \<noteq> None) (map int8_arg (case seek_of k of Newest \<Rightarrow> [fetchLimit] | Before k \<Rightarrow> [fst k, fetchLimit]
      | After k \<Rightarrow> [fst k, fetchLimit]) @ [adt_pageFault t]) = None"
    using assms(2-4) by (cases k) (auto simp: seek_of_def int8_arg_def)
  then show ?thesis
    using adds.page_seek [OF assms(1)] by (simp add: execAccQuery_def Let_def rows_left_def)
qed

lemma address_body:
  assumes "address_cursor (snd (hd page)) = Inr c1" and "address_cursor (snd (last page)) = Inr c2" and "page \<noteq> []"
  shows "buildAddressTxsBody (map snd page) hasMore dir_next cursor =
    Inr \<lparr>atb_AddressTxs = map snd page, atb_HasNext = hasMore, atb_HasPrev = (cursor \<noteq> None),
         atb_NextCursor = (if hasMore then Some c2 else None), atb_PrevCursor = (if cursor \<noteq> None then Some c1 else None)\<rparr>"
proof -
  have "map snd page ! 0 = snd (hd page)" "map snd page ! (length (map snd page) - 1) = snd (last page)"
    "length (map snd page) \<noteq> 0"
    using assms(3) by (simp_all add: hd_conv_nth last_conv_nth)
  with assms(1,2) show ?thesis unfolding buildAddressTxsBody_def by simp
qed

text \<open>A request in either mode: both times given, or neither.\<close>

definition next_request :: "string \<Rightarrow> time \<Rightarrow> time \<Rightarrow> u64 \<Rightarrow> string \<Rightarrow> AddressGetInput" where
  "next_request address a b limit cursor =
     \<lparr>agi_Address = address, agi_FromTimestamp = a, agi_ToTimestamp = b, agi_Limit = limit, agi_Cursor = cursor,
      agi_Direction = dir_next\<rparr>"

definition request_span :: "time \<Rightarrow> time \<Rightarrow> (time \<times> time) option" where
  "request_span a b = (if a = zero_time then None else Some (a, b))"

lemma handler_query:
  assumes "(a = zero_time) = (b = zero_time)" and "getAccountId t address chainName = Inr accountId" and "limit \<noteq> 0"
  shows "GetAddressTxs t chainName (next_request address a b limit c) =
    (case queryAddressTxs t accountId chainName (request_span a b) (if c \<noteq> [] then Some c else None) (Some limit) dir_next of
       Inl e \<Rightarrow> Inl (mapDbError ''address not found'' e)
     | Inr (rows, hasMore) \<Rightarrow> buildAddressTxsBody rows hasMore dir_next (if c \<noteq> [] then Some c else None))"
  using assms
  by (auto simp: GetAddressTxs_def next_request_def parseTimestampPair_def Let_def db_GetAddressTxs_def request_span_def
      split: sum.splits)

lemma decode_given: "decodeCursor (if c \<noteq> [] then Some c else None) = decodeCursor (Some c)"
  by (simp add: decodeCursor_def)

lemma address_page:
  assumes J: "address_joined rows" and R: "rows = address_rows t accountId chainName (request_span a b)"
    and A: "getAccountId t address chainName = Inr accountId" and F: "adt_pageFault t = None"
    and M: "(a = zero_time) = (b = zero_time)" and L: "0 < limit" "unat limit < 2 ^ 63 - 1"
    and C: "decodeCursor (Some c) = Inr k" and S: "\<forall>key. k = Some key \<longrightarrow> unat (fst key) < 2 ^ 63"
  shows "\<exists>body. GetAddressTxs t chainName (next_request address a b limit c) = Inr body
    \<and> atb_AddressTxs body = map snd (take (unat limit) (rows_left rows k))
    \<and> (if unat limit < length (rows_left rows k)
       then \<exists>d. atb_NextCursor body = Some d
          \<and> decodeCursor (Some d) = Inr (Some (aj_key (rows_left rows k ! (unat limit - 1))))
       else atb_NextCursor body = None)"
proof -
  let ?all = "rows_left rows k" and ?page = "take (unat limit) (rows_left rows k)"
  have pos: "0 < unat limit" and small: "unat (limit + 1) < 2 ^ 63" and probe: "unat limit < 2 ^ 64 - 1"
    using L unat_plus [of limit 1] by (simp_all add: word_less_nat_alt)
  have exec: "execAccQuery t rows (seek_of k) (limit + 1) = Inr (map snd (take (unat (limit + 1)) ?all))"
    by (rule exec_page [OF J F small S])
  have "finalizeAddressTxs (map snd (take (unat (limit + 1)) ?all)) limit False = (map snd ?page, unat limit < length ?all)"
    unfolding finalizeAddressTxs_def Let_def probe_row [OF probe refl] by simp
  then have Q: "queryAddressTxs t accountId chainName (request_span a b) (if c \<noteq> [] then Some c else None) (Some limit) dir_next =
      Inr (map snd ?page, unat limit < length ?all)"
    by (simp add: queryAddressTxs_def Let_def decode_given C R [symmetric] exec)
  have H: "GetAddressTxs t chainName (next_request address a b limit c) =
      buildAddressTxsBody (map snd ?page) (unat limit < length ?all) dir_next (if c \<noteq> [] then Some c else None)"
    using handler_query [OF M A, of limit c] L(1) Q by simp
  show ?thesis
  proof (cases "?all = []")
    case True
    then show ?thesis by (simp add: H buildAddressTxsBody_def)
  next
    case False
    then have ne: "?page \<noteq> []" using pos by simp
    then have mem: "hd ?page \<in> set rows" "last ?page \<in> set rows"
      using set_rows_left [of rows k] set_take_subset [of "unat limit" ?all] hd_in_set [OF ne] last_in_set [OF ne] by blast+
    obtain c1 where c1: "address_cursor (snd (hd ?page)) = Inr c1" by (rule address_cursor_row [OF J mem(1)])
    obtain c2 where c2: "address_cursor (snd (last ?page)) = Inr c2" "decodeCursor (Some c2) = Inr (Some (aj_key (last ?page)))"
      by (rule address_cursor_row [OF J mem(2)])
    show ?thesis unfolding H address_body [OF c1 c2(1) ne]
      using c2(2) last_take [OF pos, of ?all] by (cases "unat limit < length ?all") simp_all
  qed
qed

section \<open>Properties\<close>

text \<open>C13: with or without a time range, following the next cursors of an address from the start
  yields exactly the transactions the tables record for it in that range, each once, newest first,
  in full pages but for the last one, for every limit that fits a bigint with its probe row.\<close>

theorem address_pages_complete:
  assumes "address_keys t chainName" and "getAccountId t address chainName = Inr accountId"
    and "adt_pageFault t = None" and "(a = zero_time) = (b = zero_time)"
    and "0 < limit" and "unat limit < 2 ^ 63 - 1"
    and "rows = address_rows t accountId chainName (request_span a b)" and "length rows < fuel"
  shows "\<exists>pages. follow_pages fuel (\<lambda>c. bind_result (GetAddressTxs t chainName (next_request address a b limit c))
        (\<lambda>body. Inr (atb_AddressTxs body, atb_NextCursor body))) [] = Some pages
      \<and> concat pages = map snd (address_newest rows)
      \<and> list_all (\<lambda>p. length p = unat limit) (butlast pages) \<and> pages \<noteq> [] \<and> length (last pages) \<le> unat limit
      \<and> (\<forall>x. x \<in> set (concat pages) \<longleftrightarrow> (\<exists>at\<in>set (adt_address_tx t). \<exists>h\<in>set (adt_hashes t). \<exists>tg\<in>set (adt_general t).
          x = snd (join_row at h tg) \<and> at_Address at = accountId \<and> at_ChainName at = chainName
          \<and> in_range (request_span a b) at \<and> thi_TxId h = at_TxId at \<and> thi_ChainName h = chainName
          \<and> tg_TxId tg = at_TxId at \<and> tg_ChainName tg = chainName))"
proof -
  note J = address_rows_joined [OF assms(1), of accountId "request_span a b", folded assms(7)]
  let ?leaves = "\<lambda>c s. \<exists>k. decodeCursor (Some c) = Inr k \<and> (\<forall>key. k = Some key \<longrightarrow> unat (fst key) < 2 ^ 63)
      \<and> s = map snd (rows_left rows k)"
  let ?get = "\<lambda>c. bind_result (GetAddressTxs t chainName (next_request address a b limit c))
      (\<lambda>body. Inr (atb_AddressTxs body, atb_NextCursor body))"
  have pos: "0 < unat limit" using assms(5) by (simp add: word_less_nat_alt)
  have step: "\<exists>c'. ?get c = Inr (take (unat limit) s, c')
      \<and> (if unat limit < length s then \<exists>d. c' = Some d \<and> ?leaves d (drop (unat limit) s) else c' = None)"
    if "?leaves c s" for c s
  proof -
    from that obtain k where k: "decodeCursor (Some c) = Inr k" "\<forall>key. k = Some key \<longrightarrow> unat (fst key) < 2 ^ 63"
      and s: "s = map snd (rows_left rows k)" by blast
    let ?r = "rows_left rows k ! (unat limit - 1)"
    have rest: "rows_left rows (Some (aj_key ?r)) = drop (unat limit) (rows_left rows k)" "?r \<in> set rows"
      if "unat limit < length (rows_left rows k)"
    proof -
      have lt: "unat limit - 1 < length (rows_left rows k)" using that by simp
      show "rows_left rows (Some (aj_key ?r)) = drop (unat limit) (rows_left rows k)"
        using adds.after_nth [OF J, of "unat limit - 1" k] lt pos by (simp add: rows_left_def)
      show "?r \<in> set rows" using set_rows_left lt by (meson nth_mem subsetD)
    qed
    then have "unat (fst (aj_key ?r)) < 2 ^ 63" if "unat limit < length (rows_left rows k)"
      using that J by (auto simp: address_joined_def list_all_iff aj_key_def)
    with address_page [OF J assms(7,2,3,4,5,6) k] rest(1) show ?thesis
      by (auto simp: s take_map drop_map split: if_splits)
  qed
  have start: "?leaves [] (map snd (address_newest rows))"
    by (intro exI [of _ None]) (simp add: empty_cursor rows_left_def after_key_def)
  have "length (map snd (address_newest rows)) < fuel" using assms(8) by (simp add: address_newest_def)
  with follow_pages_complete [where leaves = ?leaves and get = ?get, OF step pos] start
  obtain pages where pages: "follow_pages fuel ?get [] = Some pages" "concat pages = map snd (address_newest rows)"
    "list_all (\<lambda>p. length p = unat limit) (butlast pages)" "pages \<noteq> []" "length (last pages) \<le> unat limit" by blast
  have "x \<in> set (concat pages) \<longleftrightarrow> x \<in> snd ` set rows" for x by (simp add: pages(2) address_newest_def)
  with pages assms(7) show ?thesis by (intro exI [of _ pages]) (simp add: set_address_rows)
qed

text \<open>The limit of an address request is not bounded: the greatest limit wraps around to a page
  of no rows, answered as if the address had no transactions, and every other limit from \<open>2^63 - 1\<close>
  on is an internal error.\<close>

theorem address_limit_unbounded:
  assumes "getAccountId t address chainName = Inr accountId" and "adt_pageFault t = None"
    and "(a = zero_time) = (b = zero_time)"
  shows "GetAddressTxs t chainName (next_request address a b (2 ^ 64 - 1) []) =
      Inr \<lparr>atb_AddressTxs = [], atb_HasNext = False, atb_HasPrev = False, atb_NextCursor = None, atb_PrevCursor = None\<rparr>
    \<and> (2 ^ 63 - 1 \<le> limit \<and> limit < 2 ^ 64 - 1 \<longrightarrow>
        GetAddressTxs t chainName (next_request address a b limit []) = Inl InternalServerError)"
proof -
  have "queryAddressTxs t accountId chainName (request_span a b) None (Some (2 ^ 64 - 1)) dir_next = Inr ([], False)"
    by (simp add: queryAddressTxs_def Let_def decodeCursor_def seek_of_def execAccQuery_def int8_arg_def assms(2)
        table_page_def finalizeAddressTxs_def)
  then have wrapped: "GetAddressTxs t chainName (next_request address a b (2 ^ 64 - 1) []) =
      Inr \<lparr>atb_AddressTxs = [], atb_HasNext = False, atb_HasPrev = False, atb_NextCursor = None, atb_PrevCursor = None\<rparr>"
    using handler_query [OF assms(3,1), of "2 ^ 64 - 1" "[]"] by (simp add: buildAddressTxsBody_def)
  have "GetAddressTxs t chainName (next_request address a b limit []) = Inl InternalServerError"
    if l: "2 ^ 63 - 1 \<le> limit" "limit < 2 ^ 64 - 1"
  proof -
    have "limit \<noteq> 0" "\<not> unat (limit + 1) < 2 ^ 63" using l unat_plus [of limit 1]
      by (auto simp: word_le_nat_alt word_less_nat_alt)
    then have "queryAddressTxs t accountId chainName (request_span a b) None (Some limit) dir_next =
        Inl (ErrMsg ''greater than maximum value for int8'')"
      by (simp add: queryAddressTxs_def Let_def decodeCursor_def seek_of_def execAccQuery_def int8_arg_def)
    with handler_query [OF assms(3,1) \<open>limit \<noteq> 0\<close>, of "[]"] show ?thesis by (simp add: mapDbError_def)
  qed
  with wrapped show ?thesis by blast
qed

section \<open>Concrete tables\<close>

definition sample_accounts :: account_tables where
  "sample_accounts =
     \<lparr>adt_accounts = [\<lparr>ar_address = ''a'', ar_id = 3, ar_chain = ''c''\<rparr>],
      adt_address_tx = map (\<lambda>i. \<lparr>at_Address = 3, at_TxId = of_nat i, at_ChainName = ''c'', at_Timestamp = int i\<rparr>) [1, 2, 3],
      adt_general = map (\<lambda>i. \<lparr>tg_TxId = of_nat i, tg_ChainName = ''c'', tg_Timestamp = int i, tg_BlockHeight = of_nat i,
        tg_MsgTypes = [], tg_TxEvents = None, tg_TxEventsCompressed = None, tg_CompressionOn = True, tg_GasUsed = 1,
        tg_GasWanted = 2, tg_FeeAmount = 1, tg_FeeDenom = ''u'', tg_Success = True, tg_ErrorLog = None\<rparr>) [1, 2, 3],
      adt_hashes = map (\<lambda>i. \<lparr>thi_TxId = of_nat i, thi_TxHash = [of_nat i], thi_Timestamp = 5, thi_ChainName = ''c''\<rparr>) [1, 2, 3],
      adt_accountFault = None, adt_pageFault = None\<rparr>"

lemma sample_account_facts:
  "address_keys sample_accounts ''c''" "getAccountId sample_accounts ''a'' ''c'' = Inr 3" "adt_pageFault sample_accounts = None"
  by (simp_all add: sample_accounts_def address_keys_def getAccountId_def)

lemma sample_account_rows: "length (address_rows sample_accounts 3 ''c'' (request_span 2 3)) = 2"
  by (simp add: address_rows_def selectCols_def sample_accounts_def in_range_def request_span_def zero_time_def)

lemma address_pages_complete_witness:
  "\<exists>pages. follow_pages 3 (\<lambda>c. bind_result (GetAddressTxs sample_accounts ''c'' (next_request ''a'' 2 3 1 c))
        (\<lambda>body. Inr (atb_AddressTxs body, atb_NextCursor body))) [] = Some pages
      \<and> concat pages = map snd (address_newest (address_rows sample_accounts 3 ''c'' (request_span 2 3)))
      \<and> length (concat pages) = 2"
proof -
  have times: "((2 :: time) = zero_time) = ((3 :: time) = zero_time)" by (simp add: zero_time_def)
  have limit: "(0 :: u64) < 1" "unat (1 :: u64) < 2 ^ 63 - 1" by simp_all
  have fuel: "length (address_rows sample_accounts 3 ''c'' (request_span 2 3)) < 3" by (simp add: sample_account_rows)
  from address_pages_complete [OF sample_account_facts times limit refl fuel] obtain pages where
    "follow_pages 3 (\<lambda>c. bind_result (GetAddressTxs sample_accounts ''c'' (next_request ''a'' 2 3 1 c))
        (\<lambda>body. Inr (atb_AddressTxs body, atb_NextCursor body))) [] = Some pages"
    "concat pages = map snd (address_newest (address_rows sample_accounts 3 ''c'' (request_span 2 3)))" by blast
  moreover from this(2) have "length (concat pages) = 2" using sample_account_rows by (simp add: address_newest_def)
  ultimately show ?thesis by blast
qed

lemma address_limit_unbounded_witness:
  "GetAddressTxs sample_accounts ''c'' (next_request ''a'' zero_time zero_time (2 ^ 64 - 1) []) =
      Inr \<lparr>atb_AddressTxs = [], atb_HasNext = False, atb_HasPrev = False, atb_NextCursor = None, atb_PrevCursor = None\<rparr>
    \<and> GetAddressTxs sample_accounts ''c'' (next_request ''a'' zero_time zero_time (2 ^ 63) []) = Inl InternalServerError"
proof -
  have times: "(zero_time = zero_time) = (zero_time = zero_time)" by (rule refl)
  have big: "2 ^ 63 - 1 \<le> (2 ^ 63 :: u64) \<and> (2 ^ 63 :: u64) < 2 ^ 64 - 1" by (simp add: word_le_nat_alt word_less_nat_alt)
  from address_limit_unbounded [OF sample_account_facts(2,3) times, of "2 ^ 63"] big show ?thesis by blast
qed

end
