(* ===== verification/Api_Blocks.thy ===== *)
theory Api_Blocks
  imports Messages Api_Transactions
begin

text \<open>
  The blocks of the API (\<open>pkgs/database/timescaledb/query_block.go\<close>, \<open>queries_validator.go\<close>,
  \<open>api/handlers/blocks.go\<close>): the joins over the stored rows. A block and its transactions are read
  by two statements at the same time, each with its own view of the tables.
\<close>

section \<open>The statements\<close>

text \<open>One view of the tables, and the error its statement fails with, if any.\<close>

record block_tables =
  bt_blocks :: "Blocks list"
  bt_signing :: "ValidatorBlockSigning list"
  bt_validators :: "address_row list"
  bt_general :: "TransactionGeneral list"
  bt_hashes :: "TxHashId list"
  bt_order :: "string list \<Rightarrow> string list"
  bt_fault :: "goerror option"

definition statement :: "block_tables \<Rightarrow> u64 list \<Rightarrow> 'r list \<Rightarrow> goerror + 'r list" where
  "statement t args rows =
     (case find (\<lambda>e. e \<noteq> None) (map int8_arg args @ [bt_fault t]) of Some (Some e) \<Rightarrow> Inl e | _ \<Rightarrow> Inr rows)"

text \<open>\<open>blocks\<close> joined with the signing rows and their proposers, of one chain.\<close>

definition block_rows :: "block_tables \<Rightarrow> string \<Rightarrow> (Blocks \<times> string) list" where
  "block_rows t chainName =
     concat (map (\<lambda>b. concat (map (\<lambda>vb. map (\<lambda>gv. (b, ar_address gv))
           (filter (\<lambda>gv. ar_id gv = vbs_Proposer vb) (bt_validators t)))
         (filter (\<lambda>vb. vbs_BlockHeight vb = bl_Height b \<and> vbs_ChainName vb = bl_ChainName b) (bt_signing t))))
       (filter (\<lambda>b. bl_ChainName b = chainName) (bt_blocks t)))"

text \<open>\<open>transaction_general\<close> joined with the hashes, of one chain: hash and height.\<close>

definition tx_height_rows :: "block_tables \<Rightarrow> string \<Rightarrow> (string \<times> u64) list" where
  "tx_height_rows t chainName =
     concat (map (\<lambda>tg. map (\<lambda>h. (encode_base64 StdEncoding (thi_TxHash h), tg_BlockHeight tg))
         (filter (\<lambda>h. thi_TxId h = tg_TxId tg \<and> thi_ChainName h = tg_ChainName tg) (bt_hashes t)))
       (filter (\<lambda>tg. tg_ChainName tg = chainName) (bt_general t)))"

text \<open>\<open>SELECT MAX(height)\<close>: NULL without rows.\<close>

definition max_height :: "block_tables \<Rightarrow> string \<Rightarrow> u64 option" where
  "max_height t chainName =
     (case map bl_Height (filter (\<lambda>b. bl_ChainName b = chainName) (bt_blocks t)) of
        [] \<Rightarrow> None | h # hs \<Rightarrow> Some (fold max hs h))"

definition by_height_desc :: "(Blocks \<times> string) list \<Rightarrow> (Blocks \<times> string) list" where
  "by_height_desc rows = rev (sort_key (\<lambda>r. bl_Height (fst r)) rows)"

section \<open>Reading the rows\<close>

record DbBlockData =
  bkd_Hash :: string
  bkd_Height :: u64
  bkd_Timestamp :: time
  bkd_ChainID :: string
  bkd_Txs :: "string list"
  bkd_Proposer :: string
  bkd_TxCounter :: nat

definition scan_block :: "Blocks \<times> string \<Rightarrow> goerror + DbBlockData" where
  "scan_block r =
     (case bl_Hash (fst r) of
        None \<Rightarrow> Inl (ErrMsg ''cannot scan NULL into *string'')
      | Some hash \<Rightarrow> Inr \<lparr>bkd_Hash = encode_base64 StdEncoding hash, bkd_Height = bl_Height (fst r),
          bkd_Timestamp = bl_Timestamp (fst r), bkd_ChainID = bl_ChainID (fst r), bkd_Txs = [],
          bkd_Proposer = snd r, bkd_TxCounter = 0\<rparr>)"

definition fetchBlocksData :: "goerror + (Blocks \<times> string) list \<Rightarrow> goerror + DbBlockData list" where
  "fetchBlocksData rows = bind_result rows (mapM_result scan_block)"

text \<open>The map from a height to its hashes; a height that is not there has the nil slice.\<close>

definition fetchTransactionData :: "goerror + (string \<times> u64) list \<Rightarrow> goerror + (u64 \<Rightarrow> string list)" where
  "fetchTransactionData rows =
     bind_result rows (\<lambda>rs. Inr (fold (\<lambda>(hash, height) txs. txs(height := txs height @ [hash])) rs (\<lambda>_. [])))"

text \<open>The error group: the error of the goroutine that failed first.\<close>

definition eg_Wait :: "bool \<Rightarrow> goerror + 'a \<Rightarrow> goerror + 'b \<Rightarrow> goerror + 'a \<times> 'b" where
  "eg_Wait blocksFirst blocks txs =
     (case (blocks, txs) of
        (Inr b, Inr x) \<Rightarrow> Inr (b, x)
      | (Inl e, Inr x) \<Rightarrow> Inl e
      | (Inr b, Inl e) \<Rightarrow> Inl e
      | (Inl e1, Inl e2) \<Rightarrow> Inl (if blocksFirst then e1 else e2))"

definition attach_txs :: "(u64 \<Rightarrow> string list) \<Rightarrow> DbBlockData \<Rightarrow> DbBlockData" where
  "attach_txs txs block =
     (let all = bkd_Txs block @ txs (bkd_Height block)
      in block\<lparr>bkd_Txs := all, bkd_TxCounter := length all\<rparr>)"

section \<open>The block queries\<close>

definition db_GetBlock :: "bool \<Rightarrow> block_tables \<Rightarrow> block_tables \<Rightarrow> u64 \<Rightarrow> string \<Rightarrow> goerror + DbBlockData" where
  "db_GetBlock first t1 t2 height chainName =
     bind_result (eg_Wait first
         (fetchBlocksData (statement t1 [height] (filter (\<lambda>r. bl_Height (fst r) = height) (block_rows t1 chainName))))
         (fetchTransactionData (statement t2 [height] (filter (\<lambda>r. snd r = height) (tx_height_rows t2 chainName)))))
       (\<lambda>(blocks, txs). case blocks of
          [] \<Rightarrow> Inl (ErrWrap ''block at height'' ErrNotFound)
        | block # _ \<Rightarrow> Inr (attach_txs txs block))"

definition db_GetLatestBlock :: "bool \<Rightarrow> block_tables \<Rightarrow> block_tables \<Rightarrow> string \<Rightarrow> goerror + DbBlockData" where
  "db_GetLatestBlock first t1 t2 chainName =
     bind_result (eg_Wait first
         (fetchBlocksData (statement t1 [] (take 1 (by_height_desc (block_rows t1 chainName)))))
         (fetchTransactionData (statement t2 [] (filter (\<lambda>r. Some (snd r) = max_height t2 chainName) (tx_height_rows t2 chainName)))))
       (\<lambda>(blocks, txs). case blocks of
          [] \<Rightarrow> Inl (ErrWrap ''no blocks for chain'' ErrNotFound)
        | block # _ \<Rightarrow> Inr (attach_txs txs block))"

text \<open>The transactions of the last heights, counted from the highest stored one.\<close>

definition recent :: "u64 option \<Rightarrow> u64 \<Rightarrow> u64 \<Rightarrow> bool" where
  "recent highest x h =
     (case highest of None \<Rightarrow> False | Some m \<Rightarrow> h \<le> m \<and> int (unat m) - int (unat x) \<le> int (unat h))"

definition db_GetLastXBlocks :: "bool \<Rightarrow> block_tables \<Rightarrow> block_tables \<Rightarrow> string \<Rightarrow> u64 \<Rightarrow> goerror + DbBlockData list" where
  "db_GetLastXBlocks first t1 t2 chainName x =
     bind_result (eg_Wait first
         (fetchBlocksData (statement t1 [x] (take (unat x) (by_height_desc (block_rows t1 chainName)))))
         (fetchTransactionData (statement t2 [x]
            (filter (\<lambda>r. recent (max_height t2 chainName) x (snd r)) (tx_height_rows t2 chainName)))))
       (\<lambda>(blocks, txs).
          if blocks = [] then Inl (ErrWrap ''no blocks for chain'' ErrNotFound)
          else Inr (map (attach_txs txs) blocks))"

definition db_GetFromToBlocks ::
  "bool \<Rightarrow> block_tables \<Rightarrow> block_tables \<Rightarrow> u64 \<Rightarrow> u64 \<Rightarrow> string \<Rightarrow> goerror + DbBlockData list" where
  "db_GetFromToBlocks first t1 t2 fromHeight toHeight chainName =
     bind_result (eg_Wait first
         (fetchBlocksData (statement t1 [fromHeight, toHeight]
            (filter (\<lambda>r. fromHeight \<le> bl_Height (fst r) \<and> bl_Height (fst r) \<le> toHeight) (block_rows t1 chainName))))
         (fetchTransactionData (statement t2 [fromHeight, toHeight]
            (filter (\<lambda>r. fromHeight \<le> snd r \<and> snd r \<le> toHeight) (tx_height_rows t2 chainName)))))
       (\<lambda>(blocks, txs).
          if blocks = [] then Inl (ErrWrap ''no blocks between heights'' ErrNotFound)
          else Inr (map (attach_txs txs) blocks))"

record BlockSigners =
  bsg_BlockHeight :: u64
  bsg_Proposer :: string
  bsg_SignedVals :: "string list"

text \<open>The proposer comes over a LEFT JOIN: NULL when it is not in the table.\<close>

definition validator_address :: "block_tables \<Rightarrow> i32 \<Rightarrow> string option" where
  "validator_address t i = map_option ar_address (find (\<lambda>r. ar_id r = i) (bt_validators t))"

definition db_GetAllBlockSigners :: "block_tables \<Rightarrow> string \<Rightarrow> u64 \<Rightarrow> goerror + BlockSigners" where
  "db_GetAllBlockSigners t chainName blockHeight =
     bind_result (statement t [blockHeight]
         (filter (\<lambda>vb. vbs_ChainName vb = chainName \<and> vbs_BlockHeight vb = blockHeight) (bt_signing t)))
       (\<lambda>rows. case rows of
          [] \<Rightarrow> Inl (ErrWrap ''block signers at height'' ErrNotFound)
        | vb # _ \<Rightarrow>
            (case validator_address t (vbs_Proposer vb) of
               None \<Rightarrow> Inl (ErrMsg ''cannot scan NULL into *string'')
             | Some proposer \<Rightarrow> Inr \<lparr>bsg_BlockHeight = vbs_BlockHeight vb, bsg_Proposer = proposer,
                 bsg_SignedVals = bt_order t (concat (map (\<lambda>i. case validator_address t i of None \<Rightarrow> [] | Some a \<Rightarrow> [a])
                   (vbs_SignedVals vb)))\<rparr>))"

definition db_GetAllValidators :: "block_tables \<Rightarrow> string \<Rightarrow> goerror + string list" where
  "db_GetAllValidators t chainName =
     bind_result (statement t [] (map ar_address (sort_key (\<lambda>r. sint (ar_id r))
         (filter (\<lambda>r. ar_chain r = chainName) (bt_validators t)))))
       (\<lambda>validators. if validators = [] then Inl (ErrWrap ''validator list'' ErrNotFound) else Inr validators)"

text \<open>The average block time is a quotient of two 64-bit floats: its dividend in nanoseconds and its
  divisor. The blocks are ordered by height.\<close>

definition db_GetAvgBlockProdTimeTrueMean :: "block_tables \<Rightarrow> string \<Rightarrow> goerror + duration \<times> u64" where
  "db_GetAvgBlockProdTimeTrueMean t chainName =
     (let blocks = filter (\<lambda>b. bl_ChainName b = chainName) (bt_blocks t);
          ends = filter (\<lambda>b. list_all (\<lambda>c. bl_Height c \<le> bl_Height b) blocks
                           \<or> list_all (\<lambda>c. bl_Height b \<le> bl_Height c) blocks) blocks
      in bind_result (statement t [] (rev (sort_key bl_Height ends)))
       (\<lambda>points.
          if length points < 2 then Inl (ErrMsg ''not enough block data to compute average block time'')
          else
            (let diffHeight = bl_Height (points ! 0) - bl_Height (points ! 1) in
             if diffHeight = 0 then Inl (ErrMsg ''not enough block data to compute average block time'')
             else Inr (bl_Timestamp (points ! 0) - bl_Timestamp (points ! 1), diffHeight))))"

definition db_GetAvgBlockProdTime :: "block_tables \<Rightarrow> string \<Rightarrow> goerror + duration \<times> u64" where
  "db_GetAvgBlockProdTime t chainName =
     (let blocks = sort_key bl_Height (filter (\<lambda>b. bl_ChainName b = chainName) (bt_blocks t));
          window = 10000
      in bind_result (statement t [] blocks)
       (\<lambda>rows. case rows of
          [] \<Rightarrow> Inl (ErrMsg ''not enough block data to compute average block time'')
        | b # bs \<Rightarrow>
            (let last_block = last (b # bs);
                 start = max (int (unat (bl_Height b))) (int (unat (bl_Height last_block)) - window)
             in case find (\<lambda>c. start \<le> int (unat (bl_Height c))) (b # bs) of
                  None \<Rightarrow> Inl (ErrMsg ''not enough block data to compute average block time'')
                | Some first_block \<Rightarrow>
                    let heightDiff = bl_Height last_block - bl_Height first_block in
                    if heightDiff = 0 then Inl (ErrMsg ''not enough block data to compute average block time'')
                    else Inr (bl_Timestamp last_block - bl_Timestamp first_block, heightDiff))))"

section \<open>The handlers\<close>

definition handle_GetBlock :: "bool \<Rightarrow> block_tables \<Rightarrow> block_tables \<Rightarrow> string \<Rightarrow> u64 \<Rightarrow> api_error + DbBlockData" where
  "handle_GetBlock first t1 t2 chainName height =
     found (''block at height '' @ FormatUint height @ '' not found'') (db_GetBlock first t1 t2 height chainName)"

definition handle_GetFromToBlocks ::
  "bool \<Rightarrow> block_tables \<Rightarrow> block_tables \<Rightarrow> string \<Rightarrow> u64 \<Rightarrow> u64 \<Rightarrow> api_error + DbBlockData list" where
  "handle_GetFromToBlocks first t1 t2 chainName fromHeight toHeight =
     (let notFoundMsg = ''blocks from height '' @ FormatUint fromHeight @ '' to '' @ FormatUint toHeight @ '' not found'' in
      if fromHeight > toHeight then Inl (BadRequest ''from_height must be less than or equal to to_height'')
      else if toHeight - fromHeight > 100
      then Inl (BadRequest ''from_height and to_height difference must be less than 100'')
      else bind_result (found notFoundMsg (db_GetFromToBlocks first t1 t2 fromHeight toHeight chainName))
        (\<lambda>blocks. if length blocks = 0 then Inl (NotFound notFoundMsg) else Inr blocks))"

definition handle_GetAllBlockSigners :: "block_tables \<Rightarrow> string \<Rightarrow> u64 \<Rightarrow> api_error + BlockSigners" where
  "handle_GetAllBlockSigners t chainName blockHeight =
     found (''block signers at height '' @ FormatUint blockHeight @ '' not found'')
       (db_GetAllBlockSigners t chainName blockHeight)"

definition handle_GetLatestBlock :: "bool \<Rightarrow> block_tables \<Rightarrow> block_tables \<Rightarrow> string \<Rightarrow> api_error + DbBlockData" where
  "handle_GetLatestBlock first t1 t2 chainName =
     found ''latest block not found'' (db_GetLatestBlock first t1 t2 chainName)"

definition handle_GetLastXBlocks ::
  "bool \<Rightarrow> block_tables \<Rightarrow> block_tables \<Rightarrow> string \<Rightarrow> u64 \<Rightarrow> api_error + DbBlockData list" where
  "handle_GetLastXBlocks first t1 t2 chainName amount =
     found ''no recent blocks found'' (db_GetLastXBlocks first t1 t2 chainName amount)"

definition handle_GetValidatorsList :: "block_tables \<Rightarrow> string \<Rightarrow> api_error + string list" where
  "handle_GetValidatorsList t chainName = found ''validator list not found'' (db_GetAllValidators t chainName)"

section \<open>What the joins hold\<close>

lemma set_block_rows:
  "(b, a) \<in> set (block_rows t chainName) \<longleftrightarrow>
     b \<in> set (bt_blocks t) \<and> bl_ChainName b = chainName
     \<and> (\<exists>vb\<in>set (bt_signing t). vbs_BlockHeight vb = bl_Height b \<and> vbs_ChainName vb = bl_ChainName b
         \<and> (\<exists>gv\<in>set (bt_validators t). ar_id gv = vbs_Proposer vb \<and> ar_address gv = a))"
  by (auto simp: block_rows_def)

lemma block_answered_iff:
  "b \<in> fst ` set (block_rows t chainName) \<longleftrightarrow>
     b \<in> set (bt_blocks t) \<and> bl_ChainName b = chainName
     \<and> (\<exists>vb\<in>set (bt_signing t). vbs_BlockHeight vb = bl_Height b \<and> vbs_ChainName vb = bl_ChainName b
         \<and> (\<exists>gv\<in>set (bt_validators t). ar_id gv = vbs_Proposer vb))"
proof -
  have "b \<in> fst ` set (block_rows t chainName) \<longleftrightarrow> (\<exists>a. (b, a) \<in> set (block_rows t chainName))" by force
  then show ?thesis by (auto simp: set_block_rows)
qed

lemma max_height_Some:
  assumes "max_height t chainName = Some m"
  shows "\<And>b. b \<in> set (bt_blocks t) \<Longrightarrow> bl_ChainName b = chainName \<Longrightarrow> bl_Height b \<le> m"
    and "\<exists>b\<in>set (bt_blocks t). bl_ChainName b = chainName \<and> bl_Height b = m"
proof -
  let ?hs = "map bl_Height (filter (\<lambda>b. bl_ChainName b = chainName) (bt_blocks t))"
  from assms obtain h hs where h: "?hs = h # hs" "m = fold max hs h"
    by (auto simp: max_height_def simp del: map_eq_Cons_conv split: list.splits)
  then have m: "?hs \<noteq> []" "m = Max (set ?hs)" by (simp_all only: Max.set_eq_fold list.distinct simp_thms not_False_eq_True)
  then have "m \<in> set ?hs" "\<forall>h\<in>set ?hs. h \<le> m" by (metis List.finite_set Max_in set_empty, simp)
  then show "\<And>b. b \<in> set (bt_blocks t) \<Longrightarrow> bl_ChainName b = chainName \<Longrightarrow> bl_Height b \<le> m"
    and "\<exists>b\<in>set (bt_blocks t). bl_ChainName b = chainName \<and> bl_Height b = m" by auto
qed

text \<open>The transactions of a height, and the block as it is answered.\<close>

definition txs_at :: "block_tables \<Rightarrow> string \<Rightarrow> u64 \<Rightarrow> string list" where
  "txs_at t chainName h = map fst (filter (\<lambda>r. snd r = h) (tx_height_rows t chainName))"

definition block_answer_of :: "string list \<Rightarrow> Blocks \<times> string \<Rightarrow> DbBlockData" where
  "block_answer_of txs r =
     \<lparr>bkd_Hash = encode_base64 StdEncoding (the (bl_Hash (fst r))), bkd_Height = bl_Height (fst r),
      bkd_Timestamp = bl_Timestamp (fst r), bkd_ChainID = bl_ChainID (fst r), bkd_Txs = txs,
      bkd_Proposer = snd r, bkd_TxCounter = length txs\<rparr>"

definition hashes_stored :: "block_tables \<Rightarrow> bool" where
  "hashes_stored t \<longleftrightarrow> list_all (\<lambda>b. bl_Hash b \<noteq> None) (bt_blocks t)"

lemma scan_block_of:
  assumes "hashes_stored t" and "r \<in> set (block_rows t chainName)"
  shows "scan_block r = Inr (block_answer_of [] r)"
  using assms by (cases r) (auto simp: scan_block_def block_answer_of_def hashes_stored_def list_all_iff set_block_rows)

lemma fetch_blocks:
  assumes "hashes_stored t" and "set rows \<subseteq> set (block_rows t chainName)"
  shows "fetchBlocksData (Inr rows) = Inr (map (block_answer_of []) rows)"
  unfolding fetchBlocksData_def bind_result.simps
  by (rule mapM_result_total) (use assms scan_block_of in blast)

lemma fold_txs:
  "fold (\<lambda>(hash, height) txs. txs(height := txs height @ [hash])) rs m h = m h @ map fst (filter (\<lambda>r. snd r = h) rs)"
  by (induction rs arbitrary: m) (auto split: prod.splits)

lemma fetch_txs:
  "fetchTransactionData (Inr rs) = Inr (\<lambda>h. map fst (filter (\<lambda>r. snd r = h) rs))"
  by (simp add: fetchTransactionData_def fold_txs fun_eq_iff)

lemma txs_of_height:
  "P h \<Longrightarrow> map fst (filter (\<lambda>r. snd r = h) (filter (\<lambda>r. P (snd r)) (tx_height_rows t chainName))) = txs_at t chainName h"
  unfolding txs_at_def filter_filter by (rule arg_cong [of _ _ "map fst"], rule filter_cong) auto

lemma attach_answer: "attach_txs txs (block_answer_of [] r) = block_answer_of (txs (bl_Height (fst r))) r"
  by (simp add: attach_txs_def block_answer_of_def Let_def)

lemma statement_ok:
  "bt_fault t = None \<Longrightarrow> list_all (\<lambda>w. unat w < 2 ^ 63) args \<Longrightarrow> statement t args rows = Inr rows"
proof -
  assume a: "bt_fault t = None" "list_all (\<lambda>w. unat w < 2 ^ 63) args"
  then have "find (\<lambda>e. e \<noteq> None) (map int8_arg args @ [bt_fault t]) = None"
    by (auto simp: find_None_iff int8_arg_def list_all_iff)
  then show ?thesis by (simp add: statement_def)
qed

lemma set_by_height_desc [simp]: "set (by_height_desc rows) = set rows"
  by (simp add: by_height_desc_def)

lemma by_height_desc_empty [simp]: "by_height_desc rows = [] \<longleftrightarrow> rows = []"
  by (metis set_by_height_desc set_empty)

section \<open>Properties\<close>


text \<open>When the highest stored block has no known proposer (its signing row is not stored yet, or
  never), the latest block is answered as an older one with no transactions at all, whatever
  transactions are stored at its height and are answered for it under that height; the last blocks
  lose theirs too, from the requested number of heights on.\<close>

theorem latest_block_without_txs:
  assumes "max_height t chainName = Some m" and "\<forall>r\<in>set (block_rows t chainName). bl_Height (fst r) \<noteq> m"
    and "block_rows t chainName \<noteq> []" and "bt_fault t = None" and "hashes_stored t"
    and "list_all (\<lambda>b. unat (bl_Height b) < 2 ^ 63) (bt_blocks t)"
  shows "\<exists>latest same. handle_GetLatestBlock first t t chainName = Inr latest
      \<and> (\<exists>r\<in>set (block_rows t chainName). bkd_Height latest = bl_Height (fst r)) \<and> bkd_Height latest < m
      \<and> bkd_Txs latest = [] \<and> bkd_TxCounter latest = 0
      \<and> handle_GetBlock first t t chainName (bkd_Height latest) = Inr same
      \<and> bkd_Txs same = txs_at t chainName (bkd_Height latest)"
proof -
  obtain r rest where r: "by_height_desc (block_rows t chainName) = r # rest"
    using assms(3) by (metis by_height_desc_empty list.exhaust)
  then have mem: "r \<in> set (block_rows t chainName)" by (metis list.set_intros(1) set_by_height_desc)
  then have b: "fst r \<in> set (bt_blocks t)" "bl_ChainName (fst r) = chainName"
    using mem set_block_rows [of "fst r" "snd r" t chainName] by simp_all
  have less: "bl_Height (fst r) < m"
    using max_height_Some(1) [OF assms(1) b] assms(2) mem by fastforce
  have one: "fetchBlocksData (Inr [r]) = Inr [block_answer_of [] r]"
    using fetch_blocks [OF assms(5), of "[r]" chainName] mem by simp
  have none: "map fst (filter (\<lambda>x. snd x = bl_Height (fst r)) (filter (\<lambda>x. Some (snd x) = Some m) (tx_height_rows t chainName))) = []"
    using less by (auto simp: filter_empty_conv)
  have "db_GetLatestBlock first t t chainName = Inr (block_answer_of [] r)"
    unfolding db_GetLatestBlock_def statement_ok [OF assms(4) list.pred_inject(1)] r assms(1)
    by (simp only: take_Suc_Cons One_nat_def take0 one fetch_txs eg_Wait_def sum.case prod.case bind_result.simps list.case
        attach_answer none)
  moreover
  let ?here = "filter (\<lambda>x. bl_Height (fst x) = bl_Height (fst r)) (block_rows t chainName)"
  obtain r' rest' where r': "?here = r' # rest'" using mem by (cases ?here) (auto simp: filter_empty_conv)
  then have h': "bl_Height (fst r') = bl_Height (fst r)" by (metis (mono_tags, lifting) filter_eq_ConsD)
  have arg: "list_all (\<lambda>w. unat w < 2 ^ 63) [bl_Height (fst r)]" using assms(6) b by (simp add: list_all_iff)
  have here: "fetchBlocksData (Inr ?here) = Inr (map (block_answer_of []) ?here)"
    by (rule fetch_blocks [OF assms(5)]) auto
  have "db_GetBlock first t t (bl_Height (fst r)) chainName = Inr (block_answer_of (txs_at t chainName (bl_Height (fst r))) r')"
    unfolding db_GetBlock_def statement_ok [OF assms(4) arg] here fetch_txs
    by (simp add: eg_Wait_def r' attach_answer h' txs_at_def)
  ultimately show ?thesis
    using less mem by (auto simp: handle_GetLatestBlock_def handle_GetBlock_def found_def block_answer_of_def)
qed

section \<open>Concrete tables\<close>

text \<open>Two stored blocks, each with a transaction; only the first has its signing row.\<close>

definition sample_view :: block_tables where
  "sample_view =
     \<lparr>bt_blocks = [\<lparr>bl_Hash = Some [1], bl_Height = 1, bl_Timestamp = 5, bl_ChainID = ''c'', bl_ChainName = ''c''\<rparr>,
                   \<lparr>bl_Hash = Some [2], bl_Height = 2, bl_Timestamp = 9, bl_ChainID = ''c'', bl_ChainName = ''c''\<rparr>],
      bt_signing = [\<lparr>vbs_BlockHeight = 1, vbs_Timestamp = 5, vbs_Proposer = 4, vbs_SignedVals = [4], vbs_ChainName = ''c''\<rparr>],
      bt_validators = [\<lparr>ar_address = ''v'', ar_id = 4, ar_chain = ''c''\<rparr>],
      bt_general = map (\<lambda>i. \<lparr>tg_TxId = of_nat i, tg_ChainName = ''c'', tg_Timestamp = 5, tg_BlockHeight = of_nat i,
        tg_MsgTypes = [], tg_TxEvents = None, tg_TxEventsCompressed = None, tg_CompressionOn = True, tg_GasUsed = 1,
        tg_GasWanted = 2, tg_FeeAmount = 1, tg_FeeDenom = ''u'', tg_Success = True, tg_ErrorLog = None\<rparr>) [1, 2],
      bt_hashes = map (\<lambda>i. \<lparr>thi_TxId = of_nat i, thi_TxHash = [of_nat i], thi_Timestamp = 5, thi_ChainName = ''c''\<rparr>) [1, 2],
      bt_order = id, bt_fault = None\<rparr>"

lemma sample_block_rows:
  "block_rows sample_view ''c'' = [(\<lparr>bl_Hash = Some [1], bl_Height = 1, bl_Timestamp = 5, bl_ChainID = ''c'', bl_ChainName = ''c''\<rparr>, ''v'')]"
  by (simp add: block_rows_def sample_view_def)

lemma sample_txs: "txs_at sample_view ''c'' 1 = [encode_base64 StdEncoding [1]]"
  by (simp add: txs_at_def tx_height_rows_def sample_view_def)

lemma sample_hashes: "bt_fault sample_view = None" "hashes_stored sample_view"
  by (simp_all add: hashes_stored_def sample_view_def)


lemma latest_block_without_txs_witness:
  "\<exists>latest same. handle_GetLatestBlock True sample_view sample_view ''c'' = Inr latest
      \<and> bkd_Txs latest = [] \<and> handle_GetBlock True sample_view sample_view ''c'' (bkd_Height latest) = Inr same
      \<and> bkd_Txs same = [encode_base64 StdEncoding [1]] \<and> bkd_Height latest = 1"
proof -
  have highest: "max_height sample_view ''c'' = Some 2" by (simp add: max_height_def sample_view_def)
  have unsigned: "\<forall>r\<in>set (block_rows sample_view ''c''). bl_Height (fst r) \<noteq> 2"
    and some: "block_rows sample_view ''c'' \<noteq> []" by (simp_all add: sample_block_rows)
  have small: "list_all (\<lambda>b. unat (bl_Height b) < 2 ^ 63) (bt_blocks sample_view)" by (simp add: sample_view_def)
  obtain latest same where l: "handle_GetLatestBlock True sample_view sample_view ''c'' = Inr latest"
      "\<exists>r\<in>set (block_rows sample_view ''c''). bkd_Height latest = bl_Height (fst r)" "bkd_Txs latest = []"
      "handle_GetBlock True sample_view sample_view ''c'' (bkd_Height latest) = Inr same"
      "bkd_Txs same = txs_at sample_view ''c'' (bkd_Height latest)"
    using latest_block_without_txs [OF highest unsigned some sample_hashes small, of True] by blast
  have "bkd_Height latest = 1" using l(2) by (simp add: sample_block_rows)
  with l sample_txs show ?thesis by auto
qed

end
