(* ===== verification/Api_Hashes.thy ===== *)
theory Api_Hashes
  imports Api_Messages Api_Address Api_Blocks
begin

text \<open>
  A transaction by its hash (\<open>queries_tx.go\<close>, \<open>api/handlers/transactions.go\<close>), the conversion of hashes
  (\<open>api/handlers/convert_base64.go\<close>), the middleware that keeps a hash in one path segment
  (\<open>api/txhash_middleware.go\<close>), and the values kept in memory (\<open>api/handlers/in_memory.go\<close>).
\<close>

section \<open>Looking up\<close>

text \<open>The joined rows of the chain, and the error of the statement, if any.\<close>

definition GetTransaction ::
  "(byte list \<Rightarrow> goerror + Event list) \<Rightarrow> goerror option \<Rightarrow> tx_join list \<Rightarrow> string \<Rightarrow> goerror + Transaction" where
  "GetTransaction decode fault rows txHash =
     (case fault of
        Some e \<Rightarrow> Inl e
      | None \<Rightarrow>
          (case decode_base64 StdEncoding False txHash of
             None \<Rightarrow> Inl (ErrMsg ''invalid base64 end sequence'')
           | Some wanted \<Rightarrow>
               (case find (\<lambda>r. tj_hash r = wanted) rows of
                  None \<Rightarrow> Inl (ErrWrap (''transaction '' @ txHash) ErrNotFound)
                | Some r \<Rightarrow> ToTransaction decode (tj_data r))))"

text \<open>\<open>ORDER BY timestamp\<close> without a tie-break: \<open>order\<close> arranges rows of one time.\<close>

definition GetLastXTransactions ::
  "(byte list \<Rightarrow> goerror + Event list) \<Rightarrow> (tx_join list \<Rightarrow> tx_join list) \<Rightarrow> goerror option \<Rightarrow> tx_join list \<Rightarrow> u64
   \<Rightarrow> string option \<Rightarrow> goerror + Transaction list" where
  "GetLastXTransactions decode order fault rows x sortOrder =
     (let direction = (case sortOrder of None \<Rightarrow> ''desc'' | Some s \<Rightarrow> s);
          asc = sort_key (\<lambda>r. ft_Timestamp (tj_data r)) (order rows);
          sorted_rows = (if direction = ''asc'' then asc else rev asc)
      in case find (\<lambda>e. e \<noteq> None) [int8_arg x, fault] of
           Some (Some e) \<Rightarrow> Inl e
         | _ \<Rightarrow> bind_result (mapM_result (ToTransaction decode) (map tj_data (take (unat x) sorted_rows)))
             (\<lambda>transactions. if length transactions = 0 then Inl (ErrWrap ''no transactions for chain'' ErrNotFound)
                else Inr transactions))"

definition GetTransactionBasic ::
  "(byte list \<Rightarrow> goerror + Event list) \<Rightarrow> goerror option \<Rightarrow> tx_join list \<Rightarrow> string \<Rightarrow> api_error + Transaction" where
  "GetTransactionBasic decode fault rows inputHash =
     (let hash = trim_char CHR '' '' inputHash in
      case parseTxHash hash of
        Inl e \<Rightarrow> Inl (BadRequest ''transaction hash is not valid base64 encoded'')
      | Inr txHashBase64 \<Rightarrow>
          found (''transaction with hash '' @ hash @ '' not found'') (GetTransaction decode fault rows txHashBase64))"

definition handle_GetLastXTransactions ::
  "(byte list \<Rightarrow> goerror + Event list) \<Rightarrow> (tx_join list \<Rightarrow> tx_join list) \<Rightarrow> goerror option \<Rightarrow> tx_join list \<Rightarrow> u64
   \<Rightarrow> api_error + Transaction list" where
  "handle_GetLastXTransactions decode order fault rows amount =
     found ''no recent transactions found'' (GetLastXTransactions decode order fault rows amount None)"

section \<open>Converting\<close>

definition convert_hash :: "alphabet \<Rightarrow> alphabet \<Rightarrow> string \<Rightarrow> string \<Rightarrow> api_error + string" where
  "convert_hash al al' invalid input =
     (if length input \<noteq> 44 then Inl (BadRequest ''Input is not a valid tx hash'')
      else (case decode_base64 al False input of
          None \<Rightarrow> Inl (BadRequest invalid)
        | Some decoded \<Rightarrow> Inr (encode_base64 al' decoded)))"

definition ConvertFromBase64toBase64Url :: "string \<Rightarrow> api_error + string" where
  "ConvertFromBase64toBase64Url = convert_hash StdEncoding URLEncoding ''Input is not valid base64 encoded''"

definition ConvertFromBase64UrlToBase64 :: "string \<Rightarrow> api_error + string" where
  "ConvertFromBase64UrlToBase64 = convert_hash URLEncoding StdEncoding ''Input is not valid base64url encoded''"

section \<open>The path of a hash\<close>

definition tx_prefix :: string where
  "tx_prefix = ''/v1/transactions/''"

definition escape_slashes :: "string \<Rightarrow> string" where
  "escape_slashes s = concat (map (\<lambda>c. if c = CHR ''/'' then ''%2F'' else [c]) s)"

text \<open>The raw path of the request after the middleware.\<close>

definition txHashNormalizer :: "string \<Rightarrow> string \<Rightarrow> string" where
  "txHashNormalizer path rawPath =
     (let hashLen = 44 in
      if rawPath = [] \<and> has_prefix path tx_prefix then
        (let rest = drop (length tx_prefix) path in
         if length rest \<ge> hashLen then
           (let hashPart = take hashLen rest in
            if CHR ''/'' \<in> set hashPart
            then tx_prefix @ escape_slashes hashPart @ drop hashLen rest
            else rawPath)
         else rawPath)
      else rawPath)"

section \<open>Values in memory\<close>

text \<open>The average block time is kept as the quotient the query gives.\<close>

record ConstData =
  cd_AvgBlockProdTime :: "duration \<times> u64"
  cd_TotalAddressesCount :: i32

definition memory_refresh :: "block_tables \<Rightarrow> account_tables \<Rightarrow> string \<Rightarrow> ConstData \<Rightarrow> ConstData" where
  "memory_refresh blocks accounts chainName data =
     (let data1 = (case db_GetAvgBlockProdTime blocks chainName of
                     Inl e \<Rightarrow> data | Inr avg \<Rightarrow> data\<lparr>cd_AvgBlockProdTime := avg\<rparr>)
      in case GetTotalAddressesCount accounts chainName of
           Inl e \<Rightarrow> data1 | Inr n \<Rightarrow> data1\<lparr>cd_TotalAddressesCount := n\<rparr>)"

text \<open>Created with zero values and refreshed at once; then a refresh per interval, with what the
  tables are then. Stopping ends the refreshes.\<close>

definition NewInMemoryHandler :: "string \<Rightarrow> (block_tables \<times> account_tables) list \<Rightarrow> ConstData" where
  "NewInMemoryHandler chainName views =
     fold (\<lambda>(blocks, accounts). memory_refresh blocks accounts chainName) views
       \<lparr>cd_AvgBlockProdTime = (0, 1), cd_TotalAddressesCount = 0\<rparr>"

section \<open>Properties\<close>

lemma drop_spaces: "dropWhile (\<lambda>x. x = c) (replicate k c @ xs) = dropWhile (\<lambda>x. x = c) xs"
  by (induction k) simp_all

lemma drop_none: "c \<notin> set s \<Longrightarrow> s \<noteq> [] \<Longrightarrow> dropWhile (\<lambda>x. x = c) (s @ xs) = s @ xs"
  by (cases s) auto

lemma drop_all: "dropWhile (\<lambda>x. x = c) (replicate k c) = []"
  by (induction k) simp_all

lemma trim_spaces:
  assumes "c \<notin> set s" shows "trim_char c (replicate m c @ s @ replicate n c) = s"
proof (cases "s = []")
  case True
  then show ?thesis by (simp only: trim_char_def append_Nil drop_spaces drop_all rev.simps dropWhile.simps)
next
  case False
  then have "dropWhile (\<lambda>x. x = c) (rev s @ []) = rev s @ []" using assms by (intro drop_none) simp_all
  with drop_none [OF assms False, of "replicate n c"] show ?thesis
    by (simp only: trim_char_def drop_spaces rev_append rev_replicate rev_rev_ident append_Nil2)
qed

lemma encode_codes: "c \<in> set (encode_base64 al bs) \<Longrightarrow> 43 \<le> char_code c"
proof -
  have "43 \<le> char_code (b64_char al v)" if "v < 64" for v
    using b64_code [OF that, of al] that by (cases al) (simp_all split: if_splits)
  moreover have "char_code pad = 61" by (simp add: char_code_def)
  ultimately show "c \<in> set (encode_base64 al bs) \<Longrightarrow> 43 \<le> char_code c" using set_encode_base64 [of al bs] by auto
qed

lemma encode_no_space: "CHR '' '' \<notin> set (encode_base64 al bs)"
  using encode_codes [of "CHR '' ''" al bs] by (auto simp: char_code_def)

lemma encode_no_percent: "CHR ''%'' \<notin> set (encode_base64 al bs)"
  using encode_codes [of "CHR ''%''" al bs] by (auto simp: char_code_def)

text \<open>A slash-free text is one segment of a path.\<close>

lemma escape_no_slash: "CHR ''/'' \<notin> set (escape_slashes s)"
  by (auto simp: escape_slashes_def)

text \<open>\<open>url.PathUnescape\<close> of one escape.\<close>

fun unescape_slashes :: "string \<Rightarrow> string" where
  "unescape_slashes (a # b # c # s) =
     (if a = CHR ''%'' \<and> b = CHR ''2'' \<and> c = CHR ''F'' then CHR ''/'' # unescape_slashes s
      else a # unescape_slashes (b # c # s))"
| "unescape_slashes s = s"

lemma unescape_escape:
  "CHR ''%'' \<notin> set s \<Longrightarrow> unescape_slashes (escape_slashes s) = s"
proof (induction s)
  case (Cons c s)
  show ?case
  proof (cases "c = CHR ''/''")
    case True
    with Cons show ?thesis by (simp add: escape_slashes_def)
  next
    case False
    have keep: "unescape_slashes (a # t) = a # unescape_slashes t" if "a \<noteq> CHR ''%''" for a t
      using that by (cases t; cases "tl t") auto
    from False Cons have "c \<noteq> CHR ''%''" by auto
    with False Cons show ?thesis by (simp add: escape_slashes_def keep)
  qed
qed (simp add: escape_slashes_def)

lemma stored_row:
  assumes "joined rows" and "decodable decode rows" and "distinct (map tj_hash rows)" and "r \<in> set rows"
  shows "GetTransaction decode None rows (encode_base64 StdEncoding (tj_hash r)) = Inr (tx_of decode r)"
proof -
  have "find (\<lambda>x. tj_hash x = tj_hash r) rows = Some r"
    using assms(3,4) by (induction rows) auto
  moreover have "isl (ToTransaction decode (tj_data r)) = False" using assms(2,4) by (simp add: decodable_def list_all_iff)
  ultimately show ?thesis by (cases "ToTransaction decode (tj_data r)") (auto simp: GetTransaction_def tx_of_def)
qed

text \<open>C36: every stored transaction is found by its hash, in either alphabet and with spaces around it;
  the two conversion endpoints turn a hash of 32 bytes from one alphabet to the other and back; and a
  hash with slashes in a transaction path stays one segment of the raw path, which names it.\<close>

theorem hash_lookup:
  assumes "joined rows" and "decodable decode rows" and "distinct (map tj_hash rows)" and "r \<in> set rows"
    and "length (tj_hash r) = 32"
  shows "GetTransactionBasic decode None rows
      (replicate m CHR '' '' @ encode_base64 al (tj_hash r) @ replicate n CHR '' '') = Inr (tx_of decode r)
    \<and> ConvertFromBase64toBase64Url (encode_base64 StdEncoding (tj_hash r)) = Inr (encode_base64 URLEncoding (tj_hash r))
    \<and> ConvertFromBase64UrlToBase64 (encode_base64 URLEncoding (tj_hash r)) = Inr (encode_base64 StdEncoding (tj_hash r))
    \<and> (CHR ''/'' \<in> set (encode_base64 StdEncoding (tj_hash r)) \<longrightarrow>
        (\<exists>segment. txHashNormalizer (tx_prefix @ encode_base64 StdEncoding (tj_hash r) @ suffix) [] = tx_prefix @ segment @ suffix
          \<and> CHR ''/'' \<notin> set segment \<and> unescape_slashes segment = encode_base64 StdEncoding (tj_hash r)))"
proof (intro conjI impI)
  show "GetTransactionBasic decode None rows
      (replicate m CHR '' '' @ encode_base64 al (tj_hash r) @ replicate n CHR '' '') = Inr (tx_of decode r)"
    unfolding GetTransactionBasic_def trim_spaces [OF encode_no_space] Let_def parseTxHash_encode sum.case
    by (simp add: stored_row [OF assms(1-4)] found_def)
  show "ConvertFromBase64toBase64Url (encode_base64 StdEncoding (tj_hash r)) = Inr (encode_base64 URLEncoding (tj_hash r))"
    "ConvertFromBase64UrlToBase64 (encode_base64 URLEncoding (tj_hash r)) = Inr (encode_base64 StdEncoding (tj_hash r))"
    by (simp_all add: ConvertFromBase64toBase64Url_def ConvertFromBase64UrlToBase64_def convert_hash_def assms(5))
  assume "CHR ''/'' \<in> set (encode_base64 StdEncoding (tj_hash r))"
  then have "txHashNormalizer (tx_prefix @ encode_base64 StdEncoding (tj_hash r) @ suffix) [] =
      tx_prefix @ escape_slashes (encode_base64 StdEncoding (tj_hash r)) @ suffix"
    by (simp add: txHashNormalizer_def Let_def assms(5))
  with escape_no_slash unescape_escape [OF encode_no_percent]
  show "\<exists>segment. txHashNormalizer (tx_prefix @ encode_base64 StdEncoding (tj_hash r) @ suffix) [] = tx_prefix @ segment @ suffix
      \<and> CHR ''/'' \<notin> set segment \<and> unescape_slashes segment = encode_base64 StdEncoding (tj_hash r)" by blast
qed

text \<open>A hash of 32 bytes whose base64 is nothing but slashes and a final character.\<close>

lemma hash_lookup_witness:
  "GetTransactionBasic (\<lambda>b. Inr []) None [sample_join 1 (replicate 32 255)]
      ('' '' @ encode_base64 URLEncoding (replicate 32 255)) = Inr (tx_of (\<lambda>b. Inr []) (sample_join 1 (replicate 32 255)))
    \<and> CHR ''/'' \<in> set (encode_base64 StdEncoding (replicate 32 255))
    \<and> (\<exists>segment. txHashNormalizer (tx_prefix @ encode_base64 StdEncoding (replicate 32 255) @ ''/messages'') []
          = tx_prefix @ segment @ ''/messages'' \<and> CHR ''/'' \<notin> set segment)"
proof -
  let ?r = "sample_join 1 (replicate 32 255)"
  have J: "joined [?r]" by (simp add: joined_def sample_join_def)
  have D: "decodable (\<lambda>b. Inr []) [?r]" by (simp add: decodable_def sample_join_def ToTransaction_def)
  have H: "tj_hash ?r = replicate 32 255" "length (tj_hash ?r) = 32" by (simp_all add: sample_join_def)
  have slash: "CHR ''/'' \<in> set (encode_base64 StdEncoding (replicate 32 255))"
  proof -
    have "replicate 32 (255 :: byte) = 255 # 255 # 255 # replicate 29 255" by (simp add: eval_nat_numeral)
    then show ?thesis by (simp add: encode_base64_def b64_char_def)
  qed
  have one: "distinct (map tj_hash [?r])" "?r \<in> set [?r]" by simp_all
  note look = hash_lookup [OF J D one H(2), where m = 1 and n = 0 and al = URLEncoding and suffix = "''/messages''", unfolded H(1)]
  show ?thesis using look slash by auto
qed

end
