(* ===== verification/Go_Net.thy ===== *)
theory Go_Net
  imports Go_Strings
begin

text \<open>
  What the code uses of Go's \<open>net\<close>, \<open>net/netip\<close>, \<open>path\<close> and \<open>encoding/hex\<close>: host and port of an
  address, IP addresses and CIDR blocks from text, membership of an address in a block, the
  shortest form of a slash-separated path, lower-case hexadecimal.
\<close>

unbundle bit_operations_syntax

section \<open>Host and port\<close>

definition before_last :: "char \<Rightarrow> string \<Rightarrow> string" where
  "before_last c s = rev (tl (dropWhile (\<lambda>x. x \<noteq> c) (rev s)))"

definition after_last :: "char \<Rightarrow> string \<Rightarrow> string" where
  "after_last c s = rev (takeWhile (\<lambda>x. x \<noteq> c) (rev s))"

text \<open>The port starts after the last colon; a bracketed host ends just before it.\<close>

definition SplitHostPort :: "string \<Rightarrow> goerror + string \<times> string" where
  "SplitHostPort hostport =
     (if CHR '':'' \<notin> set hostport then Inl (ErrMsg ''missing port in address'')
      else
        let front = before_last CHR '':'' hostport; port = after_last CHR '':'' hostport in
        if hd hostport = CHR ''['' then
          let inner = takeWhile (\<lambda>x. x \<noteq> CHR '']'') (tl hostport) in
          if CHR '']'' \<notin> set hostport then Inl (ErrMsg ''missing ']' in address'')
          else if CHR ''['' # inner @ '']'' \<noteq> front then Inl (ErrMsg ''missing port or too many colons in address'')
          else if CHR ''['' \<in> set (tl hostport) then Inl (ErrMsg ''unexpected '[' in address'')
          else if CHR '']'' \<in> set port then Inl (ErrMsg ''unexpected ']' in address'')
          else Inr (inner, port)
        else if CHR '':'' \<in> set front then Inl (ErrMsg ''too many colons in address'')
        else if CHR ''['' \<in> set hostport then Inl (ErrMsg ''unexpected '[' in address'')
        else if CHR '']'' \<in> set hostport then Inl (ErrMsg ''unexpected ']' in address'')
        else Inr (front, port))"

section \<open>IP addresses\<close>

definition parse_octet :: "string \<Rightarrow> byte option" where
  "parse_octet s =
     (if s = [] \<or> \<not> list_all is_digit s \<or> (length s > 1 \<and> hd s = CHR ''0'') \<or> digits_value s > 255
      then None else Some (of_nat (digits_value s)))"

definition parse_ipv4 :: "string \<Rightarrow> byte list option" where
  "parse_ipv4 s =
     (case map parse_octet (split_on CHR ''.'' s) of
        [Some a, Some b, Some c, Some d] \<Rightarrow> Some [a, b, c, d]
      | _ \<Rightarrow> None)"

definition hex_val :: "char \<Rightarrow> nat option" where
  "hex_val ch =
     (let c = char_code ch in
      if 48 \<le> c \<and> c \<le> 57 then Some (c - 48)
      else if 97 \<le> c \<and> c \<le> 102 then Some (c - 87)
      else if 65 \<le> c \<and> c \<le> 70 then Some (c - 55) else None)"

definition hex_value :: "string \<Rightarrow> nat" where
  "hex_value s = foldl (\<lambda>n c. 16 * n + (case hex_val c of Some v \<Rightarrow> v | None \<Rightarrow> 0)) 0 s"

text \<open>The groups of an IPv6 address: the bytes so far and where the ellipsis is; at most eight
  groups, the last two may be written as an IPv4 address.\<close>

primrec parse_groups :: "nat \<Rightarrow> string \<Rightarrow> byte list \<Rightarrow> nat option \<Rightarrow> (byte list \<times> nat option) option" where
  "parse_groups 0 s bs e = None"
| "parse_groups (Suc n) s bs e =
     (let h = takeWhile (\<lambda>c. hex_val c \<noteq> None) s; rest = drop (length h) s in
      if h = [] \<or> length h > 4 then None
      else if rest \<noteq> [] \<and> hd rest = CHR ''.'' then
        (if e = None \<and> length bs \<noteq> 12 \<or> length bs + 4 > 16 then None
         else map_option (\<lambda>f. (bs @ f, e)) (parse_ipv4 s))
      else
        let bs' = bs @ [of_nat (hex_value h div 256), of_nat (hex_value h mod 256)] in
        (case rest of
           [] \<Rightarrow> Some (bs', e)
         | c # s' \<Rightarrow>
             if c \<noteq> CHR '':'' \<or> s' = [] then None
             else if hd s' = CHR '':'' then
               (if e \<noteq> None then None
                else if tl s' = [] then Some (bs', Some (length bs'))
                else parse_groups n (tl s') bs' (Some (length bs')))
             else parse_groups n s' bs' e))"

definition expand_ellipsis :: "byte list \<times> nat option \<Rightarrow> byte list option" where
  "expand_ellipsis p =
     (case p of
        (bs, None) \<Rightarrow> if length bs = 16 then Some bs else None
      | (bs, Some k) \<Rightarrow>
          if length bs < 16 then Some (take k bs @ replicate (16 - length bs) 0 @ drop k bs) else None)"

definition parse_ipv6 :: "string \<Rightarrow> byte list option" where
  "parse_ipv6 s =
     (if has_prefix s ''::'' then
        (if length s = 2 then Some (replicate 16 0)
         else Option.bind (parse_groups 8 (drop 2 s) [] (Some 0)) expand_ellipsis)
      else Option.bind (parse_groups 8 s [] None) expand_ellipsis)"

text \<open>An address without a zone: its 16 bytes, and the number of bits of the form it is written
  in. An address with a zone is refused by both parsers of \<open>net\<close>.\<close>

definition v4_prefix :: "byte list" where
  "v4_prefix = replicate 10 0 @ [255, 255]"

definition parse_addr :: "string \<Rightarrow> (byte list \<times> nat) option" where
  "parse_addr s =
     (if CHR ''%'' \<in> set s then None
      else case filter (\<lambda>c. c = CHR ''.'' \<or> c = CHR '':'') s of
        [] \<Rightarrow> None
      | c # cs \<Rightarrow>
          if c = CHR ''.'' then map_option (\<lambda>a. (v4_prefix @ a, 32)) (parse_ipv4 s)
          else map_option (\<lambda>a. (a, 128)) (parse_ipv6 s))"

definition ParseIP :: "string \<Rightarrow> byte list option" where
  "ParseIP s = map_option fst (parse_addr s)"

definition To4 :: "byte list \<Rightarrow> byte list option" where
  "To4 ip = (if length ip = 4 then Some ip
     else if length ip = 16 \<and> take 12 ip = v4_prefix then Some (drop 12 ip) else None)"

section \<open>CIDR blocks\<close>

record IPNet =
  net_IP :: "byte list"
  net_Mask :: "byte list"

definition mask_byte :: "nat \<Rightarrow> byte" where
  "mask_byte n = (if 8 \<le> n then 255 else NOT (drop_bit n 255))"

definition CIDRMask :: "nat \<Rightarrow> nat \<Rightarrow> byte list" where
  "CIDRMask ones bits = map (\<lambda>i. mask_byte (ones - 8 * i)) [0..<bits div 8]"

text \<open>The network of an address in IPv4 form is kept in four bytes.\<close>

definition ParseCIDR :: "string \<Rightarrow> goerror + IPNet" where
  "ParseCIDR s =
     (let addr = takeWhile (\<lambda>c. c \<noteq> CHR ''/'') s; mask = drop (length addr + 1) s in
      if CHR ''/'' \<notin> set s then Inl (ErrMsg ''invalid CIDR address'')
      else (case parse_addr addr of
          None \<Rightarrow> Inl (ErrMsg ''invalid CIDR address'')
        | Some (ip, bits) \<Rightarrow>
            if mask = [] \<or> \<not> list_all is_digit mask \<or> digits_value mask > bits
            then Inl (ErrMsg ''invalid CIDR address'')
            else
              let m = CIDRMask (digits_value mask) bits; a = (if bits = 32 then drop 12 ip else ip)
              in Inr \<lparr>net_IP = map2 (AND) a m, net_Mask = m\<rparr>))"

definition Contains :: "IPNet \<Rightarrow> byte list \<Rightarrow> bool" where
  "Contains n ip =
     (let nn = (case To4 (net_IP n) of Some a \<Rightarrow> a | None \<Rightarrow> net_IP n);
          m = (if length (net_Mask n) = 16 \<and> length nn = 4 then drop 12 (net_Mask n) else net_Mask n);
          x = (case To4 ip of Some a \<Rightarrow> a | None \<Rightarrow> ip)
      in length x = length nn \<and> length m = length nn \<and> map2 (AND) nn m = map2 (AND) x m)"

lemma mask_full: "CIDRMask 32 32 = [255, 255, 255, 255]"
  by (simp add: CIDRMask_def mask_byte_def upt_rec)

lemma and_255 [simp]: "(b :: byte) AND 255 = b"
proof -
  have "(255 :: byte) = - 1" by simp
  then show ?thesis by (simp only: and.right_neutral)
qed

lemma parse_ipv4_length: "parse_ipv4 s = Some a \<Longrightarrow> length a = 4"
  by (auto simp: parse_ipv4_def split: list.splits option.splits)

lemma length_4: "length xs = 4 \<longleftrightarrow> (\<exists>a b c d. xs = [a, b, c, d])"
  by (auto simp: length_Suc_conv eval_nat_numeral)

text \<open>A single IPv4 address as a block contains exactly the texts of that address.\<close>

lemma single_block:
  assumes "length a = 4"
  shows "Contains \<lparr>net_IP = map2 (AND) a (CIDRMask 32 32), net_Mask = CIDRMask 32 32\<rparr> ip \<longleftrightarrow> To4 ip = Some a"
proof -
  have masked: "map2 (AND) b [255, 255, 255, 255] = b" if "length b = 4" for b :: "byte list"
    using that by (auto simp: length_4)
  have to4: "length b = 4" if "To4 ip = Some b" for b
    using that by (auto simp: To4_def split: if_splits)
  have none: "length ip \<noteq> 4" if "To4 ip = None" using that by (auto simp: To4_def)
  have net: "To4 a = Some a" using assms by (simp add: To4_def)
  show ?thesis
  proof (cases "To4 ip")
    case None
    then show ?thesis using assms none by (simp add: Contains_def Let_def mask_full masked net)
  next
    case (Some b)
    then show ?thesis using assms to4 by (auto simp: Contains_def Let_def mask_full masked net)
  qed
qed

section \<open>Paths and hexadecimal\<close>

text \<open>\<open>path.Clean\<close>: empty and \<open>.\<close> elements go, \<open>..\<close> takes the element before it away.\<close>

fun clean_elements :: "bool \<Rightarrow> string list \<Rightarrow> string list \<Rightarrow> string list" where
  "clean_elements rooted out [] = rev out"
| "clean_elements rooted out (p # ps) =
     (if p = [] \<or> p = ''.'' then clean_elements rooted out ps
      else if p = ''..'' then
        (case out of
           [] \<Rightarrow> clean_elements rooted (if rooted then [] else [p]) ps
         | q # qs \<Rightarrow> clean_elements rooted (if q = ''..'' then p # out else qs) ps)
      else clean_elements rooted (p # out) ps)"

definition path_Clean :: "string \<Rightarrow> string" where
  "path_Clean p =
     (let rooted = has_prefix p ''/'';
          body = join ''/'' (clean_elements rooted [] (split_on CHR ''/'' p))
      in if rooted then CHR ''/'' # body else if body = [] then ''.'' else body)"

definition hex_digit :: "nat \<Rightarrow> char" where
  "hex_digit d = (if d < 10 then char_of (48 + d) else char_of (87 + d))"

definition hex_EncodeToString :: "byte list \<Rightarrow> string" where
  "hex_EncodeToString bs = concat (map (\<lambda>b. [hex_digit (unat b div 16), hex_digit (unat b mod 16)]) bs)"

end
