(* ===== verification/Api_Limit.thy ===== *)
theory Api_Limit
  imports Go_Net
begin

text \<open>
  The API's rate limiter (\<open>api/ratelimit/ratelimit.go\<close>), the counters it keeps in Valkey
  (\<open>api/valkey/client.go\<close>) and the key store it asks (\<open>api/keystore/keystore.go\<close>).
  SHA-256 is an argument.
\<close>

section \<open>Counters\<close>

text \<open>A Valkey key holds a count and the instant it expires, if it does. Every command may fail;
  then the environment says so and the store keeps its value.\<close>

type_synonym valkey = "string \<Rightarrow> (int \<times> time option) option"

definition live :: "valkey \<Rightarrow> time \<Rightarrow> string \<Rightarrow> (int \<times> time option) option" where
  "live st now k =
     (case st k of Some (c, Some e) \<Rightarrow> if e \<le> now then None else Some (c, Some e) | v \<Rightarrow> v)"

text \<open>\<open>INCR\<close>: counts from 0 and refuses to leave 64 bits.\<close>

definition Increment :: "time \<Rightarrow> string \<Rightarrow> valkey \<Rightarrow> (goerror + int) \<times> valkey" where
  "Increment now k st =
     (case live st now k of
        None \<Rightarrow> (Inr 1, st(k \<mapsto> (1, None)))
      | Some (c, e) \<Rightarrow>
          if c = 2 ^ 63 - 1 then (Inl (ErrMsg ''increment or decrement would overflow''), st)
          else (Inr (c + 1), st(k \<mapsto> (c + 1, e))))"

text \<open>\<open>EXPIRE seconds NX\<close>: only a key that never expires gets a time to live, a non-positive one
  removes the key. The duration is cut to whole seconds.\<close>

definition whole_seconds :: "duration \<Rightarrow> int" where
  "whole_seconds d = (if d < 0 then - (- d div second) else d div second)"

definition ExpireNX :: "time \<Rightarrow> string \<Rightarrow> duration \<Rightarrow> valkey \<Rightarrow> (goerror + bool) \<times> valkey" where
  "ExpireNX now k expiration st =
     (let secs = whole_seconds expiration in
      case live st now k of
        Some (c, None) \<Rightarrow>
          (Inr True, if secs \<le> 0 then st(k := None) else st(k \<mapsto> (c, Some (now + secs * second))))
      | _ \<Rightarrow> (Inr False, st))"

text \<open>The interface the limiter uses, with a count and an expiry to observe.\<close>

record 's ValkeyLike =
  vk_Increment :: "time \<Rightarrow> string \<Rightarrow> 's \<Rightarrow> (goerror + int) \<times> 's"
  vk_ExpireNX :: "time \<Rightarrow> string \<Rightarrow> duration \<Rightarrow> 's \<Rightarrow> (goerror + bool) \<times> 's"

definition ValkeyClient :: "valkey ValkeyLike" where
  "ValkeyClient = \<lparr>vk_Increment = Increment, vk_ExpireNX = ExpireNX\<rparr>"

section \<open>Keys\<close>

type_synonym key_hash = "byte list"

record KeyStore =
  ks_keys :: "key_hash \<Rightarrow> int option"

definition NewKeyStore :: KeyStore where
  "NewKeyStore = \<lparr>ks_keys = (\<lambda>_. None)\<rparr>"

definition GetKeyLimit :: "KeyStore \<Rightarrow> key_hash \<Rightarrow> int option" where
  "GetKeyLimit ks hash = ks_keys ks hash"

text \<open>A failed refresh keeps the keys that are there.\<close>

definition Refresh :: "goerror + (key_hash \<Rightarrow> int option) \<Rightarrow> KeyStore \<Rightarrow> goerror option \<times> KeyStore" where
  "Refresh answer ks =
     (case answer of Inl e \<Rightarrow> (Some e, ks) | Inr keys \<Rightarrow> (None, ks\<lparr>ks_keys := keys\<rparr>))"

section \<open>The limiter\<close>

record RateLimiter =
  rl_ipRPM :: int
  rl_window :: duration
  rl_trustedProxies :: "IPNet list"
  rl_ratePaths :: "string list"

definition proxy_net :: "string \<Rightarrow> goerror + IPNet" where
  "proxy_net cidr =
     ParseCIDR (if CHR ''/'' \<in> set cidr then cidr
                else if CHR '':'' \<in> set cidr then cidr @ ''/128'' else cidr @ ''/32'')"

definition NewRateLimiter :: "int \<Rightarrow> duration \<Rightarrow> string list \<Rightarrow> RateLimiter" where
  "NewRateLimiter ipRPM window trustedProxyCIDRs =
     \<lparr>rl_ipRPM = ipRPM, rl_window = window,
      rl_trustedProxies = concat (map (\<lambda>c. case proxy_net c of Inl e \<Rightarrow> [] | Inr n \<Rightarrow> [n]) trustedProxyCIDRs),
      rl_ratePaths = []\<rparr>"

definition SetRatePaths :: "string list \<Rightarrow> RateLimiter \<Rightarrow> RateLimiter" where
  "SetRatePaths paths rl = rl\<lparr>rl_ratePaths := paths\<rparr>"

text \<open>What the limiter reads of a request; a missing header reads as the empty string.\<close>

record request =
  rq_Path :: string
  rq_RemoteAddr :: string
  rq_ApiKey :: string
  rq_XForwardedFor :: string
  rq_XRealIp :: string

definition isTrustedProxy :: "RateLimiter \<Rightarrow> byte list \<Rightarrow> bool" where
  "isTrustedProxy rl ip = list_ex (\<lambda>network. Contains network ip) (rl_trustedProxies rl)"

definition remote_host :: "request \<Rightarrow> string" where
  "remote_host r = (case SplitHostPort (rq_RemoteAddr r) of Inl e \<Rightarrow> rq_RemoteAddr r | Inr (host, port) \<Rightarrow> host)"

text \<open>The first address of a forwarded list; a leading comma leaves the list whole.\<close>

definition first_forwarded :: "string \<Rightarrow> string" where
  "first_forwarded xff =
     trim_space (if CHR '','' \<in> set xff \<and> hd xff \<noteq> CHR '','' then takeWhile (\<lambda>c. c \<noteq> CHR '','') xff else xff)"

definition realIP :: "RateLimiter \<Rightarrow> request \<Rightarrow> string" where
  "realIP rl r =
     (let remoteHost = remote_host r in
      if rl_trustedProxies rl \<noteq> [] then
        (case ParseIP remoteHost of
           None \<Rightarrow> remoteHost
         | Some remoteIP \<Rightarrow>
             if isTrustedProxy rl remoteIP then
               (if rq_XForwardedFor r \<noteq> [] then first_forwarded (rq_XForwardedFor r)
                else if rq_XRealIp r \<noteq> [] then trim_space (rq_XRealIp r)
                else remoteHost)
             else remoteHost)
      else remoteHost)"

text \<open>The status a request ends with; \<open>Passed\<close> is handed to the next handler.\<close>

datatype verdict = Passed | Unauthorized | TooManyRequests

record limit_result =
  lr_Verdict :: verdict
  lr_Limit :: "int option"
  lr_Remaining :: "int option"
  lr_RetryAfter :: "int option"

text \<open>Who is counted, and with which limit.\<close>

definition identify :: "(string \<Rightarrow> byte list) \<Rightarrow> KeyStore \<Rightarrow> RateLimiter \<Rightarrow> request \<Rightarrow> (string \<times> int) option" where
  "identify sha256 ks rl r =
     (if rq_ApiKey r \<noteq> [] then
        let hash = sha256 (rq_ApiKey r) in
        (case GetKeyLimit ks hash of
           None \<Rightarrow> None
         | Some rpmLimit \<Rightarrow> Some (''key:'' @ hex_EncodeToString (take 8 hash), rpmLimit))
      else Some (''ip:'' @ realIP rl r, rl_ipRPM rl))"

definition rate_key :: "string \<Rightarrow> string" where
  "rate_key identifier = ''rl:'' @ identifier"

lemma rate_key_inject [simp]: "rate_key i = rate_key j \<longleftrightarrow> i = j"
  by (simp add: rate_key_def)

definition rate_path :: "RateLimiter \<Rightarrow> request \<Rightarrow> bool" where
  "rate_path rl r = (if rl_ratePaths rl \<noteq> [] then list_ex (has_prefix (rq_Path r)) (rl_ratePaths rl) else True)"

definition Middleware ::
  "'s ValkeyLike \<Rightarrow> (string \<Rightarrow> byte list) \<Rightarrow> KeyStore \<Rightarrow> RateLimiter \<Rightarrow> time \<Rightarrow> request \<Rightarrow> 's \<Rightarrow> limit_result \<times> 's" where
  "Middleware vk sha256 ks rl now r st =
     (let plain = \<lparr>lr_Verdict = Passed, lr_Limit = None, lr_Remaining = None, lr_RetryAfter = None\<rparr> in
      if \<not> rate_path rl r then (plain, st)
      else
        (case identify sha256 ks rl r of
           None \<Rightarrow> (plain\<lparr>lr_Verdict := Unauthorized\<rparr>, st)
         | Some (identifier, limit) \<Rightarrow>
             let valkeyKey = rate_key identifier in
             (case vk_Increment vk now valkeyKey st of
                (Inl e, st') \<Rightarrow> (plain, st')
              | (Inr n, st') \<Rightarrow>
                  let st'' = snd (vk_ExpireNX vk now valkeyKey (rl_window rl) st');
                      counted = plain\<lparr>lr_Limit := Some limit, lr_Remaining := Some (max (limit - n) 0)\<rparr>
                  in if n > limit
                     then (counted\<lparr>lr_RetryAfter := Some (whole_seconds (rl_window rl)), lr_Verdict := TooManyRequests\<rparr>, st'')
                     else (counted, st''))))"

text \<open>Requests one after the other, each with the instant it arrives at.\<close>

primrec serve ::
  "'s ValkeyLike \<Rightarrow> (string \<Rightarrow> byte list) \<Rightarrow> KeyStore \<Rightarrow> RateLimiter \<Rightarrow> (time \<times> request) list \<Rightarrow> 's \<Rightarrow> limit_result list" where
  "serve vk sha256 ks rl [] st = []"
| "serve vk sha256 ks rl (q # qs) st =
     (let (res, st') = Middleware vk sha256 ks rl (fst q) (snd q) st in res # serve vk sha256 ks rl qs st')"

section \<open>Counting stores\<close>

text \<open>What the limiter relies on: the count of a live key goes up by one, a first count has no
  expiry until it is given one, other keys are left alone, and time only lets keys expire.\<close>

locale counter_store =
  fixes vk :: "'s ValkeyLike" and counter :: "'s \<Rightarrow> time \<Rightarrow> string \<Rightarrow> (int \<times> time option) option"
  assumes incr_new: "counter st now k = None \<Longrightarrow>
      \<exists>st'. vk_Increment vk now k st = (Inr 1, st') \<and> counter st' now k = Some (1, None)"
    and incr_live: "counter st now k = Some (c, x) \<Longrightarrow> c < 2 ^ 63 - 1 \<Longrightarrow>
      \<exists>st'. vk_Increment vk now k st = (Inr (c + 1), st') \<and> counter st' now k = Some (c + 1, x)"
    and incr_frame: "k' \<noteq> k \<Longrightarrow> counter (snd (vk_Increment vk now k st)) t k' = counter st t k'"
    and expire_new: "counter st now k = Some (c, None) \<Longrightarrow> 0 < whole_seconds d \<Longrightarrow>
      counter (snd (vk_ExpireNX vk now k d st)) now k = Some (c, Some (now + whole_seconds d * second))"
    and expire_set: "counter st now k = Some (c, Some e) \<Longrightarrow>
      counter (snd (vk_ExpireNX vk now k d st)) now k = Some (c, Some e)"
    and expire_frame: "k' \<noteq> k \<Longrightarrow> counter (snd (vk_ExpireNX vk now k d st)) t k' = counter st t k'"
    and later_live: "counter st now k = Some (c, Some e) \<Longrightarrow> now \<le> t \<Longrightarrow> t < e \<Longrightarrow> counter st t k = Some (c, Some e)"
    and later_none: "counter st now k = None \<Longrightarrow> now \<le> t \<Longrightarrow> counter st t k = None"
begin

text \<open>\<open>n\<close> requests have been counted for a key, and its counter lasts beyond \<open>T\<close>.\<close>

definition tallied :: "'s \<Rightarrow> time \<Rightarrow> time \<Rightarrow> string \<Rightarrow> nat \<Rightarrow> bool" where
  "tallied st now T k n \<longleftrightarrow>
     (if n = 0 then counter st now k = None else \<exists>e. T < e \<and> counter st now k = Some (int n, Some e))"

lemma tallied_later: "tallied st now T k n \<Longrightarrow> now \<le> t \<Longrightarrow> t \<le> T \<Longrightarrow> tallied st t T k n"
proof (cases "n = 0")
  case False
  assume "tallied st now T k n" "now \<le> t" "t \<le> T"
  then obtain e where "T < e" "counter st now k = Some (int n, Some e)" using False by (auto simp: tallied_def)
  with later_live [of st now k "int n" e t] \<open>now \<le> t\<close> \<open>t \<le> T\<close> False show ?thesis by (auto simp: tallied_def)
qed (simp add: tallied_def later_none)

lemma count_one:
  assumes "tallied st now T k n" and "int n < 2 ^ 63 - 1" and "0 < whole_seconds d" and "T < now + whole_seconds d * second"
  shows "\<exists>st'. vk_Increment vk now k st = (Inr (int n + 1), st')
    \<and> tallied (snd (vk_ExpireNX vk now k d st')) now T k (Suc n)"
proof (cases "n = 0")
  case True
  with incr_new [of st now k] expire_new [of _ now k 1 d] assms show ?thesis
    by (fastforce simp: tallied_def)
next
  case False
  then obtain e where "T < e" "counter st now k = Some (int n, Some e)" using assms(1) by (auto simp: tallied_def)
  with incr_live [of st now k "int n" "Some e"] expire_set [of _ now k "int n + 1" e d] assms(2) show ?thesis
    by (fastforce simp: tallied_def)
qed

lemma middleware_counts:
  assumes "rate_path rl r" and "identify sha256 ks rl r = Some (i, l)" and "tallied st now T (rate_key i) n"
    and "int n < 2 ^ 63 - 1" and "0 < whole_seconds (rl_window rl)" and "T < now + whole_seconds (rl_window rl) * second"
  shows "\<exists>res st'. Middleware vk sha256 ks rl now r st = (res, st') \<and> tallied st' now T (rate_key i) (Suc n)
    \<and> lr_Verdict res = (if int n < l then Passed else TooManyRequests)"
  using count_one [OF assms(3-6)] assms(1,2) by (auto simp: Middleware_def Let_def)

lemma middleware_frame:
  assumes "\<And>i l. identify sha256 ks rl r = Some (i, l) \<Longrightarrow> rate_key i \<noteq> k"
  shows "counter (snd (Middleware vk sha256 ks rl now r st)) t k = counter st t k"
proof (cases "rate_path rl r \<and> identify sha256 ks rl r \<noteq> None")
  case True
  then obtain i l where i: "identify sha256 ks rl r = Some (i, l)" by auto
  obtain a st1 where 1: "vk_Increment vk now (rate_key i) st = (a, st1)" by fastforce
  obtain b st2 where 2: "vk_ExpireNX vk now (rate_key i) (rl_window rl) st1 = (b, st2)" by fastforce
  have k: "k \<noteq> rate_key i" using assms i by metis
  have "counter st1 t k = counter st t k" "counter st2 t k = counter st1 t k"
    using incr_frame [OF k, of now st t] expire_frame [OF k, of now "rl_window rl" st1 t] by (simp_all add: 1 2)
  then show ?thesis using True by (cases a) (simp_all add: Middleware_def Let_def i 1 2)
next
  case False
  then show ?thesis by (cases "identify sha256 ks rl r") (auto simp: Middleware_def Let_def)
qed

text \<open>The requests of one identifier, among others: the first \<open>l\<close> of a window pass.\<close>

lemma serve_window:
  assumes "sorted (map fst qs)" and "\<forall>q\<in>set qs. now \<le> fst q \<and> fst q \<le> T"
    and "\<forall>q\<in>set qs. rate_path rl (snd q)"
    and "\<forall>q\<in>set qs. \<forall>l'. identify sha256 ks rl (snd q) = Some (i, l') \<longrightarrow> l' = l"
    and "tallied st now T (rate_key i) n" and "int n + int (length qs) < 2 ^ 63 - 1"
    and "T < now + whole_seconds (rl_window rl) * second"
  shows "map (\<lambda>p. lr_Verdict (snd p))
      (filter (\<lambda>p. identify sha256 ks rl (snd (fst p)) = Some (i, l)) (zip qs (serve vk sha256 ks rl qs st)))
    = map (\<lambda>j. if int j < l then Passed else TooManyRequests)
        [n..<n + length (filter (\<lambda>q. identify sha256 ks rl (snd q) = Some (i, l)) qs)]"
  using assms
proof (induction qs arbitrary: st now n)
  case (Cons q qs)
  obtain res st' where m: "Middleware vk sha256 ks rl (fst q) (snd q) st = (res, st')" by fastforce
  have q: "now \<le> fst q" "fst q \<le> T" "rate_path rl (snd q)" using Cons.prems(2,3) by auto
  have later: "tallied st (fst q) T (rate_key i) n" by (rule tallied_later [OF Cons.prems(5) q(1,2)])
  have window: "T < fst q + whole_seconds (rl_window rl) * second" using Cons.prems(7) q(1) by simp
  have pos: "0 < whole_seconds (rl_window rl)" using window q(2) by (simp add: zero_less_mult_iff)
  have rest: "sorted (map fst qs)" "\<forall>q'\<in>set qs. fst q \<le> fst q' \<and> fst q' \<le> T"
      "\<forall>q\<in>set qs. rate_path rl (snd q)"
      "\<forall>q\<in>set qs. \<forall>l'. identify sha256 ks rl (snd q) = Some (i, l') \<longrightarrow> l' = l"
    using Cons.prems(1-4) by auto
  note IH = Cons.IH [OF rest _ _ window]
  show ?case
  proof (cases "identify sha256 ks rl (snd q) = Some (i, l)")
    case True
    have "int n < 2 ^ 63 - 1" using Cons.prems(6) by simp
    from middleware_counts [OF q(3) True later this pos window] m
    have "tallied st' (fst q) T (rate_key i) (Suc n)" "lr_Verdict res = (if int n < l then Passed else TooManyRequests)"
      by auto
    with IH [of st' "Suc n"] True Cons.prems(6) show ?thesis by (simp add: m upt_conv_Cons del: upt_Suc)
  next
    case False
    have "identify sha256 ks rl (snd q) = Some (i', l') \<Longrightarrow> rate_key i' \<noteq> rate_key i" for i' l'
      using False Cons.prems(4) by auto
    then have "counter st' t (rate_key i) = counter st t (rate_key i)" for t
      using middleware_frame [of sha256 ks rl "snd q" "rate_key i" "fst q" st t] m by simp
    then have "tallied st' (fst q) T (rate_key i) n" using later by (simp add: tallied_def)
    with IH [of st' n] False Cons.prems(6) show ?thesis by (simp add: m)
  qed
qed simp

end

interpretation valkey: counter_store ValkeyClient live
  by unfold_locales
     (auto simp: ValkeyClient_def Increment_def ExpireNX_def live_def Let_def split: option.splits if_splits)

section \<open>Trusted proxies\<close>

lemma set_split_on: "set s \<subseteq> insert sep (\<Union> (set ` set (split_on sep s)))"
  by (induction sep s rule: split_on.induct) (auto split: list.splits, blast)

lemma parse_ipv4_chars:
  assumes "parse_ipv4 p = Some a"
  shows "set p \<subseteq> insert CHR ''.'' {c. is_digit c}" and "CHR ''.'' \<in> set p"
proof -
  obtain x y z w where parts: "split_on CHR ''.'' p = [x, y, z, w]"
      "parse_octet x \<noteq> None" "parse_octet y \<noteq> None" "parse_octet z \<noteq> None" "parse_octet w \<noteq> None"
    using assms by (auto simp: parse_ipv4_def map_eq_Cons_conv split: list.splits option.splits)
  have digits: "set s \<subseteq> {c. is_digit c}" if "parse_octet s \<noteq> None" for s
    using that by (auto simp: parse_octet_def list_all_iff split: if_splits)
  show "set p \<subseteq> insert CHR ''.'' {c. is_digit c}"
    using set_split_on [of p "CHR ''.''"] parts(1) digits [OF parts(2)] digits [OF parts(3)] digits [OF parts(4)]
      digits [OF parts(5)] by fastforce
  show "CHR ''.'' \<in> set p"
    using parts(1) split_on_no_sep [of "CHR ''.''" p] by auto
qed

lemma proxy_net_ipv4:
  assumes "parse_ipv4 p = Some a"
  shows "proxy_net p = Inr \<lparr>net_IP = map2 (AND) a (CIDRMask 32 32), net_Mask = CIDRMask 32 32\<rparr>"
proof -
  have chars: "c \<notin> set p" if "\<not> is_digit c" "c \<noteq> CHR ''.''" for c
    using parse_ipv4_chars(1) [OF assms] that by auto
  have no: "CHR ''/'' \<notin> set p" "CHR '':'' \<notin> set p" "CHR ''%'' \<notin> set p"
    by (rule chars; simp add: char_class)+
  then have cut: "takeWhile (\<lambda>c. c \<noteq> CHR ''/'') (p @ ''/32'') = p" by (simp add: takeWhile_append)
  have "filter (\<lambda>c. c = CHR ''.'' \<or> c = CHR '':'') p = filter (\<lambda>c. c = CHR ''.'') p"
    using no(2) by (auto intro!: filter_cong)
  moreover obtain cs where "filter (\<lambda>c. c = CHR ''.'') p = CHR ''.'' # cs"
    using parse_ipv4_chars(2) [OF assms]
    by (cases "filter (\<lambda>c. c = CHR ''.'') p") (auto simp: filter_empty_conv filter_eq_Cons_iff)
  ultimately have "parse_addr p = Some (v4_prefix @ a, 32)" using no(3) assms by (simp add: parse_addr_def)
  moreover have "digits_value ''32'' = 32" "list_all is_digit ''32''"
    by (simp_all add: digits_value_def char_class)
  ultimately show ?thesis using no
    by (simp add: proxy_net_def ParseCIDR_def Let_def cut v4_prefix_def)
qed

lemma trusted_ipv4:
  assumes "\<forall>p\<in>set ps. parse_ipv4 p \<noteq> None"
  shows "isTrustedProxy (NewRateLimiter n w ps) ip \<longleftrightarrow> To4 ip \<noteq> None \<and> To4 ip \<in> set (map parse_ipv4 ps)"
  using assms
proof (induction ps)
  case (Cons p ps)
  then obtain a where a: "parse_ipv4 p = Some a" by auto
  have "Contains \<lparr>net_IP = map2 (AND) a (CIDRMask 32 32), net_Mask = CIDRMask 32 32\<rparr> ip \<longleftrightarrow> To4 ip = Some a"
    by (rule single_block) (rule parse_ipv4_length [OF a])
  with Cons show ?case by (auto simp: isTrustedProxy_def NewRateLimiter_def proxy_net_ipv4 [OF a] a)
qed (simp add: isTrustedProxy_def NewRateLimiter_def)

section \<open>Properties\<close>

text \<open>C10: in a run of requests shorter than the window, from a store that holds no live counter
  of a client, exactly the first \<open>l\<close> requests counted for the client pass, where \<open>l\<close> is its
  limit; the others are told to retry, whatever other clients send in between.\<close>

theorem window_exact:
  assumes "sorted (map fst qs)"
    and "\<forall>q\<in>set qs. t0 \<le> fst q \<and> fst q < t0 + whole_seconds (rl_window rl) * second"
    and "\<forall>q\<in>set qs. rate_path rl (snd q)"
    and "\<forall>q\<in>set qs. \<forall>l'. identify sha256 ks rl (snd q) = Some (i, l') \<longrightarrow> l' = l"
    and "live st t0 (rate_key i) = None" and "int (length qs) < 2 ^ 63 - 1"
  shows "map (\<lambda>p. lr_Verdict (snd p))
      (filter (\<lambda>p. identify sha256 ks rl (snd (fst p)) = Some (i, l)) (zip qs (serve ValkeyClient sha256 ks rl qs st)))
    = map (\<lambda>j. if int j < l then Passed else TooManyRequests)
        [0..<length (filter (\<lambda>q. identify sha256 ks rl (snd q) = Some (i, l)) qs)]"
proof -
  let ?T = "t0 + whole_seconds (rl_window rl) * second - 1"
  have "\<forall>q\<in>set qs. t0 \<le> fst q \<and> fst q \<le> ?T" using assms(2) by auto
  moreover have "valkey.tallied st t0 ?T (rate_key i) 0" using assms(5) by (simp add: valkey.tallied_def)
  ultimately show ?thesis
    using valkey.serve_window [of qs t0 ?T rl sha256 ks i l st 0] assms by simp
qed

lemma window_exact_witness:
  "\<exists>qs. length qs = 3 \<and>
    map (\<lambda>p. lr_Verdict (snd p))
      (filter (\<lambda>p. identify (\<lambda>s. []) NewKeyStore (NewRateLimiter 1 60000000000 []) (snd (fst p)) = Some (''ip:1.2.3.4'', 1))
        (zip qs (serve ValkeyClient (\<lambda>s. []) NewKeyStore (NewRateLimiter 1 60000000000 []) qs (\<lambda>_. None))))
    = [Passed, TooManyRequests]"
proof -
  let ?r = "\<lambda>a. \<lparr>rq_Path = ''/v1/blocks'', rq_RemoteAddr = a, rq_ApiKey = [], rq_XForwardedFor = ''9.9.9.9'', rq_XRealIp = []\<rparr>"
  let ?qs = "[(0 :: time, ?r ''1.2.3.4:80''), (1000000000, ?r ''5.6.7.8:80''), (2000000000, ?r ''1.2.3.4:81'')]"
  let ?rl = "NewRateLimiter 1 60000000000 []"
  have id: "identify (\<lambda>s. []) NewKeyStore ?rl (?r ''1.2.3.4:80'') = Some (''ip:1.2.3.4'', 1)"
    "identify (\<lambda>s. []) NewKeyStore ?rl (?r ''5.6.7.8:80'') = Some (''ip:5.6.7.8'', 1)"
    "identify (\<lambda>s. []) NewKeyStore ?rl (?r ''1.2.3.4:81'') = Some (''ip:1.2.3.4'', 1)"
    by (simp_all add: identify_def realIP_def remote_host_def NewRateLimiter_def SplitHostPort_def Let_def
        before_last_def after_last_def)
  have "map (\<lambda>p. lr_Verdict (snd p))
      (filter (\<lambda>p. identify (\<lambda>s. []) NewKeyStore ?rl (snd (fst p)) = Some (''ip:1.2.3.4'', 1))
        (zip ?qs (serve ValkeyClient (\<lambda>s. []) NewKeyStore ?rl ?qs (\<lambda>_. None))))
    = map (\<lambda>j. if int j < 1 then Passed else TooManyRequests)
        [0..<length (filter (\<lambda>q. identify (\<lambda>s. []) NewKeyStore ?rl (snd q) = Some (''ip:1.2.3.4'', 1)) ?qs)]"
    by (rule window_exact [where ?t0.0 = 0])
      (simp_all add: id, simp_all add: NewRateLimiter_def rate_path_def whole_seconds_def live_def)
  also have "\<dots> = [Passed, TooManyRequests]" by (simp add: id upt_rec)
  finally show ?thesis by (intro exI [of _ ?qs]) simp
qed

text \<open>C37: with proxies given as IPv4 addresses, a client that does not connect from one of them
  is known by the address it connects from, whatever headers it sends; behind one of them it is
  known by the first forwarded address, which is the client's own text when the proxy appends to
  the header it received.\<close>

theorem realIP_proxies:
  assumes "\<forall>p\<in>set ps. parse_ipv4 p \<noteq> None"
  shows "(\<not> (\<exists>ip. ParseIP (remote_host r) = Some ip \<and> To4 ip \<noteq> None \<and> To4 ip \<in> set (map parse_ipv4 ps)) \<longrightarrow>
      realIP (NewRateLimiter n w ps) r = remote_host r)
    \<and> (\<forall>ip chosen seen. ParseIP (remote_host r) = Some ip \<and> To4 ip \<noteq> None \<and> To4 ip \<in> set (map parse_ipv4 ps)
        \<and> rq_XForwardedFor r = chosen @ '','' @ seen \<and> chosen \<noteq> [] \<and> CHR '','' \<notin> set chosen \<longrightarrow>
      realIP (NewRateLimiter n w ps) r = trim_space chosen)"
proof (intro conjI allI impI)
  note trusted = trusted_ipv4 [OF assms, of n w]
  assume "\<not> (\<exists>ip. ParseIP (remote_host r) = Some ip \<and> To4 ip \<noteq> None \<and> To4 ip \<in> set (map parse_ipv4 ps))"
  then show "realIP (NewRateLimiter n w ps) r = remote_host r"
    using trusted by (auto simp: realIP_def Let_def split: option.split)
next
  fix ip chosen seen
  assume *: "ParseIP (remote_host r) = Some ip \<and> To4 ip \<noteq> None \<and> To4 ip \<in> set (map parse_ipv4 ps)
        \<and> rq_XForwardedFor r = chosen @ '','' @ seen \<and> chosen \<noteq> [] \<and> CHR '','' \<notin> set chosen"
  then have "isTrustedProxy (NewRateLimiter n w ps) ip" using trusted_ipv4 [OF assms] by blast
  moreover from this have "rl_trustedProxies (NewRateLimiter n w ps) \<noteq> []" by (auto simp: isTrustedProxy_def)
  moreover have "first_forwarded (chosen @ '','' @ seen) = trim_space chosen"
    using * by (auto simp: first_forwarded_def takeWhile_append hd_append)
  ultimately show "realIP (NewRateLimiter n w ps) r = trim_space chosen"
    using * by (simp add: realIP_def Let_def)
qed

lemma realIP_proxies_witness:
  "realIP (NewRateLimiter 1 60000000000 [''10.0.0.1''])
      \<lparr>rq_Path = [], rq_RemoteAddr = ''8.8.8.8:5'', rq_ApiKey = [], rq_XForwardedFor = ''1.1.1.1'', rq_XRealIp = ''2.2.2.2''\<rparr> = ''8.8.8.8''
  \<and> realIP (NewRateLimiter 1 60000000000 [''10.0.0.1''])
      \<lparr>rq_Path = [], rq_RemoteAddr = ''10.0.0.1:5'', rq_ApiKey = [], rq_XForwardedFor = ''anything, 8.8.8.8'', rq_XRealIp = []\<rparr> = ''anything''"
proof -
  let ?rl = "NewRateLimiter 1 60000000000 [''10.0.0.1'']"
  let ?a = "\<lparr>rq_Path = [], rq_RemoteAddr = ''8.8.8.8:5'', rq_ApiKey = [], rq_XForwardedFor = ''1.1.1.1'', rq_XRealIp = ''2.2.2.2''\<rparr>"
  let ?b = "\<lparr>rq_Path = [], rq_RemoteAddr = ''10.0.0.1:5'', rq_ApiKey = [], rq_XForwardedFor = ''anything, 8.8.8.8'', rq_XRealIp = []\<rparr>"
  have p: "parse_ipv4 ''10.0.0.1'' = Some [10, 0, 0, 1]" by code_simp
  have ra: "remote_host ?a = ''8.8.8.8''" "ParseIP ''8.8.8.8'' = Some (v4_prefix @ [8, 8, 8, 8])" by code_simp+
  have rb: "remote_host ?b = ''10.0.0.1''" "ParseIP ''10.0.0.1'' = Some (v4_prefix @ [10, 0, 0, 1])" by code_simp+
  have t: "To4 (v4_prefix @ [a, b, c, d]) = Some [a, b, c, d]" for a b c d by (simp add: To4_def v4_prefix_def)
  have "\<forall>q\<in>set [''10.0.0.1'']. parse_ipv4 q \<noteq> None" by (simp add: p)
  note known = realIP_proxies [OF this, of _ 1 60000000000]
  have "realIP ?rl ?a = remote_host ?a" using known [of ?a] by (simp add: ra p t)
  moreover have "realIP ?rl ?b = trim_space ''anything''"
    using conjunct2 [OF known [of ?b], THEN spec, THEN spec, THEN spec,
        of "v4_prefix @ [10, 0, 0, 1]" "''anything''" "'' 8.8.8.8''"] by (simp add: rb p t)
  moreover have "trim_space ''anything'' = ''anything''" by code_simp
  ultimately show ?thesis by (simp only: ra)
qed

section \<open>Paths the limiter does not see\<close>

text \<open>The server limits paths that start with \<open>/v1\<close>, and looks at the path as it was sent:
  with a doubled leading slash a request to the same route, once its path is cleaned, is passed
  and not counted, whatever the client has sent before and whatever its key.\<close>

theorem limited_by_sent_path:
  "Middleware vk sha256 ks (SetRatePaths [''/v1''] rl) now (r\<lparr>rq_Path := ''//v1/'' @ p\<rparr>) st
      = (\<lparr>lr_Verdict = Passed, lr_Limit = None, lr_Remaining = None, lr_RetryAfter = None\<rparr>, st)
    \<and> path_Clean (''//v1/'' @ p) = path_Clean (''/v1/'' @ p)
    \<and> rate_path (SetRatePaths [''/v1''] rl) (r\<lparr>rq_Path := ''/v1/'' @ p\<rparr>)"
proof -
  have "path_Clean (''//v1/'' @ p) = path_Clean (''/v1/'' @ p)"
    by (cases "split_on CHR ''/'' p") (simp_all add: path_Clean_def has_prefix_def Let_def)
  then show ?thesis
    by (simp add: Middleware_def rate_path_def SetRatePaths_def has_prefix_def Let_def)
qed

end
