(* ===== verification/Api_Keys.thy ===== *)
theory Api_Keys
  imports Api_Limit
begin

text \<open>
  API keys from their creation to the limiter: the table \<open>api_keys\<close> and its statements
  (\<open>pkgs/database/timescaledb/key_mgmt.go\<close>), the generator (\<open>api/key/generate.go\<close>), the commands
  (\<open>api/key_cmd.go\<close>), the periodic refresh of the key store (\<open>api/keystore/keystore.go\<close>). Random
  bytes, SHA-256 and the order in which the database sorts names are arguments; every statement
  takes the error the environment makes it fail with, if any, and every command the error of its
  connection.
\<close>

section \<open>The table\<close>

text \<open>A hash is a Go array of 32 bytes; a name is unique, a prefix has at most ten characters, a
  limit is a 32-bit integer.\<close>

record ApiKey =
  ak_Prefix :: string
  ak_Hash :: key_hash
  ak_Name :: string
  ak_RpmLimit :: int
  ak_IsActive :: bool

type_synonym key_table = "ApiKey list"

record KeyParams =
  kp_RpmLimit :: int
  kp_Name :: string
  kp_Prefix :: string
  kp_Hash :: key_hash

definition InsertApiKey :: "goerror option \<Rightarrow> KeyParams \<Rightarrow> key_table \<Rightarrow> goerror option \<times> key_table" where
  "InsertApiKey fault params t =
     (case fault of
        Some e \<Rightarrow> (Some e, t)
      | None \<Rightarrow>
          if list_ex (\<lambda>k. ak_Name k = kp_Name params) t then (Some (ErrMsg ''duplicate key value''), t)
          else if length (kp_Prefix params) > 10 then (Some (ErrMsg ''value too long''), t)
          else if kp_RpmLimit params < - (2 ^ 31) \<or> kp_RpmLimit params \<ge> 2 ^ 31
          then (Some (ErrMsg ''value out of range''), t)
          else (None, t @ [\<lparr>ak_Prefix = kp_Prefix params, ak_Hash = kp_Hash params, ak_Name = kp_Name params,
                           ak_RpmLimit = kp_RpmLimit params, ak_IsActive = True\<rparr>]))"

text \<open>\<open>copy(hash[:], hashSlice)\<close> into 32 zero bytes.\<close>

definition copy_hash :: "byte list \<Rightarrow> key_hash" where
  "copy_hash bs = take 32 (bs @ replicate 32 0)"

text \<open>A SELECT fails at once, or after some rows, when \<open>rows.Next\<close> ends the loop and \<open>rows.Err\<close> has
  the error: \<open>GetAllApiKeys\<close> does not look at it and returns what it has.\<close>

datatype select_fault = QueryFails goerror | RowsFail nat goerror

definition GetAllApiKeys :: "select_fault option \<Rightarrow> key_table \<Rightarrow> goerror + key_hash list" where
  "GetAllApiKeys fault t =
     (let hashes = map (\<lambda>k. copy_hash (ak_Hash k)) (filter ak_IsActive t)
      in case fault of
           Some (QueryFails e) \<Rightarrow> Inl e
         | Some (RowsFail n e) \<Rightarrow> Inr (take n hashes)
         | None \<Rightarrow> Inr hashes)"

definition GetAllApiKeysWithLimits :: "select_fault option \<Rightarrow> key_table \<Rightarrow> goerror + (key_hash \<Rightarrow> int option)" where
  "GetAllApiKeysWithLimits fault t =
     (case fault of
        Some (QueryFails e) \<Rightarrow> Inl e
      | Some (RowsFail n e) \<Rightarrow> Inl e
      | None \<Rightarrow> Inr (fold (\<lambda>k keys. keys(copy_hash (ak_Hash k) \<mapsto> ak_RpmLimit k)) (filter ak_IsActive t) Map.empty))"

record ApiKeyListItem =
  kli_Prefix :: string
  kli_Name :: string
  kli_RpmLimit :: int
  kli_IsActive :: bool

definition ListApiKeys :: "(ApiKey list \<Rightarrow> ApiKey list) \<Rightarrow> select_fault option \<Rightarrow> key_table \<Rightarrow> goerror + ApiKeyListItem list" where
  "ListApiKeys by_name fault t =
     (case fault of
        Some (QueryFails e) \<Rightarrow> Inl e
      | Some (RowsFail n e) \<Rightarrow> Inl e
      | None \<Rightarrow> Inr (map (\<lambda>k. \<lparr>kli_Prefix = ak_Prefix k, kli_Name = ak_Name k, kli_RpmLimit = ak_RpmLimit k,
                            kli_IsActive = ak_IsActive k\<rparr>) (by_name t)))"

text \<open>An UPDATE; no row affected is an error.\<close>

definition update_keys ::
  "goerror option \<Rightarrow> (ApiKey \<Rightarrow> bool) \<Rightarrow> (ApiKey \<Rightarrow> ApiKey) \<Rightarrow> goerror \<Rightarrow> key_table \<Rightarrow> goerror option \<times> key_table" where
  "update_keys fault which change none t =
     (case fault of
        Some e \<Rightarrow> (Some e, t)
      | None \<Rightarrow> if length (filter which t) = 0 then (Some none, t)
                else (None, map (\<lambda>k. if which k then change k else k) t))"

definition DisableKeyByName :: "goerror option \<Rightarrow> string \<Rightarrow> key_table \<Rightarrow> goerror option \<times> key_table" where
  "DisableKeyByName fault name =
     update_keys fault (\<lambda>k. ak_Name k = name) (\<lambda>k. k\<lparr>ak_IsActive := False\<rparr>) (ErrMsg ''no key found with name'')"

definition EnableKeyByName :: "goerror option \<Rightarrow> string \<Rightarrow> key_table \<Rightarrow> goerror option \<times> key_table" where
  "EnableKeyByName fault name =
     update_keys fault (\<lambda>k. ak_Name k = name) (\<lambda>k. k\<lparr>ak_IsActive := True\<rparr>) (ErrMsg ''no key found with name'')"

definition DisableKey :: "goerror option \<Rightarrow> key_hash \<Rightarrow> key_table \<Rightarrow> goerror option \<times> key_table" where
  "DisableKey fault hash =
     update_keys fault (\<lambda>k. ak_Hash k = hash) (\<lambda>k. k\<lparr>ak_IsActive := False\<rparr>) (ErrMsg ''no rows affected'')"

definition EnableKey :: "goerror option \<Rightarrow> key_hash \<Rightarrow> key_table \<Rightarrow> goerror option \<times> key_table" where
  "EnableKey fault hash =
     update_keys fault (\<lambda>k. ak_Hash k = hash) (\<lambda>k. k\<lparr>ak_IsActive := True\<rparr>) (ErrMsg ''no rows affected'')"

definition AdjustRpmLimit :: "goerror option \<Rightarrow> key_hash \<Rightarrow> int \<Rightarrow> key_table \<Rightarrow> goerror option \<times> key_table" where
  "AdjustRpmLimit fault hash rpmLimit =
     (if rpmLimit < - (2 ^ 31) \<or> rpmLimit \<ge> 2 ^ 31
      then update_keys (Some (ErrMsg ''value out of range'')) (\<lambda>k. ak_Hash k = hash) id (ErrMsg ''no rows affected'')
      else update_keys fault (\<lambda>k. ak_Hash k = hash) (\<lambda>k. k\<lparr>ak_RpmLimit := rpmLimit\<rparr>) (ErrMsg ''no rows affected''))"

section \<open>Keys and commands\<close>

definition GenerateApiKey ::
  "(string \<Rightarrow> byte list) \<Rightarrow> goerror + byte list \<Rightarrow> goerror + string \<times> string \<times> key_hash" where
  "GenerateApiKey sha256 random =
     (case random of
        Inl e \<Rightarrow> Inl e
      | Inr rawKey \<Rightarrow>
          let rawKeyHex = ''api_'' @ hex_EncodeToString rawKey
          in Inr (rawKeyHex, take 10 rawKeyHex, sha256 rawKeyHex))"

text \<open>\<open>key create NAME RPM_LIMIT\<close>: the key it prints, and the new table.\<close>

definition keyCreate ::
  "(string \<Rightarrow> byte list) \<Rightarrow> goerror + byte list \<Rightarrow> goerror option \<Rightarrow> goerror option \<Rightarrow> string \<Rightarrow> string
   \<Rightarrow> key_table \<Rightarrow> (goerror + string) \<times> key_table" where
  "keyCreate sha256 random connect fault name limitText t =
     (if name = [] then (Inl (ErrMsg ''NAME must be non-empty''), t)
      else (case Atoi limitText of
          Inl e \<Rightarrow> (Inl (ErrMsg ''RPM_LIMIT must be a positive integer''), t)
        | Inr rpmLimit \<Rightarrow>
            if sint rpmLimit \<le> 0 then (Inl (ErrMsg ''RPM_LIMIT must be a positive integer''), t)
            else (case GenerateApiKey sha256 random of
                Inl e \<Rightarrow> (Inl (ErrWrap ''failed to generate API key'' e), t)
              | Inr (rawKey, prefix, hash) \<Rightarrow>
                (case connect of Some e \<Rightarrow> (Inl e, t) | None \<Rightarrow>
                  (case InsertApiKey fault \<lparr>kp_RpmLimit = sint rpmLimit, kp_Name = name, kp_Prefix = prefix, kp_Hash = hash\<rparr> t of
                     (Some e, t') \<Rightarrow> (Inl (ErrWrap ''failed to insert API key'' e), t')
                   | (None, t') \<Rightarrow> (Inr rawKey, t'))))))"

definition keyDisable :: "goerror option \<Rightarrow> goerror option \<Rightarrow> string \<Rightarrow> key_table \<Rightarrow> goerror option \<times> key_table" where
  "keyDisable connect fault name t =
     (if name = [] then (Some (ErrMsg ''NAME must be non-empty''), t)
      else (case connect of Some e \<Rightarrow> (Some e, t) | None \<Rightarrow>
        (case DisableKeyByName fault name t of
          (Some e, t') \<Rightarrow> (Some (ErrWrap ''failed to disable key'' e), t')
        | (None, t') \<Rightarrow> (None, t'))))"

definition keyEnable :: "goerror option \<Rightarrow> goerror option \<Rightarrow> string \<Rightarrow> key_table \<Rightarrow> goerror option \<times> key_table" where
  "keyEnable connect fault name t =
     (if name = [] then (Some (ErrMsg ''NAME must be non-empty''), t)
      else (case connect of Some e \<Rightarrow> (Some e, t) | None \<Rightarrow>
        (case EnableKeyByName fault name t of
          (Some e, t') \<Rightarrow> (Some (ErrWrap ''failed to enable key'' e), t')
        | (None, t') \<Rightarrow> (None, t'))))"

text \<open>\<open>key list\<close>: the lines given to the tab writer, whose flush may fail.\<close>

definition key_line :: "ApiKeyListItem \<Rightarrow> string" where
  "key_line k = join [CHR 0x09]
     [kli_Prefix k, kli_Name k, FormatInt (word_of_int (kli_RpmLimit k)), if kli_IsActive k then ''true'' else ''false'']"

definition keyList ::
  "(ApiKey list \<Rightarrow> ApiKey list) \<Rightarrow> goerror option \<Rightarrow> select_fault option \<Rightarrow> (string list \<Rightarrow> goerror option) \<Rightarrow> key_table
   \<Rightarrow> goerror + string list" where
  "keyList by_name connect fault flush t =
     (case connect of Some e \<Rightarrow> Inl e | None \<Rightarrow>
       (case ListApiKeys by_name fault t of
          Inl e \<Rightarrow> Inl (ErrWrap ''failed to list keys'' e)
        | Inr keys \<Rightarrow>
            if length keys = 0 then Inr [''No API keys found.'']
            else (let out = [join [CHR 0x09] [''PREFIX'', ''NAME'', ''RPM LIMIT'', ''ACTIVE''],
                             join [CHR 0x09] [''------'', ''----'', ''---------'', ''------'']] @ map key_line keys
                  in case flush out of Some e \<Rightarrow> Inl (ErrWrap ''failed to flush tabwriter'' e) | None \<Rightarrow> Inr out)))"

text \<open>The ticks of the periodic refresh, each with the table it sees or an error.\<close>

definition PeriodicRefresh :: "(select_fault option \<times> key_table) list \<Rightarrow> KeyStore \<Rightarrow> KeyStore" where
  "PeriodicRefresh ticks ks =
     fold (\<lambda>(fault, t) ks. snd (Refresh (GetAllApiKeysWithLimits fault t) ks)) ticks ks"

section \<open>What the store knows\<close>

lemma copy_hash_id: "length h = 32 \<Longrightarrow> copy_hash h = h"
  by (simp add: copy_hash_def)

lemma length_copy_hash [simp]: "length (copy_hash h) = 32"
  by (simp add: copy_hash_def)

text \<open>A table whose hashes are distinct arrays of 32 bytes, and whose names are distinct.\<close>

definition keys_ok :: "key_table \<Rightarrow> bool" where
  "keys_ok t \<longleftrightarrow> distinct (map ak_Hash t) \<and> list_all (\<lambda>k. length (ak_Hash k) = 32) t
     \<and> distinct (map ak_Name t)"

definition active_limit :: "key_table \<Rightarrow> key_hash \<Rightarrow> int option" where
  "active_limit t h = map_option ak_RpmLimit (find (\<lambda>k. ak_IsActive k \<and> ak_Hash k = h) t)"

lemma fold_limits:
  "distinct (map ak_Hash ks) \<Longrightarrow> list_all (\<lambda>k. length (ak_Hash k) = 32) ks \<Longrightarrow>
   fold (\<lambda>k keys. keys(copy_hash (ak_Hash k) \<mapsto> ak_RpmLimit k)) ks m h =
     (case find (\<lambda>k. ak_Hash k = h) ks of Some k \<Rightarrow> Some (ak_RpmLimit k) | None \<Rightarrow> m h)"
proof (induction ks arbitrary: m)
  case (Cons k ks)
  have "find (\<lambda>x. ak_Hash x = ak_Hash k) ks = None" using Cons.prems(1) by (force simp: find_None_iff image_iff)
  with Cons show ?case by (cases "ak_Hash k = h") (simp_all add: copy_hash_id split: option.split)
qed simp

lemma find_filter: "find P (filter Q xs) = find (\<lambda>x. Q x \<and> P x) xs"
  by (induction xs) auto

lemma GetAllApiKeysWithLimits_active:
  assumes "keys_ok t"
  shows "GetAllApiKeysWithLimits None t = Inr (active_limit t)"
proof -
  have "distinct (map ak_Hash (filter ak_IsActive t))" "list_all (\<lambda>k. length (ak_Hash k) = 32) (filter ak_IsActive t)"
    using assms by (auto simp: keys_ok_def list_all_iff distinct_map inj_on_def)
  from fold_limits [OF this] show ?thesis
    by (auto simp: GetAllApiKeysWithLimits_def active_limit_def find_filter fun_eq_iff split: option.split)
qed

lemma update_keys_ok:
  assumes "\<forall>k. ak_Hash (change k) = ak_Hash k \<and> ak_Name (change k) = ak_Name k" and "keys_ok t"
  shows "keys_ok (snd (update_keys fault which change none t))"
proof -
  have "ak_Hash (if which k then change k else k) = ak_Hash k" "ak_Name (if which k then change k else k) = ak_Name k" for k
    using assms(1) by simp_all
  with assms show ?thesis by (auto simp: update_keys_def keys_ok_def list_all_iff comp_def split: option.split)
qed

lemma active_limit_disabled:
  assumes "keys_ok t" and "k \<in> set t"
  shows "active_limit (map (\<lambda>x. if ak_Name x = ak_Name k then x\<lparr>ak_IsActive := False\<rparr> else x) t) h =
    (if h = ak_Hash k then None else active_limit t h)"
proof -
  have same: "x = k" if "x \<in> set t" "ak_Name x = ak_Name k \<or> ak_Hash x = ak_Hash k" for x
    using that assms by (auto simp: keys_ok_def distinct_map dest: inj_onD)
  have "find (\<lambda>x. ak_IsActive x \<and> ak_Hash x = h) (map (\<lambda>x. if ak_Name x = ak_Name k then x\<lparr>ak_IsActive := False\<rparr> else x) xs) =
      (if h = ak_Hash k then None else find (\<lambda>x. ak_IsActive x \<and> ak_Hash x = h) xs)"
    if "set xs \<subseteq> set t" for xs
    using that by (induction xs) (auto dest: same)
  then show ?thesis by (simp add: active_limit_def)
qed

lemma active_limit_insert:
  "keys_ok (t @ [k]) \<Longrightarrow> ak_IsActive k \<Longrightarrow> active_limit (t @ [k]) h =
    (if h = ak_Hash k then Some (ak_RpmLimit k) else active_limit t h)"
  by (induction t) (auto simp: active_limit_def keys_ok_def)

lemma refreshed:
  "keys_ok t \<Longrightarrow> PeriodicRefresh [(None, t)] ks = ks\<lparr>ks_keys := active_limit t\<rparr>"
  by (simp add: PeriodicRefresh_def Refresh_def GetAllApiKeysWithLimits_active)

lemma keyCreate_table:
  assumes "keyCreate sha256 random connect fault name limitText t = (Inr rawKey, t')"
  shows "\<exists>limit. Atoi limitText = Inr limit \<and> 0 < sint limit \<and> name \<noteq> [] \<and> rawKey \<noteq> []
    \<and> \<not> list_ex (\<lambda>k. ak_Name k = name) t
    \<and> t' = t @ [\<lparr>ak_Prefix = take 10 rawKey, ak_Hash = sha256 rawKey, ak_Name = name,
                 ak_RpmLimit = sint limit, ak_IsActive = True\<rparr>]"
  using assms
  by (auto simp: keyCreate_def GenerateApiKey_def InsertApiKey_def Let_def split: if_splits sum.splits option.splits prod.splits)

section \<open>Property\<close>

text \<open>C11: a key that was created is accepted, with its limit, once the key store has refreshed;
  disabled by its name and after another refresh it is refused without being counted, while a
  failed refresh leaves it accepted; the other keys are not affected.\<close>

theorem key_lifecycle:
  assumes "keys_ok t" and "keyCreate sha256 random connect fault name limitText t = (Inr rawKey, t1)"
    and "length (sha256 rawKey) = 32" and "sha256 rawKey \<notin> ak_Hash ` set t"
    and "keyDisable None None name t1 = (err, t2)"
    and "rq_ApiKey q = rawKey" and "rate_path rl q"
    and "ks1 = PeriodicRefresh [(None, t1)] ks" and "ks2 = PeriodicRefresh [(None, t2)] ks1"
  shows "err = None
    \<and> (\<exists>limit. Atoi limitText = Inr limit
        \<and> identify sha256 ks1 rl q = Some (''key:'' @ hex_EncodeToString (take 8 (sha256 rawKey)), sint limit))
    \<and> Middleware vk sha256 ks2 rl now q st =
        (\<lparr>lr_Verdict = Unauthorized, lr_Limit = None, lr_Remaining = None, lr_RetryAfter = None\<rparr>, st)
    \<and> PeriodicRefresh [(Some e, t2)] ks1 = ks1
    \<and> (\<forall>h. h \<noteq> sha256 rawKey \<longrightarrow> GetKeyLimit ks1 h = active_limit t h \<and> GetKeyLimit ks2 h = active_limit t h)"
proof -
  obtain limit where l: "Atoi limitText = Inr limit" "name \<noteq> []" "rawKey \<noteq> []" "\<not> list_ex (\<lambda>k. ak_Name k = name) t"
    and t1: "t1 = t @ [\<lparr>ak_Prefix = take 10 rawKey, ak_Hash = sha256 rawKey, ak_Name = name,
                 ak_RpmLimit = sint limit, ak_IsActive = True\<rparr>]"
    using keyCreate_table [OF assms(2)] by blast
  let ?k = "\<lparr>ak_Prefix = take 10 rawKey, ak_Hash = sha256 rawKey, ak_Name = name, ak_RpmLimit = sint limit, ak_IsActive = True\<rparr>"
  have ok1: "keys_ok t1" using assms(1,3,4) l(4) by (auto simp: t1 keys_ok_def list_ex_iff)
  have k1: "?k \<in> set t1" by (simp add: t1)
  have t2: "t2 = map (\<lambda>x. if ak_Name x = ak_Name ?k then x\<lparr>ak_IsActive := False\<rparr> else x) t1" and err: "err = None"
    using assms(5) l(2) by (auto simp: keyDisable_def DisableKeyByName_def update_keys_def t1 filter_empty_conv)
  have ok2: "keys_ok t2"
    using update_keys_ok [of "\<lambda>x. x\<lparr>ak_IsActive := False\<rparr>" t1 None "\<lambda>x. ak_Name x = ak_Name ?k" undefined] ok1 k1
    by (auto simp: t2 update_keys_def filter_empty_conv split: if_splits)
  have ks1: "ks1 = ks\<lparr>ks_keys := active_limit t1\<rparr>" by (simp add: assms(8) refreshed [OF ok1])
  have ks2: "ks2 = ks1\<lparr>ks_keys := active_limit t2\<rparr>" by (simp add: assms(9) refreshed [OF ok2])
  have lim1: "active_limit t1 h = (if h = sha256 rawKey then Some (sint limit) else active_limit t h)" for h
    using active_limit_insert [of t ?k h] ok1 by (simp add: t1)
  have lim2: "active_limit t2 h = (if h = sha256 rawKey then None else active_limit t1 h)" for h
    using active_limit_disabled [OF ok1 k1, of h] by (simp add: t2)
  have "identify sha256 ks1 rl q = Some (''key:'' @ hex_EncodeToString (take 8 (sha256 rawKey)), sint limit)"
    using assms(6) l(3) by (simp add: identify_def GetKeyLimit_def ks1 lim1)
  moreover have "identify sha256 ks2 rl q = None"
    using assms(6) l(3) by (simp add: identify_def GetKeyLimit_def ks2 lim2)
  then have "Middleware vk sha256 ks2 rl now q st =
      (\<lparr>lr_Verdict = Unauthorized, lr_Limit = None, lr_Remaining = None, lr_RetryAfter = None\<rparr>, st)"
    using assms(7) by (simp add: Middleware_def Let_def)
  moreover have "PeriodicRefresh [(Some e, t2)] ks1 = ks1"
    by (simp add: PeriodicRefresh_def Refresh_def GetAllApiKeysWithLimits_def split: select_fault.split)
  ultimately show ?thesis using err l(1) by (simp add: GetKeyLimit_def ks1 ks2 lim1 lim2)
qed

lemma key_lifecycle_witness:
  "\<exists>rawKey t1 t2. keyCreate (\<lambda>s. replicate 32 7) (Inr [1, 255]) None None ''app'' (FormatInt 10) [] = (Inr rawKey, t1)
    \<and> keyDisable None None ''app'' t1 = (None, t2)
    \<and> identify (\<lambda>s. replicate 32 7) (PeriodicRefresh [(None, t1)] NewKeyStore) (NewRateLimiter 30 second [])
        \<lparr>rq_Path = ''/v1'', rq_RemoteAddr = [], rq_ApiKey = rawKey, rq_XForwardedFor = [], rq_XRealIp = []\<rparr>
      = Some (''key:'' @ hex_EncodeToString (take 8 (replicate 32 7)), 10)
    \<and> lr_Verdict (fst (Middleware ValkeyClient (\<lambda>s. replicate 32 7)
        (PeriodicRefresh [(None, t2)] (PeriodicRefresh [(None, t1)] NewKeyStore)) (NewRateLimiter 30 second []) 0
        \<lparr>rq_Path = ''/v1'', rq_RemoteAddr = [], rq_ApiKey = rawKey, rq_XForwardedFor = [], rq_XRealIp = []\<rparr> (\<lambda>_. None)))
      = Unauthorized"
proof -
  have lim: "Atoi (FormatInt 10) = Inr 10" by (simp add: Atoi_def)
  obtain rawKey t1 where create:
    "keyCreate (\<lambda>s. replicate 32 7) (Inr [1, 255]) None None ''app'' (FormatInt 10) [] = (Inr rawKey, t1)"
    by (simp add: keyCreate_def lim GenerateApiKey_def InsertApiKey_def Let_def)
  obtain err t2 where disable: "keyDisable None None ''app'' t1 = (err, t2)" by fastforce
  let ?q = "\<lparr>rq_Path = ''/v1'', rq_RemoteAddr = [], rq_ApiKey = rawKey, rq_XForwardedFor = [], rq_XRealIp = []\<rparr>"
  have ok: "keys_ok []" by (simp add: keys_ok_def)
  have len: "length (replicate 32 (7 :: byte)) = 32" and fresh: "replicate 32 7 \<notin> ak_Hash ` set []" by simp_all
  have key: "rq_ApiKey ?q = rawKey" and path: "rate_path (NewRateLimiter 30 second []) ?q"
    by (simp_all add: rate_path_def NewRateLimiter_def)
  note life = key_lifecycle [OF ok create len fresh disable key path refl refl,
      where vk = ValkeyClient and now = 0 and st = "\<lambda>_. None" and ks = NewKeyStore]
  have "err = None" by (rule conjunct1 [OF life])
  moreover have "identify (\<lambda>s. replicate 32 7) (PeriodicRefresh [(None, t1)] NewKeyStore) (NewRateLimiter 30 second []) ?q
      = Some (''key:'' @ hex_EncodeToString (take 8 (replicate 32 7)), 10)"
    using conjunct1 [OF conjunct2 [OF life]] by (auto simp: lim)
  moreover have "lr_Verdict (fst (Middleware ValkeyClient (\<lambda>s. replicate 32 7)
        (PeriodicRefresh [(None, t2)] (PeriodicRefresh [(None, t1)] NewKeyStore)) (NewRateLimiter 30 second []) 0 ?q (\<lambda>_. None)))
      = Unauthorized"
    using conjunct1 [OF conjunct2 [OF conjunct2 [OF life]]] by simp
  ultimately show ?thesis using create disable by blast
qed

end
