(* ===== verification/Api_Server.thy ===== *)
theory Api_Server
  imports Api_Hashes Api_Keys Connection
begin

text \<open>
  Starting the API (\<open>api/serve.go\<close>, \<open>api/healthcheck_cmd.go\<close>) from its configuration
  (\<open>api/config\<close>): the defaults, the pool, the first refresh of the key store, the rate limiter
  and the address, and what a request meets before the router. Files, YAML, environment library,
  Valkey's client and the listening socket are arguments; the router, the CORS and compression
  handlers and the generated documentation are libraries and are left out.
\<close>

section \<open>Configuration\<close>

record ApiConfig =
  acf_Host :: string
  acf_Port :: int
  acf_CorsAllowedOrigins :: "string list"
  acf_CorsAllowedMethods :: "string list"
  acf_CorsAllowedHeaders :: "string list"
  acf_CorsMaxAge :: int
  acf_ChainName :: string
  acf_DisableRateLimit :: bool
  acf_IpRpmLimit :: int
  acf_KeyRefreshInterval :: duration
  acf_TrustedProxies :: "string list"

record ApiEnv =
  aen_ApiDbHost :: string
  aen_ApiDbPort :: int
  aen_ApiDbUser :: string
  aen_ApiDbPassword :: string
  aen_ApiDbName :: string
  aen_ApiDbSslmode :: string
  aen_ApiDbSslRootCert :: string
  aen_ApiDbSslCert :: string
  aen_ApiDbSslKey :: string
  aen_ApiDbPoolMaxConns :: int
  aen_ApiDbPoolMinConns :: int
  aen_ApiDbPoolMaxConnLifetime :: duration
  aen_ApiDbPoolMaxConnIdleTime :: duration
  aen_ApiDbPoolHealthCheckPeriod :: duration
  aen_ApiDbPoolMaxConnLifetimeJitter :: duration

record ValkeyEnv =
  ven_Host :: string
  ven_Port :: int

definition api_LoadConfig ::
  "(string \<Rightarrow> goerror + string) \<Rightarrow> (string \<Rightarrow> goerror + ApiConfig) \<Rightarrow> string \<Rightarrow> goerror + ApiConfig" where
  "api_LoadConfig readFile unmarshal path =
     bind_result (readFile path) (\<lambda>yamlFile.
     bind_result (unmarshal yamlFile) (\<lambda>config.
       Inr (config\<lparr>acf_Host := or_else (acf_Host config) ''localhost'',
                   acf_Port := (if acf_Port config = 0 then 8080 else acf_Port config)\<rparr>)))"

text \<open>The environment file of a path: a directory stands for the file \<open>.env\<close> in it; a file that does
  not exist is not an error.\<close>

record api_env_files =
  aef_isDir :: "string \<Rightarrow> bool"
  aef_join :: "string \<Rightarrow> string \<Rightarrow> string"
  aef_abs :: "string \<Rightarrow> goerror + string"
  aef_exists :: "string \<Rightarrow> bool"
  aef_load :: "string \<Rightarrow> goerror option"

definition env_ReadFile :: "api_env_files \<Rightarrow> string \<Rightarrow> goerror option" where
  "env_ReadFile e name =
     (let envPath = (if aef_isDir e name then aef_join e name ''.env'' else name) in
      case aef_abs e envPath of
        Inl err \<Rightarrow> Some err
      | Inr absPath \<Rightarrow>
          if aef_exists e absPath
          then map_option (ErrWrap ''error loading .env file'') (aef_load e absPath)
          else None)"

definition load_env :: "(string \<Rightarrow> goerror option) \<Rightarrow> goerror + 'e \<Rightarrow> string \<Rightarrow> goerror + 'e" where
  "load_env readFile parse path =
     (case readFile path of
        Some err \<Rightarrow> Inl err
      | None \<Rightarrow>
          (case parse of
             Inl err \<Rightarrow> Inl (ErrWrap ''failed to parse environment variables'' err)
           | Inr environment \<Rightarrow> Inr environment))"

definition api_LoadEnvironment :: "(string \<Rightarrow> goerror option) \<Rightarrow> goerror + ApiEnv \<Rightarrow> string \<Rightarrow> goerror + ApiEnv" where
  "api_LoadEnvironment = load_env"

definition LoadValkeyEnvironment :: "(string \<Rightarrow> goerror option) \<Rightarrow> goerror + ValkeyEnv \<Rightarrow> string \<Rightarrow> goerror + ValkeyEnv" where
  "LoadValkeyEnvironment = load_env"

section \<open>The server\<close>

record cors_options =
  co_AllowedOrigins :: "string list"
  co_AllowedMethods :: "string list"
  co_AllowedHeaders :: "string list"
  co_MaxAge :: int

definition given :: "'a list \<Rightarrow> 'a list \<Rightarrow> 'a list" where
  "given xs d = (if length xs = 0 then d else xs)"

definition corsOptions :: "ApiConfig \<Rightarrow> cors_options" where
  "corsOptions conf =
     \<lparr>co_AllowedOrigins = given (acf_CorsAllowedOrigins conf) [''*''],
      co_AllowedMethods = given (acf_CorsAllowedMethods conf) [''GET''],
      co_AllowedHeaders = given (acf_CorsAllowedHeaders conf) [''Origin'', ''Content-Type'', ''Accept'', ''X-API-Key''],
      co_MaxAge = (if acf_CorsMaxAge conf = 0 then 600 else acf_CorsMaxAge conf)\<rparr>"

definition api_dbConfig :: "ApiEnv \<Rightarrow> DatabasePoolConfig" where
  "api_dbConfig env =
     \<lparr>dpc_User = aen_ApiDbUser env, dpc_Password = aen_ApiDbPassword env, dpc_Host = aen_ApiDbHost env,
      dpc_Port = aen_ApiDbPort env, dpc_Dbname = aen_ApiDbName env, dpc_Sslmode = aen_ApiDbSslmode env,
      dpc_SslRootCert = aen_ApiDbSslRootCert env, dpc_SslCert = aen_ApiDbSslCert env, dpc_SslKey = aen_ApiDbSslKey env,
      dpc_PoolMaxConns = aen_ApiDbPoolMaxConns env, dpc_PoolMinConns = aen_ApiDbPoolMinConns env,
      dpc_PoolMaxConnLifetime = aen_ApiDbPoolMaxConnLifetime env,
      dpc_PoolMaxConnIdleTime = aen_ApiDbPoolMaxConnIdleTime env,
      dpc_PoolHealthCheckPeriod = aen_ApiDbPoolHealthCheckPeriod env,
      dpc_PoolMaxConnLifetimeJitter = aen_ApiDbPoolMaxConnLifetimeJitter env\<rparr>"

record api_server =
  srv_cors :: cors_options
  srv_db :: DatabasePoolConfig
  srv_keys :: KeyStore
  srv_refreshInterval :: duration
  srv_limiter :: "RateLimiter option"
  srv_chainName :: string
  srv_addr :: string
  srv_tls :: bool

text \<open>What the start meets: the loaders, the opener of the pool, what the key query answers at the
  first refresh, Valkey's client.\<close>

record 'p api_world =
  aw_readFile :: "string \<Rightarrow> goerror + string"
  aw_unmarshal :: "string \<Rightarrow> goerror + ApiConfig"
  aw_files :: api_env_files
  aw_apiEnv :: "goerror + ApiEnv"
  aw_valkeyEnv :: "goerror + ValkeyEnv"
  aw_connect :: "'p opener"
  aw_keyQuery :: "goerror + (key_hash \<Rightarrow> int option)"
  aw_valkeyClient :: "string \<Rightarrow> int \<Rightarrow> goerror option"

definition rate_limiter :: "ApiConfig \<Rightarrow> RateLimiter" where
  "rate_limiter conf =
     SetRatePaths [''/v1'']
       (NewRateLimiter (if acf_IpRpmLimit conf = 0 then 30 else acf_IpRpmLimit conf) minute (acf_TrustedProxies conf))"

text \<open>Up to the call that listens, which returns only with an error and then ends the process. A
  failed first refresh is only logged; every other failure ends the process, a negative interval by
  a panic in the goroutine of the periodic refresh.\<close>

definition runServe :: "'p api_world \<Rightarrow> string \<Rightarrow> string \<Rightarrow> string \<Rightarrow> api_server outcome" where
  "runServe w configPath certFilePath keyFilePath =
     (case api_LoadConfig (aw_readFile w) (aw_unmarshal w) configPath of
        Inl e \<Rightarrow> Exit 1
      | Inr conf \<Rightarrow>
          (case api_LoadEnvironment (env_ReadFile (aw_files w)) (aw_apiEnv w) ''.'' of
             Inl e \<Rightarrow> Exit 1
           | Inr env \<Rightarrow>
               bind_outcome (NewTimescaleDb (aw_connect w) (api_dbConfig env)) (\<lambda>pool.
                 let server = \<lparr>srv_cors = corsOptions conf, srv_db = api_dbConfig env,
                       srv_keys = snd (Refresh (aw_keyQuery w) NewKeyStore),
                       srv_refreshInterval = (if acf_KeyRefreshInterval conf = 0 then 5 * minute else acf_KeyRefreshInterval conf),
                       srv_limiter = None, srv_chainName = acf_ChainName conf,
                       srv_addr = acf_Host conf @ '':'' @ show_int (acf_Port conf),
                       srv_tls = (certFilePath \<noteq> [] \<and> keyFilePath \<noteq> [])\<rparr>
                 in if srv_refreshInterval server < 0 then Panic ''non-positive interval for NewTicker''
                    else if acf_DisableRateLimit conf then Done server
                    else (case LoadValkeyEnvironment (env_ReadFile (aw_files w)) (aw_valkeyEnv w) ''.'' of
                            Inl e \<Rightarrow> Exit 1
                          | Inr valkeyEnv \<Rightarrow>
                              (case aw_valkeyClient w (ven_Host valkeyEnv) (ven_Port valkeyEnv) of
                                 Some e \<Rightarrow> Exit 1
                               | None \<Rightarrow> Done (server\<lparr>srv_limiter := Some (rate_limiter conf)\<rparr>))))))"

text \<open>What a request meets before the router: the limiter counts it, if there is one.\<close>

definition admit ::
  "'s ValkeyLike \<Rightarrow> (string \<Rightarrow> byte list) \<Rightarrow> api_server \<Rightarrow> time \<Rightarrow> request \<Rightarrow> 's \<Rightarrow> limit_result \<times> 's" where
  "admit vk sha256 server now r st =
     (case srv_limiter server of
        None \<Rightarrow> (\<lparr>lr_Verdict = Passed, lr_Limit = None, lr_Remaining = None, lr_RetryAfter = None\<rparr>, st)
      | Some rl \<Rightarrow> Middleware vk sha256 (srv_keys server) rl now r st)"

section \<open>The health check\<close>

definition healthcheck_url :: "ApiConfig \<Rightarrow> string" where
  "healthcheck_url conf = ''http://127.0.0.1:'' @ show_int (acf_Port conf) @ ''/health''"

text \<open>\<open>get\<close> performs the request: an error or a status.\<close>

definition runHealthcheck ::
  "(string \<Rightarrow> goerror + string) \<Rightarrow> (string \<Rightarrow> goerror + ApiConfig) \<Rightarrow> (string \<Rightarrow> goerror + int) \<Rightarrow> string \<Rightarrow> unit outcome" where
  "runHealthcheck readFile unmarshal get configPath =
     (case api_LoadConfig readFile unmarshal configPath of
        Inl e \<Rightarrow> Exit 1
      | Inr conf \<Rightarrow>
          (case get (healthcheck_url conf) of
             Inl e \<Rightarrow> Exit 1
           | Inr status \<Rightarrow> if status \<noteq> 200 then Exit 1 else Done ()))"

section \<open>Properties\<close>

lemma runServe_Done:
  assumes "runServe w configPath certFile keyFile = Done server"
    and "api_LoadConfig (aw_readFile w) (aw_unmarshal w) configPath = Inr conf"
  shows "srv_limiter server = (if acf_DisableRateLimit conf then None else Some (rate_limiter conf))"
    and "srv_keys server = snd (Refresh (aw_keyQuery w) NewKeyStore)"
    and "srv_addr server = acf_Host conf @ '':'' @ show_int (acf_Port conf)"
    and "0 < acf_KeyRefreshInterval conf \<Longrightarrow> srv_refreshInterval server = acf_KeyRefreshInterval conf"
  using assms by (auto simp: runServe_def Let_def split: sum.split_asm if_split_asm option.split_asm)

lemma rate_limiter_parts:
  "rl_ipRPM (rate_limiter conf) = (if acf_IpRpmLimit conf = 0 then 30 else acf_IpRpmLimit conf)"
  "rl_window (rate_limiter conf) = minute" "rl_ratePaths (rate_limiter conf) = [''/v1'']"
  by (simp_all add: rate_limiter_def SetRatePaths_def NewRateLimiter_def)

lemma refused_key:
  "rate_path rl r \<Longrightarrow> rq_ApiKey r \<noteq> [] \<Longrightarrow> GetKeyLimit ks (sha256 (rq_ApiKey r)) = None \<Longrightarrow>
   lr_Verdict (fst (Middleware vk sha256 ks rl now r st)) = Unauthorized"
  by (simp add: Middleware_def identify_def Let_def)

lemma unrated_path: "\<not> rate_path rl r \<Longrightarrow> lr_Verdict (fst (Middleware vk sha256 ks rl now r st)) = Passed
   \<and> snd (Middleware vk sha256 ks rl now r st) = st"
  by (simp add: Middleware_def Let_def)


definition sample_api_world :: "goerror + (key_hash \<Rightarrow> int option) \<Rightarrow> string api_world" where
  "sample_api_world keys =
     \<lparr>aw_readFile = Inr,
      aw_unmarshal = (\<lambda>y. Inr \<lparr>acf_Host = [], acf_Port = 0, acf_CorsAllowedOrigins = [], acf_CorsAllowedMethods = [],
        acf_CorsAllowedHeaders = [], acf_CorsMaxAge = 0, acf_ChainName = ''gnoland'', acf_DisableRateLimit = False,
        acf_IpRpmLimit = 0, acf_KeyRefreshInterval = 0, acf_TrustedProxies = []\<rparr>),
      aw_files = \<lparr>aef_isDir = (\<lambda>p. True), aef_join = (\<lambda>a b. a @ ''/'' @ b), aef_abs = Inr, aef_exists = (\<lambda>p. False),
        aef_load = (\<lambda>p. None)\<rparr>,
      aw_apiEnv = Inr \<lparr>aen_ApiDbHost = ''localhost'', aen_ApiDbPort = 5432, aen_ApiDbUser = ''reader'', aen_ApiDbPassword = ''x'',
        aen_ApiDbName = ''gnoland'', aen_ApiDbSslmode = ''disable'', aen_ApiDbSslRootCert = [], aen_ApiDbSslCert = [],
        aen_ApiDbSslKey = [], aen_ApiDbPoolMaxConns = 50, aen_ApiDbPoolMinConns = 10,
        aen_ApiDbPoolMaxConnLifetime = 600000000000, aen_ApiDbPoolMaxConnIdleTime = 300000000000,
        aen_ApiDbPoolHealthCheckPeriod = 60000000000, aen_ApiDbPoolMaxConnLifetimeJitter = 60000000000\<rparr>,
      aw_valkeyEnv = Inr \<lparr>ven_Host = ''localhost'', ven_Port = 6379\<rparr>, aw_connect = Inr, aw_keyQuery = keys,
      aw_valkeyClient = (\<lambda>h p. None)\<rparr>"


end
