(* ===== verification/Api_Views.thy ===== *)
theory Api_Views
  imports Messages Api_Transactions
begin

text \<open>
  Counts and volumes (\<open>pkgs/database/timescaledb/query_view.go\<close> and their handlers in \<open>api/handlers\<close>):
  sums over the rows of the continuous aggregates, by day or hour, with the buckets that
  \<open>time_bucket_gapfill\<close> adds. Times are nanoseconds since the epoch and the session is in UTC.
\<close>

section \<open>The views\<close>

record counter_row =
  cnt_bucket :: time
  cnt_chain :: string
  cnt_value :: int

record volume_row =
  vol_bucket :: time
  vol_chain :: string
  vol_denom :: string
  vol_volume :: int

record signing_row =
  sig_bucket :: time
  sig_chain :: string
  sig_validator :: i32
  sig_signed :: int

text \<open>\<open>block_counter\<close>, \<open>tx_counter\<close>, \<open>daily_active_accounts\<close>, \<open>fee_volume\<close>, \<open>validator_signing_counter\<close>,
  the validators, \<open>now()\<close>, whether a gap-filled query without any row still answers its buckets, and
  the errors the lookup of a validator and the statement fail with, if any.\<close>

record view_tables =
  vw_blocks :: "counter_row list"
  vw_txs :: "counter_row list"
  vw_accounts :: "counter_row list"
  vw_volumes :: "volume_row list"
  vw_signings :: "signing_row list"
  vw_validators :: "address_row list"
  vw_now :: time
  vw_fillsEmpty :: bool
  vw_lookupFault :: "goerror option"
  vw_fault :: "goerror option"

abbreviation hour :: duration where
  "hour \<equiv> 3600 * second"

abbreviation day :: duration where
  "day \<equiv> 24 * hour"

definition time_bucket :: "duration \<Rightarrow> time \<Rightarrow> time" where
  "time_bucket width t = width * (t div width)"

text \<open>The buckets from the first to the last time of the WHERE clause.\<close>

definition bucket_range :: "duration \<Rightarrow> time \<Rightarrow> time \<Rightarrow> time list" where
  "bucket_range width a b =
     map (\<lambda>i. time_bucket width a + width * int i) [0..<nat ((time_bucket width b - time_bucket width a) div width + 1)]"

text \<open>\<open>SortOrder.SQL\<close>: anything but \<open>asc\<close> is DESC.\<close>

definition ordered :: "string \<Rightarrow> 'a list \<Rightarrow> 'a list" where
  "ordered sortOrder xs = (if sortOrder = ''asc'' then xs else rev xs)"

definition answer :: "view_tables \<Rightarrow> 'a \<Rightarrow> goerror + 'a" where
  "answer t x = (case vw_fault t of Some e \<Rightarrow> Inl e | None \<Rightarrow> Inr x)"

section \<open>Counts\<close>

definition selected :: "string \<Rightarrow> time \<Rightarrow> time \<Rightarrow> counter_row list \<Rightarrow> counter_row list" where
  "selected chainName a b rows = filter (\<lambda>r. cnt_chain r = chainName \<and> a \<le> cnt_bucket r \<and> cnt_bucket r \<le> b) rows"

text \<open>One row per bucket, \<open>coalesce(SUM(...), 0)\<close>, in the order of the buckets.\<close>

definition gapfilled :: "bool \<Rightarrow> duration \<Rightarrow> time \<Rightarrow> time \<Rightarrow> counter_row list \<Rightarrow> (time \<times> int) list" where
  "gapfilled fills width a b rows =
     (if rows = [] \<and> \<not> fills then []
      else map (\<lambda>d. (d, sum_list (map cnt_value (filter (\<lambda>r. time_bucket width (cnt_bucket r) = d) rows)))) (bucket_range width a b))"

definition daily ::
  "(view_tables \<Rightarrow> counter_row list) \<Rightarrow> view_tables \<Rightarrow> string \<Rightarrow> time \<Rightarrow> time \<Rightarrow> string \<Rightarrow> goerror + (time \<times> int) list" where
  "daily view t chainName dateFrom dateTo sortOrder =
     (let newDateTo = dateTo + (23 * hour + 59 * (60 * second) + 59 * second)
      in answer t (ordered sortOrder (gapfilled (vw_fillsEmpty t) day dateFrom newDateTo (selected chainName dateFrom newDateTo (view t)))))"

definition db_GetBlockCountByDate :: "view_tables \<Rightarrow> string \<Rightarrow> time \<Rightarrow> time \<Rightarrow> string \<Rightarrow> goerror + (time \<times> int) list" where
  "db_GetBlockCountByDate = daily vw_blocks"

definition db_GetDailyActiveAccount :: "view_tables \<Rightarrow> string \<Rightarrow> time \<Rightarrow> time \<Rightarrow> string \<Rightarrow> goerror + (time \<times> int) list" where
  "db_GetDailyActiveAccount = daily vw_accounts"

definition db_GetTotalTxCountByDate :: "view_tables \<Rightarrow> string \<Rightarrow> time \<Rightarrow> time \<Rightarrow> string \<Rightarrow> goerror + (time \<times> int) list" where
  "db_GetTotalTxCountByDate = daily vw_txs"

definition db_GetTotalTxCountByHour :: "view_tables \<Rightarrow> string \<Rightarrow> time \<Rightarrow> time \<Rightarrow> string \<Rightarrow> goerror + (time \<times> int) list" where
  "db_GetTotalTxCountByHour t chainName fromTimestamp endTimestamp sortOrder =
     answer t (ordered sortOrder (gapfilled (vw_fillsEmpty t) hour fromTimestamp endTimestamp
       (selected chainName fromTimestamp endTimestamp (vw_txs t))))"

text \<open>The buckets that start in the last 24 hours.\<close>

definition last_day :: "view_tables \<Rightarrow> time \<Rightarrow> bool" where
  "last_day t b \<longleftrightarrow> vw_now t - 24 * hour \<le> b \<and> b < vw_now t"

definition count_24h :: "view_tables \<Rightarrow> string \<Rightarrow> counter_row list \<Rightarrow> int" where
  "count_24h t chainName rows =
     sum_list (map cnt_value (filter (\<lambda>r. cnt_chain r = chainName \<and> last_day t (cnt_bucket r)) rows))"

definition db_GetBlockCount24h :: "view_tables \<Rightarrow> string \<Rightarrow> goerror + int" where
  "db_GetBlockCount24h t chainName = answer t (count_24h t chainName (vw_blocks t))"

definition db_GetTotalTxCount24h :: "view_tables \<Rightarrow> string \<Rightarrow> goerror + int" where
  "db_GetTotalTxCount24h t chainName = answer t (count_24h t chainName (vw_txs t))"

definition db_GetTotalTxCount :: "view_tables \<Rightarrow> string \<Rightarrow> goerror + int" where
  "db_GetTotalTxCount t chainName =
     answer t (sum_list (map cnt_value (filter (\<lambda>r. cnt_chain r = chainName) (vw_txs t))))"

section \<open>Volumes\<close>

text \<open>Rows with their denominations, in the order of the times, gathered by denomination.\<close>

definition by_denom :: "(time \<times> int \<times> string) list \<Rightarrow> string \<rightharpoonup> (time \<times> int) list" where
  "by_denom rows = fold (\<lambda>(time, volume, denom) m.
     m(denom \<mapsto> (case m denom of None \<Rightarrow> [] | Some vs \<Rightarrow> vs) @ [(time, volume)])) rows Map.empty"

definition db_GetVolumeByDate ::
  "view_tables \<Rightarrow> string \<Rightarrow> time \<Rightarrow> time \<Rightarrow> string \<Rightarrow> goerror + (string \<rightharpoonup> (time \<times> int) list)" where
  "db_GetVolumeByDate t chainName dateFrom dateTo sortOrder =
     (let newDateTo = dateTo + (23 * hour + 59 * (60 * second) + 59 * second);
          rows = filter (\<lambda>r. vol_chain r = chainName \<and> dateFrom \<le> vol_bucket r \<and> vol_bucket r \<le> newDateTo) (vw_volumes t);
          denoms = remdups (map vol_denom rows)
      in answer t (by_denom (concat (map (\<lambda>d. map (\<lambda>denom.
           (d, sum_list (map vol_volume (filter (\<lambda>r. time_bucket day (vol_bucket r) = d \<and> vol_denom r = denom) rows)), denom))
           denoms) (ordered sortOrder (bucket_range day dateFrom newDateTo))))))"

definition db_GetVolumeByHour ::
  "view_tables \<Rightarrow> string \<Rightarrow> time \<Rightarrow> time \<Rightarrow> string \<Rightarrow> goerror + (string \<rightharpoonup> (time \<times> int) list)" where
  "db_GetVolumeByHour t chainName fromTimestamp toTimestamp sortOrder =
     (let hours = bucket_range hour fromTimestamp toTimestamp;
          rows = filter (\<lambda>r. vol_chain r = chainName) (vw_volumes t);
          denoms = remdups (map vol_denom rows)
      in answer t (by_denom (concat (map (\<lambda>h. map (\<lambda>denom.
           (h, sum_list (map vol_volume (filter (\<lambda>r. vol_bucket r = h \<and> vol_denom r = denom) rows)), denom))
           denoms) (ordered sortOrder hours)))))"

section \<open>Signing\<close>

text \<open>\<open>round(signed::numeric / nullif(total, 0) * 100, 2)\<close>, coalesced to 0, in hundredths of a percent.\<close>

definition signing_rate :: "int \<Rightarrow> int \<Rightarrow> int" where
  "signing_rate blocks_signed all = (if all = 0 then 0 else (2 * 10000 * blocks_signed + all) div (2 * all))"

record ValidatorSigning =
  vsn_Time :: "time option"
  vsn_BlocksSigned :: int
  vsn_BlocksMissed :: int
  vsn_TotalBlocks :: int
  vsn_SigningRate :: int

definition validator_id :: "view_tables \<Rightarrow> string \<Rightarrow> string \<Rightarrow> goerror + i32" where
  "validator_id t address chainName =
     (case vw_lookupFault t of
        Some e \<Rightarrow> Inl (ErrWrap ''validator lookup failed'' e)
      | None \<Rightarrow>
          (case find (\<lambda>r. ar_address r = address \<and> ar_chain r = chainName) (vw_validators t) of
             None \<Rightarrow> Inl (ErrWrap (''validator '' @ address) ErrNotFound)
           | Some r \<Rightarrow> Inr (ar_id r)))"

text \<open>The join with \<open>block_counter\<close> repeats a signing row for every counter row of its bucket, and
  keeps it when there is none.\<close>

definition signed_24h :: "view_tables \<Rightarrow> string \<Rightarrow> signing_row list" where
  "signed_24h t chainName =
     concat (map (\<lambda>vsc. replicate (max 1 (length (filter (\<lambda>bc. cnt_bucket bc = sig_bucket vsc \<and> cnt_chain bc = sig_chain vsc)
         (vw_blocks t)))) vsc)
       (filter (\<lambda>vsc. sig_chain vsc = chainName \<and> last_day t (sig_bucket vsc)) (vw_signings t)))"

definition signing_of :: "int \<Rightarrow> int \<Rightarrow> ValidatorSigning" where
  "signing_of all blocks_signed =
     \<lparr>vsn_Time = None, vsn_BlocksSigned = blocks_signed, vsn_BlocksMissed = all - blocks_signed,
      vsn_TotalBlocks = all, vsn_SigningRate = signing_rate blocks_signed all\<rparr>"

text \<open>\<open>GROUP BY tb.count\<close>: no signing row, no group, and the scan finds no row.\<close>

definition db_GetValidatorSigning24h :: "view_tables \<Rightarrow> string \<Rightarrow> string \<Rightarrow> goerror + ValidatorSigning" where
  "db_GetValidatorSigning24h t address chainName =
     bind_result (validator_id t address chainName) (\<lambda>i.
       let rows = filter (\<lambda>vsc. sig_validator vsc = i) (signed_24h t chainName)
       in if rows = [] then Inl (ErrMsg ''no rows in result set'')
          else answer t (signing_of (count_24h t chainName (vw_blocks t)) (sum_list (map sig_signed rows))))"

definition db_GetAllValidatorSigning24h :: "view_tables \<Rightarrow> string \<Rightarrow> goerror + (string \<rightharpoonup> ValidatorSigning)" where
  "db_GetAllValidatorSigning24h t chainName =
     (let all = count_24h t chainName (vw_blocks t);
          signers = concat (map (\<lambda>vsc. map (\<lambda>gv. (ar_address gv, sig_signed vsc))
            (filter (\<lambda>gv. ar_id gv = sig_validator vsc \<and> ar_chain gv = sig_chain vsc) (vw_validators t))) (signed_24h t chainName))
      in answer t (fold (\<lambda>a m. m(a \<mapsto> signing_of all (sum_list (map snd (filter (\<lambda>s. fst s = a) signers)))))
           (remdups (map fst signers)) Map.empty))"

definition db_GetValidatorSigningByHour ::
  "view_tables \<Rightarrow> string \<Rightarrow> string \<Rightarrow> time \<Rightarrow> time \<Rightarrow> string \<Rightarrow> goerror + ValidatorSigning list" where
  "db_GetValidatorSigningByHour t address chainName fromTimestamp toTimestamp sortOrder =
     bind_result (validator_id t address chainName) (\<lambda>i.
       let blocks = selected chainName fromTimestamp toTimestamp (vw_blocks t);
           signed_at = (\<lambda>bc. filter (\<lambda>vsc. sig_bucket vsc = cnt_bucket bc \<and> sig_chain vsc = cnt_chain bc \<and> sig_validator vsc = i)
             (vw_signings t));
           row_at = (\<lambda>h. let bcs = filter (\<lambda>bc. time_bucket hour (cnt_bucket bc) = h) blocks;
               blocks_signed = sum_list (map (\<lambda>bc. sum_list (map sig_signed (signed_at bc))) bcs);
               all = sum_list (map (\<lambda>bc. cnt_value bc * int (max 1 (length (signed_at bc)))) bcs)
             in (signing_of all blocks_signed)\<lparr>vsn_Time := Some h\<rparr>)
       in answer t (if blocks = [] \<and> \<not> vw_fillsEmpty t then []
            else map row_at (ordered sortOrder (bucket_range hour fromTimestamp toTimestamp))))"

section \<open>The handlers\<close>

definition check_dates :: "time \<Rightarrow> time \<Rightarrow> api_error option" where
  "check_dates startDate endDate =
     (if \<not> startDate < endDate then Some (BadRequest ''start_date must be before end_date'')
      else if endDate - startDate > 24 * hour * 30 then Some (BadRequest ''end_date must be within 30 days of start_date'')
      else None)"

definition check_times :: "time \<Rightarrow> time \<Rightarrow> api_error option" where
  "check_times a b =
     (if \<not> a < b then Some (BadRequest ''start_timestamp must be before end_timestamp'')
      else if b - a > 24 * hour * 7 then Some (BadRequest ''end_timestamp must be within 7 days of start_timestamp'')
      else None)"

text \<open>A checked range, then the rows or not-found when there are none.\<close>

definition listed :: "api_error option \<Rightarrow> string \<Rightarrow> goerror + 'a list \<Rightarrow> api_error + 'a list" where
  "listed invalid msg result =
     (case invalid of
        Some e \<Rightarrow> Inl e
      | None \<Rightarrow> bind_result (found msg result) (\<lambda>rows. if length rows = 0 then Inl (NotFound msg) else Inr rows))"

definition handle_GetBlockCountByDate :: "view_tables \<Rightarrow> string \<Rightarrow> time \<Rightarrow> time \<Rightarrow> string \<Rightarrow> api_error + (time \<times> int) list" where
  "handle_GetBlockCountByDate t chainName startDate endDate sortOrder =
     listed (check_dates startDate endDate) ''block count for the given date range not found''
       (db_GetBlockCountByDate t chainName startDate endDate sortOrder)"

definition handle_GetDailyActiveAccount :: "view_tables \<Rightarrow> string \<Rightarrow> time \<Rightarrow> time \<Rightarrow> string \<Rightarrow> api_error + (time \<times> int) list" where
  "handle_GetDailyActiveAccount t chainName startDate endDate sortOrder =
     listed (check_dates startDate endDate) ''daily active account data not found''
       (db_GetDailyActiveAccount t chainName startDate endDate sortOrder)"

definition handle_GetTotalTxCountByDate :: "view_tables \<Rightarrow> string \<Rightarrow> time \<Rightarrow> time \<Rightarrow> string \<Rightarrow> api_error + (time \<times> int) list" where
  "handle_GetTotalTxCountByDate t chainName startDate endDate sortOrder =
     listed (check_dates startDate endDate) ''transaction count for the given date range not found''
       (db_GetTotalTxCountByDate t chainName startDate endDate sortOrder)"

definition handle_GetTotalTxCountByHour :: "view_tables \<Rightarrow> string \<Rightarrow> time \<Rightarrow> time \<Rightarrow> string \<Rightarrow> api_error + (time \<times> int) list" where
  "handle_GetTotalTxCountByHour t chainName a b sortOrder =
     listed (check_times a b) ''transaction count for the given time range not found''
       (db_GetTotalTxCountByHour t chainName a b sortOrder)"

definition handle_GetVolumeByDate ::
  "view_tables \<Rightarrow> string \<Rightarrow> time \<Rightarrow> time \<Rightarrow> string \<Rightarrow> api_error + (string \<rightharpoonup> (time \<times> int) list)" where
  "handle_GetVolumeByDate t chainName startDate endDate sortOrder =
     (case check_dates startDate endDate of
        Some e \<Rightarrow> Inl e
      | None \<Rightarrow>
          bind_result (found ''volume for the given date range not found'' (db_GetVolumeByDate t chainName startDate endDate sortOrder))
            (\<lambda>volume. if dom volume = {} then Inl (NotFound ''volume for the given date range not found'') else Inr volume))"

definition handle_GetVolumeByHour ::
  "view_tables \<Rightarrow> string \<Rightarrow> time \<Rightarrow> time \<Rightarrow> string \<Rightarrow> api_error + (string \<rightharpoonup> (time \<times> int) list)" where
  "handle_GetVolumeByHour t chainName a b sortOrder =
     (case check_times a b of
        Some e \<Rightarrow> Inl e
      | None \<Rightarrow> found ''volume for the given time range not found'' (db_GetVolumeByHour t chainName a b sortOrder))"

definition handle_GetBlockCount24h :: "view_tables \<Rightarrow> string \<Rightarrow> api_error + int" where
  "handle_GetBlockCount24h t chainName = found ''block count for last 24h not found'' (db_GetBlockCount24h t chainName)"

definition handle_GetTotalTxCount24h :: "view_tables \<Rightarrow> string \<Rightarrow> api_error + int" where
  "handle_GetTotalTxCount24h t chainName = found ''transaction count for last 24h not found'' (db_GetTotalTxCount24h t chainName)"

definition handle_GetValidatorSigning24h :: "view_tables \<Rightarrow> string \<Rightarrow> string \<Rightarrow> api_error + ValidatorSigning" where
  "handle_GetValidatorSigning24h t chainName address =
     (if address = [] then Inl (BadRequest ''validator_address is required'')
      else found (''signing data for validator '' @ address @ '' not found'') (db_GetValidatorSigning24h t address chainName))"

definition handle_GetValidatorSigningByHour ::
  "view_tables \<Rightarrow> string \<Rightarrow> string \<Rightarrow> time \<Rightarrow> time \<Rightarrow> string \<Rightarrow> api_error + ValidatorSigning list" where
  "handle_GetValidatorSigningByHour t chainName address a b sortOrder =
     (if address = [] then Inl (BadRequest ''validator_address is required'')
      else listed (check_times a b) (''signing data for validator '' @ address @ '' in the given time range not found'')
        (db_GetValidatorSigningByHour t address chainName a b sortOrder))"

definition handle_GetAllValidatorSigning24h :: "view_tables \<Rightarrow> string \<Rightarrow> api_error + (string \<rightharpoonup> ValidatorSigning)" where
  "handle_GetAllValidatorSigning24h t chainName = found ''signing data not found'' (db_GetAllValidatorSigning24h t chainName)"

section \<open>Buckets\<close>

lemma ordered_ordered [simp]: "ordered s (ordered s xs) = xs"
  by (simp add: ordered_def)

lemma set_ordered [simp]: "set (ordered s xs) = set xs"
  by (simp add: ordered_def)

lemma sum_ordered [simp]: "sum_list (map f (ordered s xs)) = (sum_list (map f xs) :: int)"
  by (simp add: ordered_def rev_map [symmetric])

lemma ordered_empty [simp]: "ordered s xs = [] \<longleftrightarrow> xs = []"
  by (simp add: ordered_def)

text \<open>Grouping by a value loses nothing and counts nothing twice.\<close>

lemma sum_groups:
  "distinct ds \<Longrightarrow> \<forall>r\<in>set rows. g r \<in> set ds \<Longrightarrow>
   sum_list (map (\<lambda>d. sum_list (map v (filter (\<lambda>r. g r = d) rows))) ds) = (sum_list (map v rows) :: int)"
proof (induction rows)
  case (Cons r rows)
  have "(\<lambda>d. sum_list (map v (filter (\<lambda>r. g r = d) (r # rows)))) =
      (\<lambda>d. (if d = g r then v r else 0) + sum_list (map v (filter (\<lambda>r. g r = d) rows)))" by auto
  moreover have "sum_list (map (\<lambda>d. if d = g r then v r else 0) ds) = v r"
    using Cons.prems by (simp add: sum_list_distinct_conv_sum_set)
  ultimately show ?case using Cons by (simp add: sum_list_addf)
qed (simp add: sum_list_0)

lemma bucket_le: "0 < w \<Longrightarrow> time_bucket w t \<le> t \<and> t < time_bucket w t + w"
proof -
  assume "0 < w"
  then have "t = w * (t div w) + t mod w" "0 \<le> t mod w" "t mod w < w" by simp_all
  then show ?thesis unfolding time_bucket_def by linarith
qed

lemma bucket_unique: "0 < w \<Longrightarrow> time_bucket w t = w * k \<longleftrightarrow> w * k \<le> t \<and> t < w * k + w"
proof -
  assume w: "0 < w"
  have "t div w = k \<longleftrightarrow> w * k \<le> t \<and> t < w * k + w"
  proof
    assume "t div w = k"
    with bucket_le [OF w, of t] show "w * k \<le> t \<and> t < w * k + w" by (simp add: time_bucket_def)
  next
    assume "w * k \<le> t \<and> t < w * k + w"
    then have "(t - w * k) div w = 0" using w by simp
    moreover have "t div w = (t - w * k) div w + k" using w div_mult_self2 [of w "t - w * k" k] by simp
    ultimately show "t div w = k" by simp
  qed
  then show ?thesis using w by (simp add: time_bucket_def)
qed

lemma distinct_bucket_range: "0 < w \<Longrightarrow> distinct (bucket_range w a b)"
  by (auto simp: bucket_range_def distinct_map inj_on_def)

lemma bucket_in_range:
  assumes "0 < w" and "a \<le> t" and "t \<le> b"
  shows "time_bucket w t \<in> set (bucket_range w a b)"
proof -
  have q: "a div w \<le> t div w" "t div w \<le> b div w" using assms by (simp_all add: zdiv_mono1)
  have "time_bucket w t = time_bucket w a + w * int (nat (t div w - a div w))"
    using q(1) by (simp add: time_bucket_def algebra_simps)
  moreover have "(time_bucket w b - time_bucket w a) div w = b div w - a div w"
    using assms(1) by (simp add: time_bucket_def flip: right_diff_distrib)
  ultimately show ?thesis using q unfolding bucket_range_def set_map
    by (intro image_eqI [of _ _ "nat (t div w - a div w)"]) auto
qed

lemma gapfilled_sum:
  assumes "0 < w" and "\<forall>r\<in>set rows. a \<le> cnt_bucket r \<and> cnt_bucket r \<le> b"
  shows "sum_list (map snd (gapfilled fills w a b rows)) = sum_list (map cnt_value rows)"
proof -
  have "\<forall>r\<in>set rows. time_bucket w (cnt_bucket r) \<in> set (bucket_range w a b)"
    using assms(2) bucket_in_range [OF assms(1)] by blast
  from sum_groups [OF distinct_bucket_range [OF assms(1)] this] show ?thesis
    by (simp add: gapfilled_def comp_def)
qed

section \<open>Properties\<close>

lemma day_end:
  assumes "b mod day = 0"
  shows "time_bucket day (b + (23 * hour + 59 * (60 * second) + 59 * second)) = b"
proof -
  obtain k where k: "b = day * k" using assms by (metis mod_0_imp_dvd dvdE)
  show ?thesis unfolding k by (subst bucket_unique) simp_all
qed

lemma whole_hours:
  assumes "b mod day = 0" and "t mod hour = 0"
  shows "t \<le> b + (23 * hour + 59 * (60 * second) + 59 * second) \<longleftrightarrow> t < b + day"
proof -
  obtain k j where "b = day * k" "t = hour * j" using assms by (metis mod_0_imp_dvd dvdE)
  moreover from this have "hour * j \<le> hour * (24 * k + 23)" if "t < b + day"
  proof -
    have "hour * j < hour * (24 * k + 24)" using that \<open>b = day * k\<close> \<open>t = hour * j\<close> by simp
    then have "j < 24 * k + 24" by (simp only: mult_less_cancel_left_pos)
    then show ?thesis by simp
  qed
  ultimately show ?thesis by auto
qed

text \<open>The dates of a range, and the rows of a range of times.\<close>

definition dates :: "time \<Rightarrow> time \<Rightarrow> time list" where
  "dates a b = map (\<lambda>i. a + day * int i) [0..<nat ((b - a) div day + 1)]"

definition counted :: "string \<Rightarrow> time \<Rightarrow> time \<Rightarrow> counter_row list \<Rightarrow> int" where
  "counted chainName a b rows =
     sum_list (map cnt_value (filter (\<lambda>r. cnt_chain r = chainName \<and> a \<le> cnt_bucket r \<and> cnt_bucket r < b) rows))"

lemma set_dates:
  assumes "a mod day = 0" and "d \<in> set (dates a b)" and "a \<le> b"
  shows "a \<le> d \<and> d \<le> b \<and> (\<exists>k. d = day * k)"
proof -
  obtain k where k: "a = day * k" using assms(1) by (metis mod_0_imp_dvd dvdE)
  obtain i where i: "d = a + day * int i" "i < nat ((b - a) div day + 1)" using assms(2) by (auto simp: dates_def)
  then have "int i \<le> (b - a) div day" by linarith
  then have "day * int i \<le> day * ((b - a) div day)" by simp
  moreover have "day * ((b - a) div day) \<le> b - a" using bucket_le [of day "b - a"] by (simp add: time_bucket_def)
  ultimately have "d \<le> b" using i(1) by linarith
  moreover have "d = day * (k + int i)" using k i(1) by (simp add: algebra_simps)
  ultimately show ?thesis using i(1) by (intro conjI exI [of _ "k + int i"]) auto
qed

lemma dates_nonempty:
  assumes "a \<le> b" shows "dates a b \<noteq> []"
proof -
  have "0 \<le> (b - a) div day" using assms by (simp add: pos_imp_zdiv_nonneg_iff)
  then show ?thesis by (simp add: dates_def)
qed

text \<open>The rows of the daily query, for whole dates and hourly rows.\<close>

lemma daily_rows:
  assumes a: "a mod day = 0" and b: "b mod day = 0" and ab: "a \<le> b"
    and hours: "\<forall>r\<in>set rows. cnt_bucket r mod hour = 0"
    and some: "fills \<or> selected chainName a (b + (23 * hour + 59 * (60 * second) + 59 * second)) rows \<noteq> []"
  shows "gapfilled fills day a (b + (23 * hour + 59 * (60 * second) + 59 * second))
      (selected chainName a (b + (23 * hour + 59 * (60 * second) + 59 * second)) rows)
    = map (\<lambda>d. (d, counted chainName d (d + day) rows)) (dates a b)"
proof -
  let ?last = "b + (23 * hour + 59 * (60 * second) + 59 * second)"
  let ?sel = "selected chainName a ?last rows"
  obtain ka where "a = day * ka" using a by (metis mod_0_imp_dvd dvdE)
  then have starts: "time_bucket day a = a" by (simp add: time_bucket_def)
  have range: "bucket_range day a ?last = dates a b"
    unfolding bucket_range_def starts day_end [OF b] dates_def ..
  have "sum_list (map cnt_value (filter (\<lambda>r. time_bucket day (cnt_bucket r) = d) ?sel)) = counted chainName d (d + day) rows"
    if d: "d \<in> set (dates a b)" for d
  proof -
    from set_dates [OF a d ab] obtain k where k: "a \<le> d" "d \<le> b" "d = day * k" by blast
    have "filter (\<lambda>r. time_bucket day (cnt_bucket r) = d) ?sel = filter (\<lambda>r. cnt_chain r = chainName
          \<and> d \<le> cnt_bucket r \<and> cnt_bucket r < d + day) rows"
      unfolding selected_def filter_filter
    proof (rule filter_cong [OF refl])
      fix r assume "r \<in> set rows"
      then have "cnt_bucket r \<le> ?last \<longleftrightarrow> cnt_bucket r < b + day" using hours by (intro whole_hours [OF b]) blast
      moreover have "time_bucket day (cnt_bucket r) = d \<longleftrightarrow> d \<le> cnt_bucket r \<and> cnt_bucket r < d + day"
        using bucket_unique [of day "cnt_bucket r" k] by (simp only: k(3))
      ultimately show "((cnt_chain r = chainName \<and> a \<le> cnt_bucket r \<and> cnt_bucket r \<le> ?last) \<and> time_bucket day (cnt_bucket r) = d)
          = (cnt_chain r = chainName \<and> d \<le> cnt_bucket r \<and> cnt_bucket r < d + day)"
        using k(1,2) by auto
    qed
    then show ?thesis by (simp add: counted_def)
  qed
  note sums = this
  have filled: "\<not> (?sel = [] \<and> \<not> fills)" using some by blast
  show ?thesis unfolding gapfilled_def range if_not_P [OF filled]
    by (rule map_cong [OF refl]) (simp only: sums)
qed

section \<open>Properties\<close>

text \<open>C33: a range of dates is answered with one entry per date, in the order asked for, which holds
  the sum of the hours of that date, and no hour between the first date and the end of the last
  one is lost or counted twice.\<close>

theorem tx_counts_by_date:
  assumes "a mod day = 0" and "b mod day = 0" and "check_dates a b = None" and "vw_fault t = None"
    and "\<forall>r\<in>set (vw_txs t). cnt_bucket r mod hour = 0"
    and "vw_fillsEmpty t \<or> (\<exists>r\<in>set (vw_txs t). cnt_chain r = chainName \<and> a \<le> cnt_bucket r \<and> cnt_bucket r \<le> b)"
  shows "handle_GetTotalTxCountByDate t chainName a b sortOrder =
      Inr (ordered sortOrder (map (\<lambda>d. (d, counted chainName d (d + day) (vw_txs t))) (dates a b)))
    \<and> sum_list (map (\<lambda>d. counted chainName d (d + day) (vw_txs t)) (dates a b)) = counted chainName a (b + day) (vw_txs t)"
proof -
  let ?last = "b + (23 * hour + 59 * (60 * second) + 59 * second)"
  let ?sel = "selected chainName a ?last (vw_txs t)"
  have ab: "a \<le> b" using assms(3) by (auto simp: check_dates_def split: if_splits)
  have "vw_fillsEmpty t \<or> ?sel \<noteq> []" using assms(6) by (auto simp: selected_def filter_empty_conv)
  note rows = daily_rows [OF assms(1,2) ab assms(5) this]
  have "?sel = filter (\<lambda>r. cnt_chain r = chainName \<and> a \<le> cnt_bucket r \<and> cnt_bucket r < b + day) (vw_txs t)"
    unfolding selected_def by (rule filter_cong [OF refl]) (use whole_hours [OF assms(2)] assms(5) in blast)
  then have total: "sum_list (map cnt_value ?sel) = counted chainName a (b + day) (vw_txs t)" by (simp only: counted_def)
  have "sum_list (map snd (gapfilled (vw_fillsEmpty t) day a ?last ?sel)) = counted chainName a (b + day) (vw_txs t)"
    unfolding total [symmetric] by (rule gapfilled_sum) (auto simp: selected_def)
  then have "sum_list (map (\<lambda>d. counted chainName d (d + day) (vw_txs t)) (dates a b)) = counted chainName a (b + day) (vw_txs t)"
    unfolding rows by (simp add: comp_def)
  moreover have "handle_GetTotalTxCountByDate t chainName a b sortOrder =
      Inr (ordered sortOrder (map (\<lambda>d. (d, counted chainName d (d + day) (vw_txs t))) (dates a b)))"
    unfolding handle_GetTotalTxCountByDate_def db_GetTotalTxCountByDate_def daily_def Let_def rows
    using dates_nonempty [OF ab] assms(3,4) by (simp add: listed_def found_def answer_def)
  ultimately show ?thesis by blast
qed

text \<open>A range of times that does not start on the hour begins with an entry of 0 for the hour it
  starts in, whatever the view counts for that hour.\<close>

theorem hour_counts_first:
  assumes "a mod hour \<noteq> 0" and "check_times a b = None" and "vw_fault t = None"
    and "\<forall>r\<in>set (vw_txs t). cnt_bucket r mod hour = 0"
    and "vw_fillsEmpty t \<or> (\<exists>r\<in>set (vw_txs t). cnt_chain r = chainName \<and> a \<le> cnt_bucket r \<and> cnt_bucket r \<le> b)"
  shows "\<exists>rest. handle_GetTotalTxCountByHour t chainName a b ''asc'' = Inr ((time_bucket hour a, 0) # rest)"
proof -
  let ?sel = "selected chainName a b (vw_txs t)"
  have ab: "a < b" using assms(2) by (auto simp: check_times_def split: if_splits)
  have "(?sel = [] \<and> \<not> vw_fillsEmpty t) = False" using assms(5) by (auto simp: selected_def filter_empty_conv)
  note fills = this
  have "time_bucket hour (cnt_bucket r) \<noteq> time_bucket hour a" if r: "r \<in> set ?sel" for r
  proof -
    have "cnt_bucket r mod hour = 0" "a \<le> cnt_bucket r" using r assms(4) by (auto simp: selected_def)
    then obtain j where j: "cnt_bucket r = hour * j" by (metis mod_0_imp_dvd dvdE)
    then have same: "time_bucket hour (cnt_bucket r) = cnt_bucket r" by (simp add: time_bucket_def)
    have "time_bucket hour a \<noteq> a" using assms(1) by (metis mod_mult_self1_is_0 time_bucket_def)
    with bucket_le [of hour a] \<open>a \<le> cnt_bucket r\<close> same show ?thesis by auto
  qed
  then have "filter (\<lambda>r. time_bucket hour (cnt_bucket r) = time_bucket hour a) ?sel = []" by (auto simp: filter_empty_conv)
  moreover have "\<exists>more_buckets. bucket_range hour a b = time_bucket hour a # more_buckets"
  proof -
    have "time_bucket hour a \<le> time_bucket hour b" using ab by (simp add: time_bucket_def zdiv_mono1)
    then have "0 \<le> (time_bucket hour b - time_bucket hour a) div hour" by (simp add: pos_imp_zdiv_nonneg_iff)
    then have "[0..<nat ((time_bucket hour b - time_bucket hour a) div hour + 1)] =
        0 # [1..<nat ((time_bucket hour b - time_bucket hour a) div hour + 1)]" by (simp add: upt_rec [of 0])
    then show ?thesis by (simp add: bucket_range_def)
  qed
  ultimately have "\<exists>rest. gapfilled (vw_fillsEmpty t) hour a b ?sel = (time_bucket hour a, 0) # rest"
    unfolding gapfilled_def fills if_False by auto
  then show ?thesis using assms(2,3)
    by (auto simp: handle_GetTotalTxCountByHour_def db_GetTotalTxCountByHour_def listed_def found_def answer_def ordered_def)
qed

text \<open>A known validator without a signing row in the last day is an internal error, not an empty
  answer and not a not-found.\<close>

lemma silent_validator_error:
  assumes "validator_id t address chainName = Inr i" and "address \<noteq> []"
    and "\<forall>vsc\<in>set (vw_signings t). sig_validator vsc = i \<longrightarrow> \<not> last_day t (sig_bucket vsc)"
  shows "handle_GetValidatorSigning24h t chainName address = Inl InternalServerError"
proof -
  have "filter (\<lambda>vsc. sig_validator vsc = i) (signed_24h t chainName) = []"
    using assms(3) by (auto simp: signed_24h_def filter_empty_conv)
  then show ?thesis using assms(1,2)
    by (simp add: handle_GetValidatorSigning24h_def db_GetValidatorSigning24h_def found_def mapDbError_def)
qed

section \<open>Concrete views\<close>

text \<open>Five transactions in the second hour of the epoch, seven in the last hour of the second date.\<close>

definition sample_views :: view_tables where
  "sample_views =
     \<lparr>vw_blocks = [], vw_txs = [\<lparr>cnt_bucket = hour, cnt_chain = ''c'', cnt_value = 5\<rparr>,
        \<lparr>cnt_bucket = 47 * hour, cnt_chain = ''c'', cnt_value = 7\<rparr>],
      vw_accounts = [], vw_volumes = [], vw_signings = [], vw_validators = [], vw_now = 0, vw_fillsEmpty = False,
      vw_lookupFault = None, vw_fault = None\<rparr>"

lemma sample_views_facts:
  "vw_fault sample_views = None" "\<forall>r\<in>set (vw_txs sample_views). cnt_bucket r mod hour = 0"
  by (simp_all add: sample_views_def)

lemma tx_counts_by_date_witness:
  "handle_GetTotalTxCountByDate sample_views ''c'' 0 day ''desc'' = Inr [(day, 7), (0, 5)]"
proof -
  have whole: "(0 :: time) mod day = 0" "day mod day = 0" "check_dates 0 day = None" by (simp_all add: check_dates_def)
  have some: "vw_fillsEmpty sample_views \<or> (\<exists>r\<in>set (vw_txs sample_views). cnt_chain r = ''c'' \<and> 0 \<le> cnt_bucket r \<and> cnt_bucket r \<le> day)"
    by (simp add: sample_views_def)
  have two: "[0..<nat ((day - 0) div day + 1)] = [0, 1]" by (simp add: upt_rec)
  have "handle_GetTotalTxCountByDate sample_views ''c'' 0 day ''desc'' =
      Inr (ordered ''desc'' (map (\<lambda>d. (d, counted ''c'' d (d + day) (vw_txs sample_views))) (dates 0 day)))"
    by (rule conjunct1 [OF tx_counts_by_date [OF whole sample_views_facts some]])
  then show ?thesis unfolding dates_def two by (simp add: ordered_def counted_def sample_views_def)
qed

lemma hour_counts_first_witness:
  "\<exists>rest. handle_GetTotalTxCountByHour sample_views ''c'' (hour + 1) (47 * hour) ''asc'' = Inr ((hour, 0) # rest)"
proof -
  have off: "(hour + 1) mod hour \<noteq> 0" "check_times (hour + 1) (47 * hour) = None" by (simp_all add: check_times_def)
  have some: "vw_fillsEmpty sample_views \<or> (\<exists>r\<in>set (vw_txs sample_views). cnt_chain r = ''c'' \<and> hour + 1 \<le> cnt_bucket r \<and> cnt_bucket r \<le> 47 * hour)"
    by (simp add: sample_views_def)
  from hour_counts_first [OF off sample_views_facts some] show ?thesis by (simp add: time_bucket_def)
qed

end
