(* ===== verification/Live_Resume.thy ===== *)
theory Live_Resume
  imports Orchestrator_Spec Api_Blocks
begin

text \<open>
  Where a live run starts: the statement behind \<open>GetLastBlockHeight\<close>
  (\<open>pkgs/database/timescaledb/queries_indexer.go\<close>) on the stored blocks, and the chunks of a live run
  that starts from it.
\<close>

text \<open>The highest stored height of the chain, or 0.\<close>

definition GetLastBlockHeight :: "block_tables \<Rightarrow> string \<Rightarrow> goerror + u64" where
  "GetLastBlockHeight t chainName =
     bind_result (statement t [] [case max_height t chainName of None \<Rightarrow> 0 | Some h \<Rightarrow> h]) (\<lambda>rows. Inr (hd rows))"

lemma GetLastBlockHeight_Inr:
  assumes "GetLastBlockHeight t chainName = Inr h" and "b \<in> set (bt_blocks t)" and "bl_ChainName b = chainName"
  shows "bl_Height b \<le> h"
proof (cases "max_height t chainName")
  case None
  then show ?thesis using assms(2,3) by (auto simp: max_height_def filter_empty_conv split: list.splits)
next
  case (Some m)
  have "h = m" using assms(1) Some by (auto simp: GetLastBlockHeight_def statement_def split: option.splits)
  then show ?thesis using max_height_Some(1) [OF Some assms(2,3)] by simp
qed

text \<open>A live run that reads its start from the stored blocks fetches only heights above every block of
  the chain, in order and without a gap from the highest one on: it never fetches a stored block again,
  and it never fills a gap below the highest one.\<close>
theorem live_resumes_above_stored:
  assumes "LiveProcess P sha256 (GetLastBlockHeight t) latest False c iters ork fs s = Done st"
    and "GetLastBlockHeight t (or_chainName ork) = Inr h" and "never_back h iters"
  shows "\<exists>chunks. chunk_heights chunks = [Suc (unat h)..<Suc (unat (lv_lastProcessedHeight st))]
    \<and> foldM_outcome (run_chunk P sha256 c) chunks s = Done (lv_state st)
    \<and> list_all (\<lambda>b. bl_ChainName b = or_chainName ork \<longrightarrow> list_all (\<lambda>n. unat (bl_Height b) < n) (chunk_heights chunks)) (bt_blocks t)"
proof -
  let ?st = "\<lparr>lv_or = ork\<lparr>or_isProcessing := True, or_currentProcessingHeight := h\<rparr>,
      lv_lastProcessedHeight = h, lv_running = True, lv_files = fs, lv_state = s\<rparr>"
  from assms(1,2) have "foldM_outcome (live_iteration P sha256 c) iters ?st = Done st"
    by (simp add: LiveProcess_def)
  from live_loop_chunks [OF this _ assms(3)] obtain chunks where
    chunks: "chunk_heights chunks = [Suc (unat h)..<Suc (unat (lv_lastProcessedHeight st))]"
      "foldM_outcome (run_chunk P sha256 c) chunks s = Done (lv_state st)" by auto
  moreover have "unat (bl_Height b) \<le> unat h" if "b \<in> set (bt_blocks t)" "bl_ChainName b = or_chainName ork" for b
    using GetLastBlockHeight_Inr [OF assms(2) that] by (simp add: word_le_nat_alt)
  then have "unat (bl_Height b) < n" if "b \<in> set (bt_blocks t)" "bl_ChainName b = or_chainName ork" "Suc (unat h) \<le> n" for b n
    using that by (meson Suc_le_lessD le_less_trans)
  ultimately show ?thesis by (intro exI [of _ chunks]) (simp add: list_all_iff del: upt_Suc)
qed

text \<open>Two stored blocks, of heights 1 and 2, and a node at height 10: one iteration runs heights 3 and 4.\<close>

lemma live_resumes_above_stored_witness:
  "\<exists>st chunks. LiveProcess logging id (GetLastBlockHeight sample_view) (Inr 0) False True [sample_input 10] (sample_or 2) sample_files [] = Done st
    \<and> lv_lastProcessedHeight st = 4 \<and> chunk_heights chunks = [3, 4]
    \<and> foldM_outcome (run_chunk logging id True) chunks [] = Done (lv_state st)"
proof -
  have h: "GetLastBlockHeight sample_view (or_chainName (sample_or 2)) = Inr 2"
    by (simp add: GetLastBlockHeight_def statement_def max_height_def sample_view_def sample_or_def max_def word_le_nat_alt)
  have e: "live_chunk_end 2 2 10 = 4" by (simp add: live_chunk_end_def Let_def min_def)
  obtain s' where "processChunk logging id quiet_env 3 4 True [] = Done (None, s')"
    using quiet_chunk [of 4 3 "[]"] by auto
  then obtain st where st: "LiveProcess logging id (GetLastBlockHeight sample_view) (Inr 0) False True [sample_input 10] (sample_or 2) sample_files [] = Done st"
    "lv_lastProcessedHeight st = 4"
    using h by (simp add: LiveProcess_def live_iteration_def sample_or_def sample_input_def e)
  have list: "[Suc (unat (2 :: u64))..<Suc (unat (lv_lastProcessedHeight st))] = [3, 4]" by (simp add: st(2) upt_conv_Cons)
  have "never_back 2 [sample_input 10]" by (simp add: sample_input_def)
  from live_resumes_above_stored [OF st(1) h this] st list show ?thesis by auto
qed

end
