(* ===== verification/Training.thy ===== *)
theory Training
  imports Pagination Connection
begin

text \<open>
  Training the compression dictionary (\<open>compression/train\<close>, \<open>compression/cmd/main.go\<close>): batches of
  transactions read by offset (\<open>GetTransactionsByOffset\<close> in \<open>queries_tx.go\<close>) in one goroutine each,
  their events serialised again, the history of the dictionary. Protobuf, the dictionary builder of
  the zstd package, YAML and files are arguments.
\<close>

section \<open>Reading by offset\<close>

text \<open>The statement selects the native events only; the other columns keep their zero values.\<close>

definition offset_columns :: "FullTxData \<Rightarrow> FullTxData" where
  "offset_columns f = f\<lparr>ft_TxEventsCompressed := [], ft_CompressionOn := False\<rparr>"

text \<open>\<open>ORDER BY timestamp DESC\<close> without a tie-break: \<open>order\<close> arranges rows of one time.\<close>

definition by_time :: "(tx_join list \<Rightarrow> tx_join list) \<Rightarrow> tx_join list \<Rightarrow> tx_join list" where
  "by_time order rows = rev (sort_key (\<lambda>r. ft_Timestamp (tj_data r)) (order rows))"

definition GetTransactionsByOffset ::
  "(byte list \<Rightarrow> goerror + Event list) \<Rightarrow> (tx_join list \<Rightarrow> tx_join list) \<Rightarrow> goerror option \<Rightarrow> tx_join list
   \<Rightarrow> u64 \<Rightarrow> u64 \<Rightarrow> goerror + Transaction list" where
  "GetTransactionsByOffset decode order fault rows limit offset =
     (case find (\<lambda>e. e \<noteq> None) [int8_arg limit, int8_arg offset, fault] of
        Some (Some e) \<Rightarrow> Inl e
      | _ \<Rightarrow> mapM_result (ToTransaction decode)
               (map (offset_columns \<circ> tj_data) (take (unat limit) (drop (unat offset) (by_time order rows)))))"

section \<open>Collecting samples\<close>

text \<open>A failed batch is only logged. The mutex makes the append of a batch one step.\<close>

definition fetchTransactionBatch ::
  "nat \<Rightarrow> (u64 \<Rightarrow> u64 \<Rightarrow> goerror + Transaction list) \<Rightarrow> u64 \<Rightarrow> Transaction list \<Rightarrow> Transaction list" where
  "fetchTransactionBatch i query limit transactions =
     (let offset = of_nat i * limit in
      case query limit offset of
        Inl e \<Rightarrow> transactions
      | Inr txs \<Rightarrow> transactions @ txs)"

definition resent_event :: "(string \<Rightarrow> 'f option) \<Rightarrow> Event \<Rightarrow> 'f pEvent" where
  "resent_event parseFloat event =
     \<lparr>pe_AtType = evt_AtType event, pe_Type = evt_Type event,
      pe_Attributes = map (\<lambda>a. NewAttributeFromString parseFloat (atr_Key a) (atr_Value a)) (evt_Attributes event),
      pe_PkgPath = Some (evt_PkgPath event)\<rparr>"

fun processEvents ::
  "('f pEvent list \<Rightarrow> goerror + byte list) \<Rightarrow> (string \<Rightarrow> 'f option) \<Rightarrow> Transaction list \<Rightarrow> byte list list" where
  "processEvents marshal parseFloat [] = []"
| "processEvents marshal parseFloat (transaction # transactions) =
     (let protoTxEvents = map (resent_event parseFloat) (t_TxEvents transaction) in
      if protoTxEvents = [] then processEvents marshal parseFloat transactions
      else case marshal protoTxEvents of
        Inl e \<Rightarrow> processEvents marshal parseFloat transactions
      | Inr bs \<Rightarrow> bs # processEvents marshal parseFloat transactions)"

text \<open>The number of goroutines, \<open>ceil (amount / 100)\<close>; the division is exact enough below 250000.\<close>

definition batches :: "u64 \<Rightarrow> nat" where
  "batches amount = (unat amount + 99) div 100"

definition CollectEvents ::
  "('f pEvent list \<Rightarrow> goerror + byte list) \<Rightarrow> (string \<Rightarrow> 'f option)
   \<Rightarrow> (nat \<Rightarrow> u64 \<Rightarrow> u64 \<Rightarrow> goerror + Transaction list) \<Rightarrow> nat list \<Rightarrow> u64 \<Rightarrow> goerror + byte list list" where
  "CollectEvents marshal parseFloat query sched amount =
     (if amount > 250000 then Inl (ErrMsg ''amount cannot be greater than 250000'')
      else if amount = 0 then Inl (ErrMsg ''amount cannot be 0'')
      else
        (let limit = min amount 100;
             transactions = fold (\<lambda>i. fetchTransactionBatch i (query i) limit) sched []
         in Inr (processEvents marshal parseFloat transactions)))"

section \<open>Building the dictionary\<close>

definition maxHistorySize :: nat where
  "maxHistorySize = 114688"

fun gather_history :: "byte list list \<Rightarrow> byte list \<Rightarrow> byte list" where
  "gather_history [] history = history"
| "gather_history (e # events) history =
     (let history = history @ e in
      if length history \<ge> maxHistorySize then history else gather_history events history)"

text \<open>\<open>buildDict\<close> takes the identifier, the samples and the history; the level is the best one.\<close>

definition BuildZstdDict ::
  "(nat \<Rightarrow> byte list list \<Rightarrow> byte list \<Rightarrow> goerror + byte list) \<Rightarrow> byte list list \<Rightarrow> goerror + byte list" where
  "BuildZstdDict buildDict events =
     (let history = gather_history events [];
          history = (if length history > maxHistorySize then take maxHistorySize history else history)
      in buildDict 1 events history)"

section \<open>The command\<close>

record TrainingConfig =
  trc_User :: string
  trc_Password :: string
  trc_Host :: string
  trc_Port :: int
  trc_Dbname :: string
  trc_Sslmode :: string
  trc_PoolMaxConns :: int
  trc_PoolMinConns :: int
  trc_PoolMaxConnLifetime :: duration
  trc_PoolMaxConnIdleTime :: duration
  trc_PoolHealthCheckPeriod :: duration
  trc_PoolMaxConnLifetimeJitter :: duration

definition LoadTrainingConfig ::
  "(string \<Rightarrow> goerror + string) \<Rightarrow> (string \<Rightarrow> goerror + TrainingConfig) \<Rightarrow> string option \<Rightarrow> goerror + TrainingConfig" where
  "LoadTrainingConfig readFile unmarshal configPath =
     (case configPath of
        None \<Rightarrow> Inl (ErrMsg ''config path is required'')
      | Some path \<Rightarrow>
          if \<not> has_suffix path ''.yml'' \<and> \<not> has_suffix path ''.yaml'' then Inl (ErrMsg ''config path must end with .yml'')
          else bind_result (readFile path) unmarshal)"

text \<open>The training configuration has no certificates.\<close>

definition train_dbConfig :: "TrainingConfig \<Rightarrow> DatabasePoolConfig" where
  "train_dbConfig c =
     \<lparr>dpc_User = trc_User c, dpc_Password = trc_Password c, dpc_Host = trc_Host c, dpc_Port = trc_Port c,
      dpc_Dbname = trc_Dbname c, dpc_Sslmode = trc_Sslmode c, dpc_SslRootCert = [], dpc_SslCert = [], dpc_SslKey = [],
      dpc_PoolMaxConns = trc_PoolMaxConns c, dpc_PoolMinConns = trc_PoolMinConns c,
      dpc_PoolMaxConnLifetime = trc_PoolMaxConnLifetime c, dpc_PoolMaxConnIdleTime = trc_PoolMaxConnIdleTime c,
      dpc_PoolHealthCheckPeriod = trc_PoolHealthCheckPeriod c,
      dpc_PoolMaxConnLifetimeJitter = trc_PoolMaxConnLifetimeJitter c\<rparr>"

definition InitDatabase :: "'p opener \<Rightarrow> DatabasePoolConfig \<Rightarrow> 'p outcome" where
  "InitDatabase = NewTimescaleDb"

text \<open>What the command meets: files, the opener of the pool, the statement of each goroutine on a
  pool and a chain, the packages. Every failure ends the process.\<close>

record ('p, 'f) training_world =
  trw_readFile :: "string \<Rightarrow> goerror + string"
  trw_unmarshal :: "string \<Rightarrow> goerror + TrainingConfig"
  trw_connect :: "'p opener"
  trw_query :: "'p \<Rightarrow> string \<Rightarrow> nat \<Rightarrow> u64 \<Rightarrow> u64 \<Rightarrow> goerror + Transaction list"
  trw_marshal :: "'f pEvent list \<Rightarrow> goerror + byte list"
  trw_parseFloat :: "string \<Rightarrow> 'f option"
  trw_sched :: "nat list"
  trw_buildDict :: "nat \<Rightarrow> byte list list \<Rightarrow> byte list \<Rightarrow> goerror + byte list"
  trw_writeFile :: "string \<Rightarrow> byte list \<Rightarrow> goerror option"

definition train_run :: "('p, 'f) training_world \<Rightarrow> string \<Rightarrow> u64 \<Rightarrow> string \<Rightarrow> string \<Rightarrow> byte list outcome" where
  "train_run w configPath amount chainName dictPath =
     (case LoadTrainingConfig (trw_readFile w) (trw_unmarshal w) (Some configPath) of
        Inl e \<Rightarrow> Exit 1
      | Inr loadedConfig \<Rightarrow>
          bind_outcome (InitDatabase (trw_connect w) (train_dbConfig loadedConfig)) (\<lambda>db.
            case CollectEvents (trw_marshal w) (trw_parseFloat w) (trw_query w db chainName) (trw_sched w) amount of
              Inl e \<Rightarrow> Exit 1
            | Inr events \<Rightarrow>
                (case BuildZstdDict (trw_buildDict w) events of
                   Inl e \<Rightarrow> Exit 1
                 | Inr dict \<Rightarrow> (case trw_writeFile w dictPath dict of Some e \<Rightarrow> Exit 1 | None \<Rightarrow> Done dict))))"

section \<open>Batches\<close>

lemma concat_slices: "concat (map (\<lambda>i. take l (drop (i * l) xs)) [0..<n]) = take (n * l) xs"
proof (induction n)
  case (Suc n)
  then show ?case by (simp add: take_add add.commute [of l])
qed simp

lemma batches_bounds:
  assumes "0 < amount"
  shows "unat amount \<le> batches amount * unat (min amount 100)" "batches amount * unat (min amount 100) < unat amount + 100"
proof -
  have pos: "0 < unat amount" using assms by (simp add: unat_gt_0 word_gt_0)
  have "unat (min amount 100) = min (unat amount) 100"
    by (simp add: min_def word_le_nat_alt)
  moreover have "min (unat amount) 100 = 100 \<or> (min (unat amount) 100 = unat amount \<and> batches amount = 1)"
    using pos by (auto simp: batches_def min_def)
  moreover have "unat amount \<le> batches amount * 100 \<and> batches amount * 100 < unat amount + 100"
    unfolding batches_def by linarith
  ultimately show "unat amount \<le> batches amount * unat (min amount 100)" "batches amount * unat (min amount 100) < unat amount + 100"
    by auto
qed

lemma batch_offset:
  assumes "amount \<le> 250000" and "i < batches amount"
  shows "unat (of_nat i * min amount 100 :: u64) = i * unat (min amount 100)"
    and "i * unat (min amount 100) < 2 ^ 63" and "unat (min amount 100) < 2 ^ 63"
proof -
  have a: "unat amount \<le> 250000" using assms(1) by (simp add: word_le_nat_alt)
  then have i: "i < 2500" using assms(2) by (simp add: batches_def) 
  have m: "unat (min amount 100) \<le> 100" by (simp add: min_def word_le_nat_alt)
  have b: "i * unat (min amount 100) \<le> 2500 * 100" using i m by (intro mult_le_mono) simp_all
  then show "i * unat (min amount 100) < 2 ^ 63" by simp
  show "unat (min amount 100) < 2 ^ 63" using m by simp
  have "unat (of_nat i :: u64) = i" using i by (simp add: unat_of_nat)
  then show "unat (of_nat i * min amount 100 :: u64) = i * unat (min amount 100)"
    using b by (simp add: unat_word_ariths)
qed

lemma offset_decodes: "mapM_result (ToTransaction decode) (map (offset_columns \<circ> tj_data) rs)
    = Inr (map (\<lambda>r. projr (ToTransaction decode (offset_columns (tj_data r)))) rs)"
  by (induction rs) (simp_all add: ToTransaction_def offset_columns_def)

text \<open>A transaction as training sees it, and its sample.\<close>

definition seen :: "tx_join \<Rightarrow> Transaction" where
  "seen r = projr (ToTransaction (\<lambda>_. Inr []) (offset_columns (tj_data r)))"

lemma seen_any: "projr (ToTransaction decode (offset_columns (tj_data r))) = seen r"
  by (simp add: seen_def ToTransaction_def offset_columns_def)

definition sample :: "('f pEvent list \<Rightarrow> goerror + byte list) \<Rightarrow> (string \<Rightarrow> 'f option) \<Rightarrow> Transaction \<Rightarrow> byte list option" where
  "sample marshal parseFloat t =
     (if t_TxEvents t = [] then None
      else case marshal (map (resent_event parseFloat) (t_TxEvents t)) of Inl e \<Rightarrow> None | Inr bs \<Rightarrow> Some bs)"

lemma processEvents_samples: "processEvents marshal pf ts = List.map_filter (sample marshal pf) ts"
  by (induction ts) (auto simp: sample_def map_filter_simps Let_def split: sum.split)

lemma batch_rows:
  assumes "amount \<le> 250000" and "i < batches amount"
  shows "fetchTransactionBatch i (GetTransactionsByOffset decode order None rows) (min amount 100) ts =
    ts @ map seen (take (unat (min amount 100)) (drop (i * unat (min amount 100)) (by_time order rows)))"
  using batch_offset [OF assms]
  by (simp add: fetchTransactionBatch_def GetTransactionsByOffset_def int8_arg_def offset_decodes seen_any Let_def
      del: map_map)

lemma fold_append: "(\<And>i ts. i \<in> set is \<Longrightarrow> f i ts = ts @ g i) \<Longrightarrow> fold f is ts = ts @ concat (map g is)"
  by (induction "is" arbitrary: ts) simp_all

lemma collected_batches:
  assumes "0 < amount" and "amount \<le> 250000" and "schedule sched (batches amount)"
  shows "CollectEvents marshal pf (\<lambda>i. GetTransactionsByOffset decode (order i) None rows) sched amount =
    Inr (List.map_filter (sample marshal pf) (concat (map (\<lambda>i.
      map seen (take (unat (min amount 100)) (drop (i * unat (min amount 100)) (by_time (order i) rows)))) sched)))"
proof -
  have "fold (\<lambda>i. fetchTransactionBatch i (GetTransactionsByOffset decode (order i) None rows) (min amount 100)) sched [] =
    [] @ concat (map (\<lambda>i. map seen (take (unat (min amount 100)) (drop (i * unat (min amount 100)) (by_time (order i) rows)))) sched)"
    using schedule_set [OF assms(3)] by (intro fold_append batch_rows [OF assms(2)]) auto
  moreover have "amount \<noteq> 0" "\<not> 250000 < amount" using assms(1,2) by auto
  ultimately show ?thesis by (simp add: CollectEvents_def processEvents_samples Let_def)
qed

lemma mset_map_filter_cong: "mset xs = mset ys \<Longrightarrow> mset (List.map_filter f xs) = mset (List.map_filter f ys)"
  by (simp add: List.map_filter_def mset_filter)

lemma mset_concat_cong: "mset is = mset js \<Longrightarrow> mset (concat (map g is)) = mset (concat (map g js))"
  by (metis mset_concat mset_map sum_mset_sum_list)

text \<open>Distinct times leave one order.\<close>

lemma by_time_unique:
  assumes "distinct (map (ft_Timestamp \<circ> tj_data) rows)" and "mset (order rows) = mset rows"
  shows "by_time order rows = by_time id rows"
proof -
  let ?k = "\<lambda>r. ft_Timestamp (tj_data r)"
  have inj: "inj_on ?k (set rows)" using assms(1) by (simp add: distinct_map comp_def)
  have sets: "set (order rows) = set rows" by (rule mset_eq_setD [OF assms(2)])
  have dist: "distinct (map ?k xs)" if "mset xs = mset rows" for xs
  proof -
    have "mset (map ?k xs) = mset (map ?k rows)" using that by simp
    then show ?thesis using assms(1) by (metis comp_def mset_eq_imp_distinct_iff map_eq_conv)
  qed
  have "map ?k (sort_key ?k (order rows)) = map ?k (sort_key ?k rows)"
  proof (rule sorted_distinct_set_unique)
    show "distinct (map ?k (sort_key ?k (order rows)))" "distinct (map ?k (sort_key ?k rows))"
      by (rule dist, simp add: assms(2))+
  qed (simp_all add: sets)
  then have "sort_key ?k (order rows) = sort_key ?k rows"
    by (rule map_inj_on) (simp add: sets inj)
  then show ?thesis by (simp add: by_time_def)
qed

section \<open>Properties\<close>

text \<open>C35: the samples are, in some order, those of the newest transactions: when the times are distinct, whatever
  order the goroutines run in, the collection takes the newest \<open>n\<close> transactions, where \<open>n\<close> is the amount rounded up
  to whole batches, and turns each with native events into one sample.\<close>
theorem training_samples:
  assumes "0 < amount" and "amount \<le> 250000" and "schedule sched (batches amount)"
    and "distinct (map (ft_Timestamp \<circ> tj_data) rows)" and "\<forall>i. mset (order i rows) = mset rows"
  shows "\<exists>samples n. CollectEvents marshal pf (\<lambda>i. GetTransactionsByOffset decode (order i) None rows) sched amount = Inr samples
    \<and> mset samples = mset (List.map_filter (sample marshal pf) (map seen (take n (by_time id rows))))
    \<and> unat amount \<le> n \<and> n < unat amount + 100"
proof -
  let ?l = "unat (min amount 100)" and ?n = "batches amount"
  have one: "by_time (order i) rows = by_time id rows" for i
    using assms(5) by (intro by_time_unique [OF assms(4)]) simp
  have "mset (concat (map (\<lambda>i. map seen (take ?l (drop (i * ?l) (by_time (order i) rows)))) sched))
      = mset (concat (map (\<lambda>i. map seen (take ?l (drop (i * ?l) (by_time id rows)))) [0..<?n]))"
    unfolding one using assms(3) by (intro mset_concat_cong) (simp add: schedule_def)
  also have "concat (map (\<lambda>i. map seen (take ?l (drop (i * ?l) (by_time id rows)))) [0..<?n])
      = map seen (take (?n * ?l) (by_time id rows))"
    unfolding concat_slices [symmetric] by (simp add: map_concat comp_def)
  finally have "mset (concat (map (\<lambda>i. map seen (take ?l (drop (i * ?l) (by_time (order i) rows)))) sched))
      = mset (map seen (take (?n * ?l) (by_time id rows)))" .
  from mset_map_filter_cong [OF this] batches_bounds [OF assms(1)] show ?thesis
    unfolding collected_batches [OF assms(1-3)] by blast
qed

text \<open>C34: a sample is what the indexer itself would compress: a transaction that was stored natively gives the bytes
  that \<open>serializeEvent\<close> makes of the events of the chain; one that was stored compressed gives none.\<close>
theorem sample_is_stored_form:
  assumes "EventSolver marshal pf encodeAll tx useCompressed = Inr er"
    and "ToTransaction decode (offset_columns (row_as_read er f)) = Inr t"
  shows "sample marshal pf t =
    (if IsNative er \<and> tx_GetEvents (Some tx) \<noteq> [] then
       (case serializeEvent marshal pf (tx_GetEvents (Some tx)) of Inl e \<Rightarrow> None | Inr bs \<Rightarrow> Some bs)
     else None)"
proof -
  have again: "map (resent_event pf \<circ> native_event) evs = map (proto_event pf) evs" for evs
    by (simp add: resent_event_def native_event_def proto_event_def comp_def)
  show ?thesis
    using assms
    by (auto simp: EventSolver_def row_as_read_def ToTransaction_def offset_columns_def GetNativeEvents_def
        IsNative_def sample_def serializeEvent_def tx_GetEvents_def again Let_def split: if_splits)
qed

text \<open>Without a tie-break the batches need not fit together: when the transactions have the same time,
  two statements may each begin with the same rows, and the others are never read.\<close>

lemma same_time: "(\<And>r. r \<in> set xs \<Longrightarrow> ft_Timestamp (tj_data r) = t) \<Longrightarrow> sort_key (\<lambda>r. ft_Timestamp (tj_data r)) xs = xs"
  by (rule sort_key_id_if_sorted) (auto simp: sorted_wrt_map intro: sorted_wrt_mono_rel [of _ "\<lambda>_ _. True"])

definition same_time_rows :: "nat \<Rightarrow> tx_join list" where
  "same_time_rows n = map (\<lambda>i. \<lparr>tj_hash = [of_nat i], tj_data =
     \<lparr>ft_TxHash = encode_base64 StdEncoding [of_nat i], ft_Timestamp = 0, ft_BlockHeight = 7, ft_TxEvents = [],
      ft_TxEventsCompressed = [], ft_CompressionOn = False, ft_GasUsed = 0, ft_GasWanted = 0, ft_FeeAmount = [],
      ft_FeeDenom = [], ft_MsgTypes = [], ft_Success = True, ft_ErrorLog = None\<rparr>\<rparr>) [0..<n]"

theorem offset_batches_repeat:
  "\<exists>order :: nat \<Rightarrow> tx_join list \<Rightarrow> tx_join list. (\<forall>i rows. mset (order i rows) = mset rows)
     \<and> length (same_time_rows 200) = 200 \<and> distinct (map tj_hash (same_time_rows 200))
     \<and> (\<exists>first second. GetTransactionsByOffset decode (order 0) None (same_time_rows 200) 100 0 = Inr first
          \<and> GetTransactionsByOffset decode (order 1) None (same_time_rows 200) 100 100 = Inr second
          \<and> length first = 100 \<and> second = rev first)"
proof -
  define order :: "nat \<Rightarrow> tx_join list \<Rightarrow> tx_join list" where "order = (\<lambda>i. if i = 0 then rev else id)"
  let ?rows = "same_time_rows 200"
  have perm: "\<forall>i rows. mset (order i rows) = mset rows" by (simp add: order_def)
  have "inj_on (of_nat :: nat \<Rightarrow> byte) {0..<200}"
    by (rule inj_on_inverseI [where g = unat]) (simp add: unat_of_nat)
  then have dist: "distinct (map tj_hash ?rows)" by (simp add: same_time_rows_def distinct_map comp_def inj_on_def)
  have time: "ft_Timestamp (tj_data r) = 0" if "r \<in> set (order i ?rows)" for r i
    using that by (cases "i = 0") (auto simp: order_def same_time_rows_def)
  have t: "by_time (order i) ?rows = rev (order i ?rows)" for i
    unfolding by_time_def by (subst same_time [OF time]) simp_all
  have batch: "GetTransactionsByOffset decode (order i) None ?rows 100 o' =
      Inr (map seen (take 100 (drop (unat o') (rev (order i ?rows)))))" if "unat o' < 2 ^ 63" for i o'
    using that by (simp add: GetTransactionsByOffset_def int8_arg_def offset_decodes seen_any t del: map_map)
  have len: "length ?rows = 200" by (simp add: same_time_rows_def)
  have "take 100 (drop 100 (rev ?rows)) = rev (take 100 ?rows)"
    by (simp add: drop_rev len)
  then have b1: "GetTransactionsByOffset decode (order 1) None ?rows 100 100 = Inr (rev (map seen (take 100 ?rows)))"
    using batch [of 100 1] by (simp add: order_def rev_map)
  have b0: "GetTransactionsByOffset decode (order 0) None ?rows 100 0 = Inr (map seen (take 100 ?rows))"
    using batch [of 0 0] by (simp add: order_def)
  show ?thesis
    by (rule exI [of _ order], intro conjI perm len dist) (intro exI conjI, rule b0, rule b1, simp_all add: len)
qed

text \<open>The history of the dictionary is the beginning of all samples, cut at its greatest size.\<close>

lemma gather_history_take:
  "length h < maxHistorySize \<Longrightarrow> take maxHistorySize (gather_history es h) = take maxHistorySize (h @ concat es)"
  by (induction es arbitrary: h) (auto simp: Let_def)

lemma BuildZstdDict_history: "BuildZstdDict buildDict events = buildDict 1 events (take maxHistorySize (concat events))"
proof -
  have "take maxHistorySize (gather_history events []) = take maxHistorySize (concat events)"
    using gather_history_take [of "[]" events] by (simp add: maxHistorySize_def)
  then show ?thesis by (auto simp: BuildZstdDict_def Let_def)
qed

definition sample_row :: "byte \<Rightarrow> tx_join" where
  "sample_row b = \<lparr>tj_hash = [b], tj_data =
     \<lparr>ft_TxHash = encode_base64 StdEncoding [b], ft_Timestamp = uint b, ft_BlockHeight = 7,
      ft_TxEvents = map native_event sample_events, ft_TxEventsCompressed = [], ft_CompressionOn = False, ft_GasUsed = 0,
      ft_GasWanted = 0, ft_FeeAmount = [], ft_FeeDenom = [], ft_MsgTypes = [], ft_Success = True, ft_ErrorLog = None\<rparr>\<rparr>"

lemma training_samples_witness:
  "\<exists>samples. CollectEvents sample_marshal (\<lambda>_. None)
      (\<lambda>i. GetTransactionsByOffset (\<lambda>_. Inr []) rev None [sample_row 1, sample_row 2]) [0] 2 = Inr samples
    \<and> samples = [[1], [1]]"
proof -
  let ?rows = "[sample_row 1, sample_row 2]"
  have "schedule [0] (batches 2)" by (simp add: schedule_def batches_def)
  moreover have "distinct (map (ft_Timestamp \<circ> tj_data) ?rows)" by (simp add: sample_row_def)
  ultimately obtain samples n
    where c: "CollectEvents sample_marshal (\<lambda>_. None) (\<lambda>i. GetTransactionsByOffset (\<lambda>_. Inr []) rev None ?rows) [0] 2 = Inr samples"
      and m: "mset samples = mset (List.map_filter (sample sample_marshal (\<lambda>_. None)) (map seen (take n (by_time id ?rows))))"
      and n: "unat (2 :: u64) \<le> n"
    using training_samples [of 2 "[0]" ?rows "\<lambda>i. rev" sample_marshal "\<lambda>_. None" "\<lambda>_. Inr []"] by auto
  have again: "map (resent_event (\<lambda>_. None) \<circ> native_event) sample_events = map (proto_event (\<lambda>_. None)) sample_events"
    by (simp add: resent_event_def native_event_def proto_event_def comp_def)
  have "sample_events \<noteq> []" by (simp add: sample_events_def)
  then have "sample sample_marshal (\<lambda>_. None) (seen (sample_row b)) = Some [1]" for b
    by (simp add: sample_def seen_def ToTransaction_def offset_columns_def sample_row_def sample_marshal_def again)
  moreover have "set (by_time id ?rows) = set ?rows" "length (by_time id ?rows) = 2"
    unfolding by_time_def set_rev length_rev set_sort length_sort by simp_all
  moreover from this n have "take n (by_time id ?rows) = by_time id ?rows" by simp
  moreover have "List.map_filter f xs = replicate (length xs) y" if "\<forall>x\<in>set xs. f x = Some y" for f :: "Transaction \<Rightarrow> byte list option" and xs y
    using that by (induction xs) (simp_all add: map_filter_simps)
  ultimately have "mset samples = mset (replicate 2 [1])" using m by simp
  then have "length samples = 2" "\<forall>x\<in>set samples. x = [1]"
    using mset_eq_length [of samples "replicate 2 [1]"] mset_eq_setD [of samples "replicate 2 [1]"] by simp_all
  then have "samples = replicate 2 [1]" using replicate_length_same [of samples "[1]"] by simp
  with c show ?thesis by (simp add: numeral_2_eq_2)
qed

lemma sample_is_stored_form_witness:
  "\<exists>er t. EventSolver sample_marshal (\<lambda>_. None) id sample_response False = Inr er
     \<and> ToTransaction (\<lambda>_. Inr []) (offset_columns (row_as_read er (tj_data (sample_row 1)))) = Inr t
     \<and> sample sample_marshal (\<lambda>_. None) t = Some [1]"
proof -
  obtain er where er: "EventSolver sample_marshal (\<lambda>_. None) id sample_response False = Inr er" "IsNative er"
    by (simp add: EventSolver_def IsNative_def Let_def)
  obtain t where t: "ToTransaction (\<lambda>_. Inr []) (offset_columns (row_as_read er (tj_data (sample_row 1)))) = Inr t"
    by (simp add: ToTransaction_def offset_columns_def)
  have "tx_GetEvents (Some sample_response) = sample_events" "sample_events \<noteq> []"
    "serializeEvent sample_marshal (\<lambda>_. None) sample_events = Inr [1]"
    by (simp_all add: tx_GetEvents_def sample_response_def serializeEvent_def sample_marshal_def)
      (simp add: sample_events_def)
  with er t sample_is_stored_form [OF er(1) t] show ?thesis by auto
qed

end
