(* ===== verification/Generator.thy ===== *)
theory Generator
  imports Complex_Main Events Decoder Base64 "HOL-Library.State_Monad"
begin

text \<open>
  The generator of synthetic transactions (\<open>pkgs/generator\<close>). Every method draws from the generator's
  own source or from the one of its crypto generator, so it is a state monad over the generator; keys
  come from the randomness of the operating system, which is threaded as a field. The sources of
  \<open>math/rand\<close>, the keys of secp256k1 and their bech32 texts are libraries and one record of arguments.
  A draw of \<open>Float32\<close> is the exact rational of the float, and so are the constants it is compared with.
\<close>

section \<open>Libraries\<close>

record ('r, 'w) gen_lib =
  gl_NewSource :: "int \<Rightarrow> 'r"
  gl_Intn :: "'r \<Rightarrow> nat \<Rightarrow> nat \<times> 'r"
  gl_Float32 :: "'r \<Rightarrow> rat \<times> 'r"
  gl_Read :: "'r \<Rightarrow> nat \<Rightarrow> byte list \<times> 'r"
  gl_GenPrivKey :: "'w \<Rightarrow> byte list \<times> 'w"
  gl_PubKey :: "byte list \<Rightarrow> byte list"
  gl_Address :: "byte list \<Rightarrow> byte list"
  gl_AddressToBech32 :: "byte list \<Rightarrow> string"
  gl_PubKeyToBech32 :: "byte list \<Rightarrow> string"
  gl_HexEncode :: "byte list \<Rightarrow> string"
  gl_AddressFromBech32 :: "string \<Rightarrow> byte list option"
  gl_PubKeyFromBech32 :: "string \<Rightarrow> byte list option"

text \<open>A float constant: its mantissa over a power of two.\<close>

definition f32 :: "int \<Rightarrow> nat \<Rightarrow> rat" where
  "f32 m e = of_int m / 2 ^ e"

section \<open>Keys\<close>

record KeyPair =
  kp_PrivateKey :: "byte list"
  kp_PublicKey :: "byte list"
  kp_Address :: "byte list"
  kp_AddressBech32 :: string
  kp_PubKeyBech32 :: string
  kp_PrivKeyHex :: string

record ('r, 'w) DataGenerator =
  dg_rand :: 'r
  dg_cryptoRand :: 'r
  dg_keyPairPool :: "KeyPair list"
  dg_entropy :: 'w

type_synonym ('r, 'w, 'a) gen = "(('r, 'w) DataGenerator, 'a) state"

abbreviation ret :: "'a \<Rightarrow> ('s, 'a) state" where
  "ret \<equiv> State_Monad.return"

definition intn :: "('r, 'w) gen_lib \<Rightarrow> nat \<Rightarrow> ('r, 'w, nat) gen" where
  "intn l n = State (\<lambda>g. let (i, r) = gl_Intn l (dg_rand g) n in (i, g\<lparr>dg_rand := r\<rparr>))"

definition float32 :: "('r, 'w) gen_lib \<Rightarrow> ('r, 'w, rat) gen" where
  "float32 l = State (\<lambda>g. let (x, r) = gl_Float32 l (dg_rand g) in (x, g\<lparr>dg_rand := r\<rparr>))"

definition crypto_intn :: "('r, 'w) gen_lib \<Rightarrow> nat \<Rightarrow> ('r, 'w, nat) gen" where
  "crypto_intn l n = State (\<lambda>g. let (i, r) = gl_Intn l (dg_cryptoRand g) n in (i, g\<lparr>dg_cryptoRand := r\<rparr>))"

definition pool :: "('r, 'w, KeyPair list) gen" where
  "pool = State (\<lambda>g. (dg_keyPairPool g, g))"

definition pick :: "('r, 'w) gen_lib \<Rightarrow> 'a list \<Rightarrow> ('r, 'w, 'a) gen" where
  "pick l xs = do { i \<leftarrow> intn l (length xs); ret (xs ! i) }"

text \<open>A key pair from the entropy alone; the seed of the generator plays no part.\<close>

definition key_pair :: "('r, 'w) gen_lib \<Rightarrow> byte list \<Rightarrow> KeyPair" where
  "key_pair l privKey =
     (let pubKey = gl_PubKey l privKey; address = gl_Address l pubKey in
      \<lparr>kp_PrivateKey = privKey, kp_PublicKey = pubKey, kp_Address = address,
       kp_AddressBech32 = gl_AddressToBech32 l address, kp_PubKeyBech32 = gl_PubKeyToBech32 l pubKey,
       kp_PrivKeyHex = gl_HexEncode l privKey\<rparr>)"

definition GenerateKeyPair :: "('r, 'w) gen_lib \<Rightarrow> 'w \<Rightarrow> KeyPair \<times> 'w" where
  "GenerateKeyPair l w = (let (privKey, w') = gl_GenPrivKey l w in (key_pair l privKey, w'))"

primrec GenerateKeyPairPool :: "('r, 'w) gen_lib \<Rightarrow> nat \<Rightarrow> 'w \<Rightarrow> KeyPair list \<times> 'w" where
  "GenerateKeyPairPool l 0 w = ([], w)"
| "GenerateKeyPairPool l (Suc n) w =
     (let (k, w') = GenerateKeyPair l w; (ks, w'') = GenerateKeyPairPool l n w' in (k # ks, w''))"

definition newDataGeneratorWithSeed :: "('r, 'w) gen_lib \<Rightarrow> nat \<Rightarrow> int \<Rightarrow> 'w \<Rightarrow> ('r, 'w) DataGenerator" where
  "newDataGeneratorWithSeed l n seed w =
     (let (keyPairPool, w') = GenerateKeyPairPool l n w in
      \<lparr>dg_rand = gl_NewSource l seed, dg_cryptoRand = gl_NewSource l seed, dg_keyPairPool = keyPairPool, dg_entropy = w'\<rparr>)"

definition new_key :: "('r, 'w) gen_lib \<Rightarrow> ('r, 'w, KeyPair) gen" where
  "new_key l = State (\<lambda>g. let (k, w) = GenerateKeyPair l (dg_entropy g) in (k, g\<lparr>dg_entropy := w\<rparr>))"

definition GenerateAuthenticAddress :: "('r, 'w) gen_lib \<Rightarrow> ('r, 'w, string) gen" where
  "GenerateAuthenticAddress l = do { k \<leftarrow> new_key l; ret (kp_AddressBech32 k) }"

definition GenerateAuthenticPubKey :: "('r, 'w) gen_lib \<Rightarrow> ('r, 'w, string) gen" where
  "GenerateAuthenticPubKey l = do { k \<leftarrow> new_key l; ret (kp_PubKeyBech32 k) }"

definition AddressFromPool :: "('r, 'w) gen_lib \<Rightarrow> KeyPair list \<Rightarrow> ('r, 'w, string) gen" where
  "AddressFromPool l ks =
     (if length ks = 0 then GenerateAuthenticAddress l
      else do { i \<leftarrow> crypto_intn l (length ks); ret (kp_AddressBech32 (ks ! i)) })"

definition PubKeyFromPool :: "('r, 'w) gen_lib \<Rightarrow> KeyPair list \<Rightarrow> ('r, 'w, string) gen" where
  "PubKeyFromPool l ks =
     (if length ks = 0 then GenerateAuthenticPubKey l
      else do { i \<leftarrow> crypto_intn l (length ks); ret (kp_PubKeyBech32 (ks ! i)) })"

definition GenerateAddress :: "('r, 'w) gen_lib \<Rightarrow> ('r, 'w, string) gen" where
  "GenerateAddress l = do { ks \<leftarrow> pool; AddressFromPool l ks }"

definition GeneratePubKey :: "('r, 'w) gen_lib \<Rightarrow> ('r, 'w, string) gen" where
  "GeneratePubKey l = do { ks \<leftarrow> pool; PubKeyFromPool l ks }"

definition GetRandomKeyPair :: "('r, 'w) gen_lib \<Rightarrow> ('r, 'w, KeyPair) gen" where
  "GetRandomKeyPair l = do { ks \<leftarrow> pool; if length ks = 0 then new_key l else pick l ks }"

definition GetAllBech32Addresses :: "('r, 'w) DataGenerator \<Rightarrow> string list" where
  "GetAllBech32Addresses g = map kp_AddressBech32 (dg_keyPairPool g)"

definition ValidateAddress :: "('r, 'w) gen_lib \<Rightarrow> string \<Rightarrow> bool" where
  "ValidateAddress l address =
     (if length address \<noteq> 40 \<or> take 2 address \<noteq> ''g1'' then False else gl_AddressFromBech32 l address \<noteq> None)"

definition ValidatePubKey :: "('r, 'w) gen_lib \<Rightarrow> string \<Rightarrow> bool" where
  "ValidatePubKey l pubkey =
     (let expectedPrefix = ''gpub1pgfj7ard9eg82cjtv4u4xetrwqer2dntxyfzxz3pq'' in
      if length pubkey < length expectedPrefix \<or> take (length expectedPrefix) pubkey \<noteq> expectedPrefix then False
      else gl_PubKeyFromBech32 l pubkey \<noteq> None)"

definition GenerateSignature :: "('r, 'w) gen_lib \<Rightarrow> ('r, 'w, byte list) gen" where
  "GenerateSignature l = State (\<lambda>g. let (bs, r) = gl_Read l (dg_cryptoRand g) 64 in (bs, g\<lparr>dg_cryptoRand := r\<rparr>))"

section \<open>Values\<close>

record gen_Amount =
  ga_Amount :: i64
  ga_Denom :: string

definition GenerateAmount :: "('r, 'w) gen_lib \<Rightarrow> ('r, 'w, gen_Amount) gen" where
  "GenerateAmount l = do { i \<leftarrow> intn l 10000000000; ret \<lparr>ga_Amount = of_nat (i + 1000), ga_Denom = ''ugnot''\<rparr> }"

definition GenerateAmountString :: "('r, 'w) gen_lib \<Rightarrow> ('r, 'w, string) gen" where
  "GenerateAmountString l = do { a \<leftarrow> GenerateAmount l; ret (FormatInt (ga_Amount a) @ '' ugnot'') }"

definition GenerateBytesValue :: "('r, 'w) gen_lib \<Rightarrow> ('r, 'w, string) gen" where
  "GenerateBytesValue l = do { i \<leftarrow> intn l 50000; ret (show_nat (i + 100) @ '' bytes'') }"

definition GenerateBlockHash :: "('r, 'w) gen_lib \<Rightarrow> ('r, 'w, string) gen" where
  "GenerateBlockHash l = do {
     data \<leftarrow> State_Monad.traverse_list
       (\<lambda>i. do { v \<leftarrow> intn l 1000000; ret (of_nat ((v * 31 + i * 17) mod 256) :: byte) }) [0..<33];
     ret (encode_base64 StdEncoding data) }"

definition packages :: "string list" where
  "packages =
     [''gno.land/r/demo/profile'', ''gno.land/r/demo/board'', ''gno.land/r/demo/users'', ''gno.land/r/gnoland/blog'',
      ''gno.land/r/gnoland/home'', ''gno.land/p/demo/avl'', ''gno.land/p/demo/ufmt'', ''gno.land/r/dex/trade'']"

definition GeneratePackagePath :: "('r, 'w) gen_lib \<Rightarrow> ('r, 'w, string) gen" where
  "GeneratePackagePath l = pick l packages"

definition GenerateFuncName :: "('r, 'w) gen_lib \<Rightarrow> ('r, 'w, string) gen" where
  "GenerateFuncName l = pick l [''Swap'', ''Lend'', ''Borrow'', ''Repay'', ''Deposit'', ''Withdraw'']"

definition arg_length :: "rat \<Rightarrow> nat" where
  "arg_length x =
     (if x \<le> f32 5033165 25 then 12
      else if x > f32 5033165 25 \<and> x \<le> f32 5033165 24 then 24
      else if x > f32 5033165 24 \<and> x \<le> f32 7549747 24 then 36
      else if x > f32 7549747 24 \<and> x \<le> f32 3 2 then 48
      else if x > f32 3 2 \<and> x \<le> f32 7549747 23 then 60
      else if x > f32 7549747 23 \<and> x \<le> f32 4152361 22 then 72
      else if x > f32 4152361 22 \<and> x \<le> f32 16760439 24 then 84
      else if x > f32 16760439 24 \<and> x \<le> 1 then 3000
      else 0)"

definition line_break :: string where
  "line_break = [CHR 0x0A, CHR 0x09]"

definition loremIpsum :: string where
  "loremIpsum =
     ''Lorem ipsum dolor sit amet, consectetur adipiscing elit. '' @ line_break
     @ ''Sed do eiusmod tempor incididunt ut labore et dolore magna aliqua. Ut enim ad minim veniam, '' @ line_break
     @ ''quis nostrud exercitation ullamco laboris nisi ut aliquip ex ea commodo consequat. '' @ line_break
     @ ''Duis aute irure dolor in reprehenderit in voluptate velit esse cillum dolore eu fugiat '' @ line_break
     @ ''nulla pariatur. Excepteur sint occaecat cupidatat non proident, sunt in culpa qui officia '' @ line_break
     @ ''deserunt mollit anim id est laborum.''"

text \<open>The slice panics beyond the end of the text.\<close>

definition args_text :: "nat \<Rightarrow> string outcome" where
  "args_text n =
     (let text = (if n > length loremIpsum then concat (replicate 10 loremIpsum) else loremIpsum)
      in if n > length text then Panic ''slice bounds out of range'' else Done (take n text))"

definition GenerateArgs :: "('r, 'w) gen_lib \<Rightarrow> ('r, 'w, string outcome) gen" where
  "GenerateArgs l = do { x \<leftarrow> float32 l; ret (args_text (arg_length x)) }"

definition GeneratePackageName :: "('r, 'w) gen_lib \<Rightarrow> ('r, 'w, string) gen" where
  "GeneratePackageName l = pick l
     [''package_name'', ''package_name_2'', ''package_name_3'', ''package_name_4'', ''package_name_5'',
      ''package_name_6'', ''package_name_7'', ''package_name_8'', ''package_name_9'', ''package_name_10'']"

definition GeneratePackageFileName :: "('r, 'w) gen_lib \<Rightarrow> ('r, 'w, string list) gen" where
  "GeneratePackageFileName l = do {
     k \<leftarrow> intn l 3;
     State_Monad.traverse_list (\<lambda>_. pick l
       [''package.gno'', ''main.gno'', ''wrapper.gno'', ''module1.gno'', ''module2.gno'', ''module3.gno'', ''module4.gno'',
        ''module5.gno'', ''module6.gno'', ''module7.gno'', ''module8.gno'', ''module9.gno'', ''module10.gno'']) [0..<k + 1] }"

section \<open>Events\<close>

definition text_attribute :: "string \<Rightarrow> string \<Rightarrow> 'f pAttribute" where
  "text_attribute k v = \<lparr>pa_Key = k, pa_Value = Some (StringValue v)\<rparr>"

definition number_attribute :: "string \<Rightarrow> nat \<Rightarrow> 'f pAttribute" where
  "number_attribute k n = \<lparr>pa_Key = k, pa_Value = Some (Int64Value (of_nat n))\<rparr>"

definition gno_event :: "string \<Rightarrow> 'f pAttribute list \<Rightarrow> string option \<Rightarrow> 'f pEvent" where
  "gno_event t attrs pkgPath =
     \<lparr>pe_AtType = ''/tm.GnoEvent'', pe_Type = t, pe_Attributes = attrs, pe_PkgPath = pkgPath\<rparr>"

definition ProfileFieldCreated :: "('r, 'w) gen_lib \<Rightarrow> ('r, 'w, 'f pEvent) gen" where
  "ProfileFieldCreated l = do {
     fieldType \<leftarrow> pick l [''StringField'', ''IntField'', ''BoolField'', ''AddressField''];
     displayName \<leftarrow> pick l [''alice'', ''bob'', ''charlie'', ''noderunner'', ''validator'', ''testuser''];
     n \<leftarrow> intn l 1000;
     ret (gno_event ''ProfileFieldCreated''
       [text_attribute ''FieldType'' fieldType, text_attribute ''DisplayName'' (displayName @ show_nat n)]
       (Some ''gno.land/r/demo/profile'')) }"

definition StorageDeposit :: "('r, 'w) gen_lib \<Rightarrow> ('r, 'w, 'f pEvent) gen" where
  "StorageDeposit l = do {
     deposit \<leftarrow> GenerateAmountString l;
     storage \<leftarrow> GenerateBytesValue l;
     pkgPath \<leftarrow> GeneratePackagePath l;
     ret (gno_event ''StorageDeposit'' [text_attribute ''Deposit'' deposit, text_attribute ''Storage'' storage] (Some pkgPath)) }"

definition Transfer :: "('r, 'w) gen_lib \<Rightarrow> ('r, 'w, 'f pEvent) gen" where
  "Transfer l = do {
     sender \<leftarrow> GenerateAddress l;
     receiver \<leftarrow> GenerateAddress l;
     amount \<leftarrow> GenerateAmountString l;
     h \<leftarrow> intn l 100000;
     ret (gno_event ''Transfer''
       [text_attribute ''from'' sender, text_attribute ''to'' receiver, text_attribute ''amount'' amount,
        number_attribute ''block_height'' h] None) }"

definition BoardCreated :: "('r, 'w) gen_lib \<Rightarrow> ('r, 'w, 'f pEvent) gen" where
  "BoardCreated l = do {
     n \<leftarrow> intn l 10000;
     name \<leftarrow> pick l [''general'', ''development'', ''trading'', ''governance'', ''support''];
     creator \<leftarrow> GenerateAddress l;
     ret (gno_event ''BoardCreated''
       [number_attribute ''BoardID'' n, text_attribute ''Name'' name, text_attribute ''Creator'' creator]
       (Some ''gno.land/r/demo/board'')) }"

definition PostCreated :: "('r, 'w) gen_lib \<Rightarrow> ('r, 'w, 'f pEvent) gen" where
  "PostCreated l = do {
     post \<leftarrow> intn l 100000;
     board \<leftarrow> intn l 10000;
     author \<leftarrow> GenerateAddress l;
     n \<leftarrow> intn l 1000;
     ret (gno_event ''PostCreated''
       [number_attribute ''PostID'' post, number_attribute ''BoardID'' board, text_attribute ''Author'' author,
        text_attribute ''Title'' (''Post Title '' @ show_nat n)] (Some ''gno.land/r/demo/board'')) }"

definition Swap :: "('r, 'w) gen_lib \<Rightarrow> ('r, 'w, 'f pEvent) gen" where
  "Swap l = do {
     n \<leftarrow> intn l 100000;
     amount \<leftarrow> GenerateAmountString l;
     ret (gno_event ''Swap''
       [number_attribute ''SwapPoolID'' n, text_attribute ''FromToken'' ''ugnot'', text_attribute ''ToToken'' ''usdt'',
        text_attribute ''FromAmount'' amount] (Some ''gno.land/r/dex/swap'')) }"

definition eventTypes :: "string list" where
  "eventTypes = [''ProfileFieldCreated'', ''StorageDeposit'', ''Transfer'', ''BoardCreated'', ''PostCreated'', ''Swap'']"

definition eventTemplates :: "('r, 'w) gen_lib \<Rightarrow> string \<rightharpoonup> ('r, 'w, 'f pEvent) gen" where
  "eventTemplates l =
     map_of [(''ProfileFieldCreated'', ProfileFieldCreated l), (''StorageDeposit'', StorageDeposit l),
       (''Transfer'', Transfer l), (''BoardCreated'', BoardCreated l), (''PostCreated'', PostCreated l), (''Swap'', Swap l)]"

text \<open>One event of a random type; the type is always one of the templates.\<close>

definition random_event :: "('r, 'w) gen_lib \<Rightarrow> ('r, 'w, 'f pEvent) gen" where
  "random_event l = do { eventType \<leftarrow> pick l eventTypes; the (eventTemplates l eventType) }"

section \<open>Transactions\<close>

text \<open>A transaction as the library's structure holds it, before it is encoded. A nil message, which
  an address that does not parse leaves, is \<open>None\<close>; calling for the arguments may panic.\<close>

record gen_tx =
  gt_FeeAmount :: i64
  gt_FeeDenom :: string
  gt_GasWanted :: i64
  gt_Memo :: string
  gt_PubKey :: "byte list option"
  gt_Msgs :: "std_msg option list"

definition empty_tx :: gen_tx where
  "empty_tx = \<lparr>gt_FeeAmount = 0, gt_FeeDenom = [], gt_GasWanted = 0, gt_Memo = [], gt_PubKey = None, gt_Msgs = []\<rparr>"

text \<open>\<open>AddressFromString\<close> parses bech32; the address of a message is printed again when it is read.\<close>

definition reparsed :: "('r, 'w) gen_lib \<Rightarrow> string \<Rightarrow> string option" where
  "reparsed l s = map_option (gl_AddressToBech32 l) (gl_AddressFromBech32 l s)"

definition one_coin :: "('r, 'w) gen_lib \<Rightarrow> ('r, 'w, coins) gen" where
  "one_coin l = do { a \<leftarrow> GenerateAmount l; d \<leftarrow> GenerateAmount l; ret [(ga_Denom d, ga_Amount a)] }"

definition gen_package :: "('r, 'w) gen_lib \<Rightarrow> string list \<Rightarrow> ('r, 'w, mem_package) gen" where
  "gen_package l files = do {
     path \<leftarrow> GeneratePackagePath l;
     name \<leftarrow> GeneratePackageName l;
     ret \<lparr>mp_Path = path, mp_Name = name, mp_FileNames = files\<rparr> }"

definition gen_send :: "('r, 'w) gen_lib \<Rightarrow> ('r, 'w, std_msg option) gen" where
  "gen_send l = do {
     f \<leftarrow> GenerateAddress l;
     case reparsed l f of
       None \<Rightarrow> ret None
     | Some fromAddress \<Rightarrow> do {
         t \<leftarrow> GenerateAddress l;
         case reparsed l t of
           None \<Rightarrow> ret None
         | Some toAddress \<Rightarrow> do { c \<leftarrow> one_coin l; ret (Some (BankSend fromAddress toAddress c)) } } }"

definition gen_call :: "('r, 'w) gen_lib \<Rightarrow> ('r, 'w, std_msg option outcome) gen" where
  "gen_call l = do {
     a \<leftarrow> GenerateAddress l;
     case reparsed l a of
       None \<Rightarrow> ret (Done None)
     | Some caller \<Rightarrow> do {
         path \<leftarrow> GeneratePackagePath l;
         func \<leftarrow> GenerateFuncName l;
         args \<leftarrow> GenerateArgs l;
         c \<leftarrow> one_coin l;
         ret (bind_outcome args (\<lambda>a. Done (Some (VmCall caller c path func [a] [])))) } }"

text \<open>A run and a deployment draw the same values in the same order.\<close>

definition gen_package_msg ::
  "(string \<Rightarrow> mem_package \<Rightarrow> coins \<Rightarrow> coins \<Rightarrow> std_msg) \<Rightarrow> ('r, 'w) gen_lib \<Rightarrow> ('r, 'w, std_msg option) gen" where
  "gen_package_msg mk l = do {
     a \<leftarrow> GenerateAddress l;
     case reparsed l a of
       None \<Rightarrow> ret None
     | Some who \<Rightarrow> do {
         fileNames \<leftarrow> GeneratePackageFileName l;
         p \<leftarrow> gen_package l fileNames;
         c \<leftarrow> one_coin l;
         d \<leftarrow> one_coin l;
         ret (Some (mk who p c d)) } }"

definition total_msg :: "('r, 'w, 'a) gen \<Rightarrow> ('r, 'w, 'a outcome) gen" where
  "total_msg m = do { x \<leftarrow> m; ret (Done x) }"

definition genMsgData :: "('r, 'w) gen_lib \<Rightarrow> string \<Rightarrow> ('r, 'w, std_msg option outcome) gen" where
  "genMsgData l transactionType =
     (if transactionType = ''bank_send'' then total_msg (gen_send l)
      else if transactionType = ''vm_msg_call'' then gen_call l
      else if transactionType = ''vm_msg_run'' then total_msg (gen_package_msg VmRun l)
      else if transactionType = ''vm_msg_add_package'' then total_msg (gen_package_msg VmAddPackage l)
      else ret (Done None))"

definition transaction_type :: "('r, 'w) gen_lib \<Rightarrow> ('r, 'w, string) gen" where
  "transaction_type l = do {
     randomNum \<leftarrow> float32 l;
     if randomNum < f32 13421773 25 then ret ''bank_send''
     else if randomNum \<ge> f32 13421773 25 \<and> randomNum < f32 7549747 23 then
       do { rn \<leftarrow> float32 l; ret (if rn \<le> f32 1 1 then ''vm_msg_call'' else ''vm_msg_run'') }
     else if randomNum \<ge> f32 7549747 23 \<and> randomNum < 1 then ret ''vm_msg_add_package''
     else ret ''bank_send'' }"

definition event_count :: "('r, 'w) gen_lib \<Rightarrow> string \<Rightarrow> ('r, 'w, nat) gen" where
  "event_count l transactionType =
     (if transactionType = ''bank_send'' then ret 0
      else do {
        x \<leftarrow> float32 l;
        y \<leftarrow> float32 l;
        if y < f32 13421773 27 then do { k \<leftarrow> intn l 3; ret (k + 3) }
        else ret (if x < f32 5033165 24 then 2 else 1) })"

definition GenerateTransaction :: "('r, 'w) gen_lib \<Rightarrow> ('r, 'w, 'f pEvent list \<times> gen_tx outcome) gen" where
  "GenerateTransaction l = do {
     transactionType \<leftarrow> transaction_type l;
     numEvents \<leftarrow> event_count l transactionType;
     events \<leftarrow> State_Monad.traverse_list (\<lambda>_. random_event l) [0..<numEvents];
     key \<leftarrow> GeneratePubKey l;
     case gl_PubKeyFromBech32 l key of
       None \<Rightarrow> ret (events, Done empty_tx)
     | Some pubKey \<Rightarrow> do {
         fee \<leftarrow> GenerateAmount l;
         denom \<leftarrow> GenerateAmount l;
         msg \<leftarrow> genMsgData l transactionType;
         ret (events, bind_outcome msg (\<lambda>m. Done
           \<lparr>gt_FeeAmount = ga_Amount fee, gt_FeeDenom = ga_Denom denom, gt_GasWanted = 1000000, gt_Memo = ''test memo'',
            gt_PubKey = Some pubKey, gt_Msgs = [m]\<rparr>)) } }"

text \<open>The set for training: the events of each transaction as JSON.\<close>

definition GenerateTrainingDataset ::
  "('f pEvent list \<Rightarrow> byte list) \<Rightarrow> ('r, 'w) gen_lib \<Rightarrow> nat \<Rightarrow> ('r, 'w, byte list list) gen" where
  "GenerateTrainingDataset json l numTransactions =
     State_Monad.traverse_list (\<lambda>_. do { t \<leftarrow> GenerateTransaction l; ret (json (fst t)) }) [0..<numTransactions]"

section \<open>What a generator keeps and gives\<close>

text \<open>From a state with \<open>I\<close> the action gives a value with \<open>P\<close> and keeps \<open>I\<close>.\<close>

definition gives :: "('s \<Rightarrow> bool) \<Rightarrow> ('s, 'a) state \<Rightarrow> ('a \<Rightarrow> bool) \<Rightarrow> bool" where
  "gives I m P \<longleftrightarrow> (\<forall>g. I g \<longrightarrow> P (fst (run_state m g)) \<and> I (snd (run_state m g)))"

lemma gives_ret: "P x \<Longrightarrow> gives I (ret x) P"
  by (simp add: gives_def)

lemma gives_bind: "gives I m Q \<Longrightarrow> (\<And>x. Q x \<Longrightarrow> gives I (f x) P) \<Longrightarrow> gives I (do { x \<leftarrow> m; f x }) P"
  by (auto simp: gives_def split: prod.splits)

lemma givesD: "gives I m P \<Longrightarrow> I g \<Longrightarrow> P (fst (run_state m g))" "gives I m P \<Longrightarrow> I g \<Longrightarrow> I (snd (run_state m g))"
  by (simp_all add: gives_def)

lemma gives_weaken: "gives I m Q \<Longrightarrow> (\<And>x. Q x \<Longrightarrow> P x) \<Longrightarrow> gives I m P"
  by (auto simp: gives_def)

lemma gives_each:
  assumes "\<And>x. x \<in> set xs \<Longrightarrow> gives I (f x) Q"
  shows "gives I (State_Monad.traverse_list f xs) (\<lambda>ys. length ys = length xs \<and> list_all Q ys)"
  using assms
proof (induction xs)
  case (Cons x xs)
  have "gives I (f x) Q" "gives I (State_Monad.traverse_list f xs) (\<lambda>ys. length ys = length xs \<and> list_all Q ys)"
    using Cons by auto
  note one = this
  show ?case unfolding State_Monad.traverse_list.simps
    by (rule gives_bind [OF one(1)], rule gives_bind [OF one(2)], rule gives_ret) simp
qed (simp add: gives_ret)

text \<open>What is documented of the libraries: a draw is below its bound, a float is in the unit interval,
  and parsing inverts printing.\<close>

definition lib_ok :: "('r, 'w) gen_lib \<Rightarrow> bool" where
  "lib_ok l \<longleftrightarrow> (\<forall>r n. 0 < n \<longrightarrow> fst (gl_Intn l r n) < n)
     \<and> (\<forall>r. 0 \<le> fst (gl_Float32 l r) \<and> fst (gl_Float32 l r) < 1)
     \<and> (\<forall>a. gl_AddressFromBech32 l (gl_AddressToBech32 l a) = Some a)
     \<and> (\<forall>k. gl_PubKeyFromBech32 l (gl_PubKeyToBech32 l k) = Some k)"

text \<open>The pool has keys and they are whole.\<close>

definition pool_ok :: "('r, 'w) gen_lib \<Rightarrow> ('r, 'w) DataGenerator \<Rightarrow> bool" where
  "pool_ok l g \<longleftrightarrow> dg_keyPairPool g \<noteq> [] \<and> set (dg_keyPairPool g) \<subseteq> range (key_pair l)"

lemma pool_generated:
  "GenerateKeyPairPool l n w = (ks, w') \<Longrightarrow> length ks = n \<and> set ks \<subseteq> range (key_pair l)"
  by (induction n arbitrary: w ks) (fastforce simp: GenerateKeyPair_def split: prod.splits)+

lemma new_generator_ok: "0 < n \<Longrightarrow> pool_ok l (newDataGeneratorWithSeed l n seed w)"
  using pool_generated [of l n w] by (auto simp: newDataGeneratorWithSeed_def pool_ok_def split: prod.splits)

lemma gives_intn: "lib_ok l \<Longrightarrow> 0 < n \<Longrightarrow> gives (pool_ok l) (intn l n) (\<lambda>i. i < n)"
  by (auto simp: gives_def intn_def lib_ok_def pool_ok_def split: prod.splits) (metis fst_conv)

lemma gives_float32: "lib_ok l \<Longrightarrow> gives (pool_ok l) (float32 l) (\<lambda>x. 0 \<le> x \<and> x < 1)"
  by (auto simp: gives_def float32_def lib_ok_def pool_ok_def split: prod.splits) (metis fst_conv)+

lemma gives_crypto_intn: "lib_ok l \<Longrightarrow> 0 < n \<Longrightarrow> gives (pool_ok l) (crypto_intn l n) (\<lambda>i. i < n)"
  by (auto simp: gives_def crypto_intn_def lib_ok_def pool_ok_def split: prod.splits) (metis fst_conv)

lemma gives_pool: "gives (pool_ok l) pool (\<lambda>ks. ks \<noteq> [] \<and> set ks \<subseteq> range (key_pair l))"
  by (simp add: gives_def pool_def pool_ok_def)

lemma gives_pick: "lib_ok l \<Longrightarrow> xs \<noteq> [] \<Longrightarrow> gives (pool_ok l) (pick l xs) (\<lambda>x. x \<in> set xs)"
  unfolding pick_def by (rule gives_bind [OF gives_intn]) (auto intro: gives_ret)

lemma gives_Address: "lib_ok l \<Longrightarrow> gives (pool_ok l) (GenerateAddress l) (\<lambda>s. reparsed l s = Some s)"
  unfolding GenerateAddress_def AddressFromPool_def
  by (rule gives_bind [OF gives_pool], simp, rule gives_bind [OF gives_crypto_intn])
     (auto intro!: gives_ret simp: reparsed_def lib_ok_def key_pair_def Let_def dest!: nth_mem)

lemma gives_PubKey: "lib_ok l \<Longrightarrow> gives (pool_ok l) (GeneratePubKey l) (\<lambda>s. \<exists>k. gl_PubKeyFromBech32 l s = Some k)"
  unfolding GeneratePubKey_def PubKeyFromPool_def
  by (rule gives_bind [OF gives_pool], simp, rule gives_bind [OF gives_crypto_intn])
     (auto intro!: gives_ret simp: lib_ok_def key_pair_def Let_def dest!: nth_mem)

lemma gives_Amount: "lib_ok l \<Longrightarrow> gives (pool_ok l) (GenerateAmount l) (\<lambda>a. ga_Denom a = ''ugnot'')"
  unfolding GenerateAmount_def by (rule gives_bind [OF gives_intn]) (auto intro: gives_ret)

named_theorems draws \<open>what the parts of a transaction are drawn from\<close>

declare gives_Address [draws] gives_Amount [draws] gives_pick [draws] gives_intn [draws] gives_float32 [draws]

lemma gives_AmountString [draws]: "lib_ok l \<Longrightarrow> gives (pool_ok l) (GenerateAmountString l) (\<lambda>_. True)"
  unfolding GenerateAmountString_def by (rule gives_bind [OF gives_Amount]) (auto intro: gives_ret)

lemma gives_BytesValue [draws]: "lib_ok l \<Longrightarrow> gives (pool_ok l) (GenerateBytesValue l) (\<lambda>_. True)"
  unfolding GenerateBytesValue_def by (rule gives_bind [OF gives_intn]) (auto intro: gives_ret)

lemma gives_PackagePath [draws]: "lib_ok l \<Longrightarrow> gives (pool_ok l) (GeneratePackagePath l) (\<lambda>s. s \<in> set packages)"
  unfolding GeneratePackagePath_def by (rule gives_pick) (simp_all add: packages_def)

lemma gives_BlockHash:
  "lib_ok l \<Longrightarrow> gives (pool_ok l) (GenerateBlockHash l) (\<lambda>s. \<exists>bs. length bs = 33 \<and> s = encode_base64 StdEncoding bs)"
  unfolding GenerateBlockHash_def
  by (rule gives_bind [OF gives_each [where Q = "\<lambda>_. True"]], rule gives_bind [OF gives_intn])
     (auto intro!: gives_ret)

lemma lorem_length: "length loremIpsum = 455"
  by (simp add: loremIpsum_def line_break_def)

lemma arg_length_cases: "x < 1 \<Longrightarrow> arg_length x \<in> {12, 24, 36, 48, 60, 72, 84, 3000}"
  by (simp add: arg_length_def)

text \<open>The text is always long enough.\<close>

lemma args_text_returns: "0 < n \<Longrightarrow> n \<le> 4550 \<Longrightarrow> \<exists>t. args_text n = Done t \<and> length t = n"
  by (auto simp: args_text_def Let_def lorem_length length_concat sum_list_replicate)

lemma gives_Args [draws]: "lib_ok l \<Longrightarrow> gives (pool_ok l) (GenerateArgs l) (\<lambda>r. \<exists>t. r = Done t)"
  unfolding GenerateArgs_def
proof (rule gives_bind [OF gives_float32], assumption, rule gives_ret)
  fix x :: rat
  assume "0 \<le> x \<and> x < 1"
  then have "0 < arg_length x" "arg_length x \<le> 4550" using arg_length_cases [of x] by auto
  then show "\<exists>t. args_text (arg_length x) = Done t" using args_text_returns by blast
qed

lemma gives_FileName [draws]: "lib_ok l \<Longrightarrow> gives (pool_ok l) (GeneratePackageFileName l) (\<lambda>fs. fs \<noteq> [] \<and> length fs \<le> 3)"
  unfolding GeneratePackageFileName_def
  by (rule gives_bind [OF gives_intn], assumption, simp, rule gives_weaken, rule gives_each [where Q = "\<lambda>_. True"])
     (rule gives_weaken, rule gives_pick, auto)

lemma gives_coin [draws]: "lib_ok l \<Longrightarrow> gives (pool_ok l) (one_coin l) (\<lambda>c. length c = 1)"
  unfolding one_coin_def by (rule gives_bind [OF gives_Amount], assumption, rule gives_bind [OF gives_Amount])
    (auto intro: gives_ret)

lemma gives_package [draws]: "lib_ok l \<Longrightarrow> gives (pool_ok l) (gen_package l fs) (\<lambda>p. mp_FileNames p = fs)"
  unfolding gen_package_def GeneratePackageName_def
  by (rule gives_bind [OF gives_PackagePath], assumption, rule gives_bind [OF gives_pick]) (auto intro: gives_ret)

text \<open>The type of a message and the addresses it names.\<close>

definition message_of :: "('r, 'w) gen_lib \<Rightarrow> string \<Rightarrow> std_msg \<Rightarrow> bool" where
  "message_of l label m \<longleftrightarrow> registry_typeName m = Some label
     \<and> list_all (\<lambda>a. reparsed l a = Some a) (codec_addresses m)"

lemma gives_send:
  "lib_ok l \<Longrightarrow> gives (pool_ok l) (gen_send l) (\<lambda>r. \<exists>m. r = Some m \<and> message_of l ''bank_msg_send'' m)"
  unfolding gen_send_def
  by (rule gives_bind [OF gives_Address], assumption, simp, rule gives_bind [OF gives_Address], assumption, simp,
      rule gives_bind [OF gives_coin]) (auto intro!: gives_ret simp: message_of_def)

lemma gives_call:
  "lib_ok l \<Longrightarrow> gives (pool_ok l) (gen_call l) (\<lambda>r. \<exists>m. r = Done (Some m) \<and> message_of l ''vm_msg_call'' m)"
  unfolding gen_call_def GenerateFuncName_def
  by (rule gives_bind [OF gives_Address], assumption, simp, rule gives_bind [OF gives_PackagePath], assumption,
      rule gives_bind [OF gives_pick], assumption, simp, rule gives_bind [OF gives_Args], assumption,
      rule gives_bind [OF gives_coin]) (auto intro!: gives_ret simp: message_of_def)

lemma gives_package_msg:
  assumes "\<And>who p c d. registry_typeName (mk who p c d) = Some label \<and> codec_addresses (mk who p c d) = [who]"
    and "lib_ok l"
  shows "gives (pool_ok l) (gen_package_msg mk l) (\<lambda>r. \<exists>m. r = Some m \<and> message_of l label m)"
  unfolding gen_package_msg_def
  by (rule gives_bind [OF gives_Address [OF assms(2)]], simp, rule gives_bind [OF gives_FileName [OF assms(2)]],
      rule gives_bind [OF gives_package [OF assms(2)]], rule gives_bind [OF gives_coin [OF assms(2)]],
      rule gives_bind [OF gives_coin [OF assms(2)]]) (auto intro!: gives_ret simp: message_of_def assms(1))

lemma gives_total: "gives I m (\<lambda>r. \<exists>x. r = Some x \<and> P x) \<Longrightarrow> gives I (total_msg m) (\<lambda>r. \<exists>x. r = Done (Some x) \<and> P x)"
  unfolding total_msg_def by (rule gives_bind, assumption) (auto intro: gives_ret)

definition kinds :: "string list" where
  "kinds = [''bank_send'', ''vm_msg_call'', ''vm_msg_run'', ''vm_msg_add_package'']"

definition label_of :: "string \<Rightarrow> string" where
  "label_of kind = (if kind = ''bank_send'' then ''bank_msg_send'' else kind)"

lemma gives_MsgData:
  assumes "lib_ok l" and "t \<in> set kinds"
  shows "gives (pool_ok l) (genMsgData l t) (\<lambda>r. \<exists>m. r = Done (Some m) \<and> message_of l (label_of t) m)"
proof -
  note package = gives_total [OF gives_package_msg [OF _ assms(1)]]
  consider "t = ''bank_send''" | "t = ''vm_msg_call''" | "t = ''vm_msg_run''" | "t = ''vm_msg_add_package''"
    using assms(2) by (auto simp: kinds_def)
  then show ?thesis
  proof cases
    case 1
    then show ?thesis using gives_total [OF gives_send [OF assms(1)]] by (simp add: genMsgData_def label_of_def)
  next
    case 2
    then show ?thesis using gives_call [OF assms(1)] by (simp add: genMsgData_def label_of_def)
  next
    case 3
    then show ?thesis using package [of VmRun "''vm_msg_run''"] by (simp add: genMsgData_def label_of_def)
  next
    case 4
    then show ?thesis using package [of VmAddPackage "''vm_msg_add_package''"] by (simp add: genMsgData_def label_of_def)
  qed
qed

lemma gives_type:
  assumes "lib_ok l"
  shows "gives (pool_ok l) (transaction_type l) (\<lambda>t. t \<in> set kinds)"
  unfolding transaction_type_def
  by (rule gives_bind [OF gives_float32 [OF assms]])
     (auto intro!: gives_ret gives_bind [OF gives_float32 [OF assms]] simp: kinds_def)

lemma gives_count:
  assumes "lib_ok l"
  shows "gives (pool_ok l) (event_count l t) (\<lambda>n. if t = ''bank_send'' then n = 0 else 1 \<le> n \<and> n \<le> 5)"
proof (cases "t = ''bank_send''")
  case False
  have "gives (pool_ok l) (do { k \<leftarrow> intn l 3; ret (k + 3) }) (\<lambda>n. 1 \<le> n \<and> n \<le> 5)"
    by (rule gives_bind [OF gives_intn [OF assms]]) (auto intro: gives_ret)
  with False show ?thesis unfolding event_count_def
    by (simp, intro gives_bind [OF gives_float32 [OF assms]]) (auto intro: gives_ret)
qed (simp add: event_count_def gives_ret)

text \<open>Every event is one of the six templates.\<close>

definition template_event :: "'f pEvent \<Rightarrow> bool" where
  "template_event e \<longleftrightarrow> pe_AtType e = ''/tm.GnoEvent'' \<and> pe_Type e \<in> set eventTypes \<and> pe_Attributes e \<noteq> []"

lemma template_gno: "t \<in> set eventTypes \<Longrightarrow> as \<noteq> [] \<Longrightarrow> template_event (gno_event t as p)"
  by (simp add: template_event_def gno_event_def)

lemma gives_template:
  assumes "lib_ok l"
  shows "gives (pool_ok l) (ProfileFieldCreated l) template_event" "gives (pool_ok l) (StorageDeposit l) template_event"
    "gives (pool_ok l) (Transfer l) template_event" "gives (pool_ok l) (BoardCreated l) template_event"
    "gives (pool_ok l) (PostCreated l) template_event" "gives (pool_ok l) (Swap l) template_event"
  unfolding ProfileFieldCreated_def StorageDeposit_def Transfer_def BoardCreated_def PostCreated_def Swap_def
  by (rule gives_bind [OF draws(1) [OF assms]] | simp)?
    (intro gives_bind [OF draws(3) [OF assms]] gives_bind [OF draws(4) [OF assms]] gives_ret template_gno
       gives_bind [OF gives_AmountString [OF assms]] gives_bind [OF gives_BytesValue [OF assms]]
       gives_bind [OF gives_PackagePath [OF assms]] gives_bind [OF gives_Address [OF assms]]; simp add: eventTypes_def)+

lemma gives_random_event:
  assumes "lib_ok l"
  shows "gives (pool_ok l) (random_event l) (template_event :: 'f pEvent \<Rightarrow> bool)"
  unfolding random_event_def
proof (rule gives_bind [OF gives_pick [OF assms]])
  fix t assume "t \<in> set eventTypes"
  then have "t \<in> fst ` set [(''ProfileFieldCreated'', ProfileFieldCreated l :: (_, _, 'f pEvent) gen), (''StorageDeposit'', StorageDeposit l),
       (''Transfer'', Transfer l), (''BoardCreated'', BoardCreated l), (''PostCreated'', PostCreated l), (''Swap'', Swap l)]"
    by (simp add: eventTypes_def)
  then obtain m :: "(_, _, 'f pEvent) gen" where m: "eventTemplates l t = Some m"
    unfolding eventTemplates_def by (metis domD dom_map_of_conv_image_fst)
  have "m \<in> {ProfileFieldCreated l, StorageDeposit l, Transfer l, BoardCreated l, PostCreated l, Swap l}"
    using map_of_SomeD [OF m [unfolded eventTemplates_def]] by auto
  then show "gives (pool_ok l) (the (eventTemplates l t)) (template_event :: 'f pEvent \<Rightarrow> bool)"
    using gives_template [OF assms] by (auto simp only: m option.sel insert_iff empty_iff)
qed (simp add: eventTypes_def)

lemma gives_GenerateTransaction:
  assumes "lib_ok l"
  shows "gives (pool_ok l) (GenerateTransaction l) (\<lambda>(events, tx). \<exists>t m kind. tx = Done t \<and> gt_Msgs t = [Some m]
    \<and> kind \<in> set kinds \<and> message_of l (label_of kind) m \<and> list_all template_event events
    \<and> (if kind = ''bank_send'' then events = [] else 1 \<le> length events \<and> length events \<le> 5))"
  unfolding GenerateTransaction_def
proof (rule gives_bind [OF gives_type [OF assms]], rule gives_bind [OF gives_count [OF assms]],
    rule gives_bind [OF gives_each [OF gives_random_event [OF assms]]], rule gives_bind [OF gives_PubKey [OF assms]])
  fix kind n key and events :: "'c pEvent list"
  assume kind: "kind \<in> set kinds" and n: "if kind = ''bank_send'' then n = 0 else 1 \<le> n \<and> n \<le> 5"
    and ev: "length events = length [0..<n] \<and> list_all template_event events"
    and "\<exists>k. gl_PubKeyFromBech32 l key = Some k"
  then obtain k where k: "gl_PubKeyFromBech32 l key = Some k" by blast
  show "gives (pool_ok l) (case gl_PubKeyFromBech32 l key of None \<Rightarrow> ret (events, Done empty_tx)
     | Some pubKey \<Rightarrow> do {
         fee \<leftarrow> GenerateAmount l;
         denom \<leftarrow> GenerateAmount l;
         msg \<leftarrow> genMsgData l kind;
         ret (events, bind_outcome msg (\<lambda>m. Done
           \<lparr>gt_FeeAmount = ga_Amount fee, gt_FeeDenom = ga_Denom denom, gt_GasWanted = 1000000, gt_Memo = ''test memo'',
            gt_PubKey = Some pubKey, gt_Msgs = [m]\<rparr>)) })
    (\<lambda>(events, tx). \<exists>t m kind. tx = Done t \<and> gt_Msgs t = [Some m]
    \<and> kind \<in> set kinds \<and> message_of l (label_of kind) m \<and> list_all template_event events
    \<and> (if kind = ''bank_send'' then events = [] else 1 \<le> length events \<and> length events \<le> 5))"
    unfolding k option.case
    by (rule gives_bind [OF gives_Amount [OF assms]], rule gives_bind [OF gives_Amount [OF assms]],
        rule gives_bind [OF gives_MsgData [OF assms kind]])
       (use kind n ev in \<open>auto intro!: gives_ret exI [of _ kind]\<close>)
qed

section \<open>Properties\<close>

text \<open>A transaction generated from a pool of whole keys never panics and has exactly one message, of a
  type the decoder supports and with addresses that parse; a bank send has no events, the other kinds have
  one to five, each one of the templates; and the generator keeps its pool.\<close>
theorem generated_transactions:
  fixes events :: "'f pEvent list"
  assumes "lib_ok l" and "pool_ok l g" and "run_state (GenerateTransaction l) g = ((events, tx), g')"
  shows "pool_ok l g' \<and> (\<exists>t m kind. tx = Done t \<and> gt_Msgs t = [Some m]
    \<and> kind \<in> set kinds \<and> message_of l (label_of kind) m \<and> list_all template_event events
    \<and> (if kind = ''bank_send'' then events = [] else 1 \<le> length events \<and> length events \<le> 5))"
  using givesD [OF gives_GenerateTransaction [OF assms(1), where 'c = 'f] assms(2)]
  unfolding assms(3) fst_conv snd_conv prod.case by blast

text \<open>The keys of a generator do not depend on its seed: two generators with one seed agree on their keys
  only if the operating system gives both the same randomness.\<close>
theorem keys_ignore_seed:
  "dg_keyPairPool (newDataGeneratorWithSeed l n seed w) = fst (GenerateKeyPairPool l n w)"
  by (simp add: newDataGeneratorWithSeed_def split: prod.split)

text \<open>Libraries for the witness: sources count up, keys are single bytes.\<close>

definition sample_lib :: "(nat, nat) gen_lib" where
  "sample_lib =
     \<lparr>gl_NewSource = nat, gl_Intn = (\<lambda>r n. (r mod n, Suc r)), gl_Float32 = (\<lambda>r. (0, Suc r)),
      gl_Read = (\<lambda>r n. (replicate n 0, Suc r)), gl_GenPrivKey = (\<lambda>w. ([of_nat w], Suc w)), gl_PubKey = id, gl_Address = id,
      gl_AddressToBech32 = encode_base64 StdEncoding, gl_PubKeyToBech32 = encode_base64 StdEncoding,
      gl_HexEncode = encode_base64 StdEncoding, gl_AddressFromBech32 = decode_base64 StdEncoding False,
      gl_PubKeyFromBech32 = decode_base64 StdEncoding False\<rparr>"

lemma sample_lib_ok: "lib_ok sample_lib"
  by (simp add: lib_ok_def sample_lib_def)

lemma sample_generator_ok: "pool_ok sample_lib (newDataGeneratorWithSeed sample_lib 1 0 0)"
  by (rule new_generator_ok) simp

lemma generated_transactions_witness:
  "\<exists>t m. snd (fst (run_state (GenerateTransaction sample_lib :: (nat, nat, unit pEvent list \<times> gen_tx outcome) gen)
      (newDataGeneratorWithSeed sample_lib 1 0 0))) = Done t \<and> gt_Msgs t = [Some m] \<and> registered m"
proof -
  obtain events tx g' where r: "run_state (GenerateTransaction sample_lib :: (nat, nat, unit pEvent list \<times> gen_tx outcome) gen)
      (newDataGeneratorWithSeed sample_lib 1 0 0) = ((events, tx), g')" by (metis prod.exhaust)
  from generated_transactions [OF sample_lib_ok sample_generator_ok r] r
  show ?thesis by (auto simp: message_of_def registered_def)
qed

end
