(* ===== verification/Synthetic.thy ===== *)
theory Synthetic
  imports Generator Orchestrator_Store
begin

text \<open>
  The synthetic chain (\<open>integration/synthetic\<close>): a query operator that serves generated blocks,
  transactions and commits, the maker of its responses, and the run that feeds them to the orchestrator
  chunk by chunk. The encoding of a transaction, the hash and the global source of \<open>math/rand/v2\<close> are
  libraries. A loop over heights ends only if its last height is not the largest of the type, so it is a
  partial function: a loop that does not end has no value.
\<close>

section \<open>Responses\<close>

record GenBlockInput =
  gbi_Height :: u64
  gbi_ChainID :: string
  gbi_Timestamp :: time
  gbi_TxsRaw :: "string list"
  gbi_ProposerAddress :: string
  gbi_SignedValidators :: "string list"

record 'f GenTransactionInput =
  gti_TxRaw :: string
  gti_TxHash :: string
  gti_Height :: u64
  gti_Events :: "'f pEvent list"

record GenCommitInput =
  gci_Height :: u64
  gci_ChainID :: string
  gci_Timestamp :: time
  gci_ProposerAddress :: string
  gci_SignedValidators :: "string list"

definition no_block :: BlockID where
  "no_block = \<lparr>bid_Hash = [], bid_Parts = \<lparr>pt_Total = [], pt_Hash = []\<rparr>\<rparr>"

definition one_part :: "string \<Rightarrow> BlockID" where
  "one_part hash = \<lparr>bid_Hash = hash, bid_Parts = \<lparr>pt_Total = ''1'', pt_Hash = []\<rparr>\<rparr>"

text \<open>The precommits of a block carry only a validator and its index.\<close>

definition block_precommit :: "nat \<Rightarrow> string \<Rightarrow> Precommit" where
  "block_precommit i validator =
     \<lparr>pc_Type = 0, pc_Height = [], pc_Round = [], pc_BlockID = no_block, pc_Timestamp = zero_time,
      pc_ValidatorAddress = validator, pc_ValidatorIndex = show_nat i, pc_Signature = []\<rparr>"

definition GenerateBlockResponse :: "('r, 'w) gen_lib \<Rightarrow> GenBlockInput \<Rightarrow> ('r, 'w, BlockResponse) gen" where
  "GenerateBlockResponse l input = do {
     blockHash \<leftarrow> GenerateBlockHash l;
     lastBlockHash \<leftarrow> GenerateBlockHash l;
     let precommits = map (\<lambda>(i, validator). Some (block_precommit i validator)) (List.enumerate 0 (gbi_SignedValidators input));
         header = \<lparr>bh_Version = ''1.0.0'', bh_ChainID = gbi_ChainID input, bh_Height = FormatUint (gbi_Height input),
            bh_Time = gbi_Timestamp input, bh_NumTxs = ''0'', bh_TotalTxs = ''0'', bh_AppVersion = ''1.0.0'',
            bh_LastBlockID = one_part lastBlockHash, bh_LastCommitHash = [], bh_DataHash = [],
            bh_ValidatorsHash = [], bh_NextValidatorsHash = [], bh_ConsensusHash = [], bh_AppHash = [],
            bh_LastResultsHash = Some [], bh_ProposerAddress = gbi_ProposerAddress input\<rparr>
     in ret \<lparr>br_Jsonrpc = ''2.0'', br_ID = 1, br_Error = None,
         br_Result = \<lparr>brs_BlockMeta = \<lparr>bm_BlockID = one_part blockHash, bm_Header = header\<rparr>,
           brs_Block = \<lparr>bi_Header = header, bi_Data = \<lparr>bd_Txs = Some (gbi_TxsRaw input)\<rparr>,
             bi_LastCommit = \<lparr>lc_BlockID = one_part lastBlockHash, lc_Precommits = precommits\<rparr>\<rparr>\<rparr>\<rparr> }"

text \<open>\<open>GetStringValue\<close> is empty for an attribute of another type.\<close>

definition GetStringValue :: "'f pAttribute \<Rightarrow> string" where
  "GetStringValue a = (case pa_Value a of Some (StringValue s) \<Rightarrow> s | _ \<Rightarrow> [])"

definition rpc_event :: "'f pEvent \<Rightarrow> RpcEvent" where
  "rpc_event event =
     \<lparr>ev_AtType = pe_AtType event, ev_Type = pe_Type event,
      ev_Attrs = map (\<lambda>a. \<lparr>ea_Key = pa_Key a, ea_Value = GetStringValue a\<rparr>) (pe_Attributes event),
      ev_PkgPath = (case pe_PkgPath event of Some p \<Rightarrow> p | None \<Rightarrow> [])\<rparr>"

definition GenerateTransactionResponse :: "'f GenTransactionInput \<Rightarrow> TxResponse" where
  "GenerateTransactionResponse input =
     \<lparr>tx_Jsonrpc = ''2.0'', tx_ID = 1, tx_Error = None,
      tx_Result = \<lparr>td_Hash = gti_TxHash input, td_Height = FormatUint (gti_Height input), td_Index = 0,
        td_TxResult = \<lparr>tr_ResponseBase =
            \<lparr>rb_Error = None, rb_Data = gti_TxRaw input, rb_Events = map rpc_event (gti_Events input), rb_Log = [], rb_Info = []\<rparr>,
          tr_GasWanted = ''1000000'', tr_GasUsed = ''750000''\<rparr>,
        td_Tx = gti_TxRaw input\<rparr>\<rparr>"

text \<open>Every precommit of a commit is signed with a hash of its own.\<close>

definition commit_precommit ::
  "('r, 'w) gen_lib \<Rightarrow> GenCommitInput \<Rightarrow> string \<Rightarrow> nat \<times> string \<Rightarrow> ('r, 'w, Precommit option) gen" where
  "commit_precommit l input blockHash v = do {
     signature \<leftarrow> GenerateBlockHash l;
     ret (Some \<lparr>pc_Type = 2, pc_Height = FormatUint (gci_Height input), pc_Round = ''0'', pc_BlockID = one_part blockHash,
       pc_Timestamp = gci_Timestamp input, pc_ValidatorAddress = snd v, pc_ValidatorIndex = show_nat (fst v),
       pc_Signature = signature\<rparr>) }"

definition GenerateCommitResponse :: "('r, 'w) gen_lib \<Rightarrow> GenCommitInput \<Rightarrow> ('r, 'w, CommitResponse) gen" where
  "GenerateCommitResponse l input = do {
     blockHash \<leftarrow> GenerateBlockHash l;
     precommits \<leftarrow> State_Monad.traverse_list (commit_precommit l input blockHash) (List.enumerate 0 (gci_SignedValidators input));
     let header = \<lparr>bh_Version = [], bh_ChainID = gci_ChainID input, bh_Height = FormatUint (gci_Height input),
            bh_Time = gci_Timestamp input, bh_NumTxs = [], bh_TotalTxs = [], bh_AppVersion = [], bh_LastBlockID = no_block,
            bh_LastCommitHash = [], bh_DataHash = [], bh_ValidatorsHash = [], bh_NextValidatorsHash = [],
            bh_ConsensusHash = [], bh_AppHash = [], bh_LastResultsHash = Some [], bh_ProposerAddress = gci_ProposerAddress input\<rparr>
     in ret \<lparr>cr_Jsonrpc = ''2.0'', cr_ID = 1, cr_Error = None,
         cr_Result = \<lparr>crs_SignedHeader = \<lparr>sh_Header = header,
           sh_Commit = \<lparr>cm_BlockID = one_part blockHash, cm_Precommits = precommits\<rparr>\<rparr>\<rparr>\<rparr> }"

section \<open>The operator\<close>

record ('r, 'w, 'q) synth_lib =
  sl_gen :: "('r, 'w) gen_lib"
  sl_Float32 :: "'q \<Rightarrow> rat \<times> 'q"
  sl_Int64N :: "'q \<Rightarrow> nat \<Rightarrow> nat \<times> 'q"
  sl_Marshal :: "gen_tx \<Rightarrow> byte list option"
  sl_sha256 :: "byte list \<Rightarrow> byte list"

record ('r, 'w, 'q) SyntheticQueryOperator =
  sq_generator :: "('r, 'w) DataGenerator"
  sq_chainID :: string
  sq_currentHeight :: u64
  sq_signedValidators :: "string list"
  sq_blocks :: "u64 \<rightharpoonup> BlockResponse"
  sq_transactions :: "string \<rightharpoonup> TxResponse"
  sq_commits :: "u64 \<rightharpoonup> CommitResponse"
  sq_rand :: 'q

text \<open>1 September 2025, and one block every five seconds; the product wraps at 64 bits.\<close>

definition baseTimestamp :: time where
  "baseTimestamp = 1756684800 * second"

definition block_time :: "u64 \<Rightarrow> time" where
  "block_time height = baseTimestamp + sint ((height - 1) * 5000000000)"

text \<open>For the heights from the first to the last: the counter wraps, so the last height of the type never ends it.\<close>

partial_function (option) each_height ::
  "(u64 \<Rightarrow> 's \<Rightarrow> 's outcome) \<Rightarrow> u64 \<Rightarrow> u64 \<Rightarrow> 's \<Rightarrow> 's outcome option" where
  "each_height f height toHeight s =
     (if height \<le> toHeight then
        (case f height s of
           Done s' \<Rightarrow> each_height f (height + 1) toHeight s'
         | Panic m \<Rightarrow> Some (Panic m)
         | Exit c \<Rightarrow> Some (Exit c))
      else Some (Done s))"

definition createTransaction ::
  "string \<Rightarrow> u64 \<Rightarrow> string \<Rightarrow> 'f pEvent list \<Rightarrow> ('r, 'w, 'q) SyntheticQueryOperator
   \<Rightarrow> TxResponse \<times> ('r, 'w, 'q) SyntheticQueryOperator" where
  "createTransaction txHash height txRaw txEvents sq =
     (let tx = GenerateTransactionResponse \<lparr>gti_TxRaw = txRaw, gti_TxHash = txHash, gti_Height = height, gti_Events = txEvents\<rparr>
      in (tx, sq\<lparr>sq_transactions := (sq_transactions sq)(txHash \<mapsto> tx)\<rparr>))"

text \<open>The number of transactions of a block; a draw of exactly 0.3, 0.6 or 0.85 falls into the last case.\<close>

definition num_txs :: "rat \<Rightarrow> u64 \<Rightarrow> nat" where
  "num_txs randomVal height =
     (if randomVal < f32 5033165 24 then 0
      else if randomVal > f32 5033165 24 \<and> randomVal < f32 5033165 23 then 1 + unat height mod 2
      else if randomVal > f32 5033165 23 \<and> randomVal < f32 7130317 23 then 3 + unat height mod 3
      else 6 + unat height mod 5)"

text \<open>One generated transaction of a block: its raw text and its response.\<close>

definition synth_tx ::
  "('r, 'w, 'q) synth_lib \<Rightarrow> u64 \<Rightarrow> ('r, 'w, 'q) SyntheticQueryOperator
   \<Rightarrow> ((string \<times> TxResponse) \<times> ('r, 'w, 'q) SyntheticQueryOperator) outcome" where
  "synth_tx l height sq =
     (let ((txEvents :: unit pEvent list, tx), g) = run_state (GenerateTransaction (sl_gen l)) (sq_generator sq) in
      bind_outcome tx (\<lambda>stdTx.
        case sl_Marshal l stdTx of
          None \<Rightarrow> Exit 1
        | Some bz \<Rightarrow>
            (let base64Encoded = encode_base64 StdEncoding bz in
             case decode_base64 StdEncoding False base64Encoded of
               None \<Rightarrow> Exit 1
             | Some txRawBytes \<Rightarrow>
                 (let txHashString = encode_base64 StdEncoding (sl_sha256 l txRawBytes);
                      (txResponse, sq') = createTransaction txHashString height base64Encoded txEvents (sq\<lparr>sq_generator := g\<rparr>)
                  in Done ((base64Encoded, txResponse), sq')))))"

primrec synth_txs ::
  "('r, 'w, 'q) synth_lib \<Rightarrow> u64 \<Rightarrow> nat \<Rightarrow> ('r, 'w, 'q) SyntheticQueryOperator
   \<Rightarrow> ((string \<times> TxResponse) list \<times> ('r, 'w, 'q) SyntheticQueryOperator) outcome" where
  "synth_txs l height 0 sq = Done ([], sq)"
| "synth_txs l height (Suc n) sq =
     bind_outcome (synth_tx l height sq) (\<lambda>(t, sq).
     bind_outcome (synth_txs l height n sq) (\<lambda>(ts, sq). Done (t # ts, sq)))"

definition createSynthBlock ::
  "('r, 'w, 'q) synth_lib \<Rightarrow> u64 \<Rightarrow> ('r, 'w, 'q) SyntheticQueryOperator
   \<Rightarrow> ((BlockResponse \<times> TxResponse list) \<times> ('r, 'w, 'q) SyntheticQueryOperator) outcome" where
  "createSynthBlock l height sq =
     (let (randomVal, q) = sl_Float32 l (sq_rand sq) in
      bind_outcome (synth_txs l height (num_txs randomVal height) (sq\<lparr>sq_rand := q\<rparr>)) (\<lambda>(txs, sq).
        if length (sq_signedValidators sq) = 0 then Panic ''invalid argument to Int64N''
        else
          (let (i, q) = sl_Int64N l (sq_rand sq) (length (sq_signedValidators sq));
               blockInput = \<lparr>gbi_Height = height, gbi_ChainID = sq_chainID sq, gbi_Timestamp = block_time height,
                 gbi_TxsRaw = map fst txs, gbi_ProposerAddress = sq_signedValidators sq ! i,
                 gbi_SignedValidators = sq_signedValidators sq\<rparr>;
               (block, g) = run_state (GenerateBlockResponse (sl_gen l) blockInput) (sq_generator sq)
           in Done ((block, map snd txs),
                sq\<lparr>sq_rand := q, sq_generator := g, sq_blocks := (sq_blocks sq)(height \<mapsto> block)\<rparr>))))"

definition createCommit ::
  "('r, 'w, 'q) synth_lib \<Rightarrow> u64 \<Rightarrow> ('r, 'w, 'q) SyntheticQueryOperator
   \<Rightarrow> (CommitResponse \<times> ('r, 'w, 'q) SyntheticQueryOperator) outcome" where
  "createCommit l height sq =
     (let n = length (sq_signedValidators sq) in
      if n = 0 then Panic ''integer divide by zero''
      else
        (let commitInput = \<lparr>gci_Height = height, gci_ChainID = sq_chainID sq, gci_Timestamp = block_time height,
               gci_ProposerAddress = sq_signedValidators sq ! (unat height mod n), gci_SignedValidators = sq_signedValidators sq\<rparr>;
             (commit, g) = run_state (GenerateCommitResponse (sl_gen l) commitInput) (sq_generator sq)
         in Done (commit, sq\<lparr>sq_generator := g, sq_commits := (sq_commits sq)(height \<mapsto> commit)\<rparr>)))"

definition preGenerateData ::
  "('r, 'w, 'q) synth_lib \<Rightarrow> u64 \<Rightarrow> u64 \<Rightarrow> ('r, 'w, 'q) SyntheticQueryOperator
   \<Rightarrow> ('r, 'w, 'q) SyntheticQueryOperator outcome option" where
  "preGenerateData l = each_height (\<lambda>height sq.
     bind_outcome (createSynthBlock l height sq) (\<lambda>(_, sq).
     bind_outcome (createCommit l height sq) (\<lambda>(_, sq). Done sq)))"

text \<open>The keys of the two generators come from one source of the operating system.\<close>

definition NewSyntheticQueryOperator ::
  "('r, 'w, 'q) synth_lib \<Rightarrow> string \<Rightarrow> u64 \<Rightarrow> u64 \<Rightarrow> 'w \<Rightarrow> 'q
   \<Rightarrow> ('r, 'w, 'q) SyntheticQueryOperator outcome option" where
  "NewSyntheticQueryOperator l chainID fromHeight toHeight w q =
     (let gen = newDataGeneratorWithSeed (sl_gen l) 500 42 w;
          genVal = newDataGeneratorWithSeed (sl_gen l) 50 1337 (dg_entropy gen);
          valAddr = GetAllBech32Addresses genVal
      in preGenerateData l fromHeight toHeight
           \<lparr>sq_generator = gen\<lparr>dg_entropy := dg_entropy genVal\<rparr>, sq_chainID = chainID, sq_currentHeight = toHeight,
            sq_signedValidators = map (\<lambda>i. valAddr ! i) [0..<50],
            sq_blocks = Map.empty, sq_transactions = Map.empty, sq_commits = Map.empty, sq_rand = q\<rparr>)"

section \<open>Its queries\<close>

definition getBlock :: "u64 \<Rightarrow> ('r, 'w, 'q) SyntheticQueryOperator \<Rightarrow> BlockResponse option outcome" where
  "getBlock height sq = (case sq_blocks sq height of Some block \<Rightarrow> Done (Some block) | None \<Rightarrow> Exit 1)"

definition getTransaction :: "string \<Rightarrow> ('r, 'w, 'q) SyntheticQueryOperator \<Rightarrow> TxResponse option outcome" where
  "getTransaction txHash sq = (case sq_transactions sq txHash of Some tx \<Rightarrow> Done (Some tx) | None \<Rightarrow> Exit 1)"

definition getCommit :: "u64 \<Rightarrow> ('r, 'w, 'q) SyntheticQueryOperator \<Rightarrow> CommitResponse option outcome" where
  "getCommit height sq = (case sq_commits sq height of Some commit \<Rightarrow> Done (Some commit) | None \<Rightarrow> Exit 1)"

definition append_found :: "'t option outcome \<Rightarrow> 't option list \<Rightarrow> 't option list outcome" where
  "append_found r xs = bind_outcome r (\<lambda>x. Done (if x \<noteq> None then xs @ [x] else xs))"

definition synth_GetFromToBlocks ::
  "u64 \<Rightarrow> u64 \<Rightarrow> ('r, 'w, 'q) SyntheticQueryOperator \<Rightarrow> BlockResponse option list outcome option" where
  "synth_GetFromToBlocks fromHeight toHeight sq =
     (let diff = toHeight - fromHeight + 1 in
      if diff < 1 then Some (Done [])
      else if 2 ^ 63 \<le> unat diff then Some (Panic ''makeslice: cap out of range'')
      else each_height (\<lambda>height. append_found (getBlock height sq)) fromHeight toHeight [])"

definition synth_GetFromToCommits ::
  "u64 \<Rightarrow> u64 \<Rightarrow> ('r, 'w, 'q) SyntheticQueryOperator \<Rightarrow> CommitResponse option list outcome option" where
  "synth_GetFromToCommits fromHeight toHeight sq =
     (let diff = toHeight - fromHeight + 1 in
      if diff < 1 then Some (Done [])
      else if 2 ^ 63 \<le> unat diff then Some (Panic ''makeslice: cap out of range'')
      else each_height (\<lambda>height commits. bind_outcome (getCommit height sq) (\<lambda>c. Done (commits @ [c]))) fromHeight toHeight [])"

definition synth_GetTransactions ::
  "string list \<Rightarrow> ('r, 'w, 'q) SyntheticQueryOperator \<Rightarrow> TxResponse option list outcome" where
  "synth_GetTransactions txHashes sq =
     (if length txHashes < 1 then Done []
      else foldM_outcome (\<lambda>hash. append_found (getTransaction hash sq)) txHashes [])"

definition synth_GetLatestBlockHeight :: "('r, 'w, 'q) SyntheticQueryOperator \<Rightarrow> goerror + u64" where
  "synth_GetLatestBlockHeight sq = Inr (sq_currentHeight sq)"

definition SetCurrentHeight :: "u64 \<Rightarrow> ('r, 'w, 'q) SyntheticQueryOperator \<Rightarrow> ('r, 'w, 'q) SyntheticQueryOperator" where
  "SetCurrentHeight height sq = sq\<lparr>sq_currentHeight := height\<rparr>"

definition AddBlock ::
  "('r, 'w, 'q) synth_lib \<Rightarrow> ('r, 'w, 'q) SyntheticQueryOperator
   \<Rightarrow> ((BlockResponse \<times> TxResponse list) \<times> ('r, 'w, 'q) SyntheticQueryOperator) outcome" where
  "AddBlock l sq = (let sq' = sq\<lparr>sq_currentHeight := sq_currentHeight sq + 1\<rparr> in createSynthBlock l (sq_currentHeight sq') sq')"

section \<open>The run\<close>

text \<open>The operator as the orchestrator sees it. A query that does not return has no value; the generation
  of its range has not returned either, so a run does not reach it.\<close>

definition returned :: "'a outcome option \<Rightarrow> 'a outcome" where
  "returned r = (case r of Some x \<Rightarrow> x | None \<Rightarrow> Panic ''does not return'')"

definition synth_env :: "task list \<times> task list \<Rightarrow> ('r, 'w, 'q) SyntheticQueryOperator \<Rightarrow> ChunkEnv" where
  "synth_env orders sq =
     \<lparr>ce_GetFromToBlocks = (\<lambda>a b. returned (synth_GetFromToBlocks a b sq)),
      ce_GetFromToCommits = (\<lambda>a b. returned (synth_GetFromToCommits a b sq)),
      ce_GetTransactions = (\<lambda>hashes. synth_GetTransactions hashes sq),
      ce_order1 = fst orders, ce_order2 = snd orders\<rparr>"

abbreviation synth_chunkSize :: u64 where
  "synth_chunkSize \<equiv> 500"

text \<open>One chunk: a fresh operator and a fresh orchestrator. What goes on to the next chunk is the
  randomness and the state of the data processor. The two heights the mocks answer are not read in
  historic mode.\<close>

definition synth_chunk ::
  "nat \<Rightarrow> ('r, 'w, 'q) synth_lib \<Rightarrow> 's Processor \<Rightarrow> task list \<times> task list \<Rightarrow> string \<Rightarrow> u64 \<Rightarrow> u64
   \<Rightarrow> 'w \<times> 'q \<times> 's \<Rightarrow> ('w \<times> 'q \<times> 's) outcome option" where
  "synth_chunk fuel l P orders chainID chunkStart chunkEnd st =
     (let (w, q, s) = st in
      Option.bind (NewSyntheticQueryOperator l chainID chunkStart chunkEnd w q) (\<lambda>r.
        case bind_outcome r (\<lambda>sq. bind_outcome (NewOrchestrator ''historic'' synth_chunkSize chainID) (\<lambda>orch. Done (sq, orch))) of
          Panic m \<Rightarrow> Some (Panic m)
        | Exit c \<Rightarrow> Some (Exit c)
        | Done (sq, orch) \<Rightarrow>
            map_option (\<lambda>r. bind_outcome r (\<lambda>(_, s'). Done (dg_entropy (sq_generator sq), sq_rand sq, s')))
              (HistoricProcess fuel P (sl_sha256 l) (\<lambda>_. synth_env orders sq) (\<lambda>_. False) chunkStart chunkEnd False (orch, s))))"

partial_function (option) synth_chunks ::
  "nat \<Rightarrow> ('r, 'w, 'q) synth_lib \<Rightarrow> 's Processor \<Rightarrow> (nat \<Rightarrow> task list \<times> task list) \<Rightarrow> string \<Rightarrow> u64 \<Rightarrow> nat \<Rightarrow> u64
   \<Rightarrow> 'w \<times> 'q \<times> 's \<Rightarrow> ('w \<times> 'q \<times> 's) outcome option" where
  "synth_chunks fuel l P orders chainID toHeight n chunkStart st =
     (if chunkStart \<le> toHeight then
        Option.bind (synth_chunk fuel l P (orders n) chainID chunkStart (min (chunkStart + synth_chunkSize - 1) toHeight) st) (\<lambda>r.
          case r of
            Done st' \<Rightarrow> synth_chunks fuel l P orders chainID toHeight (Suc n) (chunkStart + synth_chunkSize) st'
          | Panic m \<Rightarrow> Some (Panic m)
          | Exit c \<Rightarrow> Some (Exit c))
      else Some (Done st))"

record SyntheticIntegrationTestConfig =
  stc_ChainID :: string
  stc_FromHeight :: u64
  stc_ToHeight :: u64

text \<open>The whole test over the tables, once the pool is open. The two caches are loaded at the same time;
  both only read, so here the one of the validators is loaded first.\<close>

definition RunSyntheticIntegrationTest ::
  "nat \<Rightarrow> ('r, 'w, 'q) synth_lib \<Rightarrow> table_store returning_op \<Rightarrow> 'f Codecs \<Rightarrow> Orders \<Rightarrow> (nat \<Rightarrow> nat list)
   \<Rightarrow> (nat \<Rightarrow> task list \<times> task list) \<Rightarrow> SyntheticIntegrationTestConfig \<Rightarrow> 'w \<Rightarrow> 'q \<Rightarrow> indexer_db
   \<Rightarrow> indexer_db dp_state outcome option" where
  "RunSyntheticIntegrationTest fuel l query cd o1 sched orders testConfig w q db =
     (let chainID = stc_ChainID testConfig in
      case bind_outcome (NewAddressCache ix_load chainID True db) (\<lambda>(validatorCache, db).
           bind_outcome (NewAddressCache ix_load chainID False db) (\<lambda>(addrCache, db).
             Done (NewDataProcessor addrCache validatorCache chainID, db))) of
        Panic m \<Rightarrow> Some (Panic m)
      | Exit c \<Rightarrow> Some (Exit c)
      | Done s \<Rightarrow>
          map_option (\<lambda>r. bind_outcome r (\<lambda>(_, _, s'). Done s'))
            (synth_chunks fuel l (ix_processor query cd o1 sched) orders chainID (stc_ToHeight testConfig) 0
               (stc_FromHeight testConfig) (w, q, s)))"

end
