(* ===== verification/Synthetic_Spec.thy ===== *)
theory Synthetic_Spec
  imports Synthetic Processor_Witness
begin

text \<open>
  What the synthetic chain serves: the loop over heights against the list of heights, the invariant of
  the operator that generation keeps, the answers of its queries inside the generated heights, and the
  chunks of a whole run.
\<close>

section \<open>The loop over heights\<close>

definition heights :: "u64 \<Rightarrow> u64 \<Rightarrow> u64 list" where
  "heights a b = map of_nat [unat a..<Suc (unat b)]"

lemma heights_none: "b < a \<Longrightarrow> heights a b = []"
  by (simp add: heights_def word_less_nat_alt)

lemma next_height:
  assumes "a \<le> b" and "b \<noteq> (- 1 :: u64)"
  shows "unat (a + 1) = Suc (unat a)"
proof -
  have "a \<noteq> - 1" using assms word_order.extremum_unique [of b] by blast
  then have "a + 1 \<noteq> 0" by (metis add_eq_0_iff2)
  then show ?thesis using unatSuc [of a] by (simp add: add.commute)
qed

lemma not_last_height: "unat (b :: u64) + 500 < 2 ^ 64 \<Longrightarrow> b \<noteq> - 1"
  by (auto simp: unsigned_minus_1_eq_mask mask_eq_exp_minus_1)

lemma unat_small: "n \<le> unat (b :: u64) \<Longrightarrow> unat (of_nat n :: u64) = n"
  by (rule of_nat_inverse [OF refl]) (use unsigned_less [of b, where 'a = nat] in simp)

lemma heights_next: "a \<le> b \<Longrightarrow> b \<noteq> - 1 \<Longrightarrow> heights a b = a # heights (a + 1) b"
proof -
  assume ab: "a \<le> b" and b: "b \<noteq> (- 1 :: u64)"
  have "unat (a + 1) = Suc (unat a)" using next_height [OF ab b] .
  moreover have "unat a < Suc (unat b)" using ab by (simp add: word_le_nat_alt less_Suc_eq_le)
  ultimately show ?thesis by (simp add: heights_def upt_conv_Cons del: upt_Suc)
qed

lemma set_heights: "set (heights a b) = {a..b}"
proof -
  have "h \<in> of_nat ` {unat a..unat b}" if "a \<le> h" "h \<le> b" for h :: u64
    by (rule image_eqI [of _ _ "unat h"]) (use that in \<open>simp_all add: word_le_nat_alt\<close>)
  moreover have "a \<le> of_nat n \<and> of_nat n \<le> b" if "unat a \<le> n" "n \<le> unat b" for n
  proof -
    from that unat_small [of n b] show ?thesis by (simp add: word_le_nat_alt)
  qed
  ultimately show ?thesis by (auto simp: heights_def atLeastLessThanSuc_atLeastAtMost simp del: upt_Suc)
qed

lemma unat_heights: "map unat (heights a b) = [unat a..<Suc (unat b)]"
proof -
  have "map (\<lambda>n. unat (of_nat n :: u64)) [unat a..<Suc (unat b)] = [unat a..<Suc (unat b)]"
    by (rule map_idI) (simp add: unat_small [of _ b] less_Suc_eq_le del: upt_Suc)
  then show ?thesis by (simp add: heights_def comp_def del: upt_Suc)
qed

lemma each_height_fold:
  "b \<noteq> - 1 \<Longrightarrow> each_height f a b s = Some (foldM_outcome f (heights a b) s)"
proof (induction "Suc (unat b) - unat a" arbitrary: a s rule: less_induct)
  case less
  show ?case
  proof (cases "a \<le> b")
    case True
    note h = heights_next [OF True less.prems]
    have "Suc (unat b) - unat (a + 1) < Suc (unat b) - unat a"
      using True next_height [OF True less.prems] by (simp add: word_le_nat_alt)
    note IH = less.hyps [OF this less.prems]
    show ?thesis using True by (simp add: each_height.simps [of f a] h IH split: outcome.split)
  qed (simp add: each_height.simps [of f a] heights_none)
qed

text \<open>Up to the last height of the type the loop does not end, unless a step ends it.\<close>

lemma each_height_endless:
  assumes "\<And>h s. I s \<Longrightarrow> \<exists>s'. f h s = Done s' \<and> I s'" and "I s"
  shows "each_height f a (- 1) s = None"
proof -
  have "f = f \<longrightarrow> I s \<longrightarrow> b \<noteq> - 1" if "each_height f a b s = Some r" for a b s r
  proof (rule each_height.raw_induct [where P = "\<lambda>f' h b s r. f' = f \<longrightarrow> I s \<longrightarrow> b \<noteq> - 1", OF _ that], intro impI notI, goal_cases)
    case (1 loop f' h b s r)
    from assms(1) [OF 1(4), of h] obtain s' where "f h s = Done s'" "I s'" by blast
    with 1 have "loop f (h + 1) (- 1) s' = Some r" by simp
    from 1(1) [OF this] \<open>I s'\<close> show ?case by simp
  qed
  with assms(2) show ?thesis by (cases "each_height f a (- 1) s") auto
qed

section \<open>What the operator keeps\<close>

text \<open>What is documented of the libraries: those of the generator, a draw below its bound, and an encoder
  that knows the registered messages.\<close>

definition synth_lib_ok :: "('r, 'w, 'q) synth_lib \<Rightarrow> bool" where
  "synth_lib_ok l \<longleftrightarrow> lib_ok (sl_gen l)
     \<and> (\<forall>q n. 0 < n \<longrightarrow> fst (sl_Int64N l q n) < n)
     \<and> (\<forall>tx m. gt_Msgs tx = [Some m] \<longrightarrow> registered m \<longrightarrow> (\<exists>bz. sl_Marshal l tx = Some bz))"

definition tx_hash :: "('r, 'w, 'q) synth_lib \<Rightarrow> byte list \<Rightarrow> string" where
  "tx_hash l bz = encode_base64 StdEncoding (sl_sha256 l bz)"

text \<open>A block at its height, of the chain, with a known proposer and a precommit of every validator, whose
  transactions decode to bytes the operator has a response for.\<close>

definition synth_block_ok ::
  "('r, 'w, 'q) synth_lib \<Rightarrow> ('r, 'w, 'q) SyntheticQueryOperator \<Rightarrow> u64 \<Rightarrow> BlockResponse \<Rightarrow> bool" where
  "synth_block_ok l sq h b \<longleftrightarrow>
     block_GetHeight (Some b) = Inr h \<and> block_GetTimestamp (Some b) = block_time h
   \<and> block_GetChainID (Some b) = sq_chainID sq \<and> block_GetProposerAddress (Some b) \<in> set (sq_signedValidators sq)
   \<and> map (map_option pc_ValidatorAddress) (block_GetPrecommits (Some b)) = map Some (sq_signedValidators sq)
   \<and> (\<exists>txs. block_GetTxHashes (Some b) = Some (map (encode_base64 StdEncoding) txs)
        \<and> length txs \<le> 10 \<and> tx_hash l ` set txs \<subseteq> dom (sq_transactions sq))"

definition synth_commit_ok :: "('r, 'w, 'q) SyntheticQueryOperator \<Rightarrow> u64 \<Rightarrow> CommitResponse \<Rightarrow> bool" where
  "synth_commit_ok sq h c \<longleftrightarrow>
     commit_GetHeight (Some c) = Inr h \<and> commit_GetTimestamp (Some c) = block_time h
   \<and> commit_GetProposerAddress (Some c) \<in> set (sq_signedValidators sq)
   \<and> map (map_option pc_ValidatorAddress) (commit_GetSigners (Some c)) = map Some (sq_signedValidators sq)"

definition synth_ok :: "('r, 'w, 'q) synth_lib \<Rightarrow> ('r, 'w, 'q) SyntheticQueryOperator \<Rightarrow> bool" where
  "synth_ok l sq \<longleftrightarrow> pool_ok (sl_gen l) (sq_generator sq) \<and> sq_signedValidators sq \<noteq> []
   \<and> (\<forall>h b. sq_blocks sq h = Some b \<longrightarrow> synth_block_ok l sq h b)
   \<and> (\<forall>h c. sq_commits sq h = Some c \<longrightarrow> synth_commit_ok sq h c)
   \<and> (\<forall>k t. sq_transactions sq k = Some t \<longrightarrow> tx_GetHash (Some t) = k)"

text \<open>Generating transactions only adds responses.\<close>

definition adds_txs :: "('r, 'w, 'q) SyntheticQueryOperator \<Rightarrow> ('r, 'w, 'q) SyntheticQueryOperator \<Rightarrow> bool" where
  "adds_txs sq sq' \<longleftrightarrow> sq_blocks sq' = sq_blocks sq \<and> sq_commits sq' = sq_commits sq \<and> sq_chainID sq' = sq_chainID sq
     \<and> sq_signedValidators sq' = sq_signedValidators sq \<and> sq_currentHeight sq' = sq_currentHeight sq
     \<and> dom (sq_transactions sq) \<subseteq> dom (sq_transactions sq')"

lemma adds_txs_refl: "adds_txs sq sq" and adds_txs_trans: "adds_txs sq1 sq2 \<Longrightarrow> adds_txs sq2 sq3 \<Longrightarrow> adds_txs sq1 sq3"
  by (auto simp: adds_txs_def)

lemma dom_adds: "adds_txs sq sq' \<Longrightarrow> dom (sq_transactions sq) \<subseteq> dom (sq_transactions sq')"
  by (simp add: adds_txs_def)

lemma block_ok_adds: "adds_txs sq sq' \<Longrightarrow> synth_block_ok l sq h b \<Longrightarrow> synth_block_ok l sq' h b"
  unfolding synth_block_ok_def adds_txs_def by (elim conjE exE, simp only: simp_thms) (blast intro: order_trans)

lemma gives_block:
  assumes "lib_ok l"
  shows "gives (pool_ok l) (GenerateBlockResponse l input) (\<lambda>b. block_GetHeight (Some b) = Inr (gbi_Height input)
    \<and> block_GetTimestamp (Some b) = gbi_Timestamp input \<and> block_GetChainID (Some b) = gbi_ChainID input
    \<and> block_GetProposerAddress (Some b) = gbi_ProposerAddress input
    \<and> map (map_option pc_ValidatorAddress) (block_GetPrecommits (Some b)) = map Some (gbi_SignedValidators input)
    \<and> block_GetTxHashes (Some b) = Some (gbi_TxsRaw input))"
proof -
  have precommits: "map (map_option pc_ValidatorAddress \<circ> (\<lambda>(i, v). Some (block_precommit i v))) (List.enumerate n vs)
      = map Some vs" for n vs
    by (induction vs arbitrary: n) (simp_all add: block_precommit_def)
  show ?thesis unfolding GenerateBlockResponse_def Let_def
    by (rule gives_bind [OF gives_BlockHash [OF assms]], rule gives_bind [OF gives_BlockHash [OF assms]], rule gives_ret)
       (simp add: block_GetHeight_def block_GetTimestamp_def block_GetChainID_def block_GetProposerAddress_def
          block_GetPrecommits_def block_GetTxHashes_def precommits)
qed

lemma gives_commit:
  assumes "lib_ok l"
  shows "gives (pool_ok l) (GenerateCommitResponse l input) (\<lambda>c. commit_GetHeight (Some c) = Inr (gci_Height input)
    \<and> commit_GetTimestamp (Some c) = gci_Timestamp input
    \<and> commit_GetProposerAddress (Some c) = gci_ProposerAddress input
    \<and> map (map_option pc_ValidatorAddress) (commit_GetSigners (Some c)) = map Some (gci_SignedValidators input))"
proof -
  have each: "gives (pool_ok l) (State_Monad.traverse_list (commit_precommit l input h) (List.enumerate n vs))
      (\<lambda>ps. map (map_option pc_ValidatorAddress) ps = map Some vs)" for h n vs
  proof (induction vs arbitrary: n)
    case (Cons v vs)
    show ?case unfolding enumerate_simps State_Monad.traverse_list.simps commit_precommit_def
      by (rule gives_bind [OF gives_bind [OF gives_BlockHash [OF assms]]], rule gives_ret [where P = "\<lambda>p. map_option pc_ValidatorAddress p = Some v"], simp)
         (rule gives_bind [OF Cons.IH [unfolded commit_precommit_def]], rule gives_ret, simp)
  qed (simp add: gives_ret)
  show ?thesis unfolding GenerateCommitResponse_def Let_def
    by (rule gives_bind [OF gives_BlockHash [OF assms]], rule gives_bind [OF each], rule gives_ret)
       (simp add: commit_GetHeight_def commit_GetTimestamp_def commit_GetProposerAddress_def commit_GetSigners_def)
qed

section \<open>Generation keeps it\<close>

lemma synth_tx_step:
  assumes "synth_lib_ok l" and "synth_ok l sq"
  shows "\<exists>bz t sq'. synth_tx l h sq = Done ((encode_base64 StdEncoding bz, t), sq')
    \<and> tx_hash l bz \<in> dom (sq_transactions sq') \<and> adds_txs sq sq' \<and> synth_ok l sq'"
proof -
  let ?gen = "GenerateTransaction (sl_gen l) :: (_, _, unit pEvent list \<times> gen_tx outcome) gen"
  obtain ev tx g where r: "run_state ?gen (sq_generator sq) = ((ev, tx), g)" by (metis prod.exhaust)
  have lib: "lib_ok (sl_gen l)" and pool: "pool_ok (sl_gen l) (sq_generator sq)"
    using assms by (simp_all add: synth_lib_ok_def synth_ok_def)
  note gives = gives_GenerateTransaction [OF lib, where 'c = unit]
  have g: "pool_ok (sl_gen l) g" using givesD(2) [OF gives pool] r by simp
  have "\<exists>t m. tx = Done t \<and> gt_Msgs t = [Some m] \<and> registered m"
    using givesD(1) [OF gives pool, unfolded r fst_conv prod.case] by (auto simp: message_of_def registered_def)
  then obtain t m where t: "tx = Done t" "gt_Msgs t = [Some m]" "registered m" by blast
  then obtain bz where bz: "sl_Marshal l t = Some bz" using assms(1) unfolding synth_lib_ok_def by blast
  define sq' where "sq' = snd (createTransaction (tx_hash l bz) h (encode_base64 StdEncoding bz) ev (sq\<lparr>sq_generator := g\<rparr>))"
  have hash: "tx_GetHash (Some (GenerateTransactionResponse i)) = gti_TxHash i" for i :: "unit GenTransactionInput"
    by (simp add: tx_GetHash_def GenerateTransactionResponse_def)
  have adds: "adds_txs sq sq'" and dom: "tx_hash l bz \<in> dom (sq_transactions sq')"
    by (auto simp: sq'_def createTransaction_def Let_def adds_txs_def)
  have "synth_ok l sq'"
    using assms(2) g block_ok_adds [OF adds]
    by (auto simp: synth_ok_def sq'_def createTransaction_def Let_def synth_commit_ok_def hash split: if_splits)
  moreover have "\<exists>t. synth_tx l h sq = Done ((encode_base64 StdEncoding bz, t), sq')"
    using t(1) bz by (simp add: synth_tx_def r sq'_def createTransaction_def Let_def tx_hash_def)
  ultimately show ?thesis using adds dom by blast
qed

lemma synth_txs_step:
  assumes "synth_lib_ok l" and "synth_ok l sq"
  shows "\<exists>bzs ts sq'. synth_txs l h n sq = Done (ts, sq') \<and> map fst ts = map (encode_base64 StdEncoding) bzs \<and> length bzs = n
    \<and> tx_hash l ` set bzs \<subseteq> dom (sq_transactions sq') \<and> adds_txs sq sq' \<and> synth_ok l sq'"
  using assms(2)
proof (induction n arbitrary: sq)
  case 0
  then show ?case by (auto intro: adds_txs_refl)
next
  case (Suc n)
  obtain bz t sq1 where one: "synth_tx l h sq = Done ((encode_base64 StdEncoding bz, t), sq1)"
    "tx_hash l bz \<in> dom (sq_transactions sq1)" "adds_txs sq sq1" "synth_ok l sq1"
    using synth_tx_step [OF assms(1) Suc.prems, of h] by blast
  obtain bzs ts sq2 where rest: "synth_txs l h n sq1 = Done (ts, sq2)" "map fst ts = map (encode_base64 StdEncoding) bzs"
    "length bzs = n" "tx_hash l ` set bzs \<subseteq> dom (sq_transactions sq2)" "adds_txs sq1 sq2" "synth_ok l sq2"
    using Suc.IH [OF one(4)] by blast
  show ?case
    by (rule exI [of _ "bz # bzs"], rule exI [of _ "(encode_base64 StdEncoding bz, t) # ts"], rule exI [of _ sq2])
       (use one(1,2) rest adds_txs_trans [OF one(3) rest(5)] subsetD [OF dom_adds [OF rest(5)]] in \<open>auto simp: subset_iff\<close>)
qed

lemma num_txs_le: "num_txs x h \<le> 10"
proof -
  have "1 + unat h mod 2 \<le> 10" "3 + unat h mod 3 \<le> 10" "6 + unat h mod 5 \<le> 10"
    using mod_less_divisor [of 2 "unat h"] mod_less_divisor [of 3 "unat h"] mod_less_divisor [of 5 "unat h"] by linarith+
  then show ?thesis unfolding num_txs_def by (simp only: split: if_split) simp
qed

lemma createSynthBlock_step:
  assumes "synth_lib_ok l" and "synth_ok l sq"
  shows "\<exists>r sq'. createSynthBlock l h sq = Done (r, sq') \<and> synth_ok l sq'
    \<and> dom (sq_blocks sq') = insert h (dom (sq_blocks sq)) \<and> sq_commits sq' = sq_commits sq
    \<and> sq_chainID sq' = sq_chainID sq \<and> sq_currentHeight sq' = sq_currentHeight sq"
proof -
  obtain x q where x: "sl_Float32 l (sq_rand sq) = (x, q)" by force
  have "synth_ok l (sq\<lparr>sq_rand := q\<rparr>)"
    using assms(2) by (simp add: synth_ok_def synth_block_ok_def synth_commit_ok_def)
  from synth_txs_step [OF assms(1) this, of h "num_txs x h"] obtain bzs ts sq1 where
    txs: "synth_txs l h (num_txs x h) (sq\<lparr>sq_rand := q\<rparr>) = Done (ts, sq1)" "map fst ts = map (encode_base64 StdEncoding) bzs"
      "length bzs = num_txs x h" "tx_hash l ` set bzs \<subseteq> dom (sq_transactions sq1)" "adds_txs (sq\<lparr>sq_rand := q\<rparr>) sq1" "synth_ok l sq1"
    by blast
  define vs where "vs = sq_signedValidators sq1"
  have ne: "vs \<noteq> []" using txs(6) by (simp add: synth_ok_def vs_def)
  obtain i q1 where i: "sl_Int64N l (sq_rand sq1) (length vs) = (i, q1)" by force
  have "i < length vs" using assms(1) ne i by (metis synth_lib_ok_def fst_conv length_greater_0_conv)
  define inp where "inp = \<lparr>gbi_Height = h, gbi_ChainID = sq_chainID sq1, gbi_Timestamp = block_time h,
     gbi_TxsRaw = map fst ts, gbi_ProposerAddress = vs ! i, gbi_SignedValidators = vs\<rparr>"
  obtain b g where b: "run_state (GenerateBlockResponse (sl_gen l) inp) (sq_generator sq1) = (b, g)" by force
  have lib: "lib_ok (sl_gen l)" and pool: "pool_ok (sl_gen l) (sq_generator sq1)"
    using assms(1) txs(6) by (simp_all add: synth_lib_ok_def synth_ok_def)
  note block = givesD [OF gives_block [OF lib] pool, of inp, unfolded b fst_conv snd_conv]
  define sq' where "sq' = sq1\<lparr>sq_rand := q1, sq_generator := g, sq_blocks := (sq_blocks sq1)(h \<mapsto> b)\<rparr>"
  have "createSynthBlock l h sq = Done ((b, map snd ts), sq')"
    using txs(1) i b ne by (simp add: createSynthBlock_def x vs_def [symmetric] inp_def [symmetric] sq'_def)
  moreover have "synth_block_ok l sq' h b"
    using block(1) txs(2-4) \<open>i < length vs\<close> num_txs_le [of x h]
    by (auto simp: synth_block_ok_def sq'_def inp_def vs_def)
  then have "synth_ok l sq'"
    using txs(6) block(2) by (auto simp: synth_ok_def sq'_def synth_block_ok_def synth_commit_ok_def)
  ultimately show ?thesis using txs(5) by (auto simp: sq'_def adds_txs_def)
qed

lemma createCommit_step:
  assumes "synth_lib_ok l" and "synth_ok l sq"
  shows "\<exists>c sq'. createCommit l h sq = Done (c, sq') \<and> synth_ok l sq'
    \<and> dom (sq_commits sq') = insert h (dom (sq_commits sq)) \<and> sq_blocks sq' = sq_blocks sq
    \<and> sq_chainID sq' = sq_chainID sq \<and> sq_currentHeight sq' = sq_currentHeight sq"
proof -
  define vs where "vs = sq_signedValidators sq"
  have lib: "lib_ok (sl_gen l)" and pool: "pool_ok (sl_gen l) (sq_generator sq)" and ne: "vs \<noteq> []"
    using assms by (simp_all add: synth_lib_ok_def synth_ok_def vs_def)
  define inp where "inp = \<lparr>gci_Height = h, gci_ChainID = sq_chainID sq, gci_Timestamp = block_time h,
    gci_ProposerAddress = vs ! (unat h mod length vs), gci_SignedValidators = vs\<rparr>"
  obtain c g where c: "run_state (GenerateCommitResponse (sl_gen l) inp) (sq_generator sq) = (c, g)" by force
  note commit = givesD [OF gives_commit [OF lib] pool, of inp, unfolded c fst_conv snd_conv]
  define sq' where "sq' = sq\<lparr>sq_generator := g, sq_commits := (sq_commits sq)(h \<mapsto> c)\<rparr>"
  have "createCommit l h sq = Done (c, sq')"
    using ne c by (simp add: createCommit_def Let_def vs_def [symmetric] inp_def [symmetric] sq'_def)
  moreover have "synth_commit_ok sq' h c"
    using commit(1) ne by (simp add: synth_commit_ok_def sq'_def inp_def vs_def [symmetric])
  then have "synth_ok l sq'"
    using assms(2) commit(2) by (auto simp: synth_ok_def sq'_def synth_block_ok_def synth_commit_ok_def)
  ultimately show ?thesis by (auto simp: sq'_def)
qed

definition generate_height ::
  "('r, 'w, 'q) synth_lib \<Rightarrow> u64 \<Rightarrow> ('r, 'w, 'q) SyntheticQueryOperator \<Rightarrow> ('r, 'w, 'q) SyntheticQueryOperator outcome" where
  "generate_height l height sq =
     bind_outcome (createSynthBlock l height sq) (\<lambda>(_, sq). bind_outcome (createCommit l height sq) (\<lambda>(_, sq). Done sq))"

lemma preGenerateData_heights: "preGenerateData l = each_height (generate_height l)"
  by (simp add: preGenerateData_def generate_height_def [abs_def])

lemma generate_height_step:
  assumes "synth_lib_ok l" and "synth_ok l sq"
  shows "\<exists>sq'. generate_height l h sq = Done sq' \<and> synth_ok l sq'
    \<and> dom (sq_blocks sq') = insert h (dom (sq_blocks sq)) \<and> dom (sq_commits sq') = insert h (dom (sq_commits sq))
    \<and> sq_chainID sq' = sq_chainID sq \<and> sq_currentHeight sq' = sq_currentHeight sq"
proof -
  obtain r sq1 where b: "createSynthBlock l h sq = Done (r, sq1)" "synth_ok l sq1"
    "dom (sq_blocks sq1) = insert h (dom (sq_blocks sq))" "sq_commits sq1 = sq_commits sq"
    "sq_chainID sq1 = sq_chainID sq" "sq_currentHeight sq1 = sq_currentHeight sq"
    using createSynthBlock_step [OF assms, of h] by blast
  from createCommit_step [OF assms(1) b(2), of h] b show ?thesis
    by (auto simp: generate_height_def)
qed

lemma generate_heights:
  assumes "synth_lib_ok l" and "synth_ok l sq"
  shows "\<exists>sq'. foldM_outcome (generate_height l) hs sq = Done sq' \<and> synth_ok l sq'
    \<and> dom (sq_blocks sq') = set hs \<union> dom (sq_blocks sq) \<and> dom (sq_commits sq') = set hs \<union> dom (sq_commits sq)
    \<and> sq_chainID sq' = sq_chainID sq \<and> sq_currentHeight sq' = sq_currentHeight sq"
  using assms(2)
proof (induction hs arbitrary: sq)
  case (Cons h hs)
  obtain sq1 where one: "generate_height l h sq = Done sq1" "synth_ok l sq1"
    "dom (sq_blocks sq1) = insert h (dom (sq_blocks sq))" "dom (sq_commits sq1) = insert h (dom (sq_commits sq))"
    "sq_chainID sq1 = sq_chainID sq" "sq_currentHeight sq1 = sq_currentHeight sq"
    using generate_height_step [OF assms(1) Cons.prems, of h] by blast
  from Cons.IH [OF one(2)] one show ?case by auto
qed simp

text \<open>A new operator: fifty validators, and a pool of keys.\<close>

definition new_synth ::
  "('r, 'w, 'q) synth_lib \<Rightarrow> string \<Rightarrow> u64 \<Rightarrow> 'w \<Rightarrow> 'q \<Rightarrow> ('r, 'w, 'q) SyntheticQueryOperator" where
  "new_synth l chainID toHeight w q =
     (let gen = newDataGeneratorWithSeed (sl_gen l) 500 42 w;
          genVal = newDataGeneratorWithSeed (sl_gen l) 50 1337 (dg_entropy gen);
          valAddr = GetAllBech32Addresses genVal
      in \<lparr>sq_generator = gen\<lparr>dg_entropy := dg_entropy genVal\<rparr>, sq_chainID = chainID, sq_currentHeight = toHeight,
          sq_signedValidators = map (\<lambda>i. valAddr ! i) [0..<50],
          sq_blocks = Map.empty, sq_transactions = Map.empty, sq_commits = Map.empty, sq_rand = q\<rparr>)"

lemma NewSynthetic_generates:
  "NewSyntheticQueryOperator l chainID fromH toH w q = each_height (generate_height l) fromH toH (new_synth l chainID toH w q)"
  by (simp add: NewSyntheticQueryOperator_def new_synth_def preGenerateData_heights Let_def)

lemma new_synth_ok: "synth_ok l (new_synth l chainID toH w q)"
proof -
  have "pool_ok (sl_gen l) (newDataGeneratorWithSeed (sl_gen l) 500 42 w)" by (rule new_generator_ok) simp
  then show ?thesis by (simp add: synth_ok_def new_synth_def Let_def pool_ok_def)
qed

lemma NewSynthetic_returns:
  assumes "synth_lib_ok l" and "toH \<noteq> - 1"
  obtains sq where "NewSyntheticQueryOperator l chainID fromH toH w q = Some (Done sq)" "synth_ok l sq"
    "dom (sq_blocks sq) = {fromH..toH}" "dom (sq_commits sq) = {fromH..toH}" "sq_chainID sq = chainID"
    "sq_currentHeight sq = toH"
proof -
  have "dom (sq_blocks (new_synth l chainID toH w q)) = {}" "dom (sq_commits (new_synth l chainID toH w q)) = {}"
    "sq_chainID (new_synth l chainID toH w q) = chainID" "sq_currentHeight (new_synth l chainID toH w q) = toH"
    by (simp_all add: new_synth_def Let_def)
  with generate_heights [OF assms(1) new_synth_ok, of "heights fromH toH" chainID toH w q] that
  show ?thesis by (auto simp: NewSynthetic_generates each_height_fold [OF assms(2)] set_heights)
qed

section \<open>Queries inside the generated heights\<close>

lemma foldM_found:
  assumes "\<And>k. k \<in> set ks \<Longrightarrow> get k = Done (f k)" and "\<And>k. k \<in> set ks \<Longrightarrow> f k \<noteq> None"
  shows "foldM_outcome (\<lambda>k. append_found (get k)) ks acc = Done (acc @ map f ks)"
  using assms by (induction ks arbitrary: acc) (auto simp: append_found_def)

lemma foldM_append:
  assumes "\<And>k. k \<in> set ks \<Longrightarrow> get k = Done (f k)"
  shows "foldM_outcome (\<lambda>k acc. bind_outcome (get k) (\<lambda>x. Done (acc @ [x]))) ks acc = Done (acc @ map f ks)"
  using assms by (induction ks arbitrary: acc) auto

lemma range_diff:
  assumes "a \<le> (b :: u64)" and "unat b - unat a < 2 ^ 63 - 1"
  shows "\<not> b - a + 1 < 1" and "unat (b - a + 1) < 2 ^ 63"
proof -
  have "unat (b - a + 1) = unat b - unat a + 1" using assms by (intro unat_range_length) auto
  with assms show "unat (b - a + 1) < 2 ^ 63" and "\<not> b - a + 1 < 1" by (simp_all add: word_less_nat_alt)
qed

lemma served_blocks:
  assumes "a \<le> b" and "b \<noteq> - 1" and "unat b - unat a < 2 ^ 63 - 1" and "{a..b} \<subseteq> dom (sq_blocks sq)"
  shows "synth_GetFromToBlocks a b sq = Some (Done (map (sq_blocks sq) (heights a b)))"
proof -
  have "foldM_outcome (\<lambda>h. append_found (getBlock h sq)) (heights a b) [] = Done ([] @ map (sq_blocks sq) (heights a b))"
    by (rule foldM_found) (use assms(4) in \<open>auto simp: set_heights getBlock_def split: option.splits\<close>)
  then show ?thesis
    using range_diff [OF assms(1,3)] by (simp add: synth_GetFromToBlocks_def Let_def each_height_fold [OF assms(2)])
qed

lemma served_commits:
  assumes "a \<le> b" and "b \<noteq> - 1" and "unat b - unat a < 2 ^ 63 - 1" and "{a..b} \<subseteq> dom (sq_commits sq)"
  shows "synth_GetFromToCommits a b sq = Some (Done (map (sq_commits sq) (heights a b)))"
proof -
  have "foldM_outcome (\<lambda>h acc. bind_outcome (getCommit h sq) (\<lambda>c. Done (acc @ [c]))) (heights a b) []
      = Done ([] @ map (sq_commits sq) (heights a b))"
    by (rule foldM_append) (use assms(4) in \<open>auto simp: set_heights getCommit_def split: option.splits\<close>)
  then show ?thesis
    using range_diff [OF assms(1,3)] by (simp add: synth_GetFromToCommits_def Let_def each_height_fold [OF assms(2)])
qed

lemma served_transactions:
  assumes "set hashes \<subseteq> dom (sq_transactions sq)"
  shows "synth_GetTransactions hashes sq = Done (map (sq_transactions sq) hashes)"
proof -
  have "foldM_outcome (\<lambda>h. append_found (getTransaction h sq)) hashes [] = Done ([] @ map (sq_transactions sq) hashes)"
    by (rule foldM_found) (use assms in \<open>auto simp: getTransaction_def split: option.splits\<close>)
  then show ?thesis by (auto simp: synth_GetTransactions_def)
qed

text \<open>The transactions of the blocks, as the orchestrator reads them off the blocks.\<close>

abbreviation block_txs :: "('r, 'w, 'q) synth_lib \<Rightarrow> BlockResponse option list \<Rightarrow> BlockTx list" where
  "block_txs l blocks \<equiv> concat (map (block_tx_entries (sl_sha256 l)) blocks)"

lemma block_ok_entries:
  assumes "synth_block_ok l sq h b"
  shows "\<exists>txs. block_GetTxHashes (Some b) = Some (map (encode_base64 StdEncoding) txs)
    \<and> block_tx_entries (sl_sha256 l) (Some b)
      = map (\<lambda>bz. \<lparr>btx_txHash = tx_hash l bz, btx_blockHeight = h, btx_timestamp = block_time h\<rparr>) txs
    \<and> (\<forall>bz\<in>set txs. tx_hash l bz \<in> dom (sq_transactions sq))"
proof -
  obtain txs where txs: "block_GetTxHashes (Some b) = Some (map (encode_base64 StdEncoding) txs)"
    "tx_hash l ` set txs \<subseteq> dom (sq_transactions sq)" "block_GetHeight (Some b) = Inr h" "block_GetTimestamp (Some b) = block_time h"
    using assms unfolding synth_block_ok_def by blast
  then show ?thesis
    by (intro exI [of _ txs] conjI) (auto simp: block_tx_entries_def block_tx_entry_def tx_hash_def comp_def)
qed

lemma entries_known:
  assumes "synth_ok l sq" and "set hs \<subseteq> dom (sq_blocks sq)" and "e \<in> set (block_txs l (map (sq_blocks sq) hs))"
  shows "btx_txHash e \<in> dom (sq_transactions sq) \<and> btx_blockHeight e \<in> set hs \<and> btx_timestamp e = block_time (btx_blockHeight e)"
proof -
  obtain h where h: "h \<in> set hs" "e \<in> set (block_tx_entries (sl_sha256 l) (sq_blocks sq h))" using assms(3) by auto
  then obtain b where "sq_blocks sq h = Some b" "synth_block_ok l sq h b"
    using assms(1,2) unfolding synth_ok_def by blast
  from block_ok_entries [OF this(2)] obtain txs where
    "block_tx_entries (sl_sha256 l) (Some b)
      = map (\<lambda>bz. \<lparr>btx_txHash = tx_hash l bz, btx_blockHeight = h, btx_timestamp = block_time h\<rparr>) txs"
    "\<forall>bz\<in>set txs. tx_hash l bz \<in> dom (sq_transactions sq)" by blast
  moreover from this(1) obtain bz where "bz \<in> set txs"
    "e = \<lparr>btx_txHash = tx_hash l bz, btx_blockHeight = h, btx_timestamp = block_time h\<rparr>"
    using h \<open>sq_blocks sq h = Some b\<close> by auto
  ultimately show ?thesis using h(1) by simp
qed

text \<open>Matching the response of one hash against the entries.\<close>

lemma set_matches:
  assumes "t = Some r" and "tx_GetHash t = k"
  shows "set (case t of None \<Rightarrow> [] | Some r \<Rightarrow> concat (map (\<lambda>e.
      if btx_txHash e = tx_GetHash t then [f t e] else []) es)) = f t ` {e \<in> set es. btx_txHash e = k}"
  using assms by (auto split: if_splits)

lemma set_concat_groups:
  assumes "\<And>e. e \<in> set es \<Longrightarrow> set (F (key e)) = f ` {b \<in> set es. key b = key e}"
  shows "set (concat (map F (map key es))) = f ` set es"
  using assms by force

lemma served_collected:
  assumes "synth_ok l sq" and "set hs \<subseteq> dom (sq_blocks sq)"
  shows "\<exists>txs. collectTransactionsFromBlocks (sl_sha256 l) (\<lambda>hashes. synth_GetTransactions hashes sq) (map (sq_blocks sq) hs) = Done txs
    \<and> set txs = (\<lambda>e. \<lparr>tdt_Response = sq_transactions sq (btx_txHash e), tdt_Timestamp = btx_timestamp e,
        tdt_BlockHeight = btx_blockHeight e\<rparr>) ` set (block_txs l (map (sq_blocks sq) hs))"
proof -
  let ?es = "block_txs l (map (sq_blocks sq) hs)"
  note known = entries_known [OF assms]
  have hash: "tx_GetHash (sq_transactions sq k) = k" if "k \<in> dom (sq_transactions sq)" for k
    using assms(1) that unfolding synth_ok_def by auto
  have get: "synth_GetTransactions (map btx_txHash ?es) sq = Done (map (sq_transactions sq) (map btx_txHash ?es))"
    by (intro served_transactions subsetI, simp only: set_map) (use known in blast)
  show ?thesis
  proof (cases "?es = []")
    case True
    then show ?thesis by (simp only: collectTransactionsFromBlocks_def Let_def) simp
  next
    case False
    let ?data = "\<lambda>t e. \<lparr>tdt_Response = t, tdt_Timestamp = btx_timestamp e, tdt_BlockHeight = btx_blockHeight e\<rparr>"
    have one: "set (case sq_transactions sq (btx_txHash e) of None \<Rightarrow> [] | Some r \<Rightarrow> concat (map (\<lambda>blockTx.
          if btx_txHash blockTx = tx_GetHash (sq_transactions sq (btx_txHash e))
          then [?data (sq_transactions sq (btx_txHash e)) blockTx] else []) ?es))
      = (\<lambda>b. ?data (sq_transactions sq (btx_txHash b)) b) ` {b \<in> set ?es. btx_txHash b = btx_txHash e}" if "e \<in> set ?es" for e
    proof -
      have d: "btx_txHash e \<in> dom (sq_transactions sq)" using known [OF that] by blast
      then obtain r where "sq_transactions sq (btx_txHash e) = Some r" by blast
      from set_matches [OF this hash [OF d], of ?data ?es] show ?thesis by (rule trans) (rule image_cong, simp_all)
    qed
    show ?thesis
      using False get
      by (simp only: collectTransactionsFromBlocks_def Let_def length_0_conv if_False bind_outcome.simps map_map [symmetric])
         (use set_concat_groups [of ?es _ btx_txHash, OF one] in \<open>simp only: map_map comp_def outcome.inject ex_simps simp_thms\<close>)
  qed
qed

section \<open>One chunk of a run\<close>

text \<open>A chunk whose blocks and commits the operator serves and whose transactions are collected.\<close>

definition synth_served :: "('r, 'w, 'q) synth_lib \<Rightarrow> ChunkEnv \<times> u64 \<times> u64 \<Rightarrow> bool" where
  "synth_served l chunk = (case chunk of (env, a, b) \<Rightarrow> \<exists>sq txs.
     synth_ok l sq \<and> {a..b} = dom (sq_blocks sq) \<and> {a..b} = dom (sq_commits sq)
   \<and> ce_GetFromToBlocks env a b = Done (map (sq_blocks sq) (heights a b))
   \<and> ce_GetFromToCommits env a b = Done (map (sq_commits sq) (heights a b))
   \<and> collectTransactionsFromBlocks (sl_sha256 l) (ce_GetTransactions env) (map (sq_blocks sq) (heights a b)) = Done txs
   \<and> set txs = (\<lambda>e. \<lparr>tdt_Response = sq_transactions sq (btx_txHash e), tdt_Timestamp = btx_timestamp e,
        tdt_BlockHeight = btx_blockHeight e\<rparr>) ` set (block_txs l (map (sq_blocks sq) (heights a b))))"

lemma synth_env_served:
  assumes "synth_ok l sq" and "a \<le> b" and "b \<noteq> - 1" and "unat b - unat a < 2 ^ 63 - 1"
    and "dom (sq_blocks sq) = {a..b}" and "dom (sq_commits sq) = {a..b}"
  shows "synth_served l (synth_env orders sq, a, b)"
proof -
  obtain txs where "collectTransactionsFromBlocks (sl_sha256 l) (\<lambda>hashes. synth_GetTransactions hashes sq)
      (map (sq_blocks sq) (heights a b)) = Done txs"
    "set txs = (\<lambda>e. \<lparr>tdt_Response = sq_transactions sq (btx_txHash e), tdt_Timestamp = btx_timestamp e,
        tdt_BlockHeight = btx_blockHeight e\<rparr>) ` set (block_txs l (map (sq_blocks sq) (heights a b)))"
    using served_collected [OF assms(1), of "heights a b"] assms(5) by (auto simp only: set_heights subset_refl simp_thms)
  then show ?thesis
    using assms(1,5,6) served_blocks [OF assms(2-4), of sq] served_commits [OF assms(2-4), of sq]
    unfolding synth_served_def by (intro case_prodI exI [of _ sq] exI [of _ txs] conjI) (simp_all add: synth_env_def returned_def)
qed

text \<open>A range of at most a chunk is one iteration of the historic loop.\<close>

lemma one_historic_chunk:
  assumes "a \<le> b" and "unat b < unat a + 500" and "unat b + 500 < 2 ^ 64" and "1 < fuel"
    and "or_MaxBlockChunkSize orch = synth_chunkSize"
  shows "\<exists>orch'. HistoricProcess fuel P sha256 (\<lambda>_. env) (\<lambda>_. False) a b c (orch, s) =
    Some (bind_outcome (run_chunk P sha256 c (env, a, b) s) (\<lambda>s'. Done (orch', s')))"
proof -
  obtain k where fuel: "fuel = Suc (Suc k)" using assms(4) by (metis Suc_lessE gr0_implies_Suc less_trans_Suc zero_less_one)
  note ends = historic_chunk_end [OF assms(1), of synth_chunkSize]
  have "min (a + synth_chunkSize - 1) b = b"
    using ends(1) assms(2,3) by (simp add: word_unat_eq_iff)
  moreover have "\<not> b + 1 \<le> b"
    using next_height [of b b] not_last_height [OF assms(3)] by (simp add: word_le_nat_alt)
  ultimately show ?thesis using assms(1,5)
    by (cases "processChunk P sha256 env a b c s")
       (auto simp: HistoricProcess_def fuel run_chunk_def simp del: min_def split: prod.splits)
qed

lemma synth_chunk_runs:
  assumes "synth_lib_ok l" and "a \<le> b" and "unat b < unat a + 500" and "unat b + 500 < 2 ^ 64" and "1 < fuel"
  shows "\<exists>env w' q'. synth_served l (env, a, b) \<and> (\<forall>s. synth_chunk fuel l P orders chainID a b (w, q, s)
    = Some (bind_outcome (run_chunk P (sl_sha256 l) False (env, a, b) s) (\<lambda>s'. Done (w', q', s'))))"
proof -
  have b: "b \<noteq> - 1" using not_last_height [OF assms(4)] .
  obtain sq where sq: "NewSyntheticQueryOperator l chainID a b w q = Some (Done sq)" "synth_ok l sq"
    "dom (sq_blocks sq) = {a..b}" "dom (sq_commits sq) = {a..b}"
    using NewSynthetic_returns [OF assms(1) b] by metis
  obtain orch where orch: "NewOrchestrator ''historic'' synth_chunkSize chainID = Done orch" "or_MaxBlockChunkSize orch = synth_chunkSize"
    by (simp add: NewOrchestrator_def)
  let ?env = "synth_env orders sq"
  have "unat b - unat a < 2 ^ 63 - 1" using assms(3) by simp
  then have "synth_served l (?env, a, b)" by (rule synth_env_served [OF sq(2) assms(2) b _ sq(3,4)])
  moreover have "synth_chunk fuel l P orders chainID a b (w, q, s)
      = Some (bind_outcome (run_chunk P (sl_sha256 l) False (?env, a, b) s) (\<lambda>s'. Done (dg_entropy (sq_generator sq), sq_rand sq, s')))" for s
  proof -
    obtain orch' where "HistoricProcess fuel P (sl_sha256 l) (\<lambda>_. ?env) (\<lambda>_. False) a b False (orch, s) =
        Some (bind_outcome (run_chunk P (sl_sha256 l) False (?env, a, b) s) (\<lambda>s'. Done (orch', s')))"
      using one_historic_chunk [OF assms(2-5) orch(2), where P = P and ?sha256.0 = "sl_sha256 l" and env = ?env and c = False and s = s]
      by blast
    then show ?thesis
      by (cases "run_chunk P (sl_sha256 l) False (?env, a, b) s") (simp_all add: synth_chunk_def sq(1) orch(1) del: run_chunk_Done)
  qed
  ultimately show ?thesis by blast
qed

text \<open>The state of the data processor at the end of the run; the rest is randomness.\<close>

abbreviation processor_state :: "('w \<times> 'q \<times> 's) outcome option \<Rightarrow> 's outcome option" where
  "processor_state r \<equiv> map_option (\<lambda>r. bind_outcome r (\<lambda>(_, _, s'). Done s')) r"

lemma synth_chunks_run:
  assumes "synth_lib_ok l" and "unat toH + 500 < 2 ^ 64" and "1 < fuel" and "unat a \<le> unat toH + 500"
  shows "\<exists>chunks. chunk_heights chunks = [unat a..<Suc (unat toH)] \<and> list_all (synth_served l) chunks
    \<and> (\<forall>s. processor_state (synth_chunks fuel l P orders chainID toH n a (w, q, s))
          = Some (foldM_outcome (run_chunk P (sl_sha256 l) False) chunks s))"
  using assms(4)
proof (induction "Suc (unat toH) - unat a" arbitrary: a n w q rule: less_induct)
  case less
  show ?case
  proof (cases "a \<le> toH")
    case False
    then show ?thesis
      by (intro exI [of _ "[]"]) (simp add: synth_chunks.simps [of fuel l P orders chainID toH n a] word_le_nat_alt)
  next
    case True
    define b where "b = min (a + synth_chunkSize - 1) toH"
    note ends = historic_chunk_end [OF True, of synth_chunkSize, folded b_def]
    have b: "unat b = min (unat a + 499) (unat toH)" "unat a \<le> unat b" using ends(1,2) assms(2) by simp_all
    have next_a: "unat (a + synth_chunkSize) = unat a + 500"
      using True assms(2) by (simp add: unat_word_ariths word_le_nat_alt)
    have ab: "a \<le> b" using b(2) by (simp add: word_le_nat_alt)
    have small: "unat b < unat a + 500" "unat b + 500 < 2 ^ 64" using b(1) assms(2) by linarith+
    obtain env w' q' where env: "synth_served l (env, a, b)"
      "\<And>s. synth_chunk fuel l P (orders n) chainID a b (w, q, s)
        = Some (bind_outcome (run_chunk P (sl_sha256 l) False (env, a, b) s) (\<lambda>s'. Done (w', q', s')))"
      using synth_chunk_runs [OF assms(1) ab small(1,2) assms(3), where P = P and orders = "orders n" and chainID = chainID and w = w and q = q]
      by blast
    have "Suc (unat toH) - unat (a + synth_chunkSize) < Suc (unat toH) - unat a" "unat (a + synth_chunkSize) \<le> unat toH + 500"
      using True next_a by (simp_all add: word_le_nat_alt)
    from less.hyps [OF this, of "Suc n" w' q'] obtain chunks where
      chunks: "chunk_heights chunks = [unat (a + synth_chunkSize)..<Suc (unat toH)]" "list_all (synth_served l) chunks"
      "\<And>s. processor_state (synth_chunks fuel l P orders chainID toH (Suc n) (a + synth_chunkSize) (w', q', s))
          = Some (foldM_outcome (run_chunk P (sl_sha256 l) False) chunks s)" by blast
    have "chunk_heights ((env, a, b) # chunks) = [unat a..<Suc (unat toH)]"
    proof (cases "unat a + 499 \<le> unat toH")
      case True
      then have "Suc (unat b) = unat (a + synth_chunkSize)" using b next_a by simp
      moreover have "[unat a..<Suc (unat toH)] = [unat a..<unat a + 500] @ [unat a + 500..<Suc (unat toH)]"
        using True upt_add_eq_append [of "unat a" "unat a + 500" "Suc (unat toH) - (unat a + 500)"] by simp
      ultimately show ?thesis using chunks(1) next_a by (simp add: add.commute del: upt_Suc)
    qed (use b chunks(1) next_a in simp)
    moreover
    have step: "synth_chunks fuel l P orders chainID toH n a st = Option.bind (synth_chunk fuel l P (orders n) chainID a b st)
        (case_outcome (synth_chunks fuel l P orders chainID toH (Suc n) (a + synth_chunkSize)) (\<lambda>m. Some (Panic m)) (\<lambda>c. Some (Exit c)))"
      for st unfolding synth_chunks.simps [of fuel l P orders chainID toH n a] using True by (simp only: b_def if_True)
    have "processor_state (synth_chunks fuel l P orders chainID toH n a (w, q, s))
        = Some (foldM_outcome (run_chunk P (sl_sha256 l) False) ((env, a, b) # chunks) s)" for s
      using env(2) [of s] chunks(3)
      by (cases "run_chunk P (sl_sha256 l) False (env, a, b) s") (simp_all add: step del: run_chunk_Done)
    ultimately show ?thesis using env(1) chunks(2) by (intro exI [of _ "(env, a, b) # chunks"]) simp
  qed
qed

section \<open>Properties\<close>

text \<open>C23: making the synthetic chain returns exactly when its last height is not the largest of the type; then
  it holds one well formed block and one well formed commit for every height of the range and no other.\<close>
theorem synthetic_chain_generated:
  assumes "synth_lib_ok l"
  shows "(NewSyntheticQueryOperator l chainID fromH toH w q = None \<longleftrightarrow> toH = - 1)
    \<and> (toH = - 1 \<or> (\<exists>sq. NewSyntheticQueryOperator l chainID fromH toH w q = Some (Done sq) \<and> synth_ok l sq
        \<and> dom (sq_blocks sq) = {fromH..toH} \<and> dom (sq_commits sq) = {fromH..toH}))"
proof (cases "toH = - 1")
  case True
  have "each_height (generate_height l) fromH (- 1) (new_synth l chainID (- 1) w q) = None"
    by (rule each_height_endless [where I = "synth_ok l", OF _ new_synth_ok]) (use generate_height_step [OF assms] in blast)
  with True show ?thesis by (simp add: NewSynthetic_generates)
next
  case False
  from NewSynthetic_returns [OF assms False, of chainID fromH w q] obtain sq where
    "NewSyntheticQueryOperator l chainID fromH toH w q = Some (Done sq)" "synth_ok l sq"
    "dom (sq_blocks sq) = {fromH..toH}" "dom (sq_commits sq) = {fromH..toH}" by metis
  with False show ?thesis by simp
qed

text \<open>C15: the synthetic test over the tables, for every schedule and every failing statement: it feeds the
  data processor, in chunks, every height of its range once and in order; in each chunk every block, commit
  and transaction asked for is served, so that no query stops the process, and what is collected is one
  entry per transaction of the blocks with the height and the time of its block; the outcome is that of the
  data processor on these chunks; and it leaves both address caches with only what the tables record.\<close>
theorem synthetic_run_covers:
  assumes "synth_lib_ok l" and "unat (stc_FromHeight cfg) \<le> unat (stc_ToHeight cfg)" and "unat (stc_ToHeight cfg) + 500 < 2 ^ 64"
    and "1 < fuel" and "db_inv (ix_addr db)"
    and "NewAddressCache ix_load (stc_ChainID cfg) True db = Done (vc, vdb)"
    and "NewAddressCache ix_load (stc_ChainID cfg) False vdb = Done (ac, db')"
  shows "\<exists>chunks. chunk_heights chunks = [unat (stc_FromHeight cfg)..<Suc (unat (stc_ToHeight cfg))]
    \<and> list_all (synth_served l) chunks
    \<and> RunSyntheticIntegrationTest fuel l query cd o1 sched orders cfg w q db
      = Some (foldM_outcome (run_chunk (ix_processor query cd o1 sched) (sl_sha256 l) False) chunks
          (NewDataProcessor ac vc (stc_ChainID cfg), db'))
    \<and> (\<forall>s'. RunSyntheticIntegrationTest fuel l query cd o1 sched orders cfg w q db = Some (Done s') \<longrightarrow> store_ok s')"
proof -
  let ?s = "(NewDataProcessor ac vc (stc_ChainID cfg), db')"
  obtain chunks where chunks: "chunk_heights chunks = [unat (stc_FromHeight cfg)..<Suc (unat (stc_ToHeight cfg))]"
    "list_all (synth_served l) chunks"
    "processor_state (synth_chunks fuel l (ix_processor query cd o1 sched) orders (stc_ChainID cfg) (stc_ToHeight cfg) 0 (stc_FromHeight cfg) (w, q, ?s))
      = Some (foldM_outcome (run_chunk (ix_processor query cd o1 sched) (sl_sha256 l) False) chunks ?s)"
    using synth_chunks_run [OF assms(1,3,4), where a = "stc_FromHeight cfg" and P = "ix_processor query cd o1 sched" and orders = orders
        and chainID = "stc_ChainID cfg" and n = 0 and w = w and q = q] assms(2) by auto
  then have run: "RunSyntheticIntegrationTest fuel l query cd o1 sched orders cfg w q db
      = Some (foldM_outcome (run_chunk (ix_processor query cd o1 sched) (sl_sha256 l) False) chunks ?s)"
    by (simp add: RunSyntheticIntegrationTest_def assms(6,7) Let_def)
  moreover have "store_ok s'" if "foldM_outcome (run_chunk (ix_processor query cd o1 sched) (sl_sha256 l) False) chunks ?s = Done s'" for s'
    using ixp.chunks_ok [OF loaded_caches_ok [OF assms(6,7,5)] that] .
  ultimately show ?thesis using chunks(1,2) by (intro exI [of _ chunks]) simp
qed

text \<open>Libraries for the witnesses: the first draw always, the encoding that forgets its transaction.\<close>

definition sample_synth :: "(nat, nat, unit) synth_lib" where
  "sample_synth = \<lparr>sl_gen = sample_lib, sl_Float32 = (\<lambda>q. (1 / 2, q)), sl_Int64N = (\<lambda>q n. (0, q)),
     sl_Marshal = (\<lambda>tx. Some [1, 2]), sl_sha256 = id\<rparr>"

lemma sample_synth_ok: "synth_lib_ok sample_synth"
  by (simp add: synth_lib_ok_def sample_synth_def sample_lib_ok)

lemma synthetic_chain_generated_witness:
  "(\<exists>sq. NewSyntheticQueryOperator sample_synth ''c'' 3 5 0 () = Some (Done sq) \<and> dom (sq_blocks sq) = {3..5})
    \<and> NewSyntheticQueryOperator sample_synth ''c'' 3 (- 1) 0 () = None"
  using synthetic_chain_generated [OF sample_synth_ok, of "''c''" 3 5 0 "()"]
    synthetic_chain_generated [OF sample_synth_ok, of "''c''" 3 "- 1" 0 "()"] by auto

lemma synthetic_run_covers_witness:
  "\<exists>ac vc chunks. chunk_heights chunks = [3, 4, 5] \<and> list_all (synth_served sample_synth) chunks
    \<and> RunSyntheticIntegrationTest 2 sample_synth (\<lambda>h t c db. (Inr [], db)) sample_codecs plain_orders (\<lambda>n. [0..<n])
        (\<lambda>n. ([], [])) \<lparr>stc_ChainID = ''c'', stc_FromHeight = 3, stc_ToHeight = 5\<rparr> 0 () sample_store
      = Some (foldM_outcome (run_chunk (ix_processor (\<lambda>h t c db. (Inr [], db)) sample_codecs plain_orders (\<lambda>n. [0..<n])) id False)
          chunks (NewDataProcessor ac vc ''c'', sample_store))"
proof -
  let ?cfg = "\<lparr>stc_ChainID = ''c'', stc_FromHeight = 3, stc_ToHeight = 5\<rparr>"
  have load: "\<exists>a. NewAddressCache ix_load (stc_ChainID ?cfg) v sample_store = Done (a, sample_store)" for v
    by (simp add: NewAddressCache_def loadAddresses_def ix_load_def GetAllAddresses_def next_fault_def sample_store_def
        sample_db_def Let_def)
  then obtain vc ac where caches: "NewAddressCache ix_load (stc_ChainID ?cfg) True sample_store = Done (vc, sample_store)"
    "NewAddressCache ix_load (stc_ChainID ?cfg) False sample_store = Done (ac, sample_store)" by blast
  have inv: "db_inv (ix_addr sample_store)" using sample_db_inv by (simp add: sample_store_def)
  have small: "unat (stc_FromHeight ?cfg) \<le> unat (stc_ToHeight ?cfg)" "unat (stc_ToHeight ?cfg) + 500 < 2 ^ 64" by simp_all
  have list: "[unat (stc_FromHeight ?cfg)..<Suc (unat (stc_ToHeight ?cfg))] = [3, 4, 5]" by (simp add: upt_conv_Cons)
  have id: "sl_sha256 sample_synth = id" by (simp add: sample_synth_def)
  from synthetic_run_covers [OF sample_synth_ok small _ inv caches, of 2 "\<lambda>h t c db. (Inr [], db)" sample_codecs plain_orders
      "\<lambda>n. [0..<n]" "\<lambda>n. ([], [])" 0 "()"]
  show ?thesis unfolding list id by auto
qed

end
