(* ===== verification/Test_Responses.thy ===== *)
theory Test_Responses
  imports Rpc_Types
begin

text \<open>
  The builders of responses for tests (\<open>indexer/rpc_client/gen_data.go\<close>). The clock is an argument; the
  builders change the response they are called on and return it.
\<close>

section \<open>Blocks\<close>

definition no_part :: BlockID where
  "no_part = \<lparr>bid_Hash = [], bid_Parts = \<lparr>pt_Total = [], pt_Hash = []\<rparr>\<rparr>"

definition test_header :: "u64 \<Rightarrow> string \<Rightarrow> time \<Rightarrow> BlockHeader" where
  "test_header height chainID timestamp =
     \<lparr>bh_Version = ''test-version'', bh_ChainID = chainID, bh_Height = FormatUint height, bh_Time = timestamp,
      bh_NumTxs = ''0'', bh_TotalTxs = FormatUint height, bh_AppVersion = ''test-app'', bh_LastBlockID = no_part,
      bh_LastCommitHash = [], bh_DataHash = [], bh_ValidatorsHash = [], bh_NextValidatorsHash = [],
      bh_ConsensusHash = [], bh_AppHash = [], bh_LastResultsHash = None, bh_ProposerAddress = ''test-proposer-address''\<rparr>"

definition NewTestBlockResponse :: "u64 \<Rightarrow> string \<Rightarrow> time \<Rightarrow> BlockResponse" where
  "NewTestBlockResponse height chainID timestamp =
     \<lparr>br_Jsonrpc = ''2.0'', br_ID = 1, br_Error = None,
      br_Result = \<lparr>brs_BlockMeta = \<lparr>bm_BlockID = \<lparr>bid_Hash = ''test-block-hash-'' @ FormatUint height,
            bid_Parts = \<lparr>pt_Total = ''1'', pt_Hash = ''test-parts-hash-'' @ FormatUint height\<rparr>\<rparr>,
          bm_Header = test_header height chainID timestamp\<rparr>,
        brs_Block = \<lparr>bi_Header = test_header height chainID timestamp, bi_Data = \<lparr>bd_Txs = None\<rparr>,
          bi_LastCommit = \<lparr>lc_BlockID = \<lparr>bid_Hash = ''test-prev-hash-'' @ FormatUint (height - 1),
              bid_Parts = \<lparr>pt_Total = ''1'', pt_Hash = ''test-prev-parts-'' @ FormatUint (height - 1)\<rparr>\<rparr>,
            lc_Precommits = []\<rparr>\<rparr>\<rparr>\<rparr>"

definition WithTransactions :: "string list \<Rightarrow> BlockResponse \<Rightarrow> BlockResponse" where
  "WithTransactions txHashes br =
     (let result = br_Result br; block = brs_Block result; meta = brs_BlockMeta result;
          n = show_nat (length txHashes)
      in br\<lparr>br_Result := result
           \<lparr>brs_Block := block\<lparr>bi_Data := (bi_Data block)\<lparr>bd_Txs := Some txHashes\<rparr>, bi_Header := (bi_Header block)\<lparr>bh_NumTxs := n\<rparr>\<rparr>,
            brs_BlockMeta := meta\<lparr>bm_Header := (bm_Header meta)\<lparr>bh_NumTxs := n\<rparr>\<rparr>\<rparr>\<rparr>)"

definition WithPrecommits :: "Precommit option list \<Rightarrow> BlockResponse \<Rightarrow> BlockResponse" where
  "WithPrecommits precommits br =
     (let result = br_Result br; block = brs_Block result
      in br\<lparr>br_Result := result\<lparr>brs_Block := block\<lparr>bi_LastCommit := (bi_LastCommit block)\<lparr>lc_Precommits := precommits\<rparr>\<rparr>\<rparr>\<rparr>)"

definition NewTestPrecommit :: "string \<Rightarrow> u64 \<Rightarrow> time \<Rightarrow> Precommit" where
  "NewTestPrecommit validatorAddress height now =
     \<lparr>pc_Type = 1, pc_Height = FormatUint height, pc_Round = ''0'',
      pc_BlockID = \<lparr>bid_Hash = ''test-hash-'' @ FormatUint height, bid_Parts = \<lparr>pt_Total = ''1'', pt_Hash = ''test-parts''\<rparr>\<rparr>,
      pc_Timestamp = now, pc_ValidatorAddress = validatorAddress, pc_ValidatorIndex = ''0'', pc_Signature = ''test-signature''\<rparr>"

section \<open>Transactions\<close>

definition NewTestTxResponse :: "string \<Rightarrow> u64 \<Rightarrow> TxResponse" where
  "NewTestTxResponse hash height =
     \<lparr>tx_Jsonrpc = ''2.0'', tx_ID = 1, tx_Error = None,
      tx_Result = \<lparr>td_Hash = hash, td_Height = FormatUint height, td_Index = 0,
        td_TxResult = \<lparr>tr_ResponseBase =
            \<lparr>rb_Error = None, rb_Data = ''test-data'', rb_Events = [], rb_Log = ''test-log'', rb_Info = ''test-info''\<rparr>,
          tr_GasWanted = ''100000'', tr_GasUsed = ''50000''\<rparr>,
        td_Tx = ''test-tx-data''\<rparr>\<rparr>"

definition with_base :: "(ResponseBase \<Rightarrow> ResponseBase) \<Rightarrow> TxResponse \<Rightarrow> TxResponse" where
  "with_base f tr =
     (let result = tx_Result tr; txResult = td_TxResult result
      in tr\<lparr>tx_Result := result\<lparr>td_TxResult := txResult\<lparr>tr_ResponseBase := f (tr_ResponseBase txResult)\<rparr>\<rparr>\<rparr>)"

definition WithEvents :: "RpcEvent list \<Rightarrow> TxResponse \<Rightarrow> TxResponse" where
  "WithEvents events = with_base (\<lambda>base. base\<lparr>rb_Events := events\<rparr>)"

definition WithError :: "string option \<Rightarrow> TxResponse \<Rightarrow> TxResponse" where
  "WithError err = with_base (\<lambda>base. base\<lparr>rb_Error := err\<rparr>)"

definition NewTestEvent :: "string \<Rightarrow> string \<Rightarrow> RpcEvent" where
  "NewTestEvent eventType pkgPath =
     \<lparr>ev_AtType = ''test-type'', ev_Type = eventType, ev_Attrs = [\<lparr>ea_Key = ''test-key'', ea_Value = ''test-value''\<rparr>],
      ev_PkgPath = pkgPath\<rparr>"

section \<open>What the accessors read of them\<close>

text \<open>A built block reads back as it was asked for, whatever was added to it.\<close>

lemma test_block_reads:
  "block_GetHeight (Some (WithPrecommits ps (WithTransactions txs (NewTestBlockResponse h c t)))) = Inr h"
  "block_GetChainID (Some (WithPrecommits ps (WithTransactions txs (NewTestBlockResponse h c t)))) = c"
  "block_GetTimestamp (Some (WithPrecommits ps (WithTransactions txs (NewTestBlockResponse h c t)))) = t"
  "block_GetTxHashes (Some (WithPrecommits ps (WithTransactions txs (NewTestBlockResponse h c t)))) = Some txs"
  "block_GetPrecommits (Some (WithPrecommits ps (WithTransactions txs (NewTestBlockResponse h c t)))) = ps"
  by (simp_all add: block_GetHeight_def block_GetChainID_def block_GetTimestamp_def block_GetTxHashes_def
      block_GetPrecommits_def WithPrecommits_def WithTransactions_def NewTestBlockResponse_def test_header_def Let_def)

lemma test_tx_reads:
  "tx_GetHash (Some (WithError e (WithEvents evs (NewTestTxResponse h n)))) = h"
  "tx_GetHeight (Some (WithError e (WithEvents evs (NewTestTxResponse h n)))) = Inr n"
  "tx_GetEvents (Some (WithError e (WithEvents evs (NewTestTxResponse h n)))) = evs"
  "tx_HasError (Some (WithError e (WithEvents evs (NewTestTxResponse h n)))) \<longleftrightarrow> e \<noteq> None"
  by (simp_all add: tx_GetHash_def tx_GetHeight_def tx_GetEvents_def tx_HasError_def WithError_def WithEvents_def
      with_base_def NewTestTxResponse_def Let_def)

end
