(* ===== verification/Spec2Isabelle.thy ===== *)
theory Spec2Isabelle
  imports Orchestrator_Spec Processor_Slots Setup Dumps Signals Api_Server Api_Views Live_Resume
    Training Synthetic_Spec Test_Responses
begin

text \<open>
  A model of the Spectra Gnoland indexer and API: what it fetches, computes, stores and answers,
  with the theorems that make it correct and those that show where it is not. All paths are under
  \<open>src/\<close>.

  The program. The indexer polls a Gno node over RPC, a chunk of block heights at a time
  (\<open>indexer/orchestrator\<close>, \<open>indexer/query\<close>, \<open>indexer/retry\<close>, \<open>indexer/rpc_client\<close>), decodes the
  transactions of the chunk (\<open>indexer/decoder\<close>), gives every address a small number
  (\<open>indexer/address_cache\<close>) and writes rows to TimescaleDB (\<open>indexer/data_processor\<close>,
  \<open>pkgs/schema\<close>, \<open>pkgs/database/timescaledb\<close>), whose tables it has set up before
  (\<open>indexer/db_init\<close>). The API (\<open>api\<close>) reads the rows and answers over HTTP, behind a rate limiter.

  How the model reads. A Go function is a function of the same name; a method takes its receiver,
  and returns it updated when it changes it. An error result is \<open>goerror + 'a\<close>, or \<open>goerror option\<close>
  with the new state; a call that may panic or exit the process returns an \<open>outcome\<close>. A nil pointer
  is \<open>None\<close>. Integers with a width are words of that width, so they wrap as in Go; \<open>int\<close> is kept for
  times and for counts that cannot leave 64 bits. A goroutine per index that fills its own slot is
  a schedule, a permutation of the indices (\<open>schedule\<close>), and every theorem holds for all of them;
  the order of a map iteration is an arbitrary permutation (\<open>iteration\<close>). The database, the node,
  amino, protobuf, zstd and SHA-256 are not in the repository: they are arguments, and what a
  theorem needs of them is a hypothesis or a locale, discharged for a concrete model of the tables.

  The theories.
  \<^item> \<open>Prelude\<close>, \<open>Go_Strings\<close>, \<open>Utf8\<close>, \<open>Base64\<close>, \<open>Go_Net\<close>: errors, outcomes, schedules; what the code
    uses of Go's \<open>strconv\<close>, \<open>strings\<close>, \<open>unicode/utf8\<close>, \<open>encoding/base64\<close>, \<open>net\<close>, \<open>path\<close>, with round trips.
  \<^item> \<open>Rpc_Types\<close> (\<open>indexer/rpc_client\<close>): the answers of the node and their accessors on nil.
    \<open>Rpc_Limiter\<close> (\<open>rpc_client/rate_limit\<close>): the token bucket with its ticker and goroutine, a step
    relation with a clock; the invariant bounds what any run lets through. \<open>Rpc_Client\<close>
    (\<open>rpc_client/client.go\<close>, \<open>rate_limited_client.go\<close>): requests down to their JSON text, the checks of an
    answer, and what a fetched range of blocks says of the node's answers.
  \<^item> \<open>Retry\<close> (\<open>indexer/retry\<close>), \<open>Query_Operator\<close> (\<open>indexer/query\<close>): attempts with backoff; a range
    of heights fetched into one slot per height.
  \<^item> \<open>Address_Db\<close>, \<open>Address_Cache\<close> (\<open>queries_indexer.go\<close>, \<open>indexer/address_cache\<close>): the address
    tables and the cache. The locale \<open>account_store\<close> is what the cache relies on; the cache never
    disagrees with the table, whatever fails, and resolves what it is asked.
  \<^item> \<open>Decoder\<close> (\<open>indexer/decoder\<close>): transactions to messages to rows, the registry of message types,
    the batches by table.
  \<^item> \<open>Db_Init\<close>, \<open>Schema\<close>, \<open>Schema_Setup\<close> (\<open>indexer/db_init\<close>, \<open>pkgs/schema\<close>): struct tags, table
    metadata, generated SQL, the values COPY sends; canonical lists and aggregates.
  \<^item> \<open>Connection\<close>, \<open>Setup\<close> (\<open>pool.go\<close>, \<open>indexer/cli/func.go\<close>, \<open>indexer/cli/setup.go\<close>): flags and
    environment to a connection string, with a reader for it; the set-up commands as the statements
    they run, against a plan in which everything is made after what it uses.
  \<^item> \<open>Row_Db\<close> (\<open>insert.go\<close>): inserting rows and transaction hashes; the locale \<open>copy_store\<close> says that
    COPY is all or nothing.
  \<^item> \<open>Events\<close> (\<open>event.go\<close>, \<open>events_proto/parse.go\<close>, \<open>queries_tx.go\<close>): events as stored and read back.
  \<^item> \<open>Data_Processor\<close>, \<open>Processor_Rows\<close>, \<open>Processor_Slots\<close>, \<open>Processor_Witness\<close>
    (\<open>indexer/data_processor\<close>): the five processors of a chunk. The locale \<open>indexer_store\<close> joins the
    two stores; the theorems say exactly which rows each processor leaves.
  \<^item> \<open>Phases\<close> (\<open>orchestrator/operator.go\<close>): the goroutines of a chunk and their two wait groups as a
    step relation; every run is a run of the two phases one after the other, and ends.
  \<^item> \<open>Orchestrator\<close>, \<open>Orchestrator_Runs\<close>, \<open>Orchestrator_Store\<close>, \<open>Orchestrator_Spec\<close>: collecting the
    transactions of a chunk, the historic and the live loop, and what whole runs keep.
    The locale \<open>chunk_processor\<close> is what the loops rely on, interpreted on the data processor.
  \<^item> \<open>Indexer_Config\<close>, \<open>Main_Operator\<close> (\<open>indexer/config\<close>, \<open>indexer/main_operator\<close>, \<open>indexer/cli/run.go\<close>,
    \<open>live.go\<close>, \<open>historic.go\<close>): from configuration, environment and flags to the components and a
    whole run of the process. \<open>Signals\<close> (\<open>indexer/context_hook\<close>): the main goroutine and the signal
    handler as a step relation, with what shutdown guarantees and what it does not. \<open>Dumps\<close>: the files
    that cleaning up and an emergency dump leave. \<open>Live_Resume\<close> (\<open>queries_indexer.go\<close>): where a live run
    starts on the stored blocks.
  \<^item> \<open>Pagination\<close>, \<open>Api_Transactions\<close> (\<open>queries_tx.go\<close>, \<open>queries_address.go\<close>,
    \<open>api/handlers/transactions.go\<close>): cursors and pages over a keyset; the locale \<open>keyset_source\<close> says
    what a page is, interpreted on filtering, sorting and limiting rows. \<open>Api_Address\<close>
    (\<open>api/handlers/address.go\<close>): the pages of an address over the join of three tables, a second
    interpretation.
  \<^item> \<open>Api_Blocks\<close> (\<open>query_block.go\<close>, \<open>queries_validator.go\<close>, \<open>api/handlers/blocks.go\<close>): blocks with their
    transactions, read by two statements that may see different tables.
  \<^item> \<open>Api_Views\<close> (\<open>query_view.go\<close> and its handlers): counts, volumes and signing rates by day and hour
    over the continuous aggregates, against sums over their rows.
  \<^item> \<open>Api_Hashes\<close> (\<open>convert_base64.go\<close>, \<open>txhash_middleware.go\<close>, \<open>in_memory.go\<close>): a transaction by its hash,
    conversions, the path of a hash, the values kept in memory.
  \<^item> \<open>Api_Limit\<close> (\<open>api/ratelimit\<close>, \<open>api/valkey\<close>, \<open>api/keystore\<close>): the limiter over the locale
    \<open>counter_store\<close>, interpreted on INCR and EXPIRE NX with time.
  \<^item> \<open>Api_Keys\<close> (\<open>key_mgmt.go\<close>, \<open>api/key/generate.go\<close>, \<open>api/key_cmd.go\<close>, \<open>keystore.go\<close>): API keys from
    the command that creates them to the limiter that accepts them, with the refresh in between.
  \<^item> \<open>Api_Server\<close> (\<open>api/serve.go\<close>, \<open>api/config\<close>, \<open>api/healthcheck_cmd.go\<close>): starting the API, and
    what a request meets before the router.
  \<^item> \<open>Messages\<close>, \<open>Api_Messages\<close> (\<open>query_msg.go\<close>, \<open>api/handlers/transactions.go\<close>): the joins that read
    the messages of a transaction, and the answer by message counter.

  \<^item> \<open>Training\<close> (\<open>compression\<close>, \<open>GetTransactionsByOffset\<close> in \<open>queries_tx.go\<close>): the samples of the
    compression dictionary, against what the indexer would store.
  \<^item> \<open>Generator\<close> (\<open>pkgs/generator\<close>): generated keys, events and transactions as a state monad over
    the sources of randomness; \<open>gives I m P\<close> says that an action keeps \<open>I\<close> and gives a value with \<open>P\<close>.
    \<open>Synthetic\<close>, \<open>Synthetic_Spec\<close> (\<open>integration/synthetic\<close>): the query operator that serves
    generated blocks and the run that feeds them to the orchestrator, over the same data processor
    and tables as the real one. \<open>Test_Responses\<close> (\<open>rpc_client/gen_data.go\<close>): the builders of answers for tests.

  What the groups of lemmas show. Each locale's lemmas are proved once from its laws; an
  interpretation discharges the laws on the model of the tables. The state invariants are the cache
  invariant (\<open>solver_consistent\<close>), the phase invariant of a chunk (\<open>Phases\<close>), the bucket invariant
  (\<open>limiter_ok\<close>, \<open>potential\<close>), the counter invariant (\<open>tallied\<close>), the run invariant (\<open>store_ok\<close>),
  the shutdown invariant (\<open>handler_ok\<close>) and the invariant of the synthetic chain (\<open>synth_ok\<close>). A locale that
  two stores share is a part of theirs by \<open>sublocale\<close> (\<open>account_part\<close>, \<open>copy_part\<close>).

  Bounds and fuel. The historic loop has one unit of fuel per chunk and is shown to return with as
  many as the range has heights, when the chunk size is not 0; with chunk size 0 no fuel is enough,
  and that is a theorem. The live loop is a fold over what it sees at each iteration. Following
  page cursors takes fuel, and one unit more than the number of rows is enough. Retry loops recurse
  on their number of attempts. A loop over all heights up to a last one is a partial function, which has
  no value when the last height is the largest of the type; it is shown to return otherwise. A chunk of
  the synthetic run is one iteration of the historic loop, so two units of fuel are enough. An IPv6 address has at most eight groups. The process makes at most
  eleven moves besides what arrives from outside (\<open>budget\<close>).

  What is not modelled. Logging, timeouts and contexts, except where one is an error value; the
  HTTP exchange of the RPC client and the JSON decoding of its answers; the router of the API with
  its parsing of inputs, its CORS and compression handlers and the routes it registers; the command
  line library (flags arrive parsed), the YAML and environment libraries; the tracing and profiling
  of a debug build; logger, date formatting and the embedded dictionary; generated protobuf code. What is
  dumped as JSON is kept as the record it stands for. The average block time and the
  signing rates are kept exact where the code divides or rounds in floating point. Times of the
  views are in UTC; a gap-filled query without any row answers its buckets or nothing, as an
  argument says.
\<close>

end
